(* ===== verification/Prelude.thy ===== *)
theory Prelude
  imports Main
begin

text \<open>
  What every component shares: programs with a mutable state that may panic, loops with an
  early return, Go maps that may be nil, and the decimal text of Go's \<open>%d\<close>.
  Nothing here is specific to the updater.
\<close>

named_theorems prog_simps \<open>equations that run a program on a state\<close>

section \<open>Programs that may panic\<close>

text \<open>
  A Go function that works on shared objects is a function from the state to an outcome and the
  new state. \<open>Panic\<close> is a run-time panic (nil dereference, write to a nil map): the state
  reached so far stays, because other goroutines and deferred calls still see it.
\<close>

datatype 'a outcome = Ret 'a | Panic string

type_synonym ('s, 'a) prog = "'s \<Rightarrow> 'a outcome \<times> 's"

definition return :: "'a \<Rightarrow> ('s, 'a) prog" where
  "return x s = (Ret x, s)"

definition panic :: "string \<Rightarrow> ('s, 'a) prog" where
  "panic e s = (Panic e, s)"

definition andThen :: "('s, 'a) prog \<Rightarrow> ('a \<Rightarrow> ('s, 'b) prog) \<Rightarrow> ('s, 'b) prog" where
  "andThen m k s = (case m s of (Ret x, s') \<Rightarrow> k x s' | (Panic e, s') \<Rightarrow> (Panic e, s'))"

definition gets :: "('s \<Rightarrow> 'a) \<Rightarrow> ('s, 'a) prog" where
  "gets f s = (Ret (f s), s)"

text \<open>
  \<open>withDefer body z d\<close> is a function with named results (zero value \<open>z\<close>) and one deferred
  call \<open>d\<close>: the deferred call runs after a return and may change the results; it also runs while
  a panic unwinds, sees the results still at their zero value, and the panic goes on.
\<close>

definition withDefer :: "('s, 'a) prog \<Rightarrow> 'a \<Rightarrow> ('a \<Rightarrow> ('s, 'a) prog) \<Rightarrow> ('s, 'a) prog" where
  "withDefer body z d s = (case body s of
      (Ret r, s') \<Rightarrow> d r s'
    | (Panic e, s') \<Rightarrow> (case d z s' of
          (Ret _, s'') \<Rightarrow> (Panic e, s'')
        | (Panic e', s'') \<Rightarrow> (Panic e', s'')))"

lemma run_return [prog_simps]: "return x s = (Ret x, s)"
  by (simp add: return_def)

lemma run_panic [prog_simps]: "panic e s = (Panic e, s)"
  by (simp add: panic_def)

lemma run_gets [prog_simps]: "gets f s = (Ret (f s), s)"
  by (simp add: gets_def)

lemma run_andThen [prog_simps]:
  "andThen m k s = (case m s of (Ret x, s') \<Rightarrow> k x s' | (Panic e, s') \<Rightarrow> (Panic e, s'))"
  by (rule andThen_def)

lemma andThen_return [simp]: "andThen m return = m"
  by (rule ext) (simp add: andThen_def return_def split: prod.split outcome.split)

lemma return_andThen [simp]: "andThen (return x) k = k x"
  by (rule ext) (simp add: andThen_def return_def)

lemma andThen_assoc: "andThen (andThen m k) l = andThen m (\<lambda>x. andThen (k x) l)"
  by (rule ext) (simp add: andThen_def split: prod.split outcome.split)

section \<open>Loops with an early return\<close>

text \<open>
  The body of a \<open>for\<close> loop either goes on with new values of the loop's variables
  (\<open>Continue\<close>, also Go's \<open>continue\<close>) or returns from the enclosing function (\<open>Break\<close>).
\<close>

datatype ('a, 'r) flow = Continue 'a | Break 'r

fun foreach ::
  "('x \<Rightarrow> 'a \<Rightarrow> ('s, ('a, 'r) flow) prog) \<Rightarrow> 'x list \<Rightarrow> 'a \<Rightarrow> ('s, ('a, 'r) flow) prog" where
  "foreach b [] a = return (Continue a)"
| "foreach b (x # xs) a = andThen (b x a) (\<lambda>f. case f of
      Continue a' \<Rightarrow> foreach b xs a'
    | Break r \<Rightarrow> return (Break r))"

lemma run_foreach_Nil: "foreach b [] a s = (Ret (Continue a), s)"
  by (simp add: run_return)

lemma run_foreach_Cons:
  "foreach b (x # xs) a s = (case b x a s of
      (Ret (Continue a'), s') \<Rightarrow> foreach b xs a' s'
    | (Ret (Break r), s') \<Rightarrow> (Ret (Break r), s')
    | (Panic e, s') \<Rightarrow> (Panic e, s'))"
  by (simp add: run_andThen run_return split: prod.split outcome.split flow.split)

lemma foreach_append:
  "foreach b (xs @ ys) a = andThen (foreach b xs a) (\<lambda>f. case f of
      Continue a' \<Rightarrow> foreach b ys a'
    | Break r \<Rightarrow> return (Break r))"
proof (induction xs arbitrary: a)
  case Nil
  then show ?case by simp
next
  case (Cons x xs)
  have "(\<lambda>f. case f of Continue a' \<Rightarrow> foreach b (xs @ ys) a' | Break r \<Rightarrow> return (Break r))
      = (\<lambda>f. andThen (case f of Continue a' \<Rightarrow> foreach b xs a' | Break r \<Rightarrow> return (Break r))
            (\<lambda>f. case f of Continue a' \<Rightarrow> foreach b ys a' | Break r \<Rightarrow> return (Break r)))"
    using Cons.IH by (auto simp: fun_eq_iff split: flow.split)
  then show ?case by (simp add: andThen_assoc)
qed

lemma run_foreach_append:
  "foreach b (xs @ ys) a s = (case foreach b xs a s of
      (Ret (Continue a'), s') \<Rightarrow> foreach b ys a' s'
    | (Ret (Break r), s') \<Rightarrow> (Ret (Break r), s')
    | (Panic e, s') \<Rightarrow> (Panic e, s'))"
  by (simp add: foreach_append run_andThen run_return split: prod.split outcome.split flow.split)

section \<open>Go maps\<close>

text \<open>
  A \<open>map[string]string\<close> that may be nil. Reading a nil map finds nothing; writing one panics,
  which the writers of the model spell out.
\<close>

type_synonym gomap = "(string \<rightharpoonup> string) option"

definition map_get :: "gomap \<Rightarrow> string \<Rightarrow> string option" where
  "map_get m k = (case m of None \<Rightarrow> None | Some f \<Rightarrow> f k)"

lemma map_get_None [simp]: "map_get None k = None"
  by (simp add: map_get_def)

lemma map_get_Some [simp]: "map_get (Some f) k = f k"
  by (simp add: map_get_def)

section \<open>Decimal text\<close>

definition digit :: "nat \<Rightarrow> char" where
  "digit d = char_of (48 + d)"

fun dec :: "nat \<Rightarrow> string" where
  "dec n = (if n < 10 then [digit n] else dec (n div 10) @ [digit (n mod 10)])"

declare dec.simps [simp del]

definition is_digit :: "char \<Rightarrow> bool" where
  "is_digit c \<longleftrightarrow> 48 \<le> (of_char c :: nat) \<and> (of_char c :: nat) < 58"

definition undec :: "string \<Rightarrow> nat" where
  "undec ds = foldl (\<lambda>a c. 10 * a + (of_char c - 48)) 0 ds"

lemma of_char_digit: "d < 10 \<Longrightarrow> of_char (digit d) = 48 + d"
  by (simp add: digit_def)

lemma dec_digits: "\<forall>c \<in> set (dec n). is_digit c"
proof (induction n rule: dec.induct)
  case (1 n)
  then show ?case
    by (subst dec.simps) (auto simp: is_digit_def of_char_digit)
qed

lemma undec_dec [simp]: "undec (dec n) = n"
proof (induction n rule: dec.induct)
  case (1 n)
  show ?case
  proof (cases "n < 10")
    case True
    then show ?thesis by (subst dec.simps) (simp add: undec_def of_char_digit)
  next
    case False
    then have "undec (dec (n div 10)) = n div 10" using 1 by simp
    with False show ?thesis
      by (subst dec.simps) (simp add: undec_def of_char_digit)
  qed
qed

text \<open>Decimal text followed by something that is no digit can be read back.\<close>

lemma takeWhile_dec:
  "\<not> is_digit c \<Longrightarrow> takeWhile is_digit (dec n @ c # rest) = dec n"
  using dec_digits [of n] by (simp add: takeWhile_append2)

lemma dec_append_inject:
  assumes "dec m @ c # xs = dec n @ d # ys" and "\<not> is_digit c" and "\<not> is_digit d"
  shows "m = n \<and> c = d \<and> xs = ys"
proof -
  have "dec m = dec n"
    using takeWhile_dec [OF assms(2)] takeWhile_dec [OF assms(3)] assms(1) by metis
  moreover from this have "m = n" by (metis undec_dec)
  ultimately show ?thesis using assms(1) by simp
qed

lemma dec_inject [simp]: "dec m = dec n \<longleftrightarrow> m = n"
  by (metis undec_dec)

lemma dec_space_inject [simp]:
  "dec m @ CHR '' '' # xs = dec n @ CHR '' '' # ys \<longleftrightarrow> m = n \<and> xs = ys"
proof -
  have "\<not> is_digit (CHR '' '')" by (simp add: is_digit_def)
  then show ?thesis using dec_append_inject by blast
qed

section \<open>Text\<close>

text \<open>\<open>strings.TrimSuffix\<close>: drop the suffix when the string ends with it.\<close>

definition TrimSuffix :: "string \<Rightarrow> string \<Rightarrow> string" where
  "TrimSuffix s suf =
     (if length suf \<le> length s \<and> drop (length s - length suf) s = suf
      then take (length s - length suf) s else s)"

lemma TrimSuffix_append [simp]: "TrimSuffix (s @ suf) suf = s"
  by (simp add: TrimSuffix_def)


section \<open>Counting\<close>

lemma length_filter_mono:
  assumes "\<And>x. P x \<Longrightarrow> Q x"
  shows "length (filter P xs) \<le> length (filter Q xs)"
  using assms by (induction xs) auto

lemma length_filter_eq_iff:
  assumes "\<And>x. P x \<Longrightarrow> Q x"
  shows "length (filter P xs) = length (filter Q xs) \<longleftrightarrow> (\<forall>x \<in> set xs. Q x \<longrightarrow> P x)"
proof (induction xs)
  case (Cons x xs)
  have "length (filter P xs) \<le> length (filter Q xs)"
    using assms by (rule length_filter_mono)
  with Cons.IH assms [of x] show ?case by auto
qed simp

lemma length_filter_0_iff: "length (filter P xs) = 0 \<longleftrightarrow> (\<forall>x \<in> set xs. \<not> P x)"
  by (simp add: filter_empty_conv)

end
