(* ===== verification/Kube_Types.thy ===== *)
theory Kube_Types
  imports Prelude
begin

text \<open>
  The Kubernetes and Cluster API objects the program handles, each with the fields the program
  reads or writes. Go's struct embedding (\<open>metav1.TypeMeta\<close>, \<open>metav1.ObjectMeta\<close>) is record
  extension, so that \<open>Name task\<close> is \<open>task.Name\<close>. A pointer field is an option, nil being
  \<^term>\<open>None\<close>. These types come from packages outside the repository: only data is declared
  here, their operations are parameters (theory \<open>Platform\<close>).
\<close>

section \<open>Metadata and references\<close>

text \<open>An instant (\<open>metav1.Time\<close>) in nanoseconds and a \<open>time.Duration\<close> in nanoseconds.\<close>

type_synonym Time = int
type_synonym Duration = int

record ObjectMeta =
  Name :: string
  Namespace :: string
  UID :: string
  Labels :: gomap
  Annotations :: gomap
  Finalizers :: "string list"
  CreationTimestamp :: Time
  DeletionTimestamp :: "Time option"

record KubeObject = ObjectMeta +
  Kind :: string
  APIVersion :: string

record ObjectReference =
  ref_Kind :: string
  ref_Namespace :: string
  ref_Name :: string
  ref_UID :: string
  ref_APIVersion :: string

record OwnerReference =
  owner_Kind :: string
  owner_APIVersion :: string
  owner_Name :: string
  owner_UID :: string
  owner_Controller :: "bool option"

section \<open>Conditions\<close>

datatype ConditionStatus = ConditionTrue | ConditionFalse | ConditionUnknown | OtherStatus string

datatype ConditionSeverity =
  ConditionSeverityError | ConditionSeverityWarning | ConditionSeverityInfo | OtherSeverity string

text \<open>\<open>clusterv1.Condition\<close>; the transition time is left out, the program never reads it.\<close>

record Condition =
  cond_Type :: string
  cond_Status :: ConditionStatus
  cond_Severity :: ConditionSeverity
  cond_Reason :: string
  cond_Message :: string

type_synonym Conditions = "Condition list"

section \<open>Objects of Cluster API\<close>

type_synonym Cluster = KubeObject

record Machine = KubeObject +
  NodeRef :: "ObjectReference option"
  MachineConditions :: Conditions

text \<open>
  \<open>collections.Machines\<close> is a Go map from names to machines: a list of entries in the order the
  runtime iterates over them.
\<close>

type_synonym Machines = "(string \<times> Machine) list"

text \<open>
  Of \<open>KubeadmControlPlane\<close> the program reads the metadata and
  \<open>Spec.KubeadmConfigSpec.ClusterConfiguration.Etcd.External\<close> (its endpoints stand for it).
  Its status conditions are there because the comments of the preflight check speak of them; no
  code reads them.
\<close>

record ClusterConfiguration =
  EtcdExternal :: "string list option"

record KubeadmControlPlane = KubeObject +
  ClusterConfig :: "ClusterConfiguration option"
  ControlPlaneConditions :: Conditions

section \<open>Unstructured objects\<close>

datatype json =
    JNull
  | JBool bool
  | JInt int
  | JString string
  | JArray "json list"
  | JObject "(string \<times> json) list"

record Unstructured =
  Object :: json

record GenerateTemplateInput =
  gt_Template :: Unstructured
  gt_TemplateRef :: ObjectReference
  gt_Namespace :: string
  gt_Labels :: gomap
  gt_Annotations :: gomap
  gt_OwnerRef :: OwnerReference

section \<open>Results and errors\<close>

text \<open>An error value; the string tells values apart, its text is a parameter.\<close>

datatype goerr = GoErr string

record Result =
  Requeue :: bool
  RequeueAfter :: Duration

definition zeroResult :: Result where
  "zeroResult = \<lparr>Requeue = False, RequeueAfter = 0\<rparr>"

definition requeueAfter :: "Duration \<Rightarrow> Result" where
  "requeueAfter d = \<lparr>Requeue = False, RequeueAfter = d\<rparr>"

lemma requeueAfter_eq_zero [simp]: "requeueAfter d = zeroResult \<longleftrightarrow> d = 0"
  by (simp add: requeueAfter_def zeroResult_def)

definition Millisecond :: Duration where
  "Millisecond = 1000000"

definition Second :: Duration where
  "Second = 1000 * Millisecond"

lemma durations_nonzero [simp]: "Millisecond \<noteq> 0" "Second \<noteq> 0"
  by (simp_all add: Millisecond_def Second_def)

end
