(* ===== verification/Api_Types.thy ===== *)
theory Api_Types
  imports Kube_Types
begin

text \<open>
  The repository's own API group, \<open>src/api/v1beta1\<close>: task phases and states, the update task,
  the update policy, the node update tasks and the requests and responses of the external update
  hooks. Go's string types stay strings: the API server accepts any text in them.
\<close>

section \<open>Phases and states (types.go)\<close>

type_synonym UpdateTaskPhase = string
type_synonym UpdateTaskState = string

definition UpdateTaskAnnotationName :: string where
  "UpdateTaskAnnotationName = ''update.extension.cluster.x-k8s.io/cluster-update-task-name''"

definition UpdateTaskPhaseUpdate :: UpdateTaskPhase where
  "UpdateTaskPhaseUpdate = ''Update''"

definition UpdateTaskPhaseAbort :: UpdateTaskPhase where
  "UpdateTaskPhaseAbort = ''Abort''"

definition UpdateTaskStateUnknown :: UpdateTaskState where
  "UpdateTaskStateUnknown = ''''"

definition UpdateTaskStateInProgress :: UpdateTaskState where
  "UpdateTaskStateInProgress = ''InProgress''"

definition UpdateTaskStateFailed :: UpdateTaskState where
  "UpdateTaskStateFailed = ''Failed''"

definition UpdateTaskStateUpdated :: UpdateTaskState where
  "UpdateTaskStateUpdated = ''Updated''"

definition UpdateTaskStateAborted :: UpdateTaskState where
  "UpdateTaskStateAborted = ''Aborted''"

definition IsTerminated :: "UpdateTaskState \<Rightarrow> bool" where
  "IsTerminated state \<longleftrightarrow>
     state = UpdateTaskStateFailed \<or>
     state = UpdateTaskStateUpdated \<or>
     state = UpdateTaskStateAborted"

lemmas phase_defs = UpdateTaskPhaseUpdate_def UpdateTaskPhaseAbort_def

lemmas state_defs =
  UpdateTaskStateUnknown_def UpdateTaskStateInProgress_def UpdateTaskStateFailed_def
  UpdateTaskStateUpdated_def UpdateTaskStateAborted_def

lemma phases_distinct [simp]:
  "UpdateTaskPhaseUpdate \<noteq> UpdateTaskPhaseAbort"
  "UpdateTaskPhaseAbort \<noteq> UpdateTaskPhaseUpdate"
  by (simp_all add: phase_defs)

lemma states_distinct [simp]:
  "distinct [UpdateTaskStateUnknown, UpdateTaskStateInProgress, UpdateTaskStateFailed,
     UpdateTaskStateUpdated, UpdateTaskStateAborted]"
  by (simp add: state_defs)

lemma states_neq [simp]:
  "UpdateTaskStateUnknown \<noteq> UpdateTaskStateInProgress"
  "UpdateTaskStateInProgress \<noteq> UpdateTaskStateUnknown"
  "UpdateTaskStateUnknown \<noteq> UpdateTaskStateFailed"
  "UpdateTaskStateFailed \<noteq> UpdateTaskStateUnknown"
  "UpdateTaskStateUnknown \<noteq> UpdateTaskStateUpdated"
  "UpdateTaskStateUpdated \<noteq> UpdateTaskStateUnknown"
  "UpdateTaskStateUnknown \<noteq> UpdateTaskStateAborted"
  "UpdateTaskStateAborted \<noteq> UpdateTaskStateUnknown"
  "UpdateTaskStateInProgress \<noteq> UpdateTaskStateFailed"
  "UpdateTaskStateFailed \<noteq> UpdateTaskStateInProgress"
  "UpdateTaskStateInProgress \<noteq> UpdateTaskStateUpdated"
  "UpdateTaskStateUpdated \<noteq> UpdateTaskStateInProgress"
  "UpdateTaskStateInProgress \<noteq> UpdateTaskStateAborted"
  "UpdateTaskStateAborted \<noteq> UpdateTaskStateInProgress"
  "UpdateTaskStateFailed \<noteq> UpdateTaskStateUpdated"
  "UpdateTaskStateUpdated \<noteq> UpdateTaskStateFailed"
  "UpdateTaskStateFailed \<noteq> UpdateTaskStateAborted"
  "UpdateTaskStateAborted \<noteq> UpdateTaskStateFailed"
  "UpdateTaskStateUpdated \<noteq> UpdateTaskStateAborted"
  "UpdateTaskStateAborted \<noteq> UpdateTaskStateUpdated"
  by (simp_all add: state_defs)

lemma IsTerminated_simps [simp]:
  "\<not> IsTerminated UpdateTaskStateUnknown"
  "\<not> IsTerminated UpdateTaskStateInProgress"
  "IsTerminated UpdateTaskStateFailed"
  "IsTerminated UpdateTaskStateUpdated"
  "IsTerminated UpdateTaskStateAborted"
  by (simp_all add: IsTerminated_def)

section \<open>Machine specification and hook messages (capi\_stub.go)\<close>

record MachineSpec =
  ms_Version :: string
  ms_BootstrapConfig :: string
  ms_InfraMachine :: string

record ControlPlaneExternalUpdateRequest =
  cp_ClusterRef :: "ObjectReference option"
  cp_ControlPlaneRef :: "ObjectReference option"
  cp_MachinesRequireUpdate :: "ObjectReference list"
  cp_NewMachine :: MachineSpec

record MachineDeploymentExternalUpdateRequest =
  md_ClusterRef :: "ObjectReference option"
  md_MachineDeploymentRef :: "ObjectReference option"
  md_MachinesRequireUpdate :: "ObjectReference list"
  md_NewMachine :: MachineSpec

text \<open>\<open>runtimehooksv1.CommonRetryResponse\<close>, embedded in both responses.\<close>

datatype ResponseStatus = ResponseStatusUnset | ResponseStatusSuccess | ResponseStatusFailure

record ExternalUpdateResponse =
  resp_Status :: ResponseStatus
  resp_Message :: string

definition MachineUpToDate :: string where
  "MachineUpToDate = ''MachineUpToDate''"

section \<open>UpdateTask (updatetask\_types.go)\<close>

definition UpdateTaskFinalizer :: string where
  "UpdateTaskFinalizer = ''updatetask.update.extension.cluster.x-k8s.io''"

definition UpdateOperationCondition :: string where
  "UpdateOperationCondition = ''UpdateOperation''"

definition AbortOperationCondition :: string where
  "AbortOperationCondition = ''AbortOperation''"

definition TrackOperationCondition :: string where
  "TrackOperationCondition = ''TrackOperation''"

definition NodeUpdateFailedReason :: string where
  "NodeUpdateFailedReason = ''UpdateFailed''"

definition PreflightCheckFailedReason :: string where
  "PreflightCheckFailedReason = ''PreflightCheckFailed''"

definition CreateNodeUpdateFailedReason :: string where
  "CreateNodeUpdateFailedReason = ''CreateNodeUpdateFailed''"

definition AbortNodeUpdateFailedReason :: string where
  "AbortNodeUpdateFailedReason = ''AbortNodeUpdateFailed''"

lemmas condition_defs =
  UpdateOperationCondition_def AbortOperationCondition_def TrackOperationCondition_def

lemma conditions_neq [simp]:
  "UpdateOperationCondition \<noteq> AbortOperationCondition"
  "AbortOperationCondition \<noteq> UpdateOperationCondition"
  "UpdateOperationCondition \<noteq> TrackOperationCondition"
  "TrackOperationCondition \<noteq> UpdateOperationCondition"
  "AbortOperationCondition \<noteq> TrackOperationCondition"
  "TrackOperationCondition \<noteq> AbortOperationCondition"
  by (simp_all add: condition_defs)

record NodeUpdateTaskTemplateSpec = ObjectMeta +
  InfrastructureRef :: ObjectReference

record UpdateTaskSpec =
  ClusterRef :: "ObjectReference option"
  ControlPlaneRef :: "ObjectReference option"
  MachineDeploymentRef :: "ObjectReference option"
  MachinesRequireUpdate :: "ObjectReference list"
  NewMachineSpec :: MachineSpec
  NodeUpdateTemplate :: NodeUpdateTaskTemplateSpec
  TargetPhase :: UpdateTaskPhase

record UpdateTaskStatus =
  State :: UpdateTaskState
  StatusConditions :: Conditions

record UpdateTask = KubeObject +
  Spec :: UpdateTaskSpec
  Status :: UpdateTaskStatus

definition GetConditions :: "UpdateTask \<Rightarrow> Conditions" where
  "GetConditions c = StatusConditions (Status c)"

definition SetConditions :: "UpdateTask \<Rightarrow> Conditions \<Rightarrow> UpdateTask" where
  "SetConditions c conditions = c\<lparr>Status := (Status c)\<lparr>StatusConditions := conditions\<rparr>\<rparr>"

text \<open>
  The library's condition functions reach an object through its getter and setter only:
  \<open>onConditions f task\<close> is such a call.
\<close>

definition onConditions :: "(Conditions \<Rightarrow> Conditions) \<Rightarrow> UpdateTask \<Rightarrow> UpdateTask" where
  "onConditions f c = SetConditions c (f (GetConditions c))"

definition setState :: "UpdateTaskState \<Rightarrow> UpdateTask \<Rightarrow> UpdateTask" where
  "setState st c = c\<lparr>Status := (Status c)\<lparr>State := st\<rparr>\<rparr>"

lemma GetConditions_SetConditions [simp]: "GetConditions (SetConditions c cs) = cs"
  by (simp add: GetConditions_def SetConditions_def)

lemma onConditions_frame [simp]:
  "Name (onConditions f c) = Name c"
  "Namespace (onConditions f c) = Namespace c"
  "UID (onConditions f c) = UID c"
  "Labels (onConditions f c) = Labels c"
  "Annotations (onConditions f c) = Annotations c"
  "Finalizers (onConditions f c) = Finalizers c"
  "CreationTimestamp (onConditions f c) = CreationTimestamp c"
  "DeletionTimestamp (onConditions f c) = DeletionTimestamp c"
  "Kind (onConditions f c) = Kind c"
  "APIVersion (onConditions f c) = APIVersion c"
  "Spec (onConditions f c) = Spec c"
  by (simp_all add: onConditions_def SetConditions_def)

lemma setState_frame [simp]:
  "Name (setState st c) = Name c"
  "Namespace (setState st c) = Namespace c"
  "UID (setState st c) = UID c"
  "Labels (setState st c) = Labels c"
  "Annotations (setState st c) = Annotations c"
  "Finalizers (setState st c) = Finalizers c"
  "CreationTimestamp (setState st c) = CreationTimestamp c"
  "DeletionTimestamp (setState st c) = DeletionTimestamp c"
  "Kind (setState st c) = Kind c"
  "APIVersion (setState st c) = APIVersion c"
  "Spec (setState st c) = Spec c"
  by (simp_all add: setState_def)

lemma status_updates [simp]:
  "State (Status (onConditions f c)) = State (Status c)"
  "State (Status (setState st c)) = st"
  "GetConditions (onConditions f c) = f (GetConditions c)"
  "GetConditions (setState st c) = GetConditions c"
  by (simp_all add: onConditions_def SetConditions_def GetConditions_def setState_def)

section \<open>UpdatePolicy (updatepolicy\_types.go)\<close>

record UpdatePolicySpec =
  NodeUpdateTemplateRef :: "ObjectReference option"

text \<open>The status of a policy has no fields yet.\<close>

type_synonym UpdatePolicyStatus = unit

record UpdatePolicy = KubeObject +
  PolicySpec :: UpdatePolicySpec

section \<open>Node update tasks (dockernodeupdatetask\_types.go)\<close>

record DockerNodeUpdateTaskSpec =
  dn_MachineName :: string
  dn_NewMachineSpec :: MachineSpec
  dn_Phase :: UpdateTaskPhase

record DockerNodeUpdateTaskStatus =
  dn_State :: UpdateTaskState
  dn_Conditions :: Conditions

record DockerNodeUpdateTask = KubeObject +
  DockerSpec :: DockerNodeUpdateTaskSpec
  DockerStatus :: DockerNodeUpdateTaskStatus

text \<open>The template of docker node update tasks.\<close>

record DockerNodeUpdateTaskTemplateResource =
  dtr_Labels :: gomap
  dtr_Annotations :: gomap
  dtr_Spec :: DockerNodeUpdateTaskSpec

record DockerNodeUpdateTaskTemplateSpec =
  dts_Template :: DockerNodeUpdateTaskTemplateResource

record DockerNodeUpdateTaskTemplate = KubeObject +
  DockerTemplateSpec :: DockerNodeUpdateTaskTemplateSpec

section \<open>The fake node update tasks of the tests (fakenodeupdatetask\_types.go)\<close>

record FakeNodeUpdateTaskSpec =
  fk_Field1 :: string
  fk_Field2 :: string
  fk_Field3 :: string
  fk_MachineName :: string
  fk_NewMachineSpec :: MachineSpec
  fk_Phase :: UpdateTaskPhase

record FakeNodeUpdateTaskStatus =
  fk_State :: UpdateTaskState
  fk_Conditions :: Conditions

record FakeNodeUpdateTask = KubeObject +
  FakeSpec :: FakeNodeUpdateTaskSpec
  FakeStatus :: FakeNodeUpdateTaskStatus

record FakeNodeUpdateTaskTemplateResource =
  ftr_Labels :: gomap
  ftr_Annotations :: gomap
  ftr_Spec :: FakeNodeUpdateTaskSpec

record FakeNodeUpdateTaskTemplateSpec =
  fts_Template :: FakeNodeUpdateTaskTemplateResource

record FakeNodeUpdateTaskTemplate = KubeObject +
  FakeTemplateSpec :: FakeNodeUpdateTaskTemplateSpec

end
