(* ===== verification/Platform.thy ===== *)
theory Platform
  imports Api_Types
begin

text \<open>
  The code outside the repository, as parameters. \<open>lib\<close> holds the library functions that compute
  (Cluster API's \<open>conditions\<close> and \<open>collections\<close>, controller-runtime's \<open>controllerutil\<close>, the error
  packages, unstructured field access) and the constants of those packages. \<open>env\<close> answers the
  calls that leave the process: what the API server, the patch helpers and the container runtime
  reply may depend on every call made before, so a value of \<open>env\<close> is one behaviour of the outside
  world, other clients and failures included. Nothing is assumed of either here; theorems that
  rely on documented behaviour name it as a hypothesis (the \<open>_laws\<close> predicates below).
\<close>

section \<open>Library functions and constants\<close>

record lib =
  \<comment> \<open>errors; \<open>errors_Wrap\<close> is \<open>errors.Wrap\<close> of an error, \<open>errors_WrapNil\<close> of a nil error\<close>
  IsNotFound :: "goerr \<Rightarrow> bool"
  errors_New :: "string \<Rightarrow> goerr"
  errors_Wrap :: "goerr \<Rightarrow> string \<Rightarrow> goerr"
  errors_WrapNil :: "string \<Rightarrow> goerr option"
  ErrorText :: "goerr \<Rightarrow> string"
  NewAggregate :: "goerr option list \<Rightarrow> goerr option"
  \<comment> \<open>controllerutil, on an object's finalizers\<close>
  ContainsFinalizer :: "string list \<Rightarrow> string \<Rightarrow> bool"
  AddFinalizer :: "string list \<Rightarrow> string \<Rightarrow> string list"
  RemoveFinalizer :: "string list \<Rightarrow> string \<Rightarrow> string list"
  \<comment> \<open>conditions, on an object's conditions\<close>
  MarkTrue :: "string \<Rightarrow> Conditions \<Rightarrow> Conditions"
  MarkFalse :: "string \<Rightarrow> string \<Rightarrow> ConditionSeverity \<Rightarrow> string \<Rightarrow> Conditions \<Rightarrow> Conditions"
  DeleteCondition :: "string \<Rightarrow> Conditions \<Rightarrow> Conditions"
  GetCondition :: "Conditions \<Rightarrow> string \<Rightarrow> Condition option"
  SetSummary :: "string list \<Rightarrow> Conditions \<Rightarrow> Conditions"
  SeverityText :: "ConditionSeverity \<Rightarrow> string"
  \<comment> \<open>metav1.Time and ctrl.Result\<close>
  TimeBefore :: "Time \<Rightarrow> Time \<Rightarrow> bool"
  TimeIsZero :: "Time option \<Rightarrow> bool"
  ResultIsZero :: "Result \<Rightarrow> bool"
  \<comment> \<open>collections\<close>
  FromMachineList :: "Machine list \<Rightarrow> Machines"
  FilterMachines :: "(Machine \<Rightarrow> bool) \<Rightarrow> Machines \<Rightarrow> Machines"
  HasDeletionTimestamp :: "Machine \<Rightarrow> bool"
  SortedByCreationTimestamp :: "Machines \<Rightarrow> Machine list"
  \<comment> \<open>unstructured objects\<close>
  GetCreationTimestamp :: "Unstructured \<Rightarrow> Time"
  UnmarshalString :: "Unstructured \<Rightarrow> string list \<Rightarrow> goerr + string"
  UnmarshalConditions :: "Unstructured \<Rightarrow> string list \<Rightarrow> Conditions"
  SetNestedField :: "Unstructured \<Rightarrow> string \<Rightarrow> string list \<Rightarrow> goerr + Unstructured"
  \<comment> \<open>constants of clusterv1 and controlplanev1\<close>
  ClusterNameLabel :: string
  MachineControlPlaneLabel :: string
  MachineControlPlaneNameLabel :: string
  MachineDeploymentNameLabel :: string
  MachineAPIServerPodHealthyCondition :: string
  MachineControllerManagerPodHealthyCondition :: string
  MachineSchedulerPodHealthyCondition :: string
  MachineEtcdPodHealthyCondition :: string
  MachineEtcdMemberHealthyCondition :: string

section \<open>Calls to the outside\<close>

text \<open>
  One constructor for each kind of call; the arguments are those the code passes. The patches of a
  patch helper carry the object as it was when the helper was made and as it is now.
\<close>

type_synonym labels = "(string \<times> string) list"

datatype call =
    GetUpdateTask string string
  | GetCluster string string
  | GetKubeadmControlPlane string string
  | GetMachine string string
  | GetDockerNodeUpdateTask string string
  | GetExternal ObjectReference string
  | ListMachines string labels
  | ListUpdateTasks string labels
  | ListUpdatePolicies string
  | ListUnstructured string string string labels
  | CreateNode Unstructured
  | CreateTask UpdateTask
  | MergePatchNode Unstructured string
  | MergePatchTask UpdateTask string
  | PatchTask UpdateTask UpdateTask
  | PatchMachine Machine Machine
  | PatchDockerTask DockerNodeUpdateTask DockerNodeUpdateTask
  | ExecContainer string string string
  | Sleep Duration

type_synonym history = "call list"

record env =
  api_GetUpdateTask :: "history \<Rightarrow> string \<Rightarrow> string \<Rightarrow> goerr + UpdateTask"
  api_GetCluster :: "history \<Rightarrow> string \<Rightarrow> string \<Rightarrow> goerr + Cluster"
  api_GetKubeadmControlPlane :: "history \<Rightarrow> string \<Rightarrow> string \<Rightarrow> goerr + KubeadmControlPlane"
  api_GetMachine :: "history \<Rightarrow> string \<Rightarrow> string \<Rightarrow> goerr + Machine"
  api_GetDockerNodeUpdateTask :: "history \<Rightarrow> string \<Rightarrow> string \<Rightarrow> goerr + DockerNodeUpdateTask"
  api_GetExternal :: "history \<Rightarrow> ObjectReference \<Rightarrow> string \<Rightarrow> goerr + Unstructured"
  api_ListMachines :: "history \<Rightarrow> string \<Rightarrow> labels \<Rightarrow> goerr + Machine list"
  api_ListUpdateTasks :: "history \<Rightarrow> string \<Rightarrow> labels \<Rightarrow> goerr + UpdateTask list"
  api_ListUpdatePolicies :: "history \<Rightarrow> string \<Rightarrow> goerr + UpdatePolicy list"
  api_ListUnstructured ::
    "history \<Rightarrow> string \<Rightarrow> string \<Rightarrow> string \<Rightarrow> labels \<Rightarrow> goerr + Unstructured list"
  api_CreateNode :: "history \<Rightarrow> Unstructured \<Rightarrow> goerr option"
  api_CreateTask :: "history \<Rightarrow> UpdateTask \<Rightarrow> goerr option"
  api_MergePatchNode :: "history \<Rightarrow> Unstructured \<Rightarrow> string \<Rightarrow> goerr option"
  api_MergePatchTask :: "history \<Rightarrow> UpdateTask \<Rightarrow> string \<Rightarrow> goerr option"
  \<comment> \<open>patch helpers: an error of NewHelper, and the answer to Patch\<close>
  NewTaskHelper :: "history \<Rightarrow> UpdateTask \<Rightarrow> goerr option"
  NewMachineHelper :: "history \<Rightarrow> Machine \<Rightarrow> goerr option"
  NewDockerHelper :: "history \<Rightarrow> DockerNodeUpdateTask \<Rightarrow> goerr option"
  api_PatchTask :: "history \<Rightarrow> UpdateTask \<Rightarrow> UpdateTask \<Rightarrow> goerr option"
  api_PatchMachine :: "history \<Rightarrow> Machine \<Rightarrow> Machine \<Rightarrow> goerr option"
  api_PatchDockerTask ::
    "history \<Rightarrow> DockerNodeUpdateTask \<Rightarrow> DockerNodeUpdateTask \<Rightarrow> goerr option"
  \<comment> \<open>templates, random names and the container runtime\<close>
  GenerateTemplate :: "history \<Rightarrow> GenerateTemplateInput \<Rightarrow> goerr + Unstructured"
  RandomString :: "history \<Rightarrow> nat \<Rightarrow> string"
  NewDockerClient :: "history \<Rightarrow> goerr option"
  api_ExecContainer :: "history \<Rightarrow> string \<Rightarrow> string \<Rightarrow> string \<Rightarrow> goerr option"

section \<open>Running calls\<close>

text \<open>
  The state of a handler: the calls made so far and the object it holds in memory. \<open>invoke c f\<close>
  makes call \<open>c\<close>; the answer is computed from the calls before it.
\<close>

record 'o mem =
  calls :: history
  obj :: 'o

definition invoke :: "call \<Rightarrow> (history \<Rightarrow> 'r) \<Rightarrow> ('o mem, 'r) prog" where
  "invoke c f s = (Ret (f (calls s)), s\<lparr>calls := calls s @ [c]\<rparr>)"

text \<open>An answer that depends on the outside world but reaches no server: no call is recorded.\<close>

definition consult :: "(history \<Rightarrow> 'r) \<Rightarrow> ('o mem, 'r) prog" where
  "consult f s = (Ret (f (calls s)), s)"

definition change :: "('o \<Rightarrow> 'o) \<Rightarrow> ('o mem, unit) prog" where
  "change f s = (Ret (), s\<lparr>obj := f (obj s)\<rparr>)"

lemma run_invoke [prog_simps]: "invoke c f s = (Ret (f (calls s)), s\<lparr>calls := calls s @ [c]\<rparr>)"
  by (simp add: invoke_def)

lemma run_consult [prog_simps]: "consult f s = (Ret (f (calls s)), s)"
  by (simp add: consult_def)

lemma run_change [prog_simps]: "change f s = (Ret (), s\<lparr>obj := f (obj s)\<rparr>)"
  by (simp add: change_def)

section \<open>Kinds of calls\<close>

fun is_read :: "call \<Rightarrow> bool" where
  "is_read (GetUpdateTask _ _) = True"
| "is_read (GetCluster _ _) = True"
| "is_read (GetKubeadmControlPlane _ _) = True"
| "is_read (GetMachine _ _) = True"
| "is_read (GetDockerNodeUpdateTask _ _) = True"
| "is_read (GetExternal _ _) = True"
| "is_read (ListMachines _ _) = True"
| "is_read (ListUpdateTasks _ _) = True"
| "is_read (ListUpdatePolicies _) = True"
| "is_read (ListUnstructured _ _ _ _) = True"
| "is_read _ = False"

fun is_create_node :: "call \<Rightarrow> bool" where
  "is_create_node (CreateNode _) = True"
| "is_create_node _ = False"

fun is_patch_task :: "call \<Rightarrow> bool" where
  "is_patch_task (PatchTask _ _) = True"
| "is_patch_task _ = False"

fun is_patch_machine :: "call \<Rightarrow> bool" where
  "is_patch_machine (PatchMachine _ _) = True"
| "is_patch_machine _ = False"

lemma is_read_simps [simp]:
  "is_read c \<Longrightarrow> \<not> is_create_node c"
  "is_read c \<Longrightarrow> \<not> is_patch_task c"
  "is_read c \<Longrightarrow> \<not> is_patch_machine c"
  by (cases c; simp)+

lemma is_patch_machine_simps [simp]:
  "is_patch_machine c \<Longrightarrow> \<not> is_create_node c"
  "is_patch_machine c \<Longrightarrow> \<not> is_patch_task c"
  by (cases c; simp)+

end
