(* ===== verification/Trace.thy ===== *)
theory Trace
  imports Platform
begin

text \<open>
  Which calls a program may make. \<open>emits P m\<close>: whatever the state, \<open>m\<close> only appends calls of kind
  \<open>P\<close> to the history. The rules of the
  collection \<open>emits_intros\<close> follow the shape of a program; the locale \<open>calling\<close> is the interface
  every component offers to the one that calls it.
\<close>

named_theorems emits_intros \<open>introduction rules for emits\<close>

section \<open>Programs that only make some calls\<close>

definition emits :: "(call \<Rightarrow> bool) \<Rightarrow> ('o mem, 'r) prog \<Rightarrow> bool" where
  "emits P m \<longleftrightarrow> (\<forall>s. \<exists>cs. calls (snd (m s)) = calls s @ cs \<and> list_all P cs)"

lemma emitsD: "emits P m \<Longrightarrow> \<exists>cs. calls (snd (m s)) = calls s @ cs \<and> list_all P cs"
  by (simp add: emits_def)

lemma emitsE:
  assumes "emits P m" and "m s = (r, s')"
  obtains cs where "calls s' = calls s @ cs" and "list_all P cs"
  using emitsD [OF assms(1), of s] assms(2) by auto

lemma emits_mono: "emits P m \<Longrightarrow> (\<And>c. P c \<Longrightarrow> Q c) \<Longrightarrow> emits Q m"
  unfolding emits_def by (meson list.pred_mono_strong)

lemma emits_return [emits_intros]: "emits P (return x)"
  by (simp add: emits_def prog_simps)

lemma emits_panic [emits_intros]: "emits P (panic e)"
  by (simp add: emits_def prog_simps)

lemma emits_gets [emits_intros]: "emits P (gets f)"
  by (simp add: emits_def prog_simps)

lemma emits_consult [emits_intros]: "emits P (consult f)"
  by (simp add: emits_def prog_simps)

lemma emits_change [emits_intros]: "emits P (change f)"
  by (simp add: emits_def prog_simps)

lemma emits_invoke [emits_intros]: "P c \<Longrightarrow> emits P (invoke c f)"
  by (simp add: emits_def prog_simps)

lemma emits_andThen [emits_intros]:
  assumes "emits P m" and "\<And>x. emits P (k x)"
  shows "emits P (andThen m k)"
  unfolding emits_def
proof
  fix s
  obtain r s' where m: "m s = (r, s')" by fastforce
  obtain cs where cs: "calls s' = calls s @ cs" "list_all P cs"
    using emitsE [OF assms(1) m] .
  show "\<exists>cs. calls (snd (andThen m k s)) = calls s @ cs \<and> list_all P cs"
  proof (cases r)
    case (Ret x)
    obtain ds where "calls (snd (k x s')) = calls s' @ ds" "list_all P ds"
      using emitsD [OF assms(2)] by blast
    with cs m Ret show ?thesis by (auto simp: andThen_def)
  next
    case (Panic e)
    with cs m show ?thesis by (auto simp: andThen_def)
  qed
qed

lemma emits_foreach [emits_intros]:
  assumes "\<And>x a. x \<in> set xs \<Longrightarrow> emits P (b x a)"
  shows "emits P (foreach b xs a)"
  using assms
proof (induction xs arbitrary: a)
  case Nil
  then show ?case by (simp add: emits_return)
next
  case (Cons x xs)
  then show ?case
    by (auto intro!: emits_andThen emits_return split: flow.split)
qed

lemma emits_if [emits_intros]: "emits P m \<Longrightarrow> emits P n \<Longrightarrow> emits P (if b then m else n)"
  by simp

lemma emits_case_option [emits_intros]:
  "emits P m \<Longrightarrow> (\<And>x. emits P (k x)) \<Longrightarrow> emits P (case v of None \<Rightarrow> m | Some x \<Rightarrow> k x)"
  by (cases v) simp_all

lemma emits_case_sum [emits_intros]:
  "(\<And>x. emits P (j x)) \<Longrightarrow> (\<And>x. emits P (k x)) \<Longrightarrow>
   emits P (case v of Inl x \<Rightarrow> j x | Inr x \<Rightarrow> k x)"
  by (cases v) simp_all

lemma emits_case_flow [emits_intros]:
  "(\<And>x. emits P (j x)) \<Longrightarrow> (\<And>x. emits P (k x)) \<Longrightarrow>
   emits P (case v of Continue x \<Rightarrow> j x | Break x \<Rightarrow> k x)"
  by (cases v) simp_all

lemma emits_case_prod [emits_intros]:
  "(\<And>x y. emits P (k x y)) \<Longrightarrow> emits P (case v of (x, y) \<Rightarrow> k x y)"
  by (cases v) simp

lemma emits_case_list [emits_intros]:
  "emits P m \<Longrightarrow> (\<And>x xs. emits P (k x xs)) \<Longrightarrow> emits P (case v of [] \<Rightarrow> m | x # xs \<Rightarrow> k x xs)"
  by (cases v) simp_all

lemma emits_Let [emits_intros]: "(\<And>x. emits P (k x)) \<Longrightarrow> emits P (let x = v in k x)"
  by simp

lemma emits_withDefer [emits_intros]:
  assumes "emits P m" and "\<And>r. emits P (d r)"
  shows "emits P (withDefer m z d)"
  unfolding emits_def
proof
  fix s
  obtain r s' where m: "m s = (r, s')" by fastforce
  obtain cs where cs: "calls s' = calls s @ cs" "list_all P cs"
    using emitsE [OF assms(1) m] .
  show "\<exists>cs. calls (snd (withDefer m z d s)) = calls s @ cs \<and> list_all P cs"
  proof (cases r)
    case (Ret x)
    obtain ds where "calls (snd (d x s')) = calls s' @ ds" "list_all P ds"
      using emitsD [OF assms(2)] by blast
    with cs m Ret show ?thesis by (auto simp: withDefer_def)
  next
    case (Panic e)
    obtain ds where "calls (snd (d z s')) = calls s' @ ds" "list_all P ds"
      using emitsD [OF assms(2)] by blast
    with cs m Panic show ?thesis
      by (auto simp: withDefer_def split: prod.split outcome.split)
  qed
qed

section \<open>Programs that return\<close>

text \<open>
  \<open>steady P m\<close>: started with an object that satisfies \<open>P\<close>, the program returns (it does not
  panic) and the object still satisfies \<open>P\<close>.
\<close>

named_theorems steady_intros \<open>introduction rules for steady\<close>

definition steady :: "('o \<Rightarrow> bool) \<Rightarrow> ('o mem, 'r) prog \<Rightarrow> bool" where
  "steady P m \<longleftrightarrow> (\<forall>s. P (obj s) \<longrightarrow> (\<exists>x s'. m s = (Ret x, s') \<and> P (obj s')))"

lemma steadyD: "steady P m \<Longrightarrow> P (obj s) \<Longrightarrow> \<exists>x s'. m s = (Ret x, s') \<and> P (obj s')"
  by (simp add: steady_def)

lemma steady_return [steady_intros]: "steady P (return x)"
  by (simp add: steady_def prog_simps)

lemma steady_consult [steady_intros]: "steady P (consult f)"
  by (simp add: steady_def prog_simps)

lemma steady_invoke [steady_intros]: "steady P (invoke c f)"
  by (simp add: steady_def prog_simps)

lemma steady_change [steady_intros]: "(\<And>x. P x \<Longrightarrow> P (f x)) \<Longrightarrow> steady P (change f)"
  by (simp add: steady_def prog_simps)

lemma steady_andThen [steady_intros]:
  assumes "steady P m" and "\<And>x. steady P (k x)"
  shows "steady P (andThen m k)"
  unfolding steady_def
proof (intro allI impI)
  fix s :: "'a mem"
  assume "P (obj s)"
  then obtain x s' where m: "m s = (Ret x, s')" "P (obj s')"
    using steadyD [OF assms(1)] by blast
  then show "\<exists>y s''. andThen m k s = (Ret y, s'') \<and> P (obj s'')"
    using steadyD [OF assms(2), of s'] by (simp add: andThen_def)
qed

text \<open>When it matters what the call answered.\<close>

lemma steady_answer:
  "(\<And>h. steady P (k (f h))) \<Longrightarrow> steady P (andThen (invoke c f) k)"
  by (simp add: steady_def prog_simps)

lemma steady_gets [steady_intros]:
  assumes "\<And>x. P x \<Longrightarrow> steady P (k x)"
  shows "steady P (andThen (gets obj) k)"
  using assms by (simp add: steady_def prog_simps)

lemma steady_foreach [steady_intros]:
  assumes "\<And>x a. x \<in> set xs \<Longrightarrow> steady P (b x a)"
  shows "steady P (foreach b xs a)"
  using assms
proof (induction xs arbitrary: a)
  case Nil
  then show ?case by (simp add: steady_return)
next
  case (Cons x xs)
  then show ?case by (auto intro!: steady_andThen steady_return split: flow.split)
qed

lemma steady_if [steady_intros]: "steady P m \<Longrightarrow> steady P n \<Longrightarrow> steady P (if b then m else n)"
  by simp

lemma steady_case_option [steady_intros]:
  "steady P m \<Longrightarrow> (\<And>x. steady P (k x)) \<Longrightarrow> steady P (case v of None \<Rightarrow> m | Some x \<Rightarrow> k x)"
  by (cases v) simp_all

lemma steady_case_sum [steady_intros]:
  "(\<And>x. steady P (j x)) \<Longrightarrow> (\<And>x. steady P (k x)) \<Longrightarrow>
   steady P (case v of Inl x \<Rightarrow> j x | Inr x \<Rightarrow> k x)"
  by (cases v) simp_all

lemma steady_case_flow [steady_intros]:
  "(\<And>x. steady P (j x)) \<Longrightarrow> (\<And>x. steady P (k x)) \<Longrightarrow>
   steady P (case v of Continue x \<Rightarrow> j x | Break x \<Rightarrow> k x)"
  by (cases v) simp_all

lemma steady_case_prod [steady_intros]:
  "(\<And>x y. steady P (k x y)) \<Longrightarrow> steady P (case v of (x, y) \<Rightarrow> k x y)"
  by (cases v) simp

lemma steady_Let [steady_intros]: "(\<And>x. steady P (k x)) \<Longrightarrow> steady P (let x = v in k x)"
  by simp

section \<open>The interface between callers and components\<close>

text \<open>
  What a caller may rely on: the component's operation \<open>op\<close> keeps the history and only makes calls
  of the given kind.
\<close>

locale calling =
  fixes op :: "'i \<Rightarrow> ('o mem, 'r) prog"
    and kind :: "call \<Rightarrow> bool"
  assumes emits_kind: "emits kind (op i)"
begin

lemma history_grows:
  assumes "op i s = (r, s')"
  obtains cs where "calls s' = calls s @ cs" and "list_all kind cs"
  using emitsE [OF emits_kind assms] .

lemma makes_no_other:
  assumes "\<And>c. kind c \<Longrightarrow> \<not> P c" and "op i s = (r, s')"
  shows "filter P (calls s') = filter P (calls s)"
proof -
  obtain cs where cs: "calls s' = calls s @ cs" "list_all kind cs"
    using history_grows [OF assms(2)] .
  then have "filter P cs = []"
    using assms(1) by (auto simp: filter_empty_conv list_all_iff)
  with cs show ?thesis by simp
qed

lemma emits_weaker: "(\<And>c. kind c \<Longrightarrow> P c) \<Longrightarrow> emits P (op i)"
  by (rule emits_mono [OF emits_kind])

end

text \<open>A component that only reads leaves the trace of writes as it was.\<close>

locale reading = calling op is_read
  for op :: "'i \<Rightarrow> ('o mem, 'r) prog"
begin

lemma writes_nothing:
  "op i s = (r, s') \<Longrightarrow> filter (\<lambda>c. \<not> is_read c) (calls s') = filter (\<lambda>c. \<not> is_read c) (calls s)"
  by (rule makes_no_other) simp_all

end

text \<open>
  How a program may change the object in memory: \<open>keeps R m\<close> relates the object before to the
  object after. For a preorder the rules compose along the program's shape.
\<close>

definition keeps :: "('o \<Rightarrow> 'o \<Rightarrow> bool) \<Rightarrow> ('o mem, 'r) prog \<Rightarrow> bool" where
  "keeps R m \<longleftrightarrow> (\<forall>s. R (obj s) (obj (snd (m s))))"

lemma keepsD: "keeps R m \<Longrightarrow> m s = (r, s') \<Longrightarrow> R (obj s) (obj s')"
  by (metis keeps_def snd_conv)

locale object_preorder =
  fixes R :: "'o \<Rightarrow> 'o \<Rightarrow> bool"
  assumes R_refl: "R x x"
    and R_trans: "R x y \<Longrightarrow> R y z \<Longrightarrow> R x z"
begin

lemma keeps_return: "keeps R (return x)"
  by (simp add: keeps_def prog_simps R_refl)

lemma keeps_panic: "keeps R (panic e)"
  by (simp add: keeps_def prog_simps R_refl)

lemma keeps_gets: "keeps R (gets f)"
  by (simp add: keeps_def prog_simps R_refl)

lemma keeps_consult: "keeps R (consult f)"
  by (simp add: keeps_def prog_simps R_refl)

lemma keeps_invoke: "keeps R (invoke c f)"
  by (simp add: keeps_def prog_simps R_refl)

lemma keeps_change: "(\<And>x. R x (f x)) \<Longrightarrow> keeps R (change f)"
  by (simp add: keeps_def prog_simps)

lemma keeps_frozen: "(\<And>s. obj (snd (m s)) = obj s) \<Longrightarrow> keeps R m"
  by (simp add: keeps_def R_refl)

lemma keeps_andThen:
  assumes "keeps R m" and "\<And>x. keeps R (k x)"
  shows "keeps R (andThen m k)"
  unfolding keeps_def
proof
  fix s
  obtain r s' where m: "m s = (r, s')" by fastforce
  have 1: "R (obj s) (obj s')" by (rule keepsD [OF assms(1) m])
  have 2: "R (obj s') (obj (snd (k x s')))" for x
    using assms(2) by (simp add: keeps_def)
  from m 1 R_trans [OF 1 2] show "R (obj s) (obj (snd (andThen m k s)))"
    by (simp add: andThen_def split: outcome.split)
qed

lemma keeps_foreach:
  assumes "\<And>x a. keeps R (b x a)"
  shows "keeps R (foreach b xs a)"
proof (induction xs arbitrary: a)
  case Nil
  then show ?case by (simp add: keeps_return)
next
  case (Cons x xs)
  then show ?case
    by (auto intro!: keeps_andThen keeps_return assms split: flow.split)
qed

lemma keeps_if: "keeps R m \<Longrightarrow> keeps R n \<Longrightarrow> keeps R (if b then m else n)"
  by simp

lemma keeps_case_option:
  "keeps R m \<Longrightarrow> (\<And>x. keeps R (k x)) \<Longrightarrow> keeps R (case v of None \<Rightarrow> m | Some x \<Rightarrow> k x)"
  by (cases v) simp_all

lemma keeps_case_sum:
  "(\<And>x. keeps R (j x)) \<Longrightarrow> (\<And>x. keeps R (k x)) \<Longrightarrow>
   keeps R (case v of Inl x \<Rightarrow> j x | Inr x \<Rightarrow> k x)"
  by (cases v) simp_all

lemma keeps_case_flow:
  "(\<And>x. keeps R (j x)) \<Longrightarrow> (\<And>x. keeps R (k x)) \<Longrightarrow>
   keeps R (case v of Continue x \<Rightarrow> j x | Break x \<Rightarrow> k x)"
  by (cases v) simp_all

lemma keeps_case_prod:
  "(\<And>x y. keeps R (k x y)) \<Longrightarrow> keeps R (case v of (x, y) \<Rightarrow> k x y)"
  by (cases v) simp

lemma keeps_Let: "(\<And>x. keeps R (k x)) \<Longrightarrow> keeps R (let x = v in k x)"
  by simp

lemmas keeps_intros = keeps_return keeps_panic keeps_gets keeps_consult keeps_invoke
  keeps_change keeps_andThen keeps_foreach keeps_if keeps_case_option keeps_case_sum
  keeps_case_flow keeps_case_prod keeps_Let

end

text \<open>
  A component that leaves the caller's in-memory object alone.
\<close>

locale frozen =
  fixes op :: "'i \<Rightarrow> ('o mem, 'r) prog"
  assumes obj_same: "obj (snd (op i s)) = obj s"
begin

lemma obj_kept: "op i s = (r, s') \<Longrightarrow> obj s' = obj s"
  using obj_same [of i s] by simp

end

end
