(* ===== verification/Node_Update.thy ===== *)
theory Node_Update
  imports Trace
begin

text \<open>
  \<open>src/pkg/nodes/nodeupdatetask.go\<close>: reading the status of a node update task, aborting one and
  creating one from the template of an update task. Node update tasks are unstructured objects:
  any kind that follows the field contract (\<open>spec.machineName\<close>, \<open>spec.phase\<close>,
  \<open>spec.newMachineSpec\<close>, \<open>status.state\<close>) works.
\<close>

section \<open>Model\<close>

definition ClusterUpdateTaskNameLabel :: string where
  "ClusterUpdateTaskNameLabel = ''update.extension.cluster.x-k8s.io/cluster-update-task-name''"

record NodeUpdateTaskStatus =
  nus_CreationTimestamp :: Time
  nus_MachineName :: string
  nus_Phase :: UpdateTaskPhase
  nus_State :: UpdateTaskState
  nus_Conditions :: Conditions

definition GetNodeUpdateTaskStatus :: "lib \<Rightarrow> Unstructured \<Rightarrow> goerr + NodeUpdateTaskStatus" where
  "GetNodeUpdateTaskStatus L nodeUpdateTask =
     (case UnmarshalString L nodeUpdateTask [''spec'', ''machineName''] of
        Inl err \<Rightarrow> Inl (errors_Wrap L err
          ''unable to extract spec.machineName field from nodeupdatetask'')
      | Inr machineName \<Rightarrow>
     (case UnmarshalString L nodeUpdateTask [''spec'', ''phase''] of
        Inl err \<Rightarrow> Inl (errors_Wrap L err
          ''unable to extract spec.phase field from nodeupdatetask'')
      | Inr phase \<Rightarrow> Inr
         \<lparr>nus_CreationTimestamp = GetCreationTimestamp L nodeUpdateTask,
          nus_MachineName = machineName,
          nus_Phase = phase,
          nus_State = (case UnmarshalString L nodeUpdateTask [''status'', ''state''] of
              Inl _ \<Rightarrow> UpdateTaskStateUnknown
            | Inr st \<Rightarrow> st),
          nus_Conditions = UnmarshalConditions L nodeUpdateTask [''status'', ''conditions'']\<rparr>))"

definition abortNodePatch :: string where
  \<open>abortNodePatch = ''{"spec": {"phase": "Abort"}}''\<close>

definition AbortNodeUpdateTask :: "env \<Rightarrow> Unstructured \<Rightarrow> ('o mem, goerr option) prog" where
  "AbortNodeUpdateTask E nodeUpdateTask =
     invoke (MergePatchNode nodeUpdateTask abortNodePatch)
       (\<lambda>h. api_MergePatchNode E h nodeUpdateTask abortNodePatch)"

text \<open>
  The labels of the new object. The code takes the label map of the task's template and writes two
  entries into it; when the template has a map, that map itself is written, so the in-memory task
  changes with it (\<open>shareLabels\<close>).
\<close>

definition nodeLabels :: "lib \<Rightarrow> UpdateTask \<Rightarrow> string \<Rightarrow> (string \<rightharpoonup> string)" where
  "nodeLabels L task clusterName =
     (case Labels (NodeUpdateTemplate (Spec task)) of None \<Rightarrow> Map.empty | Some m \<Rightarrow> m)
       (ClusterNameLabel L \<mapsto> clusterName, ClusterUpdateTaskNameLabel \<mapsto> Name task)"

definition shareLabels :: "(string \<rightharpoonup> string) \<Rightarrow> UpdateTask \<Rightarrow> UpdateTask" where
  "shareLabels m task =
     (case Labels (NodeUpdateTemplate (Spec task)) of
        None \<Rightarrow> task
      | Some _ \<Rightarrow> task\<lparr>Spec := (Spec task)\<lparr>NodeUpdateTemplate :=
          (NodeUpdateTemplate (Spec task))\<lparr>Labels := Some m\<rparr>\<rparr>\<rparr>)"

definition taskOwnerRef :: "UpdateTask \<Rightarrow> OwnerReference" where
  "taskOwnerRef task =
     \<lparr>owner_Kind = Kind task, owner_APIVersion = APIVersion task, owner_Name = Name task,
      owner_UID = UID task, owner_Controller = Some True\<rparr>"

definition templateInput :: "lib \<Rightarrow> UpdateTask \<Rightarrow> string \<Rightarrow> Unstructured \<Rightarrow> GenerateTemplateInput" where
  "templateInput L task clusterName template =
     \<lparr>gt_Template = template,
      gt_TemplateRef = InfrastructureRef (NodeUpdateTemplate (Spec task)),
      gt_Namespace = Namespace task,
      gt_Labels = Some (nodeLabels L task clusterName),
      gt_Annotations = Annotations (NodeUpdateTemplate (Spec task)),
      gt_OwnerRef = taskOwnerRef task\<rparr>"

text \<open>The fields set on the generated object, in order; the first failing one ends the call.\<close>

fun setFields :: "lib \<Rightarrow> (string \<times> string list \<times> string) list \<Rightarrow> Unstructured \<Rightarrow> goerr + Unstructured" where
  "setFields L [] u = Inr u"
| "setFields L ((v, path, msg) # fs) u =
     (case SetNestedField L u v path of
        Inl err \<Rightarrow> Inl (errors_Wrap L err msg)
      | Inr u' \<Rightarrow> setFields L fs u')"

definition nodeUpdateFields :: "UpdateTask \<Rightarrow> Machine \<Rightarrow> (string \<times> string list \<times> string) list" where
  "nodeUpdateFields task machine =
     [(UpdateTaskPhaseUpdate, [''spec'', ''phase''],
         ''unable to set spec.phase for nodeupdatetask''),
      (ms_BootstrapConfig (NewMachineSpec (Spec task)),
         [''spec'', ''newMachineSpec'', ''bootstrapConfig''],
         ''unable to set spec.newMachineSpec.bootstrapConfig for nodeupdatetask''),
      (ms_InfraMachine (NewMachineSpec (Spec task)),
         [''spec'', ''newMachineSpec'', ''infraMachine''],
         ''unable to set spec.newMachineSpec.infraMachine for nodeupdatetask''),
      (ms_Version (NewMachineSpec (Spec task)),
         [''spec'', ''newMachineSpec'', ''version''],
         ''unable to set spec.newMachineSpec.version for nodeupdatetask''),
      (Name machine, [''spec'', ''machineName''],
         ''unable to set spec.machineName for nodeupdatetask'')]"

definition CreateNodeUpdateTask ::
  "lib \<Rightarrow> env \<Rightarrow> Machine \<Rightarrow> (UpdateTask mem, Unstructured option \<times> goerr option) prog" where
  "CreateNodeUpdateTask L E machine =
     andThen (gets obj) (\<lambda>task.
     andThen (invoke (GetExternal (InfrastructureRef (NodeUpdateTemplate (Spec task))) (Namespace task))
         (\<lambda>h. api_GetExternal E h (InfrastructureRef (NodeUpdateTemplate (Spec task))) (Namespace task)))
       (\<lambda>r. case r of
          Inl err \<Rightarrow> return (None, Some (errors_Wrap L err ''unable to get nodeUpdateTemplate''))
        | Inr template \<Rightarrow>
       (case ClusterRef (Spec task) of
          None \<Rightarrow> panic ''nil pointer dereference: task.Spec.ClusterRef''
        | Some clusterRef \<Rightarrow>
       andThen (change (shareLabels (nodeLabels L task (ref_Name clusterRef)))) (\<lambda>_.
       andThen (consult (\<lambda>h. GenerateTemplate E h
           (templateInput L task (ref_Name clusterRef) template)))
         (\<lambda>g. case g of
            Inl err \<Rightarrow> return (None, Some err)
          | Inr nodeUpdateTask \<Rightarrow>
         (case setFields L (nodeUpdateFields task machine) nodeUpdateTask of
            Inl err \<Rightarrow> return (None, Some err)
          | Inr filled \<Rightarrow>
         andThen (invoke (CreateNode filled) (\<lambda>h. api_CreateNode E h filled)) (\<lambda>e.
         return (Some filled,
           map_option (\<lambda>err. errors_Wrap L err ''create nodeupdatetask failed'') e))))))))"


section \<open>Calls\<close>

fun is_abort_node :: "call \<Rightarrow> bool" where
  "is_abort_node (MergePatchNode _ p) = (p = abortNodePatch)"
| "is_abort_node _ = False"

fun is_node_creation :: "call \<Rightarrow> bool" where
  "is_node_creation (GetExternal _ _) = True"
| "is_node_creation (CreateNode _) = True"
| "is_node_creation _ = False"

interpretation abort_call: calling "AbortNodeUpdateTask E" is_abort_node for E
  by unfold_locales (auto simp: AbortNodeUpdateTask_def intro!: emits_intros)

interpretation abort_frozen: frozen "AbortNodeUpdateTask E" for E
  by unfold_locales (simp add: AbortNodeUpdateTask_def prog_simps)

interpretation create_call: calling "CreateNodeUpdateTask L E" is_node_creation for L E
  by unfold_locales (auto simp: CreateNodeUpdateTask_def intro!: emits_intros)

lemma is_node_creation_simps [simp]:
  "is_node_creation c \<Longrightarrow> \<not> is_patch_task c"
  "is_node_creation c \<Longrightarrow> \<not> is_patch_machine c"
  "is_node_creation c \<Longrightarrow> \<not> is_abort_node c"
  by (cases c; simp)+

lemma is_abort_node_simps [simp]:
  "is_abort_node c \<Longrightarrow> \<not> is_create_node c"
  "is_abort_node c \<Longrightarrow> \<not> is_patch_task c"
  "is_abort_node c \<Longrightarrow> \<not> is_patch_machine c"
  by (cases c; simp)+

section \<open>What creation does, branch by branch\<close>

lemma shareLabels_frame [simp]:
  "Name (shareLabels m t) = Name t" "Namespace (shareLabels m t) = Namespace t"
  "UID (shareLabels m t) = UID t" "Finalizers (shareLabels m t) = Finalizers t"
  "DeletionTimestamp (shareLabels m t) = DeletionTimestamp t"
  "Status (shareLabels m t) = Status t" "GetConditions (shareLabels m t) = GetConditions t"
  "ClusterRef (Spec (shareLabels m t)) = ClusterRef (Spec t)"
  "ControlPlaneRef (Spec (shareLabels m t)) = ControlPlaneRef (Spec t)"
  "MachineDeploymentRef (Spec (shareLabels m t)) = MachineDeploymentRef (Spec t)"
  "NewMachineSpec (Spec (shareLabels m t)) = NewMachineSpec (Spec t)"
  "TargetPhase (Spec (shareLabels m t)) = TargetPhase (Spec t)"
  "InfrastructureRef (NodeUpdateTemplate (Spec (shareLabels m t)))
     = InfrastructureRef (NodeUpdateTemplate (Spec t))"
  by (simp_all add: shareLabels_def GetConditions_def split: option.split)

lemma create_cases:
  assumes "CreateNodeUpdateTask L E machine s = (r, s')"
  obtains
    (template_error) err where "r = Ret (None, Some err)" "obj s' = obj s"
      "filter is_create_node (calls s') = filter is_create_node (calls s)"
  | (no_cluster) msg where "r = Panic msg" "ClusterRef (Spec (obj s)) = None" "obj s' = obj s"
      "filter is_create_node (calls s') = filter is_create_node (calls s)"
  | (build_error) err cref where "r = Ret (None, Some err)" "ClusterRef (Spec (obj s)) = Some cref"
      "obj s' = shareLabels (nodeLabels L (obj s) (ref_Name cref)) (obj s)"
      "filter is_create_node (calls s') = filter is_create_node (calls s)"
  | (created) h cref template base u where
      "ClusterRef (Spec (obj s)) = Some cref"
      "GenerateTemplate E h (templateInput L (obj s) (ref_Name cref) template) = Inr base"
      "setFields L (nodeUpdateFields (obj s) machine) base = Inr u"
      "r = Ret (Some u, map_option (\<lambda>e. errors_Wrap L e ''create nodeupdatetask failed'')
                          (api_CreateNode E h u))"
      "obj s' = shareLabels (nodeLabels L (obj s) (ref_Name cref)) (obj s)"
      "calls s' = h @ [CreateNode u]"
      "filter is_create_node h = filter is_create_node (calls s)"
proof -
  let ?task = "obj s"
  let ?ref = "InfrastructureRef (NodeUpdateTemplate (Spec ?task))"
  let ?h = "calls s @ [GetExternal ?ref (Namespace ?task)]"
  note run = assms [unfolded CreateNodeUpdateTask_def prog_simps, simplified]
  show thesis
  proof (cases "api_GetExternal E (calls s) ?ref (Namespace ?task)")
    case (Inl err)
    with run show ?thesis by (auto simp: prog_simps intro!: template_error)
  next
    case template: (Inr template)
    show ?thesis
    proof (cases "ClusterRef (Spec ?task)")
      case None
      with run template show ?thesis by (auto simp: prog_simps intro!: no_cluster)
    next
      case (Some cref)
      show ?thesis
      proof (cases "GenerateTemplate E ?h (templateInput L ?task (ref_Name cref) template)")
        case (Inl err)
        with run template Some show ?thesis by (auto simp: prog_simps intro!: build_error [OF _ Some])
      next
        case base: (Inr base)
        show ?thesis
        proof (cases "setFields L (nodeUpdateFields ?task machine) base")
          case (Inl err)
          with run template Some base show ?thesis by (auto simp: prog_simps intro!: build_error [OF _ Some])
        next
          case (Inr u)
          with run template Some base show ?thesis
            by (auto simp: prog_simps intro!: created [OF Some base])
        qed
      qed
    qed
  qed
qed

section \<open>Reading back a created object\<close>

text \<open>
  The documented behaviour of unstructured field access that the contract between creation and
  status reading rests on: a string set at a path is read back there (JSON keeps ASCII text as it
  is), and reads at paths that are neither below nor above the path are not affected.
\<close>

fun apart :: "string list \<Rightarrow> string list \<Rightarrow> bool" where
  "apart (a # p) (b # q) = (a \<noteq> b \<or> apart p q)"
| "apart _ _ = False"

definition ascii :: "string \<Rightarrow> bool" where
  "ascii v \<longleftrightarrow> list_all (\<lambda>c. of_char c < (128 :: nat)) v"

definition nested_laws :: "lib \<Rightarrow> bool" where
  "nested_laws L \<longleftrightarrow>
     (\<forall>u v p u'. SetNestedField L u v p = Inr u' \<longrightarrow>
        (ascii v \<longrightarrow> UnmarshalString L u' p = Inr v) \<and>
        (\<forall>q. apart p q \<longrightarrow> UnmarshalString L u' q = UnmarshalString L u q))"

lemma nested_laws_same:
  "nested_laws L \<Longrightarrow> SetNestedField L u v p = Inr u' \<Longrightarrow> ascii v \<Longrightarrow> UnmarshalString L u' p = Inr v"
  by (simp add: nested_laws_def)

lemma nested_laws_apart:
  "nested_laws L \<Longrightarrow> SetNestedField L u v p = Inr u' \<Longrightarrow> apart p q \<Longrightarrow>
   UnmarshalString L u' q = UnmarshalString L u q"
  by (auto simp: nested_laws_def)

lemma setFields_apart:
  assumes "nested_laws L" and "setFields L fs u = Inr u'" and "\<forall>(v, p, m) \<in> set fs. apart p q"
  shows "UnmarshalString L u' q = UnmarshalString L u q"
  using assms
  by (induction L fs u rule: setFields.induct)
    (auto split: sum.splits dest: nested_laws_apart)

lemma setFields_get:
  assumes laws: "nested_laws L" and "setFields L flds u = Inr u'"
    and "flds = fs @ (v, p, m) # gs"
    and "ascii v" and "\<forall>(v', q, m') \<in> set gs. apart q p"
  shows "UnmarshalString L u' p = Inr v"
  using assms(2,3)
proof (induction fs arbitrary: flds u)
  case Nil
  then obtain u1 where u1: "SetNestedField L u v p = Inr u1" "setFields L gs u1 = Inr u'"
    by (auto split: sum.splits)
  have "UnmarshalString L u' p = UnmarshalString L u1 p"
    using setFields_apart [OF laws u1(2)] assms(5) by auto
  with nested_laws_same [OF laws u1(1) assms(4)] show ?case by simp
next
  case (Cons f fs)
  then show ?case by (cases f) (auto split: sum.splits)
qed

lemma nodeUpdateFields_machineName:
  assumes "nested_laws L" and "setFields L (nodeUpdateFields task machine) base = Inr u"
    and "ascii (Name machine)"
  shows "UnmarshalString L u [''spec'', ''machineName''] = Inr (Name machine)"
  by (rule setFields_get [OF assms(1,2) _ assms(3), where gs = "[]"
        and fs = "butlast (nodeUpdateFields task machine)"])
    (simp_all add: nodeUpdateFields_def)

lemma nodeUpdateFields_phase:
  assumes "nested_laws L" and "setFields L (nodeUpdateFields task machine) base = Inr u"
  shows "UnmarshalString L u [''spec'', ''phase''] = Inr UpdateTaskPhaseUpdate"
  by (rule setFields_get [OF assms _ _, where fs = "[]"
        and gs = "tl (nodeUpdateFields task machine)"])
    (simp_all add: nodeUpdateFields_def phase_defs ascii_def)

text \<open>
  C28. A created node update task reads back, through the status reader, as an update (phase Update)
  of the machine it was created for.
\<close>

theorem created_node_reads_back:
  assumes "nested_laws L" and "ascii (Name machine)"
    and "CreateNodeUpdateTask L E machine s = (Ret (Some u, e), s')"
  shows "\<exists>st. GetNodeUpdateTaskStatus L u = Inr st \<and> nus_MachineName st = Name machine \<and>
    nus_Phase st = UpdateTaskPhaseUpdate \<and> last (calls s') = CreateNode u"
  using assms(3)
proof (rule create_cases)
  fix h cref template base u1
  assume "setFields L (nodeUpdateFields (obj s) machine) base = Inr u1"
    and r: "Ret (Some u, e) = Ret (Some u1, map_option (\<lambda>e. errors_Wrap L e ''create nodeupdatetask failed'')
                          (api_CreateNode E h u1))"
    and h: "calls s' = h @ [CreateNode u1]"
  then have "setFields L (nodeUpdateFields (obj s) machine) base = Inr u" by simp
  from nodeUpdateFields_machineName [OF assms(1) this assms(2)]
    nodeUpdateFields_phase [OF assms(1) this] r h
  show ?thesis by (simp add: GetNodeUpdateTaskStatus_def)
qed simp_all

end
