(* ===== verification/Task_Scope.thy ===== *)
theory Task_Scope
  imports Node_Update
begin

text \<open>
  \<open>src/pkg/scopes/updatetask\_scope.go\<close>: the objects one reconciliation of an update task works
  on. \<open>NewScope\<close> is \<open>scopes.New\<close>; the task itself is the object in memory, so the record holds the
  other fields (the client and the unused patch helper are left out, but the helper's construction
  may fail and is there).
\<close>

record UpdateTaskScope =
  ScopeCluster :: Cluster
  UpdateMachines :: Machines
  NodeUpdateTasks :: "Unstructured list"

definition machineLabels :: "lib \<Rightarrow> Cluster \<Rightarrow> UpdateTask \<Rightarrow> labels option" where
  "machineLabels L cluster task =
     (case ControlPlaneRef (Spec task) of
        Some _ \<Rightarrow> Some [(ClusterNameLabel L, Name cluster), (MachineControlPlaneLabel L, '''')]
      | None \<Rightarrow> (case MachineDeploymentRef (Spec task) of
          Some md \<Rightarrow> Some [(ClusterNameLabel L, Name cluster), (MachineDeploymentNameLabel L, ref_Name md)]
        | None \<Rightarrow> None))"

definition NewScope :: "lib \<Rightarrow> env \<Rightarrow> (UpdateTask mem, goerr + UpdateTaskScope) prog" where
  "NewScope L E =
     andThen (gets obj) (\<lambda>task. let namespace = Namespace task in
     (case ClusterRef (Spec task) of
        None \<Rightarrow> panic ''nil pointer dereference: task.Spec.ClusterRef''
      | Some clusterRef \<Rightarrow>
     andThen (invoke (GetCluster namespace (ref_Name clusterRef))
         (\<lambda>h. api_GetCluster E h namespace (ref_Name clusterRef)))
       (\<lambda>r. case r of
          Inl err \<Rightarrow> return (Inl err)
        | Inr cluster \<Rightarrow>
       (case machineLabels L cluster task of
          None \<Rightarrow> return (Inl (errors_New L
            ''invalid updateTask spec, both controlplane and machinedeployment ref is nil''))
        | Some ls \<Rightarrow>
       andThen (invoke (ListMachines namespace ls) (\<lambda>h. api_ListMachines E h namespace ls))
         (\<lambda>r. case r of
            Inl err \<Rightarrow> return (Inl err)
          | Inr machineList \<Rightarrow>
         (let ref = InfrastructureRef (NodeUpdateTemplate (Spec task));
              kind = TrimSuffix (ref_Kind ref) ''Template'';
              sel = [(ClusterUpdateTaskNameLabel, Name task)]
          in andThen (invoke (ListUnstructured (ref_APIVersion ref) kind namespace sel)
               (\<lambda>h. api_ListUnstructured E h (ref_APIVersion ref) kind namespace sel))
             (\<lambda>r. case r of
                Inl err \<Rightarrow> return (Inl err)
              | Inr items \<Rightarrow>
             andThen (consult (\<lambda>h. NewTaskHelper E h task))
               (\<lambda>e. case e of
                  Some err \<Rightarrow> return (Inl err)
                | None \<Rightarrow> return (Inr
                    \<lparr>ScopeCluster = cluster,
                     UpdateMachines = FromMachineList L machineList,
                     NodeUpdateTasks = items\<rparr>)))))))))"

definition IsControlPlane :: "UpdateTask \<Rightarrow> bool" where
  "IsControlPlane task \<longleftrightarrow> ControlPlaneRef (Spec task) \<noteq> None"

section \<open>What building a scope does\<close>

interpretation scope_reads: reading "\<lambda>_ :: unit. NewScope L E" for L E
  by unfold_locales (auto simp: NewScope_def intro!: emits_intros)

interpretation scope_frozen: frozen "\<lambda>_ :: unit. NewScope L E" for L E
  by unfold_locales
    (simp add: NewScope_def prog_simps Let_def split: option.split sum.split)

lemma scope_built:
  assumes "NewScope L E s = (Ret (Inr sc), s')"
  obtains cref cluster ls h ms where
    "ClusterRef (Spec (obj s)) = Some cref"
    "api_GetCluster E (calls s) (Namespace (obj s)) (ref_Name cref) = Inr cluster"
    "ScopeCluster sc = cluster"
    "machineLabels L cluster (obj s) = Some ls"
    "h = calls s @ [GetCluster (Namespace (obj s)) (ref_Name cref)]"
    "api_ListMachines E h (Namespace (obj s)) ls = Inr ms"
    "UpdateMachines sc = FromMachineList L ms"
    "api_ListUnstructured E (h @ [ListMachines (Namespace (obj s)) ls])
       (ref_APIVersion (InfrastructureRef (NodeUpdateTemplate (Spec (obj s)))))
       (TrimSuffix (ref_Kind (InfrastructureRef (NodeUpdateTemplate (Spec (obj s))))) ''Template'')
       (Namespace (obj s)) [(ClusterUpdateTaskNameLabel, Name (obj s))] = Inr (NodeUpdateTasks sc)"
  using assms
  by (auto simp: NewScope_def prog_simps Let_def split: option.splits sum.splits)

lemma scope_no_panic:
  "ClusterRef (Spec (obj s)) \<noteq> None \<Longrightarrow> \<exists>r s'. NewScope L E s = (Ret r, s')"
  by (auto simp: NewScope_def prog_simps Let_def split: option.split sum.split)

text \<open>
  Building a scope never panics when the task names a cluster, and panics otherwise.
\<close>

theorem scope_panics_iff:
  "(\<exists>e s'. NewScope L E s = (Panic e, s')) \<longleftrightarrow> ClusterRef (Spec (obj s)) = None"
  by (auto simp: NewScope_def prog_simps Let_def split: option.split sum.split)

text \<open>
  A scope selects the machines by the control plane when the task refers to one, else by its
  machine deployment, and a task that refers to neither is an error: its machines are never listed.
\<close>

theorem scope_machine_selection:
  assumes "NewScope L E s = (Ret (Inr sc), s')"
  shows "\<exists>h ms ls. api_ListMachines E h (Namespace (obj s)) ls = Inr ms \<and>
    UpdateMachines sc = FromMachineList L ms \<and>
    (if IsControlPlane (obj s)
     then ls = [(ClusterNameLabel L, Name (ScopeCluster sc)), (MachineControlPlaneLabel L, '''')]
     else \<exists>md. MachineDeploymentRef (Spec (obj s)) = Some md \<and>
       ls = [(ClusterNameLabel L, Name (ScopeCluster sc)),
             (MachineDeploymentNameLabel L, ref_Name md)])"
  using assms
  by (rule scope_built)
    (fastforce simp: machineLabels_def IsControlPlane_def split: option.splits if_splits)

end
