(* ===== verification/Task_Status.thy ===== *)
theory Task_Status
  imports Task_Scope
begin

text \<open>
  The first phase of a reconciliation (\<open>reconcileStatus\<close> in
  \<open>src/internal/controller/updatetask\_controller.go\<close>): collect the latest node update task of each
  machine, count the machines by state, mark the machines in the task's scope and set the task's
  own state and its TrackOperation condition.
\<close>

section \<open>Model\<close>

definition isMachineInUpdateScope :: "Machine \<Rightarrow> string \<Rightarrow> bool" where
  "isMachineInUpdateScope machine taskName \<longleftrightarrow>
     (case map_get (Annotations machine) UpdateTaskAnnotationName of
        None \<Rightarrow> False
      | Some runningTaskName \<Rightarrow> runningTaskName = taskName)"

text \<open>Whether the task is to be aborted: it is being deleted or its target phase says so.\<close>

definition taskAborting :: "lib \<Rightarrow> UpdateTask \<Rightarrow> bool" where
  "taskAborting L task \<longleftrightarrow>
     \<not> TimeIsZero L (DeletionTimestamp task) \<or> TargetPhase (Spec task) = UpdateTaskPhaseAbort"

type_synonym statusMap = "string \<rightharpoonup> NodeUpdateTaskStatus"

text \<open>One node update task goes into the map; of several for a machine the latest created stays.\<close>

definition recordStatus :: "lib \<Rightarrow> NodeUpdateTaskStatus \<Rightarrow> statusMap \<Rightarrow> statusMap" where
  "recordStatus L nodeUpdateStatus m =
     (case m (nus_MachineName nodeUpdateStatus) of
        Some existing \<Rightarrow>
          if TimeBefore L (nus_CreationTimestamp existing) (nus_CreationTimestamp nodeUpdateStatus)
          then m(nus_MachineName nodeUpdateStatus \<mapsto> nodeUpdateStatus) else m
      | None \<Rightarrow> m(nus_MachineName nodeUpdateStatus \<mapsto> nodeUpdateStatus))"

fun collectStatuses :: "lib \<Rightarrow> Unstructured list \<Rightarrow> statusMap \<Rightarrow> goerr + statusMap" where
  "collectStatuses L [] m = Inr m"
| "collectStatuses L (nodeUpdateTask # rest) m =
     (case GetNodeUpdateTaskStatus L nodeUpdateTask of
        Inl err \<Rightarrow> Inl err
      | Inr nodeUpdateStatus \<Rightarrow> collectStatuses L rest (recordStatus L nodeUpdateStatus m))"

record UpdateCounts =
  n_updated :: nat
  n_aborted :: nat
  n_failed :: nat
  n_inProgress :: nat
  n_waitForUpdate :: nat
  n_total :: nat

definition zeroCounts :: UpdateCounts where
  "zeroCounts = \<lparr>n_updated = 0, n_aborted = 0, n_failed = 0, n_inProgress = 0,
     n_waitForUpdate = 0, n_total = 0\<rparr>"

definition countState :: "UpdateTaskState \<Rightarrow> UpdateCounts \<Rightarrow> UpdateCounts" where
  "countState state c =
     (if state = UpdateTaskStateUpdated then c\<lparr>n_updated := n_updated c + 1\<rparr>
      else if state = UpdateTaskStateAborted then c\<lparr>n_aborted := n_aborted c + 1\<rparr>
      else if state = UpdateTaskStateFailed then c\<lparr>n_failed := n_failed c + 1\<rparr>
      else if state = UpdateTaskStateInProgress \<or> state = UpdateTaskStateUnknown
      then c\<lparr>n_inProgress := n_inProgress c + 1\<rparr>
      else c)"

definition tally :: "string \<Rightarrow> statusMap \<Rightarrow> Machine \<Rightarrow> UpdateCounts \<Rightarrow> UpdateCounts" where
  "tally taskName m machine c =
     (case m (Name machine) of
        Some nodeUpdateStatus \<Rightarrow>
          (let c' = countState (nus_State nodeUpdateStatus) c in c'\<lparr>n_total := n_total c' + 1\<rparr>)
      | None \<Rightarrow>
          if isMachineInUpdateScope machine taskName
          then c\<lparr>n_waitForUpdate := n_waitForUpdate c + 1, n_total := n_total c + 1\<rparr>
          else c)"

text \<open>The MachineUpToDate condition that shows the state of a machine's node update.\<close>

definition markMachine :: "lib \<Rightarrow> NodeUpdateTaskStatus option \<Rightarrow> Machine \<Rightarrow> Machine" where
  "markMachine L nodeUpdateStatus machine = machine\<lparr>MachineConditions :=
     (case nodeUpdateStatus of
        Some st \<Rightarrow>
          if nus_State st = UpdateTaskStateUpdated
          then MarkTrue L MachineUpToDate (MachineConditions machine)
          else if nus_State st = UpdateTaskStateAborted
          then MarkFalse L MachineUpToDate ''Aborted'' ConditionSeverityInfo ''Aborted''
                 (MachineConditions machine)
          else if nus_State st = UpdateTaskStateFailed
          then MarkFalse L MachineUpToDate ''Failed'' ConditionSeverityError ''Failed''
                 (MachineConditions machine)
          else if nus_State st = UpdateTaskStateInProgress
          then MarkFalse L MachineUpToDate ''InProgress'' ConditionSeverityInfo ''InProgress''
                 (MachineConditions machine)
          else MachineConditions machine
      | None \<Rightarrow> MarkFalse L MachineUpToDate ''WaitForUpdate'' ConditionSeverityInfo ''WaitForUpdate''
                 (MachineConditions machine))\<rparr>"

text \<open>One turn of the machine loop; a failing helper or patch is logged and the loop goes on.\<close>

definition statusMachine ::
  "lib \<Rightarrow> env \<Rightarrow> string \<Rightarrow> statusMap \<Rightarrow> Machine \<Rightarrow> UpdateCounts \<Rightarrow>
     ('o mem, (UpdateCounts, Result \<times> goerr option) flow) prog" where
  "statusMachine L E taskName m machine c =
     (let c' = tally taskName m machine c in
      if isMachineInUpdateScope machine taskName then
        andThen (consult (\<lambda>h. NewMachineHelper E h machine)) (\<lambda>e. case e of
            Some _ \<Rightarrow> return (Continue c')
          | None \<Rightarrow>
          (let machine' = markMachine L (m (Name machine)) machine in
           andThen (invoke (PatchMachine machine machine')
               (\<lambda>h. api_PatchMachine E h machine machine'))
             (\<lambda>_. return (Continue c'))))
      else return (Continue c'))"

text \<open>The message of the TrackOperation condition; \<open>word\<close> is \<open>inProgress\<close> or \<open>aborting\<close>.\<close>

definition progressMessage :: "string \<Rightarrow> UpdateCounts \<Rightarrow> string" where
  "progressMessage word c =
     dec (n_updated c) @ '' updated, '' @ dec (n_failed c) @ '' failed, '' @
     dec (n_aborted c) @ '' aborted, '' @ dec (n_inProgress c) @ '' '' @ word @ '', '' @
     dec (n_waitForUpdate c) @ '' waitForUpdate''"

definition trackTask :: "lib \<Rightarrow> UpdateCounts \<Rightarrow> UpdateTask \<Rightarrow> UpdateTask" where
  "trackTask L c task =
     (if taskAborting L task then
        if n_inProgress c = 0 then
          onConditions (MarkTrue L TrackOperationCondition)
            (setState UpdateTaskStateAborted task)
        else
          onConditions (MarkFalse L TrackOperationCondition ''Aborting'' ConditionSeverityInfo
              (progressMessage ''aborting'' c))
            (setState UpdateTaskStateInProgress task)
      else
        if n_total c = n_updated c then
          onConditions (MarkTrue L TrackOperationCondition)
            (setState UpdateTaskStateUpdated task)
        else
          onConditions (MarkFalse L TrackOperationCondition ''InProgress'' ConditionSeverityInfo
              (progressMessage ''inProgress'' c))
            (setState UpdateTaskStateInProgress task))"

definition reconcileStatus ::
  "lib \<Rightarrow> env \<Rightarrow> UpdateTaskScope \<Rightarrow> (UpdateTask mem, Result \<times> goerr option) prog" where
  "reconcileStatus L E scope =
     (case collectStatuses L (NodeUpdateTasks scope) Map.empty of
        Inl err \<Rightarrow> return (zeroResult, Some err)
      | Inr m \<Rightarrow>
        andThen (gets obj) (\<lambda>task.
        andThen (foreach (statusMachine L E (Name task) m)
            (SortedByCreationTimestamp L (UpdateMachines scope)) zeroCounts)
          (\<lambda>f. case f of
             Break r \<Rightarrow> return r
           | Continue c \<Rightarrow>
             andThen (change (trackTask L c)) (\<lambda>_. return (zeroResult, None)))))"


section \<open>The counts\<close>

definition stateOf :: "statusMap \<Rightarrow> Machine \<Rightarrow> UpdateTaskState option" where
  "stateOf m machine = map_option nus_State (m (Name machine))"

definition tracked :: "string \<Rightarrow> statusMap \<Rightarrow> Machine \<Rightarrow> bool" where
  "tracked taskName m machine \<longleftrightarrow>
     m (Name machine) \<noteq> None \<or> isMachineInUpdateScope machine taskName"

text \<open>What the counters are meant to hold: how many machines are in each situation.\<close>

definition census :: "string \<Rightarrow> statusMap \<Rightarrow> Machine list \<Rightarrow> UpdateCounts" where
  "census taskName m machines =
     \<lparr>n_updated = length (filter (\<lambda>x. stateOf m x = Some UpdateTaskStateUpdated) machines),
      n_aborted = length (filter (\<lambda>x. stateOf m x = Some UpdateTaskStateAborted) machines),
      n_failed = length (filter (\<lambda>x. stateOf m x = Some UpdateTaskStateFailed) machines),
      n_inProgress = length (filter (\<lambda>x. stateOf m x = Some UpdateTaskStateInProgress \<or>
          stateOf m x = Some UpdateTaskStateUnknown) machines),
      n_waitForUpdate = length (filter (\<lambda>x. m (Name x) = None \<and>
          isMachineInUpdateScope x taskName) machines),
      n_total = length (filter (tracked taskName m) machines)\<rparr>"

definition addCounts :: "UpdateCounts \<Rightarrow> UpdateCounts \<Rightarrow> UpdateCounts" where
  "addCounts c d =
     \<lparr>n_updated = n_updated c + n_updated d, n_aborted = n_aborted c + n_aborted d,
      n_failed = n_failed c + n_failed d, n_inProgress = n_inProgress c + n_inProgress d,
      n_waitForUpdate = n_waitForUpdate c + n_waitForUpdate d, n_total = n_total c + n_total d\<rparr>"

lemma addCounts_zero [simp]: "addCounts zeroCounts c = c" "addCounts c zeroCounts = c"
  by (simp_all add: addCounts_def zeroCounts_def)

lemma addCounts_assoc: "addCounts (addCounts a b) c = addCounts a (addCounts b c)"
  by (simp add: addCounts_def)

lemma census_Nil [simp]: "census taskName m [] = zeroCounts"
  by (simp add: census_def zeroCounts_def)

lemma tally_census: "tally taskName m x c = addCounts c (census taskName m [x])"
  by (cases "m (Name x)")
    (auto simp: tally_def addCounts_def census_def stateOf_def tracked_def countState_def Let_def)

lemma census_Cons: "census taskName m (x # xs) =
    addCounts (census taskName m [x]) (census taskName m xs)"
  by (simp add: census_def addCounts_def)

lemma census_machine:
  "n_total (census taskName m machines) = length (filter (tracked taskName m) machines)"
  "n_updated (census taskName m machines) =
     length (filter (\<lambda>x. stateOf m x = Some UpdateTaskStateUpdated) machines)"
  "n_inProgress (census taskName m machines) =
     length (filter (\<lambda>x. stateOf m x = Some UpdateTaskStateInProgress \<or>
       stateOf m x = Some UpdateTaskStateUnknown) machines)"
  by (simp_all add: census_def)

section \<open>The machine loop\<close>

definition machinePatch :: "lib \<Rightarrow> statusMap \<Rightarrow> Machine \<Rightarrow> call" where
  "machinePatch L m machine = PatchMachine machine (markMachine L (m (Name machine)) machine)"

lemma run_statusMachine:
  "statusMachine L E taskName m machine c s =
     (Ret (Continue (tally taskName m machine c)),
      s\<lparr>calls := calls s @
         (if isMachineInUpdateScope machine taskName \<and> NewMachineHelper E (calls s) machine = None
          then [machinePatch L m machine] else [])\<rparr>)"
  by (simp add: statusMachine_def machinePatch_def prog_simps Let_def split: option.split)

fun is_machine_mark :: "lib \<Rightarrow> string \<Rightarrow> statusMap \<Rightarrow> call \<Rightarrow> bool" where
  "is_machine_mark L taskName m (PatchMachine before after) =
     (isMachineInUpdateScope before taskName \<and> after = markMachine L (m (Name before)) before)"
| "is_machine_mark L taskName m _ = False"

lemma machinePatch_mark [simp]:
  "is_machine_mark L taskName m (machinePatch L m x) = isMachineInUpdateScope x taskName"
  by (simp add: machinePatch_def)

lemma is_machine_mark_simps [simp]:
  "is_machine_mark L n m c \<Longrightarrow> is_patch_machine c"
  "is_machine_mark L n m c \<Longrightarrow> \<not> is_create_node c"
  "is_machine_mark L n m c \<Longrightarrow> \<not> is_patch_task c"
  "is_machine_mark L n m c \<Longrightarrow> \<not> is_abort_node c"
  by (cases c; simp)+

lemma run_statusLoop:
  "\<exists>cs. foreach (statusMachine L E taskName m) machines c s =
      (Ret (Continue (addCounts c (census taskName m machines))), s\<lparr>calls := calls s @ cs\<rparr>) \<and>
    list_all (is_machine_mark L taskName m) cs \<and>
    ((\<forall>h x. NewMachineHelper E h x = None) \<longrightarrow>
      cs = map (machinePatch L m) (filter (\<lambda>x. isMachineInUpdateScope x taskName) machines))"
proof (induction machines arbitrary: c s)
  case Nil
  show ?case by (intro exI [of _ "[]"]) (simp add: prog_simps)
next
  case (Cons x xs)
  let ?ds = "if isMachineInUpdateScope x taskName \<and> NewMachineHelper E (calls s) x = None
    then [machinePatch L m x] else []"
  obtain cs where cs: "foreach (statusMachine L E taskName m) xs (tally taskName m x c)
      (s\<lparr>calls := calls s @ ?ds\<rparr>) =
      (Ret (Continue (addCounts (tally taskName m x c) (census taskName m xs))),
       s\<lparr>calls := (calls s @ ?ds) @ cs\<rparr>)"
    "list_all (is_machine_mark L taskName m) cs"
    "(\<forall>h x. NewMachineHelper E h x = None) \<longrightarrow>
      cs = map (machinePatch L m) (filter (\<lambda>x. isMachineInUpdateScope x taskName) xs)"
    using Cons.IH [of "tally taskName m x c" "s\<lparr>calls := calls s @ ?ds\<rparr>"] by auto
  have "addCounts (tally taskName m x c) (census taskName m xs) =
      addCounts c (census taskName m (x # xs))"
    by (simp add: tally_census addCounts_assoc census_Cons [of taskName m x xs])
  with cs show ?case
    by (intro exI [of _ "?ds @ cs"]) (simp add: run_foreach_Cons run_statusMachine [of L E taskName m x c s] del: foreach.simps)
qed

lemma reconcileStatus_error:
  "collectStatuses L (NodeUpdateTasks scope) Map.empty = Inl err \<Longrightarrow>
   reconcileStatus L E scope s = (Ret (zeroResult, Some err), s)"
  by (simp add: reconcileStatus_def prog_simps)

lemma reconcileStatus_done:
  assumes "collectStatuses L (NodeUpdateTasks scope) Map.empty = Inr m"
  shows "\<exists>cs. reconcileStatus L E scope s =
      (Ret (zeroResult, None),
       s\<lparr>calls := calls s @ cs,
         obj := trackTask L (census (Name (obj s)) m
           (SortedByCreationTimestamp L (UpdateMachines scope))) (obj s)\<rparr>) \<and>
    list_all (is_machine_mark L (Name (obj s)) m) cs \<and>
    ((\<forall>h x. NewMachineHelper E h x = None) \<longrightarrow>
      cs = map (machinePatch L m) (filter (\<lambda>x. isMachineInUpdateScope x (Name (obj s)))
        (SortedByCreationTimestamp L (UpdateMachines scope))))"
proof -
  let ?machines = "SortedByCreationTimestamp L (UpdateMachines scope)"
  obtain cs where cs: "foreach (statusMachine L E (Name (obj s)) m) ?machines zeroCounts s =
      (Ret (Continue (census (Name (obj s)) m ?machines)), s\<lparr>calls := calls s @ cs\<rparr>)"
    "list_all (is_machine_mark L (Name (obj s)) m) cs"
    "(\<forall>h x. NewMachineHelper E h x = None) \<longrightarrow>
      cs = map (machinePatch L m) (filter (\<lambda>x. isMachineInUpdateScope x (Name (obj s))) ?machines)"
    using run_statusLoop [of L E "Name (obj s)" m ?machines zeroCounts s] by auto
  then show ?thesis
    using assms by (intro exI [of _ cs]) (simp add: reconcileStatus_def prog_simps)
qed

interpretation status_marks: calling "reconcileStatus L E" is_patch_machine for L E
proof unfold_locales
  fix scope
  show "emits is_patch_machine (reconcileStatus L E scope)"
    unfolding emits_def
  proof
    fix s
    show "\<exists>cs. calls (snd (reconcileStatus L E scope s)) = calls s @ cs \<and>
        list_all is_patch_machine cs"
    proof (cases "collectStatuses L (NodeUpdateTasks scope) Map.empty")
      case (Inl err)
      then show ?thesis by (simp add: reconcileStatus_error)
    next
      case (Inr m)
      from reconcileStatus_done [OF this, of E s] show ?thesis
        by (auto elim!: list.pred_mono_strong)
    qed
  qed
qed

lemma trackTask_frame [simp]:
  "Name (trackTask L c t) = Name t" "Namespace (trackTask L c t) = Namespace t"
  "Finalizers (trackTask L c t) = Finalizers t" "Spec (trackTask L c t) = Spec t"
  "DeletionTimestamp (trackTask L c t) = DeletionTimestamp t"
  "taskAborting L (trackTask L c t) = taskAborting L t"
  by (simp_all add: trackTask_def taskAborting_def)

lemma State_trackTask: "State (Status (trackTask L c t)) =
    (if taskAborting L t
     then (if n_inProgress c = 0 then UpdateTaskStateAborted else UpdateTaskStateInProgress)
     else (if n_total c = n_updated c then UpdateTaskStateUpdated else UpdateTaskStateInProgress))"
  by (simp add: trackTask_def)


section \<open>The status of each machine\<close>

lemma collectStatuses_fold:
  assumes "collectStatuses L us m0 = Inr m"
  shows "\<exists>sts. map (GetNodeUpdateTaskStatus L) us = map Inr sts \<and>
    m = foldl (\<lambda>m st. recordStatus L st m) m0 sts"
  using assms
proof (induction us arbitrary: m0)
  case Nil
  then show ?case by simp
next
  case (Cons u us)
  then obtain st where st: "GetNodeUpdateTaskStatus L u = Inr st"
    and rest: "collectStatuses L us (recordStatus L st m0) = Inr m"
    by (auto split: sum.splits)
  from Cons.IH [OF rest] st show ?case
    by (metis foldl_Cons list.simps(9))
qed

lemma collectStatuses_read:
  assumes "map (GetNodeUpdateTaskStatus L) us = map Inr sts"
  shows "collectStatuses L us m = Inr (foldl (\<lambda>m st. recordStatus L st m) m sts)"
  using assms
proof (induction us arbitrary: m sts)
  case (Cons u us)
  then show ?case by (cases sts) auto
qed simp

lemma collectStatuses_error_iff:
  "(\<exists>err. collectStatuses L us m = Inl err) \<longleftrightarrow> (\<exists>u \<in> set us. \<exists>err. GetNodeUpdateTaskStatus L u = Inl err)"
  by (induction us arbitrary: m) (auto split: sum.split)

definition time_laws :: "lib \<Rightarrow> bool" where
  "time_laws L \<longleftrightarrow> (\<forall>a b. TimeBefore L a b \<longleftrightarrow> a < b)"

lemma recordStatus_at:
  "recordStatus L st m name =
     (if nus_MachineName st \<noteq> name then m name
      else case m name of
        None \<Rightarrow> Some st
      | Some old \<Rightarrow> if TimeBefore L (nus_CreationTimestamp old) (nus_CreationTimestamp st)
                    then Some st else Some old)"
  by (simp add: recordStatus_def split: option.split)

text \<open>\<open>st\<close> is the first of the latest created statuses of the machine.\<close>

definition first_latest :: "string \<Rightarrow> NodeUpdateTaskStatus list \<Rightarrow> NodeUpdateTaskStatus \<Rightarrow> bool" where
  "first_latest name sts st \<longleftrightarrow> (\<exists>xs ys. sts = xs @ st # ys \<and> nus_MachineName st = name \<and>
     (\<forall>x \<in> set xs. nus_MachineName x = name \<longrightarrow> nus_CreationTimestamp x < nus_CreationTimestamp st) \<and>
     (\<forall>y \<in> set ys. nus_MachineName y = name \<longrightarrow> nus_CreationTimestamp y \<le> nus_CreationTimestamp st))"

lemma first_latest_snoc_keep:
  assumes "first_latest name sts st"
    and "nus_MachineName z = name \<Longrightarrow> nus_CreationTimestamp z \<le> nus_CreationTimestamp st"
  shows "first_latest name (sts @ [z]) st"
proof -
  obtain xs ys where "sts = xs @ st # ys" "nus_MachineName st = name"
    "\<forall>x \<in> set xs. nus_MachineName x = name \<longrightarrow> nus_CreationTimestamp x < nus_CreationTimestamp st"
    "\<forall>y \<in> set ys. nus_MachineName y = name \<longrightarrow> nus_CreationTimestamp y \<le> nus_CreationTimestamp st"
    using assms(1) by (auto simp: first_latest_def)
  with assms(2) show ?thesis
    unfolding first_latest_def
    by (intro exI [of _ xs] exI [of _ "ys @ [z]"]) auto
qed

lemma first_latest_snoc_new:
  assumes "nus_MachineName z = name"
    and "\<forall>x \<in> set sts. nus_MachineName x = name \<longrightarrow> nus_CreationTimestamp x < nus_CreationTimestamp z"
  shows "first_latest name (sts @ [z]) z"
  using assms unfolding first_latest_def by (intro exI [of _ sts] exI [of _ "[]"]) auto

lemma first_latest_bound:
  assumes "first_latest name sts st" and "x \<in> set sts" and "nus_MachineName x = name"
  shows "nus_CreationTimestamp x \<le> nus_CreationTimestamp st"
proof -
  obtain xs ys where "sts = xs @ st # ys"
    "\<forall>x \<in> set xs. nus_MachineName x = name \<longrightarrow> nus_CreationTimestamp x < nus_CreationTimestamp st"
    "\<forall>y \<in> set ys. nus_MachineName y = name \<longrightarrow> nus_CreationTimestamp y \<le> nus_CreationTimestamp st"
    using assms(1) by (auto simp: first_latest_def)
  with assms(2,3) show ?thesis by (auto simp: less_imp_le)
qed

lemma fold_latest:
  assumes "time_laws L"
  shows "case foldl (\<lambda>m st. recordStatus L st m) Map.empty sts name of
      None \<Rightarrow> \<forall>x \<in> set sts. nus_MachineName x \<noteq> name
    | Some st \<Rightarrow> first_latest name sts st"
proof (induction sts rule: rev_induct)
  case Nil
  then show ?case by simp
next
  case (snoc z sts)
  let ?m = "foldl (\<lambda>m st. recordStatus L st m) Map.empty sts"
  have at: "foldl (\<lambda>m st. recordStatus L st m) Map.empty (sts @ [z]) name =
      (if nus_MachineName z \<noteq> name then ?m name
       else case ?m name of
         None \<Rightarrow> Some z
       | Some old \<Rightarrow> if TimeBefore L (nus_CreationTimestamp old) (nus_CreationTimestamp z)
                     then Some z else Some old)"
    by (simp add: recordStatus_at [of L z ?m name])
  show ?case
  proof (cases "?m name")
    case None
    with snoc show ?thesis
      unfolding at by (auto intro: first_latest_snoc_new)
  next
    case (Some old)
    with snoc have old: "first_latest name sts old" by simp
    then have "first_latest name (sts @ [z]) z"
      if "nus_MachineName z = name" "nus_CreationTimestamp old < nus_CreationTimestamp z"
      using that by (intro first_latest_snoc_new) (auto dest: first_latest_bound [OF old])
    with Some old assms show ?thesis
      unfolding at by (auto simp: time_laws_def intro: first_latest_snoc_keep)
  qed
qed

lemma fold_None_iff:
  "foldl (\<lambda>m st. recordStatus L st m) m0 sts name = None \<longleftrightarrow>
     m0 name = None \<and> (\<forall>x \<in> set sts. nus_MachineName x \<noteq> name)"
proof (induction sts arbitrary: m0)
  case (Cons st sts)
  have "recordStatus L st m0 name = None \<longleftrightarrow> m0 name = None \<and> nus_MachineName st \<noteq> name"
    by (auto simp: recordStatus_at [of L st m0 name] split: option.split)
  with Cons show ?case by auto
qed simp

text \<open>
  When a machine has several node update tasks, the map built from them holds the latest
  created one (the first of them when creation times are equal), and no entry for a machine
  without any.
\<close>

theorem latest_status_wins:
  assumes "time_laws L" and "collectStatuses L us Map.empty = Inr m"
  shows "\<exists>sts. map (GetNodeUpdateTaskStatus L) us = map Inr sts \<and>
    (\<forall>name. case m name of
        None \<Rightarrow> \<forall>x \<in> set sts. nus_MachineName x \<noteq> name
      | Some st \<Rightarrow> first_latest name sts st)"
  using collectStatuses_fold [OF assms(2)] fold_latest [OF assms(1)] by blast

section \<open>The state of the task\<close>

lemma reconcileStatus_obj:
  assumes "collectStatuses L (NodeUpdateTasks scope) Map.empty = Inr m"
    and "reconcileStatus L E scope s = (r, s')"
  shows "r = Ret (zeroResult, None)" and "obj s' = trackTask L (census (Name (obj s)) m
      (SortedByCreationTimestamp L (UpdateMachines scope))) (obj s)"
  using reconcileStatus_done [OF assms(1), of E s] assms(2) by auto

lemma census_all_updated:
  "n_total (census taskName m xs) = n_updated (census taskName m xs) \<longleftrightarrow>
     (\<forall>x \<in> set xs. tracked taskName m x \<longrightarrow> stateOf m x = Some UpdateTaskStateUpdated)"
  unfolding census_machine eq_commute [of "length (filter (tracked taskName m) xs)"]
  by (rule length_filter_eq_iff) (auto simp: tracked_def stateOf_def)

text \<open>
  C13. While the task updates, it becomes Updated exactly when every machine it tracks (in its scope
  or with a node update task) has a node update that ended Updated; otherwise it is InProgress.
\<close>

theorem update_state:
  assumes "collectStatuses L (NodeUpdateTasks scope) Map.empty = Inr m"
    and "reconcileStatus L E scope s = (r, s')"
    and "\<not> taskAborting L (obj s)"
  shows "State (Status (obj s')) =
    (if \<forall>x \<in> set (SortedByCreationTimestamp L (UpdateMachines scope)).
          tracked (Name (obj s)) m x \<longrightarrow> stateOf m x = Some UpdateTaskStateUpdated
     then UpdateTaskStateUpdated else UpdateTaskStateInProgress)"
  using reconcileStatus_obj(2) [OF assms(1,2)] assms(3)
  by (simp add: State_trackTask census_all_updated)

text \<open>
  C14. While the task aborts, it becomes Aborted exactly when no machine has a node update that is
  in progress or has not reported a state; otherwise it is InProgress. Machines that wait for
  their update do not keep it from aborting.
\<close>

theorem abort_state:
  assumes "collectStatuses L (NodeUpdateTasks scope) Map.empty = Inr m"
    and "reconcileStatus L E scope s = (r, s')"
    and "taskAborting L (obj s)"
  shows "State (Status (obj s')) =
    (if \<forall>x \<in> set (SortedByCreationTimestamp L (UpdateMachines scope)).
          stateOf m x \<noteq> Some UpdateTaskStateInProgress \<and> stateOf m x \<noteq> Some UpdateTaskStateUnknown
     then UpdateTaskStateAborted else UpdateTaskStateInProgress)"
  using reconcileStatus_obj(2) [OF assms(1,2)] assms(3)
  by (auto simp: State_trackTask census_machine length_filter_0_iff filter_empty_conv)

text \<open>A state outside the five the API defines.\<close>

definition oddState :: "statusMap \<Rightarrow> Machine \<Rightarrow> bool" where
  "oddState m x \<longleftrightarrow> (\<exists>st. stateOf m x = Some st \<and>
     st \<notin> {UpdateTaskStateUnknown, UpdateTaskStateInProgress, UpdateTaskStateFailed,
             UpdateTaskStateUpdated, UpdateTaskStateAborted})"

lemma census_sum:
  "n_total (census t m xs) = n_updated (census t m xs) + n_aborted (census t m xs) +
     n_failed (census t m xs) + n_inProgress (census t m xs) +
     n_waitForUpdate (census t m xs) + length (filter (oddState m) xs)"
proof (induction xs)
  case Nil
  then show ?case by (simp add: zeroCounts_def)
next
  case (Cons x xs)
  have "n_total (census t m [x]) = n_updated (census t m [x]) + n_aborted (census t m [x]) +
     n_failed (census t m [x]) + n_inProgress (census t m [x]) +
     n_waitForUpdate (census t m [x]) + length (filter (oddState m) [x])"
    by (cases "m (Name x)") (auto simp: census_def stateOf_def tracked_def oddState_def)
  with Cons show ?case
    by (simp add: census_Cons [of t m x xs] addCounts_def)
qed

text \<open>
  The counters of the machine loop account for every tracked machine: their sum is at most the
  total, and is the total exactly when no node update reports a state outside the five the API
  defines (such a machine is counted in the total only).
\<close>

theorem counters_partition:
  assumes "foreach (statusMachine L E taskName m) machines zeroCounts s = (Ret (Continue c), s')"
  shows "n_updated c + n_aborted c + n_failed c + n_inProgress c + n_waitForUpdate c \<le> n_total c \<and>
    (n_updated c + n_aborted c + n_failed c + n_inProgress c + n_waitForUpdate c = n_total c
      \<longleftrightarrow> (\<forall>x \<in> set machines. \<not> oddState m x))"
proof -
  have "c = census taskName m machines"
    using run_statusLoop [of L E taskName m machines zeroCounts s] assms by auto
  with census_sum [of taskName m machines] show ?thesis
    by (simp add: filter_empty_conv)
qed

section \<open>Marking machines\<close>

text \<open>
  Computing the status only patches machines that are in the task's scope, and each patch only
  sets the MachineUpToDate condition to the state of that machine's node update; when the patch
  helpers can be made, every machine in scope is patched once, in order of creation.
\<close>

theorem status_marks_machines:
  assumes "collectStatuses L (NodeUpdateTasks scope) Map.empty = Inr m"
    and "reconcileStatus L E scope s = (r, s')"
  shows "\<exists>cs. calls s' = calls s @ cs \<and> list_all (is_machine_mark L (Name (obj s)) m) cs \<and>
    ((\<forall>h x. NewMachineHelper E h x = None) \<longrightarrow>
      cs = map (\<lambda>x. PatchMachine x (markMachine L (m (Name x)) x))
        (filter (\<lambda>x. isMachineInUpdateScope x (Name (obj s)))
          (SortedByCreationTimestamp L (UpdateMachines scope))))"
proof -
  obtain cs where "reconcileStatus L E scope s =
      (Ret (zeroResult, None),
       s\<lparr>calls := calls s @ cs,
         obj := trackTask L (census (Name (obj s)) m
           (SortedByCreationTimestamp L (UpdateMachines scope))) (obj s)\<rparr>)"
    "list_all (is_machine_mark L (Name (obj s)) m) cs"
    "(\<forall>h x. NewMachineHelper E h x = None) \<longrightarrow>
      cs = map (machinePatch L m) (filter (\<lambda>x. isMachineInUpdateScope x (Name (obj s)))
        (SortedByCreationTimestamp L (UpdateMachines scope)))"
    using reconcileStatus_done [OF assms(1), of E s] by blast
  with assms(2) show ?thesis by (auto simp: machinePatch_def [abs_def])
qed

text \<open>
  When the status of a node update task cannot be read, the status phase fails with an error
  and changes nothing: neither the task nor any machine.
\<close>

theorem status_error_changes_nothing:
  assumes "u \<in> set (NodeUpdateTasks scope)" and "GetNodeUpdateTaskStatus L u = Inl e"
  shows "\<exists>err. reconcileStatus L E scope s = (Ret (zeroResult, Some err), s)"
proof -
  obtain err where "collectStatuses L (NodeUpdateTasks scope) Map.empty = Inl err"
    using collectStatuses_error_iff [of L "NodeUpdateTasks scope" Map.empty] assms by blast
  then show ?thesis by (auto simp: reconcileStatus_error)
qed

section \<open>The progress message\<close>

text \<open>
  The progress message tells the five counters apart: two messages with the same word are
  equal only when all five counters are.
\<close>

theorem progressMessage_injective:
  assumes "progressMessage word c = progressMessage word d"
  shows "n_updated c = n_updated d \<and> n_failed c = n_failed d \<and> n_aborted c = n_aborted d \<and>
    n_inProgress c = n_inProgress d \<and> n_waitForUpdate c = n_waitForUpdate d"
  using assms by (simp add: progressMessage_def)

end
