(* ===== verification/Kubeadm_Preflight.thy ===== *)
theory Kubeadm_Preflight
  imports Trace
begin

text \<open>
  \<open>src/internal/controller/controlplanes/kubeadm.go\<close>: the check that a kubeadm control plane is
  stable before a node of it is updated. The text of the collected machine errors is only logged;
  whether there are any decides.
\<close>

section \<open>Model\<close>

definition deleteRequeueAfter :: Duration where
  "deleteRequeueAfter = 30 * Second"

definition preflightFailedRequeueAfter :: Duration where
  "preflightFailedRequeueAfter = 15 * Second"

definition dependentCertRequeueAfter :: Duration where
  "dependentCertRequeueAfter = 30 * Second"

lemma preflight_delays_nonzero [simp]:
  "deleteRequeueAfter \<noteq> 0" "preflightFailedRequeueAfter \<noteq> 0"
  by (simp_all add: deleteRequeueAfter_def preflightFailedRequeueAfter_def)

definition isEtcdManaged :: "KubeadmControlPlane \<Rightarrow> bool" where
  "isEtcdManaged controlPlane \<longleftrightarrow>
     (case ClusterConfig controlPlane of
        None \<Rightarrow> True
      | Some cfg \<Rightarrow> EtcdExternal cfg = None)"

definition preflightCheckCondition :: "lib \<Rightarrow> string \<Rightarrow> Machine \<Rightarrow> string \<Rightarrow> goerr option" where
  "preflightCheckCondition L kind machine condition =
     (case GetCondition L (MachineConditions machine) condition of
        None \<Rightarrow> Some (errors_New L
          (kind @ '' '' @ Name machine @ '' does not have '' @ condition @ '' condition''))
      | Some c \<Rightarrow>
        if cond_Status c = ConditionFalse then Some (errors_New L
          (kind @ '' '' @ Name machine @ '' reports '' @ condition @ '' condition is false (''
             @ SeverityText L (cond_Severity c) @ '', '' @ cond_Message c @ '')''))
        else if cond_Status c = ConditionUnknown then Some (errors_New L
          (kind @ '' '' @ Name machine @ '' reports '' @ condition @ '' condition is unknown (''
             @ cond_Message c @ '')''))
        else None)"

definition allMachineHealthConditions :: "lib \<Rightarrow> KubeadmControlPlane \<Rightarrow> string list" where
  "allMachineHealthConditions L controlPlane =
     [MachineAPIServerPodHealthyCondition L,
      MachineControllerManagerPodHealthyCondition L,
      MachineSchedulerPodHealthyCondition L] @
     (if isEtcdManaged controlPlane
      then [MachineEtcdPodHealthyCondition L, MachineEtcdMemberHealthyCondition L]
      else [])"

text \<open>The errors of one turn of the machine loop, and of the whole loop.\<close>

definition machineErrorsOf :: "lib \<Rightarrow> string list \<Rightarrow> Machine list \<Rightarrow> Machine \<Rightarrow> goerr list" where
  "machineErrorsOf L conditions excludeFor machine =
     (if list_ex (\<lambda>excluded. Name machine = Name excluded) excludeFor then []
      else if NodeRef machine = None then
        [errors_New L (''Machine '' @ Name machine @
           '' does not have a corresponding Node yet (Machine.status.nodeRef not set)'')]
      else concat (map (\<lambda>condition. case preflightCheckCondition L ''Machine'' machine condition of
          None \<Rightarrow> [] | Some err \<Rightarrow> [err]) conditions))"

definition machineErrors :: "lib \<Rightarrow> string list \<Rightarrow> Machine list \<Rightarrow> Machines \<Rightarrow> goerr list" where
  "machineErrors L conditions excludeFor cpMachines =
     concat (map (\<lambda>(_, machine). machineErrorsOf L conditions excludeFor machine) cpMachines)"

definition preflightChecks ::
  "lib \<Rightarrow> env \<Rightarrow> KubeadmControlPlane \<Rightarrow> Machine list \<Rightarrow> ('o mem, Result \<times> goerr option) prog" where
  "preflightChecks L E controlPlane excludeFor =
     (case map_get (Labels controlPlane) (ClusterNameLabel L) of
        None \<Rightarrow> return (zeroResult,
          Some (errors_New L ''controlplane don't have clusterName label''))
      | Some clusterName \<Rightarrow>
     (let ls = [(ClusterNameLabel L, clusterName),
                (MachineControlPlaneNameLabel L, Name controlPlane)]
      in andThen (invoke (ListMachines (Namespace controlPlane) ls)
           (\<lambda>h. api_ListMachines E h (Namespace controlPlane) ls))
         (\<lambda>r. case r of
            Inl err \<Rightarrow> return (zeroResult, Some err)
          | Inr machineList \<Rightarrow>
         (let cpMachines = FromMachineList L machineList in
          if length cpMachines = 0 then return (zeroResult, None)
          else if 0 < length (FilterMachines L (HasDeletionTimestamp L) cpMachines)
          then return (requeueAfter deleteRequeueAfter, None)
          else if 0 < length (machineErrors L (allMachineHealthConditions L controlPlane)
                                excludeFor cpMachines)
          then return (requeueAfter preflightFailedRequeueAfter, None)
          else return (zeroResult, None)))))"

definition PreflightCheckForKubeadmControlPlane ::
  "lib \<Rightarrow> env \<Rightarrow> string \<Rightarrow> ObjectReference \<Rightarrow> ('o mem, Result \<times> goerr option) prog" where
  "PreflightCheckForKubeadmControlPlane L E namespace controlPlaneRef =
     andThen (invoke (GetKubeadmControlPlane namespace (ref_Name controlPlaneRef))
         (\<lambda>h. api_GetKubeadmControlPlane E h namespace (ref_Name controlPlaneRef)))
       (\<lambda>r. case r of
          Inl err \<Rightarrow> return (zeroResult,
            Some (errors_Wrap L err ''cannot get KubeadmControlPlane from reference''))
        | Inr controlPlane \<Rightarrow> preflightChecks L E controlPlane [])"

section \<open>Effects\<close>

interpretation preflight_reads: reading "PreflightCheckForKubeadmControlPlane L E ns" for L E ns
  by unfold_locales
    (auto simp: PreflightCheckForKubeadmControlPlane_def preflightChecks_def intro!: emits_intros)

interpretation preflight_frozen: frozen "PreflightCheckForKubeadmControlPlane L E ns" for L E ns
  by unfold_locales
    (simp add: PreflightCheckForKubeadmControlPlane_def preflightChecks_def prog_simps Let_def
       split: option.split sum.split)

lemma preflight_no_panic:
  "\<exists>r s'. PreflightCheckForKubeadmControlPlane L E ns ref s = (Ret r, s')"
  by (auto simp: PreflightCheckForKubeadmControlPlane_def preflightChecks_def prog_simps Let_def
       split: option.split sum.split)

section \<open>When the check passes\<close>

text \<open>The specification: a machine is healthy when it has a node and no required condition is bad.\<close>

definition condition_good :: "lib \<Rightarrow> Machine \<Rightarrow> string \<Rightarrow> bool" where
  "condition_good L machine condition \<longleftrightarrow>
     (\<exists>c. GetCondition L (MachineConditions machine) condition = Some c \<and>
        cond_Status c \<noteq> ConditionFalse \<and> cond_Status c \<noteq> ConditionUnknown)"

definition machine_healthy :: "lib \<Rightarrow> KubeadmControlPlane \<Rightarrow> Machine \<Rightarrow> bool" where
  "machine_healthy L controlPlane machine \<longleftrightarrow>
     NodeRef machine \<noteq> None \<and>
     (\<forall>condition \<in> set (allMachineHealthConditions L controlPlane).
        condition_good L machine condition)"

text \<open>
  Documented behaviour of \<open>collections\<close>: a machine collection made from a list of machines with
  distinct names holds exactly these machines under their names; a filter keeps the machines that
  satisfy it; sorting by creation time loses and adds none.
\<close>

definition collections_laws :: "lib \<Rightarrow> bool" where
  "collections_laws L \<longleftrightarrow>
     (\<forall>ms. distinct (map Name ms) \<longrightarrow>
        set (map snd (FromMachineList L ms)) = set ms \<and>
        distinct (map fst (FromMachineList L ms)) \<and>
        (\<forall>(k, m) \<in> set (FromMachineList L ms). k = Name m)) \<and>
     (\<forall>p xs. set (FilterMachines L p xs) = {(k, m) \<in> set xs. p m}) \<and>
     (\<forall>xs. set (SortedByCreationTimestamp L xs) = set (map snd xs)) \<and>
     (\<forall>xs. distinct (map fst xs) \<and> (\<forall>(k, m) \<in> set xs. k = Name m) \<longrightarrow>
        distinct (map Name (SortedByCreationTimestamp L xs)))"

lemma preflightCheckCondition_None [simp]:
  "preflightCheckCondition L kind machine condition = None \<longleftrightarrow> condition_good L machine condition"
  by (auto simp: preflightCheckCondition_def condition_good_def split: option.split)

lemma machineErrorsOf_empty:
  "machineErrorsOf L (allMachineHealthConditions L cp) [] machine = [] \<longleftrightarrow>
     machine_healthy L cp machine"
  by (auto simp: machineErrorsOf_def machine_healthy_def split: option.splits)

lemma machineErrors_empty:
  "machineErrors L (allMachineHealthConditions L cp) [] xs = [] \<longleftrightarrow>
     (\<forall>m \<in> snd ` set xs. machine_healthy L cp m)"
  by (auto simp: machineErrors_def machineErrorsOf_empty)


lemma collections_laws_list:
  assumes "collections_laws L" and "distinct (map Name ms)"
  shows "snd ` set (FromMachineList L ms) = set ms"
    and "distinct (map fst (FromMachineList L ms))"
    and "\<forall>(k, m) \<in> set (FromMachineList L ms). k = Name m"
  using assms by (auto simp: collections_laws_def)

lemma collections_laws_filter:
  assumes "collections_laws L"
  shows "0 < length (FilterMachines L p xs) \<longleftrightarrow> (\<exists>m \<in> snd ` set xs. p m)"
proof -
  have "set (FilterMachines L p xs) = {(k, m) \<in> set xs. p m}"
    using assms by (simp add: collections_laws_def)
  moreover have "0 < length (FilterMachines L p xs) \<longleftrightarrow> set (FilterMachines L p xs) \<noteq> {}"
    by simp
  ultimately show ?thesis by force
qed

lemma preflightChecks_answer:
  assumes laws: "collections_laws L" and "distinct (map Name ms)"
    and "map_get (Labels cp) (ClusterNameLabel L) = Some clusterName"
    and "api_ListMachines E (calls s) (Namespace cp)
      [(ClusterNameLabel L, clusterName), (MachineControlPlaneNameLabel L, Name cp)] = Inr ms"
  shows "fst (preflightChecks L E cp [] s) = Ret
    (if \<exists>m \<in> set ms. HasDeletionTimestamp L m then requeueAfter deleteRequeueAfter
     else if \<exists>m \<in> set ms. \<not> machine_healthy L cp m then requeueAfter preflightFailedRequeueAfter
     else zeroResult, None)"
proof -
  let ?xs = "FromMachineList L ms"
  have all: "snd ` set ?xs = set ms"
    by (rule collections_laws_list [OF laws assms(2)])
  then have "length ?xs = 0 \<longleftrightarrow> ms = []" by force
  moreover have "0 < length (machineErrors L (allMachineHealthConditions L cp) [] ?xs) \<longleftrightarrow>
      (\<exists>m \<in> set ms. \<not> machine_healthy L cp m)"
    using all by (simp add: machineErrors_empty)
  ultimately show ?thesis
    using assms(3,4) collections_laws_filter [OF laws, of "HasDeletionTimestamp L" ?xs] all
    by (simp add: preflightChecks_def prog_simps Let_def)
qed

text \<open>
  C30. The preflight check of a control plane with its cluster label lets the update go on exactly
  when none of its machines is being deleted and each one is healthy (has a node, and every
  required health condition is there and neither False nor Unknown); otherwise it asks to be called
  again in 30 seconds when a machine is being deleted, and in 15 seconds when one is unhealthy. The
  comment above \<open>preflightChecks\<close> also asks for healthy conditions of the control plane itself; the code
  does not look at them, so the answer is the same whatever \<open>ControlPlaneConditions\<close> say.
\<close>

theorem preflight_answer:
  assumes "collections_laws L"
    and "api_GetKubeadmControlPlane E (calls s) ns (ref_Name ref) = Inr cp"
    and "map_get (Labels cp) (ClusterNameLabel L) = Some clusterName"
    and "api_ListMachines E (calls s @ [GetKubeadmControlPlane ns (ref_Name ref)]) (Namespace cp)
      [(ClusterNameLabel L, clusterName), (MachineControlPlaneNameLabel L, Name cp)] = Inr ms"
    and "distinct (map Name ms)"
  shows "fst (PreflightCheckForKubeadmControlPlane L E ns ref s) = Ret
    (if \<exists>m \<in> set ms. HasDeletionTimestamp L m then requeueAfter deleteRequeueAfter
     else if \<exists>m \<in> set ms. \<not> machine_healthy L cp m then requeueAfter preflightFailedRequeueAfter
     else zeroResult, None)"
proof -
  let ?s = "s\<lparr>calls := calls s @ [GetKubeadmControlPlane ns (ref_Name ref)]\<rparr>"
  have "fst (PreflightCheckForKubeadmControlPlane L E ns ref s) = fst (preflightChecks L E cp [] ?s)"
    using assms(2) by (simp add: PreflightCheckForKubeadmControlPlane_def prog_simps)
  also have "\<dots> = Ret
    (if \<exists>m \<in> set ms. HasDeletionTimestamp L m then requeueAfter deleteRequeueAfter
     else if \<exists>m \<in> set ms. \<not> machine_healthy L cp m then requeueAfter preflightFailedRequeueAfter
     else zeroResult, None)"
    by (rule preflightChecks_answer [OF assms(1,5,3)]) (simp add: assms(4))
  finally show ?thesis .
qed

end
