(* ===== verification/Task_Controller.thy ===== *)
theory Task_Controller
  imports Task_Status Kubeadm_Preflight
begin

text \<open>
  The update task controller, \<open>src/internal/controller/updatetask\_controller.go\<close>: the abort phase,
  the update phase and \<open>Reconcile\<close> itself with its deferred patch of the task.
\<close>

section \<open>Model\<close>

definition waitRequeueAfter :: Duration where
  "waitRequeueAfter = 30 * Second"

definition changedRequeueAfter :: Duration where
  "changedRequeueAfter = 100 * Millisecond"

lemma changedRequeueAfter_nonzero [simp]: "changedRequeueAfter \<noteq> 0"
  by (simp add: changedRequeueAfter_def)

subsection \<open>Aborting\<close>

definition abortNode ::
  "lib \<Rightarrow> env \<Rightarrow> Unstructured \<Rightarrow> unit \<Rightarrow> (UpdateTask mem, (unit, Result \<times> goerr option) flow) prog"
where
  "abortNode L E nodeUpdateTask _ =
     (case GetNodeUpdateTaskStatus L nodeUpdateTask of
        Inl err \<Rightarrow> return (Break (zeroResult, Some err))
      | Inr nodeUpdateStatus \<Rightarrow>
        if \<not> IsTerminated (nus_State nodeUpdateStatus) then
          andThen (AbortNodeUpdateTask E nodeUpdateTask) (\<lambda>e. case e of
              Some err \<Rightarrow>
                andThen (change (onConditions (MarkFalse L AbortOperationCondition
                    AbortNodeUpdateFailedReason ConditionSeverityError
                    (''cannot abort nodeUpdateTask. '' @ ErrorText L err))))
                  (\<lambda>_. return (Break (zeroResult, Some err)))
            | None \<Rightarrow> return (Continue ()))
        else return (Continue ()))"

definition reconcileAbort ::
  "lib \<Rightarrow> env \<Rightarrow> UpdateTaskScope \<Rightarrow> (UpdateTask mem, Result \<times> goerr option) prog" where
  "reconcileAbort L E scope =
     andThen (change (onConditions (DeleteCondition L UpdateOperationCondition))) (\<lambda>_.
     andThen (foreach (abortNode L E) (NodeUpdateTasks scope) ()) (\<lambda>f. case f of
         Break r \<Rightarrow> return r
       | Continue _ \<Rightarrow>
         andThen (change (onConditions (MarkTrue L AbortOperationCondition)))
           (\<lambda>_. return (zeroResult, None))))"

subsection \<open>Updating\<close>

definition nodeFailedMessage :: string where
  "nodeFailedMessage = ''nodeUpdate failed, cluster UpdateTask will get blocked. If MachineHealthCheck is configured, then UpdateTask will continue once failed machine get remediated''"

definition scanNode ::
  "lib \<Rightarrow> Unstructured \<Rightarrow> statusMap \<Rightarrow>
     (UpdateTask mem, (statusMap, Result \<times> goerr option) flow) prog" where
  "scanNode L nodeUpdateTask m =
     (case GetNodeUpdateTaskStatus L nodeUpdateTask of
        Inl err \<Rightarrow> return (Break (zeroResult, Some err))
      | Inr nodeUpdateStatus \<Rightarrow>
        (let m' = recordStatus L nodeUpdateStatus m in
         if \<not> IsTerminated (nus_State nodeUpdateStatus) then
           andThen (change (onConditions (MarkTrue L UpdateOperationCondition)))
             (\<lambda>_. return (Break (zeroResult, None)))
         else if nus_State nodeUpdateStatus = UpdateTaskStateFailed then
           andThen (change (onConditions (MarkFalse L UpdateOperationCondition
               NodeUpdateFailedReason ConditionSeverityError nodeFailedMessage)))
             (\<lambda>_. return (Break (zeroResult, None)))
         else return (Continue m')))"

definition preflightMessage :: string where
  "preflightMessage = ''controlplane preflight check failed''"

definition controlPlanePreflight ::
  "lib \<Rightarrow> env \<Rightarrow> (UpdateTask mem, (unit, Result \<times> goerr option) flow) prog" where
  "controlPlanePreflight L E =
     andThen (gets obj) (\<lambda>task.
     case ControlPlaneRef (Spec task) of
       None \<Rightarrow> return (Continue ())
     | Some ref \<Rightarrow>
       if ref_Kind ref = ''KubeadmControlPlane'' then
         andThen (PreflightCheckForKubeadmControlPlane L E (Namespace task) ref)
           (\<lambda>(result, err).
             if err \<noteq> None \<or> \<not> ResultIsZero L result then
               andThen (change (onConditions (MarkFalse L UpdateOperationCondition
                   PreflightCheckFailedReason ConditionSeverityWarning preflightMessage)))
                 (\<lambda>_. return (Break (result, err)))
             else
               andThen (change (onConditions (MarkTrue L UpdateOperationCondition)))
                 (\<lambda>_. return (Continue ())))
       else return (Continue ()))"

text \<open>The creation branch of the machine loop: every path returns.\<close>

definition createForMachine ::
  "lib \<Rightarrow> env \<Rightarrow> Machine \<Rightarrow> (UpdateTask mem, (unit, Result \<times> goerr option) flow) prog" where
  "createForMachine L E machine =
     andThen (CreateNodeUpdateTask L E machine) (\<lambda>(_, e). case e of
         Some err \<Rightarrow>
           andThen (change (onConditions (MarkFalse L UpdateOperationCondition
               CreateNodeUpdateFailedReason ConditionSeverityError
               (''unable to create nodeUpdateTask. '' @ ErrorText L err))))
             (\<lambda>_. return (Break (zeroResult, Some err)))
       | None \<Rightarrow>
           andThen (change (onConditions (MarkTrue L UpdateOperationCondition)))
             (\<lambda>_. return (Break (requeueAfter changedRequeueAfter, None))))"

definition updateMachine ::
  "lib \<Rightarrow> env \<Rightarrow> statusMap \<Rightarrow> Machine \<Rightarrow> unit \<Rightarrow>
     (UpdateTask mem, (unit, Result \<times> goerr option) flow) prog" where
  "updateMachine L E m machine _ =
     (if m (Name machine) = None then
        andThen (gets obj) (\<lambda>task.
        if \<not> isMachineInUpdateScope machine (Name task) then return (Continue ())
        else createForMachine L E machine)
      else return (Continue ()))"

definition reconcileNormal ::
  "lib \<Rightarrow> env \<Rightarrow> UpdateTaskScope \<Rightarrow> (UpdateTask mem, Result \<times> goerr option) prog" where
  "reconcileNormal L E scope =
     andThen (foreach (scanNode L) (NodeUpdateTasks scope) Map.empty) (\<lambda>f. case f of
         Break r \<Rightarrow> return r
       | Continue m \<Rightarrow>
     andThen (controlPlanePreflight L E) (\<lambda>f. case f of
         Break r \<Rightarrow> return r
       | Continue _ \<Rightarrow>
     andThen (foreach (updateMachine L E m)
         (SortedByCreationTimestamp L (UpdateMachines scope)) ()) (\<lambda>f. case f of
         Break r \<Rightarrow> return r
       | Continue _ \<Rightarrow>
     andThen (change (onConditions (MarkTrue L UpdateOperationCondition)))
       (\<lambda>_. return (zeroResult, None)))))"

subsection \<open>Reconcile\<close>

text \<open>
  The part of \<open>Reconcile\<close> after the deferred call is set up: the phases of a task that holds its
  finalizer, and the guard that adds the finalizer first.
\<close>

definition reconcilePhases :: "lib \<Rightarrow> env \<Rightarrow> (UpdateTask mem, Result \<times> goerr option) prog" where
  "reconcilePhases L E =
     andThen (NewScope L E) (\<lambda>r. case r of
         Inl err \<Rightarrow> return (zeroResult, Some err)
       | Inr scope \<Rightarrow>
     andThen (reconcileStatus L E scope) (\<lambda>(result, err).
       if err \<noteq> None then return (result, err)
       else
     andThen (gets obj) (\<lambda>task.
       if taskAborting L task then
         andThen (reconcileAbort L E scope) (\<lambda>(result, err).
           if err \<noteq> None \<or> \<not> ResultIsZero L result then return (result, err)
           else return (zeroResult, None))
       else if TargetPhase (Spec task) = UpdateTaskPhaseUpdate then
         andThen (reconcileNormal L E scope) (\<lambda>(result, err).
           if err \<noteq> None \<or> \<not> ResultIsZero L result then return (result, err)
           else return (zeroResult, None))
       else return (zeroResult, None))))"

definition reconcileTask :: "lib \<Rightarrow> env \<Rightarrow> (UpdateTask mem, Result \<times> goerr option) prog" where
  "reconcileTask L E =
     andThen (gets obj) (\<lambda>task.
     if \<not> ContainsFinalizer L (Finalizers task) UpdateTaskFinalizer then
       andThen (change (\<lambda>t. t\<lparr>Finalizers := AddFinalizer L (Finalizers t) UpdateTaskFinalizer\<rparr>))
         (\<lambda>_. return (requeueAfter changedRequeueAfter, None))
     else reconcilePhases L E)"

definition summaryConditions :: "string list" where
  "summaryConditions = [UpdateOperationCondition, AbortOperationCondition, TrackOperationCondition]"

text \<open>What the deferred call makes of the task before it is patched.\<close>

definition finishTask :: "lib \<Rightarrow> UpdateTask \<Rightarrow> UpdateTask" where
  "finishTask L task =
     onConditions (SetSummary L summaryConditions)
       (if IsTerminated (State (Status task))
        then task\<lparr>Finalizers := RemoveFinalizer L (Finalizers task) UpdateTaskFinalizer\<rparr>
        else task)"

definition finishResult :: "lib \<Rightarrow> UpdateTask \<Rightarrow> Result \<times> goerr option \<Rightarrow> Result" where
  "finishResult L task r =
     (if IsTerminated (State (Status task)) then fst r
      else if snd r = None \<and> ResultIsZero L (fst r) then (fst r)\<lparr>Requeue := True\<rparr>
      else fst r)"

definition deferredPatch ::
  "lib \<Rightarrow> env \<Rightarrow> UpdateTask \<Rightarrow> Result \<times> goerr option \<Rightarrow>
     (UpdateTask mem, Result \<times> goerr option) prog" where
  "deferredPatch L E before r =
     andThen (gets obj) (\<lambda>task.
     andThen (change (finishTask L)) (\<lambda>_.
     andThen (gets obj) (\<lambda>after.
     andThen (invoke (PatchTask before after) (\<lambda>h. api_PatchTask E h before after)) (\<lambda>e.
       case e of
         None \<Rightarrow> return (finishResult L task r, snd r)
       | Some err \<Rightarrow> return (finishResult L task r, NewAggregate L [snd r, Some err])))))"

text \<open>
  \<open>Reconcile\<close> runs on the call history alone: the task lives in memory only while it runs.
\<close>

definition Reconcile ::
  "lib \<Rightarrow> env \<Rightarrow> string \<Rightarrow> string \<Rightarrow> history \<Rightarrow> (Result \<times> goerr option) outcome \<times> history" where
  "Reconcile L E namespace name h0 =
     (let h = h0 @ [GetUpdateTask namespace name] in
      case api_GetUpdateTask E h0 namespace name of
        Inl err \<Rightarrow>
          (Ret (if IsNotFound L err then (zeroResult, None) else (zeroResult, Some err)), h)
      | Inr task \<Rightarrow>
        (case NewTaskHelper E h task of
           Some err \<Rightarrow> (Ret (zeroResult, Some err), h)
         | None \<Rightarrow>
           (case withDefer (reconcileTask L E) (zeroResult, None) (deferredPatch L E task)
                   \<lparr>calls = h, obj = task\<rparr> of
              (r, s) \<Rightarrow> (r, calls s))))"


section \<open>The abort phase\<close>

interpretation abort_phase: calling "reconcileAbort L E" is_abort_node for L E
  by unfold_locales
    (auto simp: reconcileAbort_def abortNode_def intro!: emits_intros abort_call.emits_weaker)

lemma abortLoop_done:
  assumes "\<forall>u \<in> set us. GetNodeUpdateTaskStatus L u = Inr (st u)"
    and "\<forall>h u. api_MergePatchNode E h u abortNodePatch = None"
  shows "foreach (abortNode L E) us () s = (Ret (Continue ()), s\<lparr>calls := calls s @
    map (\<lambda>u. MergePatchNode u abortNodePatch)
      (filter (\<lambda>u. \<not> IsTerminated (nus_State (st u))) us)\<rparr>)"
  using assms(1)
proof (induction us arbitrary: s)
  case Nil
  then show ?case by (simp add: run_return)
next
  case (Cons u us)
  then have u: "GetNodeUpdateTaskStatus L u = Inr (st u)" by simp
  have "abortNode L E u () s = (Ret (Continue ()), s\<lparr>calls := calls s @
      (if IsTerminated (nus_State (st u)) then [] else [MergePatchNode u abortNodePatch])\<rparr>)"
    using u assms(2) by (simp add: abortNode_def AbortNodeUpdateTask_def prog_simps)
  with Cons show ?case by (simp add: run_foreach_Cons del: foreach.simps)
qed

text \<open>
  When every node update task can be read and every abort request goes through, the abort phase
  asks exactly the node updates that have not ended to abort, each once and in order, drops the
  UpdateOperation condition and marks AbortOperation true.
\<close>

theorem abort_requests_unfinished:
  assumes "\<forall>u \<in> set (NodeUpdateTasks scope). GetNodeUpdateTaskStatus L u = Inr (st u)"
    and "\<forall>h u. api_MergePatchNode E h u abortNodePatch = None"
  shows "reconcileAbort L E scope s = (Ret (zeroResult, None),
    s\<lparr>calls := calls s @ map (\<lambda>u. MergePatchNode u abortNodePatch)
        (filter (\<lambda>u. \<not> IsTerminated (nus_State (st u))) (NodeUpdateTasks scope)),
      obj := onConditions (MarkTrue L AbortOperationCondition)
        (onConditions (DeleteCondition L UpdateOperationCondition) (obj s))\<rparr>)"
  using abortLoop_done [OF assms]
  by (simp add: reconcileAbort_def prog_simps)

text \<open>
  The abort phase stops at the first abort request that is refused: it returns that error,
  marks AbortOperation false with it, and sends nothing to the node update tasks after it.
\<close>

theorem abort_stops_at_refusal:
  assumes "NodeUpdateTasks scope = us @ u # vs"
    and "\<forall>x \<in> set us. \<exists>st. GetNodeUpdateTaskStatus L x = Inr st \<and> IsTerminated (nus_State st)"
    and "GetNodeUpdateTaskStatus L u = Inr st" and "\<not> IsTerminated (nus_State st)"
    and "api_MergePatchNode E (calls s) u abortNodePatch = Some err"
  shows "reconcileAbort L E scope s = (Ret (zeroResult, Some err),
    s\<lparr>calls := calls s @ [MergePatchNode u abortNodePatch],
      obj := onConditions (MarkFalse L AbortOperationCondition AbortNodeUpdateFailedReason
          ConditionSeverityError (''cannot abort nodeUpdateTask. '' @ ErrorText L err))
        (onConditions (DeleteCondition L UpdateOperationCondition) (obj s))\<rparr>)"
proof -
  have skip: "foreach (abortNode L E) us () t = (Ret (Continue ()), t)" for t
    using assms(2)
  proof (induction us)
    case (Cons x xs)
    then have "abortNode L E x () t = (Ret (Continue ()), t)"
      by (auto simp: abortNode_def prog_simps)
    with Cons show ?case by (simp add: run_foreach_Cons del: foreach.simps)
  qed (simp add: run_return)
  have "abortNode L E u () t = (Ret (Break (zeroResult, Some err)),
      t\<lparr>calls := calls t @ [MergePatchNode u abortNodePatch],
        obj := onConditions (MarkFalse L AbortOperationCondition AbortNodeUpdateFailedReason
          ConditionSeverityError (''cannot abort nodeUpdateTask. '' @ ErrorText L err)) (obj t)\<rparr>)"
    if "calls t = calls s" for t
    using assms(3-5) that by (simp add: abortNode_def AbortNodeUpdateTask_def prog_simps)
  then show ?thesis
    by (simp add: reconcileAbort_def assms(1) run_foreach_append run_foreach_Cons skip
        run_andThen run_change run_return del: foreach.simps)
qed


section \<open>The update phase\<close>

lemma run_scanNode:
  "scanNode L u m s = (case GetNodeUpdateTaskStatus L u of
      Inl err \<Rightarrow> (Ret (Break (zeroResult, Some err)), s)
    | Inr st \<Rightarrow>
      if \<not> IsTerminated (nus_State st) then (Ret (Break (zeroResult, None)),
        s\<lparr>obj := onConditions (MarkTrue L UpdateOperationCondition) (obj s)\<rparr>)
      else if nus_State st = UpdateTaskStateFailed then (Ret (Break (zeroResult, None)),
        s\<lparr>obj := onConditions (MarkFalse L UpdateOperationCondition
          NodeUpdateFailedReason ConditionSeverityError nodeFailedMessage) (obj s)\<rparr>)
      else (Ret (Continue (recordStatus L st m)), s))"
  by (simp add: scanNode_def prog_simps Let_def split: sum.split)

lemma scanLoop_continue:
  assumes "foreach (scanNode L) us m s = (Ret (Continue m'), s')"
  shows "s' = s \<and> (\<exists>sts. map (GetNodeUpdateTaskStatus L) us = map Inr sts \<and>
    (\<forall>st \<in> set sts. IsTerminated (nus_State st) \<and> nus_State st \<noteq> UpdateTaskStateFailed) \<and>
    m' = foldl (\<lambda>m st. recordStatus L st m) m sts)"
  using assms
proof (induction us arbitrary: m)
  case Nil
  then show ?case by (simp add: run_return)
next
  case (Cons u us)
  obtain st where st: "GetNodeUpdateTaskStatus L u = Inr st" "IsTerminated (nus_State st)"
      "nus_State st \<noteq> UpdateTaskStateFailed"
    and rest: "foreach (scanNode L) us (recordStatus L st m) s = (Ret (Continue m'), s')"
    using Cons.prems
    by (auto simp: run_foreach_Cons run_scanNode [of L u m s] simp del: foreach.simps
        split: if_splits sum.splits)
  from Cons.IH [OF rest] obtain sts where "s' = s" "map (GetNodeUpdateTaskStatus L) us = map Inr sts"
      "\<forall>st \<in> set sts. IsTerminated (nus_State st) \<and> nus_State st \<noteq> UpdateTaskStateFailed"
      "m' = foldl (\<lambda>m st. recordStatus L st m) (recordStatus L st m) sts"
    by blast
  with st show ?case by (intro conjI exI [of _ "st # sts"]) auto
qed

lemma scanLoop_skip:
  assumes "\<forall>x \<in> set us. \<exists>st. GetNodeUpdateTaskStatus L x = Inr st \<and>
    IsTerminated (nus_State st) \<and> nus_State st \<noteq> UpdateTaskStateFailed"
  shows "\<exists>m'. foreach (scanNode L) us m s = (Ret (Continue m'), s)"
  using assms
proof (induction us arbitrary: m)
  case Nil
  then show ?case by (simp add: run_return)
next
  case (Cons x xs)
  then obtain st where "GetNodeUpdateTaskStatus L x = Inr st" "IsTerminated (nus_State st)"
    "nus_State st \<noteq> UpdateTaskStateFailed" by auto
  then have "scanNode L x m s = (Ret (Continue (recordStatus L st m)), s)"
    by (simp add: run_scanNode)
  with Cons show ?case by (simp add: run_foreach_Cons del: foreach.simps)
qed

lemma scanLoop_calls:
  "foreach (scanNode L) us m s = (r, s') \<Longrightarrow> calls s' = calls s"
proof -
  assume run: "foreach (scanNode L) us m s = (r, s')"
  have "emits (\<lambda>_. False) (foreach (scanNode L) us m)"
    by (auto simp: scanNode_def intro!: emits_intros)
  from emitsE [OF this run] show ?thesis by (auto simp: list_all_iff)
qed

definition waiting :: "statusMap \<Rightarrow> string \<Rightarrow> Machine \<Rightarrow> bool" where
  "waiting m taskName x \<longleftrightarrow> m (Name x) = None \<and> isMachineInUpdateScope x taskName"

lemma createForMachine_returns:
  "createForMachine L E x s = (Ret (Continue a), s') \<Longrightarrow> False"
  by (auto simp: createForMachine_def prog_simps split: prod.splits outcome.splits option.splits)

lemma updateLoop_picks:
  "foreach (updateMachine L E m) xs () s =
     (case find (waiting m (Name (obj s))) xs of
        None \<Rightarrow> (Ret (Continue ()), s)
      | Some x \<Rightarrow> createForMachine L E x s)"
proof (induction xs)
  case Nil
  then show ?case by (simp add: run_return)
next
  case (Cons x xs)
  have "updateMachine L E m x () s =
      (if waiting m (Name (obj s)) x then createForMachine L E x s else (Ret (Continue ()), s))"
    by (simp add: updateMachine_def waiting_def prog_simps)
  with Cons show ?case
    by (auto simp: run_foreach_Cons simp del: foreach.simps split: prod.split outcome.split flow.split
        dest: createForMachine_returns)
qed

lemma createForMachine_run:
  assumes "createForMachine L E x s = (r, s')"
  obtains (quiet) "filter is_create_node (calls s') = filter is_create_node (calls s)"
  | (created) cref h template base u where
      "ClusterRef (Spec (obj s)) = Some cref"
      "GenerateTemplate E h (templateInput L (obj s) (ref_Name cref) template) = Inr base"
      "setFields L (nodeUpdateFields (obj s) x) base = Inr u"
      "filter is_create_node (calls s') = filter is_create_node (calls s) @ [CreateNode u]"
proof -
  obtain r1 s1 where c: "CreateNodeUpdateTask L E x s = (r1, s1)" by fastforce
  have same: "calls s' = calls s1"
    using assms c by (auto simp: createForMachine_def prog_simps
        split: prod.splits outcome.splits option.splits)
  from c show thesis
    by (rule create_cases) (auto simp: same intro: quiet created)
qed

lemma controlPlanePreflight_run:
  assumes "controlPlanePreflight L E s = (r, s')"
  shows "filter is_create_node (calls s') = filter is_create_node (calls s)"
    and "Spec (obj s') = Spec (obj s)" and "Name (obj s') = Name (obj s)"
    and "Namespace (obj s') = Namespace (obj s)"
    and "r = Ret (Continue ()) \<Longrightarrow> ControlPlaneRef (Spec (obj s)) = Some ref \<Longrightarrow>
      ref_Kind ref = ''KubeadmControlPlane'' \<Longrightarrow>
      \<exists>result. fst (PreflightCheckForKubeadmControlPlane L E (Namespace (obj s)) ref s) =
        Ret (result, None) \<and> ResultIsZero L result"
proof -
  show "filter is_create_node (calls s') = filter is_create_node (calls s)"
  proof (cases "ControlPlaneRef (Spec (obj s))")
    case None
    with assms show ?thesis by (simp add: controlPlanePreflight_def prog_simps)
  next
    case (Some ref)
    obtain r1 s1 where p: "PreflightCheckForKubeadmControlPlane L E (Namespace (obj s)) ref s = (r1, s1)"
      by fastforce
    have "filter is_create_node (calls s1) = filter is_create_node (calls s)"
      by (rule preflight_reads.makes_no_other [OF _ p]) simp
    moreover have "calls s' = calls s1 \<or> s' = s"
      using assms Some p by (auto simp: controlPlanePreflight_def prog_simps
          split: outcome.splits prod.splits if_splits)
    ultimately show ?thesis by auto
  qed
qed (insert assms, (auto simp: controlPlanePreflight_def prog_simps
      dest: preflight_frozen.obj_kept split: option.splits if_splits outcome.splits prod.splits)+)


lemma scanLoop_statuses:
  assumes "map (GetNodeUpdateTaskStatus L) us = map Inr sts"
    and "\<forall>st \<in> set sts. IsTerminated (nus_State st) \<and> nus_State st \<noteq> UpdateTaskStateFailed"
  shows "foreach (scanNode L) us m s =
    (Ret (Continue (foldl (\<lambda>m st. recordStatus L st m) m sts)), s)"
  using assms
proof (induction us arbitrary: m sts)
  case Nil
  then show ?case by (simp add: run_return)
next
  case (Cons x xs)
  then obtain st rest where st: "sts = st # rest" "GetNodeUpdateTaskStatus L x = Inr st"
    by (cases sts) auto
  with Cons.prems have "scanNode L x m s = (Ret (Continue (recordStatus L st m)), s)"
    by (simp add: run_scanNode)
  with Cons st show ?case by (simp add: run_foreach_Cons del: foreach.simps)
qed

text \<open>
  C39. The update phase and the status phase see the same node updates: the scan of the update phase
  reaches the machines exactly when every node update can be read, has ended and did not fail, and
  then its map of the latest node updates is the one the status phase collected.
\<close>

theorem scan_agrees_with_status:
  "foreach (scanNode L) us Map.empty s = (Ret (Continue m), s') \<longleftrightarrow>
     s' = s \<and> collectStatuses L us Map.empty = Inr m \<and>
     (\<forall>u \<in> set us. \<exists>st. GetNodeUpdateTaskStatus L u = Inr st \<and>
        IsTerminated (nus_State st) \<and> nus_State st \<noteq> UpdateTaskStateFailed)"
proof
  assume "foreach (scanNode L) us Map.empty s = (Ret (Continue m), s')"
  then obtain sts where sts: "s' = s" "map (GetNodeUpdateTaskStatus L) us = map Inr sts"
      "\<forall>st \<in> set sts. IsTerminated (nus_State st) \<and> nus_State st \<noteq> UpdateTaskStateFailed"
      "m = foldl (\<lambda>m st. recordStatus L st m) Map.empty sts"
    using scanLoop_continue by blast
  have "\<exists>st \<in> set sts. GetNodeUpdateTaskStatus L u = Inr st" if "u \<in> set us" for u
  proof -
    have "GetNodeUpdateTaskStatus L u \<in> set (map (GetNodeUpdateTaskStatus L) us)" using that by simp
    then show ?thesis unfolding sts(2) by auto
  qed
  with sts collectStatuses_read [OF sts(2)]
  show "s' = s \<and> collectStatuses L us Map.empty = Inr m \<and>
     (\<forall>u \<in> set us. \<exists>st. GetNodeUpdateTaskStatus L u = Inr st \<and>
        IsTerminated (nus_State st) \<and> nus_State st \<noteq> UpdateTaskStateFailed)"
    by blast
next
  assume good: "s' = s \<and> collectStatuses L us Map.empty = Inr m \<and>
     (\<forall>u \<in> set us. \<exists>st. GetNodeUpdateTaskStatus L u = Inr st \<and>
        IsTerminated (nus_State st) \<and> nus_State st \<noteq> UpdateTaskStateFailed)"
  then obtain sts where sts: "map (GetNodeUpdateTaskStatus L) us = map Inr sts"
      "m = foldl (\<lambda>m st. recordStatus L st m) Map.empty sts"
    using collectStatuses_fold by blast
  have "IsTerminated (nus_State st) \<and> nus_State st \<noteq> UpdateTaskStateFailed" if "st \<in> set sts" for st
  proof -
    have "Inr st \<in> set (map (GetNodeUpdateTaskStatus L) us)" unfolding sts(1) using that by simp
    then obtain u where "u \<in> set us" "GetNodeUpdateTaskStatus L u = Inr st" by auto
    with good show ?thesis by auto
  qed
  with scanLoop_statuses [OF sts(1), of Map.empty s] sts(2) good
  show "foreach (scanNode L) us Map.empty s = (Ret (Continue m), s')" by simp
qed

text \<open>A machine in the task's scope that no node update task is for.\<close>

definition needsUpdate :: "string \<Rightarrow> NodeUpdateTaskStatus list \<Rightarrow> Machine \<Rightarrow> bool" where
  "needsUpdate taskName sts x \<longleftrightarrow>
     (\<forall>st \<in> set sts. nus_MachineName st \<noteq> Name x) \<and> isMachineInUpdateScope x taskName"

lemma waiting_needsUpdate:
  "waiting (foldl (\<lambda>m st. recordStatus L st m) Map.empty sts) taskName = needsUpdate taskName sts"
  by (rule ext) (simp add: waiting_def needsUpdate_def fold_None_iff)

lemma run_createForMachine:
  "createForMachine L E x s =
     (case CreateNodeUpdateTask L E x s of
        (Ret (_, None), s2) \<Rightarrow> (Ret (Break (requeueAfter changedRequeueAfter, None)),
          s2\<lparr>obj := onConditions (MarkTrue L UpdateOperationCondition) (obj s2)\<rparr>)
      | (Ret (_, Some err), s2) \<Rightarrow> (Ret (Break (zeroResult, Some err)),
          s2\<lparr>obj := onConditions (MarkFalse L UpdateOperationCondition
            CreateNodeUpdateFailedReason ConditionSeverityError
            (''unable to create nodeUpdateTask. '' @ ErrorText L err)) (obj s2)\<rparr>)
      | (Panic e, s2) \<Rightarrow> (Panic e, s2))"
  by (simp add: createForMachine_def prog_simps split: prod.split outcome.split option.split)

lemma reconcileNormal_picks:
  assumes "map (GetNodeUpdateTaskStatus L) (NodeUpdateTasks scope) = map Inr sts"
    and "\<forall>st \<in> set sts. IsTerminated (nus_State st) \<and> nus_State st \<noteq> UpdateTaskStateFailed"
    and "controlPlanePreflight L E s = (Ret (Continue ()), s1)"
  shows "reconcileNormal L E scope s =
    (case find (needsUpdate (Name (obj s)) sts)
        (SortedByCreationTimestamp L (UpdateMachines scope)) of
       None \<Rightarrow> (Ret (zeroResult, None),
         s1\<lparr>obj := onConditions (MarkTrue L UpdateOperationCondition) (obj s1)\<rparr>)
     | Some x \<Rightarrow> (case CreateNodeUpdateTask L E x s1 of
         (Ret (_, None), s2) \<Rightarrow> (Ret (requeueAfter changedRequeueAfter, None),
           s2\<lparr>obj := onConditions (MarkTrue L UpdateOperationCondition) (obj s2)\<rparr>)
       | (Ret (_, Some err), s2) \<Rightarrow> (Ret (zeroResult, Some err),
           s2\<lparr>obj := onConditions (MarkFalse L UpdateOperationCondition
             CreateNodeUpdateFailedReason ConditionSeverityError
             (''unable to create nodeUpdateTask. '' @ ErrorText L err)) (obj s2)\<rparr>)
       | (Panic e, s2) \<Rightarrow> (Panic e, s2)))"
proof -
  let ?xs = "SortedByCreationTimestamp L (UpdateMachines scope)"
  have name: "Name (obj s1) = Name (obj s)"
    by (rule controlPlanePreflight_run(3) [OF assms(3)])
  show ?thesis
  proof (cases "find (needsUpdate (Name (obj s)) sts) ?xs")
    case None
    then show ?thesis
      using scanLoop_statuses [OF assms(1,2)] assms(3) name
      by (simp add: reconcileNormal_def run_andThen run_return run_change updateLoop_picks
          waiting_needsUpdate)
  next
    case (Some x)
    then show ?thesis
      using scanLoop_statuses [OF assms(1,2)] assms(3) name
      by (simp add: reconcileNormal_def run_andThen run_return run_change updateLoop_picks
          waiting_needsUpdate run_createForMachine split: prod.split outcome.split option.split)
  qed
qed

text \<open>
  When every node update task has ended and none failed, and the control plane lets the update
  go on, the update phase picks the first machine, in order of creation, that is in the task's scope
  and has no node update task, and creates one for that machine only; it comes back at once after
  creating it, reports a failed creation, and does nothing when no machine waits.
\<close>

theorem update_picks_first_waiting:
  assumes "map (GetNodeUpdateTaskStatus L) (NodeUpdateTasks scope) = map Inr sts"
    and "\<forall>st \<in> set sts. IsTerminated (nus_State st) \<and> nus_State st \<noteq> UpdateTaskStateFailed"
    and "controlPlanePreflight L E s = (Ret (Continue ()), s1)"
  shows "reconcileNormal L E scope s =
    (case find (needsUpdate (Name (obj s)) sts)
        (SortedByCreationTimestamp L (UpdateMachines scope)) of
       None \<Rightarrow> (Ret (zeroResult, None),
         s1\<lparr>obj := onConditions (MarkTrue L UpdateOperationCondition) (obj s1)\<rparr>)
     | Some x \<Rightarrow> (case CreateNodeUpdateTask L E x s1 of
         (Ret (_, None), s2) \<Rightarrow> (Ret (requeueAfter changedRequeueAfter, None),
           s2\<lparr>obj := onConditions (MarkTrue L UpdateOperationCondition) (obj s2)\<rparr>)
       | (Ret (_, Some err), s2) \<Rightarrow> (Ret (zeroResult, Some err),
           s2\<lparr>obj := onConditions (MarkFalse L UpdateOperationCondition
             CreateNodeUpdateFailedReason ConditionSeverityError
             (''unable to create nodeUpdateTask. '' @ ErrorText L err)) (obj s2)\<rparr>)
       | (Panic e, s2) \<Rightarrow> (Panic e, s2)))"
  by (rule reconcileNormal_picks [OF assms])

text \<open>What it means that a run of the update phase created the node update task \<open>u\<close>.\<close>

definition creation_justified :: "lib \<Rightarrow> env \<Rightarrow> UpdateTaskScope \<Rightarrow> UpdateTask mem \<Rightarrow> Unstructured \<Rightarrow> bool"
where
  "creation_justified L E scope s u \<longleftrightarrow>
     (\<exists>sts x base. map (GetNodeUpdateTaskStatus L) (NodeUpdateTasks scope) = map Inr sts \<and>
        (\<forall>st \<in> set sts. IsTerminated (nus_State st) \<and> nus_State st \<noteq> UpdateTaskStateFailed \<and>
           nus_MachineName st \<noteq> Name x) \<and>
        x \<in> set (SortedByCreationTimestamp L (UpdateMachines scope)) \<and>
        isMachineInUpdateScope x (Name (obj s)) \<and>
        (\<exists>h i labels. GenerateTemplate E h i = Inr base \<and> gt_Namespace i = Namespace (obj s) \<and>
           gt_Labels i = Some labels \<and> labels ClusterUpdateTaskNameLabel = Some (Name (obj s))) \<and>
        setFields L (nodeUpdateFields (obj s) x) base = Inr u) \<and>
     (\<forall>ref. ControlPlaneRef (Spec (obj s)) = Some ref \<longrightarrow> ref_Kind ref = ''KubeadmControlPlane'' \<longrightarrow>
        (\<exists>result. fst (PreflightCheckForKubeadmControlPlane L E (Namespace (obj s)) ref s) =
           Ret (result, None) \<and> ResultIsZero L result))"

lemma nodeUpdateFields_spec:
  "Spec t = Spec t' \<Longrightarrow> nodeUpdateFields t x = nodeUpdateFields t' x"
  by (simp add: nodeUpdateFields_def)

lemma reconcileNormal_creates:
  assumes run: "reconcileNormal L E scope s = (r, s')"
  shows "filter is_create_node (calls s') = filter is_create_node (calls s) \<or>
    (\<exists>u. filter is_create_node (calls s') = filter is_create_node (calls s) @ [CreateNode u] \<and>
       creation_justified L E scope s u)"
proof -
  obtain r1 s1 where scan: "foreach (scanNode L) (NodeUpdateTasks scope) Map.empty s = (r1, s1)"
    by fastforce
  show ?thesis
  proof (cases "\<exists>m. r1 = Ret (Continue m)")
    case False
    then have "s' = s1"
      using run scan by (auto simp: reconcileNormal_def run_andThen run_return
          split: outcome.splits flow.splits)
    then show ?thesis using scanLoop_calls [OF scan] by simp
  next
    case True
    then obtain m where m: "r1 = Ret (Continue m)" by blast
    obtain sts where sts: "s1 = s" "map (GetNodeUpdateTaskStatus L) (NodeUpdateTasks scope) = map Inr sts"
      "\<forall>st \<in> set sts. IsTerminated (nus_State st) \<and> nus_State st \<noteq> UpdateTaskStateFailed"
      "m = foldl (\<lambda>m st. recordStatus L st m) Map.empty sts"
      using scanLoop_continue [OF scan [unfolded m]] by blast
    obtain r2 s2 where pre: "controlPlanePreflight L E s = (r2, s2)" by fastforce
    note pre_facts = controlPlanePreflight_run [OF pre]
    show ?thesis
    proof (cases "r2 = Ret (Continue ())")
      case False
      then have "s' = s2"
        using run scan m sts(1) pre by (auto simp: reconcileNormal_def run_andThen run_return
            split: outcome.splits flow.splits)
      with pre_facts(1) show ?thesis by simp
    next
      case ok: True
      let ?xs = "SortedByCreationTimestamp L (UpdateMachines scope)"
      let ?found = "find (waiting m (Name (obj s2))) ?xs"
      show ?thesis
      proof (cases ?found)
        case None
        then have "calls s' = calls s2"
          using run scan m sts(1) pre ok
          by (auto simp: reconcileNormal_def run_andThen run_return run_change
              updateLoop_picks [of L E m ?xs s2])
        with pre_facts(1) show ?thesis by simp
      next
        case (Some x)
        obtain r3 s3 where c: "createForMachine L E x s2 = (r3, s3)" by fastforce
        have "s' = s3"
          using run scan m sts(1) pre ok Some c
          by (auto simp: reconcileNormal_def run_andThen run_return
              updateLoop_picks [of L E m ?xs s2]
              split: outcome.splits flow.splits dest: createForMachine_returns)
        have x: "x \<in> set ?xs" "waiting m (Name (obj s)) x"
          using Some pre_facts(3) by (auto simp: find_Some_iff)
        then have free: "\<forall>st \<in> set sts. nus_MachineName st \<noteq> Name x"
          by (auto simp: waiting_def sts(4) fold_None_iff)
        from c show ?thesis
        proof (rule createForMachine_run)
          assume "filter is_create_node (calls s3) = filter is_create_node (calls s2)"
          with \<open>s' = s3\<close> pre_facts(1) show ?thesis by simp
        next
          fix h cref template base u
          assume made: "GenerateTemplate E h (templateInput L (obj s2) (ref_Name cref) template) = Inr base"
            and u: "setFields L (nodeUpdateFields (obj s2) x) base = Inr u"
            and new: "filter is_create_node (calls s3) = filter is_create_node (calls s2) @ [CreateNode u]"
          have "setFields L (nodeUpdateFields (obj s) x) base = Inr u"
            using u nodeUpdateFields_spec [OF pre_facts(2)] by simp
          moreover have "gt_Namespace (templateInput L (obj s2) (ref_Name cref) template) =
                Namespace (obj s)"
              "gt_Labels (templateInput L (obj s2) (ref_Name cref) template) =
                Some (nodeLabels L (obj s2) (ref_Name cref))"
              "nodeLabels L (obj s2) (ref_Name cref) ClusterUpdateTaskNameLabel = Some (Name (obj s))"
            using pre_facts(3,4) by (simp_all add: templateInput_def nodeLabels_def)
          ultimately have from_source: "setFields L (nodeUpdateFields (obj s) x) base = Inr u"
              "\<exists>h i labels. GenerateTemplate E h i = Inr base \<and>
                 gt_Namespace i = Namespace (obj s) \<and> gt_Labels i = Some labels \<and>
                 labels ClusterUpdateTaskNameLabel = Some (Name (obj s))"
            using made by blast+
          have "creation_justified L E scope s u"
            unfolding creation_justified_def
            by (intro exI [of _ sts] exI [of _ x] exI [of _ base] conjI)
              (use sts(2,3) free x pre_facts(5) [OF ok] from_source in \<open>auto simp: waiting_def\<close>)
          with new \<open>s' = s3\<close> pre_facts(1) show ?thesis by auto
        qed
      qed
    qed
  qed
qed

text \<open>
  The update phase creates at most one node update task, and only when every existing node
  update task of the update task has ended and none failed, the machine is in the task's scope and
  has no node update task yet, and the control plane (when it is a kubeadm one) passes its
  preflight check.
\<close>

theorem update_creates_one_when_idle:
  assumes "reconcileNormal L E scope s = (r, s')"
  shows "\<exists>cs. filter is_create_node (calls s') = filter is_create_node (calls s) @ cs \<and>
    length cs \<le> 1 \<and> (\<forall>u. CreateNode u \<in> set cs \<longrightarrow> creation_justified L E scope s u)"
  using reconcileNormal_creates [OF assms] by auto

text \<open>
  C23. As soon as the update phase meets a node update task that has not ended, or one that failed,
  it stops without any call; the UpdateOperation condition says which: true while a node update
  is in progress, false with reason UpdateFailed when one failed.
\<close>

theorem update_blocked:
  assumes "NodeUpdateTasks scope = us @ u # vs"
    and "\<forall>x \<in> set us. \<exists>st. GetNodeUpdateTaskStatus L x = Inr st \<and>
      IsTerminated (nus_State st) \<and> nus_State st \<noteq> UpdateTaskStateFailed"
    and "GetNodeUpdateTaskStatus L u = Inr st"
    and "\<not> IsTerminated (nus_State st) \<or> nus_State st = UpdateTaskStateFailed"
  shows "reconcileNormal L E scope s = (Ret (zeroResult, None),
    s\<lparr>obj := onConditions
        (if nus_State st = UpdateTaskStateFailed
         then MarkFalse L UpdateOperationCondition NodeUpdateFailedReason ConditionSeverityError
                nodeFailedMessage
         else MarkTrue L UpdateOperationCondition) (obj s)\<rparr>)"
proof -
  obtain m' where "foreach (scanNode L) us Map.empty s = (Ret (Continue m'), s)"
    using scanLoop_skip [OF assms(2)] by blast
  with assms(3,4) show ?thesis
    by (auto simp: reconcileNormal_def assms(1) run_foreach_append run_foreach_Cons
        run_scanNode [of L u m' s] run_andThen run_return simp del: foreach.simps)
qed

text \<open>
  A kubeadm control plane that does not pass its preflight check holds the update back: the
  update phase returns the check's result and error, marks UpdateOperation false as a warning and
  makes no call beyond those of the check, so nothing is created.
\<close>

theorem preflight_holds_update_back:
  assumes "\<forall>x \<in> set (NodeUpdateTasks scope). \<exists>st. GetNodeUpdateTaskStatus L x = Inr st \<and>
      IsTerminated (nus_State st) \<and> nus_State st \<noteq> UpdateTaskStateFailed"
    and "ControlPlaneRef (Spec (obj s)) = Some ref" and "ref_Kind ref = ''KubeadmControlPlane''"
    and "PreflightCheckForKubeadmControlPlane L E (Namespace (obj s)) ref s = (Ret (result, err), s1)"
    and "err \<noteq> None \<or> \<not> ResultIsZero L result"
  shows "reconcileNormal L E scope s = (Ret (result, err),
    s1\<lparr>obj := onConditions (MarkFalse L UpdateOperationCondition PreflightCheckFailedReason
        ConditionSeverityWarning preflightMessage) (obj s)\<rparr>)"
proof -
  obtain m' where "foreach (scanNode L) (NodeUpdateTasks scope) Map.empty s = (Ret (Continue m'), s)"
    using scanLoop_skip [OF assms(1)] by blast
  moreover have "obj s1 = obj s"
    by (rule preflight_frozen.obj_kept [OF assms(4)])
  ultimately show ?thesis
    using assms(2-5)
    by (simp add: reconcileNormal_def controlPlanePreflight_def run_andThen run_return run_gets
        run_change)
qed

end
