(* ===== verification/Task_Reconcile.thy ===== *)
theory Task_Reconcile
  imports Task_Controller
begin

text \<open>
  What one call of \<open>Reconcile\<close> (\<open>src/internal/controller/updatetask\_controller.go\<close>) does from
  the outside: the calls it makes, the one patch of the task and what it may change, its result,
  and when it panics.
\<close>

section \<open>What a reconciliation may change of the task\<close>

text \<open>
  A task up to its finalizers, its status and the two labels that creating a node update task
  writes into the template's label map.
\<close>

definition core :: "lib \<Rightarrow> UpdateTask \<Rightarrow> UpdateTask" where
  "core L t = t\<lparr>Finalizers := [],
     Status := \<lparr>State = UpdateTaskStateUnknown, StatusConditions = []\<rparr>,
     Spec := (Spec t)\<lparr>NodeUpdateTemplate := (NodeUpdateTemplate (Spec t))\<lparr>Labels :=
       map_option (\<lambda>m. m(ClusterNameLabel L := None, ClusterUpdateTaskNameLabel := None))
         (Labels (NodeUpdateTemplate (Spec t)))\<rparr>\<rparr>\<rparr>"

definition sameTask :: "lib \<Rightarrow> UpdateTask \<Rightarrow> UpdateTask \<Rightarrow> bool" where
  "sameTask L a b \<longleftrightarrow> core L a = core L b"

text \<open>The phases after the finalizer guard keep the finalizers too.\<close>

definition keptTask :: "lib \<Rightarrow> UpdateTask \<Rightarrow> UpdateTask \<Rightarrow> bool" where
  "keptTask L a b \<longleftrightarrow> sameTask L a b \<and> Finalizers a = Finalizers b"

interpretation same_task: object_preorder "sameTask L" for L
  by unfold_locales (simp_all add: sameTask_def)

interpretation kept_task: object_preorder "keptTask L" for L
  by unfold_locales (simp_all add: keptTask_def sameTask_def)

lemma core_onConditions [simp]: "core L (onConditions f t) = core L t"
  by (simp add: core_def onConditions_def SetConditions_def)

lemma core_setState [simp]: "core L (setState st t) = core L t"
  by (simp add: core_def setState_def)

lemma core_Finalizers [simp]: "core L (t\<lparr>Finalizers := fs\<rparr>) = core L t"
  by (simp add: core_def)

lemma core_trackTask [simp]: "core L (trackTask L c t) = core L t"
  by (simp add: trackTask_def)

lemma core_finishTask [simp]: "core L (finishTask L t) = core L t"
  by (simp add: finishTask_def)

lemma core_shareLabels [simp]: "core L (shareLabels (nodeLabels L t cn) t) = core L t"
  by (auto simp: core_def shareLabels_def nodeLabels_def split: option.split)

lemma sameTask_fields:
  assumes "sameTask L a b"
  shows "Name a = Name b" and "Namespace a = Namespace b" and "UID a = UID b"
    and "Labels a = Labels b" and "Annotations a = Annotations b"
    and "DeletionTimestamp a = DeletionTimestamp b"
    and "TargetPhase (Spec a) = TargetPhase (Spec b)"
    and "ClusterRef (Spec a) = ClusterRef (Spec b)"
    and "ControlPlaneRef (Spec a) = ControlPlaneRef (Spec b)"
    and "NewMachineSpec (Spec a) = NewMachineSpec (Spec b)"
  using assms
  by (cases a; cases b; simp add: sameTask_def core_def UpdateTaskSpec.splits UpdateTaskSpec.equality)+

lemma keptTask_changes [simp]:
  "keptTask L t (onConditions f t)" "keptTask L t (trackTask L c t)"
  "keptTask L t (shareLabels (nodeLabels L t cn) t)"
  by (simp_all add: keptTask_def sameTask_def)

lemma taskAborting_same: "sameTask L a b \<Longrightarrow> taskAborting L a = taskAborting L b"
  by (simp add: taskAborting_def sameTask_fields(6) [of L a b] sameTask_fields(7) [of L a b])

lemma kept_create: "keeps (keptTask L) (CreateNodeUpdateTask L E x)"
  unfolding keeps_def
proof
  fix s
  obtain r s' where run: "CreateNodeUpdateTask L E x s = (r, s')" by fastforce
  then show "keptTask L (obj s) (obj (snd (CreateNodeUpdateTask L E x s)))"
    by (rule create_cases) (simp_all add: run kept_task.R_refl)
qed

lemma kept_status: "keeps (keptTask L) (reconcileStatus L E scope)"
  unfolding keeps_def
proof
  fix s
  show "keptTask L (obj s) (obj (snd (reconcileStatus L E scope s)))"
  proof (cases "collectStatuses L (NodeUpdateTasks scope) Map.empty")
    case (Inl err)
    then show ?thesis by (simp add: reconcileStatus_error kept_task.R_refl)
  next
    case (Inr m)
    then show ?thesis using reconcileStatus_done [OF Inr, of E s] by auto
  qed
qed

lemma kept_abort: "keeps (keptTask L) (reconcileAbort L E scope)"
  unfolding reconcileAbort_def abortNode_def
  by (intro kept_task.keeps_intros kept_task.keeps_frozen abort_frozen.obj_same keptTask_changes)

lemma kept_preflight: "keeps (keptTask L) (controlPlanePreflight L E)"
  unfolding controlPlanePreflight_def
  by (intro kept_task.keeps_intros kept_task.keeps_frozen preflight_frozen.obj_same keptTask_changes)

lemma kept_normal: "keeps (keptTask L) (reconcileNormal L E scope)"
  unfolding reconcileNormal_def scanNode_def updateMachine_def createForMachine_def
  by (intro kept_task.keeps_intros kept_preflight kept_create keptTask_changes)

lemma kept_phases: "keeps (keptTask L) (reconcilePhases L E)"
  unfolding reconcilePhases_def
  by (intro kept_task.keeps_intros kept_task.keeps_frozen scope_frozen.obj_same kept_status
      kept_abort kept_normal)

lemma same_reconcileTask: "keeps (sameTask L) (reconcileTask L E)"
proof -
  have "keeps (sameTask L) (reconcilePhases L E)"
    using kept_phases [of L E] by (simp add: keeps_def keptTask_def)
  then show ?thesis
    unfolding reconcileTask_def
    by (intro same_task.keeps_intros) (simp_all add: sameTask_def)
qed


section \<open>The calls of a reconciliation\<close>

lemma run_deferredPatch:
  "deferredPatch L E before r s =
     (Ret (finishResult L (obj s) r,
        case api_PatchTask E (calls s) before (finishTask L (obj s)) of
          None \<Rightarrow> snd r | Some err \<Rightarrow> NewAggregate L [snd r, Some err]),
      \<lparr>calls = calls s @ [PatchTask before (finishTask L (obj s))], obj = finishTask L (obj s)\<rparr>)"
  by (cases s) (simp add: deferredPatch_def prog_simps split: option.split)

lemma Reconcile_fetched:
  assumes "api_GetUpdateTask E h0 ns n = Inr task"
    and "NewTaskHelper E (h0 @ [GetUpdateTask ns n]) task = None"
    and "reconcileTask L E \<lparr>calls = h0 @ [GetUpdateTask ns n], obj = task\<rparr> = (r, s1)"
  shows "Reconcile L E ns n h0 =
    (case r of
       Ret rr \<Rightarrow> Ret (finishResult L (obj s1) rr,
         case api_PatchTask E (calls s1) task (finishTask L (obj s1)) of
           None \<Rightarrow> snd rr | Some err \<Rightarrow> NewAggregate L [snd rr, Some err])
     | Panic e \<Rightarrow> Panic e,
     calls s1 @ [PatchTask task (finishTask L (obj s1))])"
  using assms
  by (simp add: Reconcile_def withDefer_def run_deferredPatch split: outcome.split prod.split)

lemma phases_patch_no_task: "emits (\<lambda>c. \<not> is_patch_task c) (reconcilePhases L E)"
  unfolding reconcilePhases_def reconcileNormal_def scanNode_def controlPlanePreflight_def
    updateMachine_def createForMachine_def
  by (intro emits_intros scope_reads.emits_weaker status_marks.emits_weaker
      abort_phase.emits_weaker preflight_reads.emits_weaker create_call.emits_weaker)
    simp_all

interpretation task_calls: calling "\<lambda>_ :: unit. reconcileTask L E" "\<lambda>c. \<not> is_patch_task c" for L E
  by unfold_locales (auto simp: reconcileTask_def intro!: emits_intros phases_patch_no_task)

lemma Reconcile_run:
  assumes "api_GetUpdateTask E h0 ns n = Inr task"
    and "NewTaskHelper E (h0 @ [GetUpdateTask ns n]) task = None"
  obtains r s1 cs where
    "reconcileTask L E \<lparr>calls = h0 @ [GetUpdateTask ns n], obj = task\<rparr> = (r, s1)"
    "calls s1 = h0 @ GetUpdateTask ns n # cs" "list_all (\<lambda>c. \<not> is_patch_task c) cs"
    "sameTask L task (obj s1)"
    "snd (Reconcile L E ns n h0) =
       h0 @ GetUpdateTask ns n # cs @ [PatchTask task (finishTask L (obj s1))]"
proof -
  let ?s = "\<lparr>calls = h0 @ [GetUpdateTask ns n], obj = task\<rparr>"
  obtain r s1 where run: "reconcileTask L E ?s = (r, s1)" by fastforce
  obtain cs where "calls s1 = calls ?s @ cs" "list_all (\<lambda>c. \<not> is_patch_task c) cs"
    using task_calls.history_grows [OF run] .
  moreover have "sameTask L task (obj s1)"
    using keepsD [OF same_reconcileTask run] by simp
  ultimately show thesis
    using that run Reconcile_fetched [OF assms run] by simp
qed

text \<open>
  C21. A reconciliation that has read the task patches it exactly once, as its very last call and
  also when it panics; the patch changes nothing but the task's finalizers, its status and the two
  labels of the node update template that creation sets.
\<close>

theorem reconcile_patches_once:
  assumes "api_GetUpdateTask E h0 ns n = Inr task"
    and "NewTaskHelper E (h0 @ [GetUpdateTask ns n]) task = None"
  shows "\<exists>cs after. snd (Reconcile L E ns n h0) =
      h0 @ GetUpdateTask ns n # cs @ [PatchTask task after] \<and>
    list_all (\<lambda>c. \<not> is_patch_task c) cs \<and> sameTask L task after"
  using assms
proof (rule Reconcile_run [where L = L])
  fix s1 cs
  assume "sameTask L task (obj s1)"
    and "snd (Reconcile L E ns n h0) =
      h0 @ GetUpdateTask ns n # cs @ [PatchTask task (finishTask L (obj s1))]"
    and "list_all (\<lambda>c. \<not> is_patch_task c) cs"
  then show ?thesis by (auto simp: sameTask_def)
qed

section \<open>The finalizer\<close>

text \<open>Documented behaviour of \<open>controllerutil\<close>: the finalizers behave as a set.\<close>

definition finalizer_laws :: "lib \<Rightarrow> bool" where
  "finalizer_laws L \<longleftrightarrow> (\<forall>fs f.
     ContainsFinalizer L fs f = (f \<in> set fs) \<and>
     set (AddFinalizer L fs f) = insert f (set fs) \<and>
     set (RemoveFinalizer L fs f) = set fs - {f})"

lemma finalizer_lawsD:
  assumes "finalizer_laws L"
  shows "ContainsFinalizer L fs f = (f \<in> set fs)"
    and "set (AddFinalizer L fs f) = insert f (set fs)"
    and "set (RemoveFinalizer L fs f) = set fs - {f}"
  using assms by (simp_all add: finalizer_laws_def)

lemma finishTask_frame [simp]:
  "Status (finishTask L t) = Status (onConditions (SetSummary L summaryConditions) t)"
  "Spec (finishTask L t) = Spec t"
  "Finalizers (finishTask L t) =
     (if IsTerminated (State (Status t)) then RemoveFinalizer L (Finalizers t) UpdateTaskFinalizer
      else Finalizers t)"
  by (simp_all add: finishTask_def onConditions_def SetConditions_def GetConditions_def)

lemma finalizers_reconcileTask:
  assumes "finalizer_laws L" and "reconcileTask L E s = (r, s')"
  shows "set (Finalizers (obj s')) = insert UpdateTaskFinalizer (set (Finalizers (obj s)))"
proof (cases "UpdateTaskFinalizer \<in> set (Finalizers (obj s))")
  case True
  with assms have "reconcilePhases L E s = (r, s')"
    by (simp add: reconcileTask_def prog_simps finalizer_lawsD)
  from keepsD [OF kept_phases this] True show ?thesis
    by (auto simp: keptTask_def)
next
  case False
  with assms show ?thesis
    by (auto simp: reconcileTask_def prog_simps finalizer_lawsD)
qed

text \<open>
  C20. The patched task holds the update task finalizer exactly when its state is not a final one,
  and every other finalizer is left as it was.
\<close>

theorem finalizer_follows_state:
  assumes "finalizer_laws L"
    and "api_GetUpdateTask E h0 ns n = Inr task"
    and "NewTaskHelper E (h0 @ [GetUpdateTask ns n]) task = None"
  shows "\<exists>h after. snd (Reconcile L E ns n h0) = h @ [PatchTask task after] \<and>
    (UpdateTaskFinalizer \<in> set (Finalizers after) \<longleftrightarrow> \<not> IsTerminated (State (Status after))) \<and>
    (\<forall>f. f \<noteq> UpdateTaskFinalizer \<longrightarrow> f \<in> set (Finalizers after) \<longleftrightarrow> f \<in> set (Finalizers task))"
  using assms(2,3)
proof (rule Reconcile_run [where L = L])
  fix r s1 cs
  assume run: "reconcileTask L E \<lparr>calls = h0 @ [GetUpdateTask ns n], obj = task\<rparr> = (r, s1)"
    and patch: "snd (Reconcile L E ns n h0) =
      h0 @ GetUpdateTask ns n # cs @ [PatchTask task (finishTask L (obj s1))]"
  have "set (Finalizers (obj s1)) = insert UpdateTaskFinalizer (set (Finalizers task))"
    using finalizers_reconcileTask [OF assms(1) run] by simp
  then have "(UpdateTaskFinalizer \<in> set (Finalizers (finishTask L (obj s1))) \<longleftrightarrow>
      \<not> IsTerminated (State (Status (finishTask L (obj s1))))) \<and>
    (\<forall>f. f \<noteq> UpdateTaskFinalizer \<longrightarrow>
      f \<in> set (Finalizers (finishTask L (obj s1))) \<longleftrightarrow> f \<in> set (Finalizers task))"
    by (auto simp: finalizer_lawsD [OF assms(1)])
  with patch show ?thesis
    by (intro exI [of _ "h0 @ GetUpdateTask ns n # cs"] exI [of _ "finishTask L (obj s1)"]) simp
qed

section \<open>Panics\<close>

definition hasCluster :: "UpdateTask \<Rightarrow> bool" where
  "hasCluster t \<longleftrightarrow> ClusterRef (Spec t) \<noteq> None"

lemma hasCluster_simps [simp]:
  "hasCluster (onConditions f t) = hasCluster t"
  "hasCluster (trackTask L c t) = hasCluster t"
  "hasCluster (shareLabels m t) = hasCluster t"
  by (simp_all add: hasCluster_def)

lemma steady_create [steady_intros]: "steady hasCluster (CreateNodeUpdateTask L E x)"
  unfolding steady_def
proof (intro allI impI)
  fix s :: "UpdateTask mem"
  assume cref: "hasCluster (obj s)"
  obtain r s' where run: "CreateNodeUpdateTask L E x s = (r, s')" by fastforce
  then have "\<exists>y. r = Ret y \<and> hasCluster (obj s')"
    by (rule create_cases) (insert cref, auto simp: hasCluster_def)
  with run show "\<exists>y s'. CreateNodeUpdateTask L E x s = (Ret y, s') \<and> hasCluster (obj s')" by auto
qed

lemma steady_status [steady_intros]: "steady hasCluster (reconcileStatus L E scope)"
  unfolding steady_def
proof (intro allI impI)
  fix s :: "UpdateTask mem"
  assume cref: "hasCluster (obj s)"
  show "\<exists>y s'. reconcileStatus L E scope s = (Ret y, s') \<and> hasCluster (obj s')"
  proof (cases "collectStatuses L (NodeUpdateTasks scope) Map.empty")
    case (Inl err)
    with cref show ?thesis by (simp add: reconcileStatus_error)
  next
    case (Inr m)
    with cref show ?thesis using reconcileStatus_done [OF Inr, of E s] by auto
  qed
qed

lemma steady_scope [steady_intros]: "steady hasCluster (NewScope L E)"
  unfolding steady_def
  by (metis hasCluster_def scope_no_panic scope_frozen.obj_kept)

lemma steady_preflight [steady_intros]:
  "steady hasCluster (PreflightCheckForKubeadmControlPlane L E ns ref)"
  unfolding steady_def
  by (metis preflight_no_panic preflight_frozen.obj_kept)

lemma steady_phases: "steady hasCluster (reconcilePhases L E)"
  unfolding reconcilePhases_def reconcileNormal_def reconcileAbort_def abortNode_def
    AbortNodeUpdateTask_def scanNode_def controlPlanePreflight_def updateMachine_def
    createForMachine_def
  by (intro steady_intros) simp_all

lemma phases_panic:
  assumes "\<not> hasCluster (obj s)"
  shows "\<exists>e s'. reconcilePhases L E s = (Panic e, s')"
  using assms
  by (auto simp: reconcilePhases_def NewScope_def hasCluster_def prog_simps Let_def)

text \<open>
  C31. A reconciliation panics exactly when it has read a task that holds its finalizer but refers
  to no cluster.
\<close>

theorem reconcile_panics_iff:
  assumes "api_GetUpdateTask E h0 ns n = Inr task"
    and "NewTaskHelper E (h0 @ [GetUpdateTask ns n]) task = None"
  shows "(\<exists>e. fst (Reconcile L E ns n h0) = Panic e) \<longleftrightarrow>
    ContainsFinalizer L (Finalizers task) UpdateTaskFinalizer \<and> ClusterRef (Spec task) = None"
proof -
  let ?s = "\<lparr>calls = h0 @ [GetUpdateTask ns n], obj = task\<rparr>"
  obtain r s1 where run: "reconcileTask L E ?s = (r, s1)" by fastforce
  have "(\<exists>e. r = Panic e) \<longleftrightarrow>
      ContainsFinalizer L (Finalizers task) UpdateTaskFinalizer \<and> \<not> hasCluster task"
    using run steadyD [OF steady_phases, of ?s L E] phases_panic [of ?s L E]
    by (auto simp: reconcileTask_def prog_simps split: if_splits)
  then show ?thesis
    unfolding Reconcile_fetched [OF assms run] hasCluster_def
    by (auto split: outcome.split)
qed

section \<open>The branches of a reconciliation\<close>

text \<open>How far the phases come: the scope fails, the status phase is the last one, or one branch follows.\<close>

lemma phases_split:
  assumes run: "reconcilePhases L E s = (r, s')"
  obtains (noScope) r1 where "NewScope L E s = (r1, s')"
  | (status) scope s1 r2 where "NewScope L E s = (Ret (Inr scope), s1)"
      and "reconcileStatus L E scope s1 = (r2, s')" and "sameTask L (obj s) (obj s')"
  | (abort) scope s1 r2 s2 r3 where "NewScope L E s = (Ret (Inr scope), s1)"
      and "reconcileStatus L E scope s1 = (r2, s2)" and "sameTask L (obj s) (obj s2)"
      and "taskAborting L (obj s)" and "reconcileAbort L E scope s2 = (r3, s')"
  | (normal) scope s1 r2 s2 r3 where "NewScope L E s = (Ret (Inr scope), s1)"
      and "reconcileStatus L E scope s1 = (r2, s2)" and "sameTask L (obj s) (obj s2)"
      and "\<not> taskAborting L (obj s)" and "TargetPhase (Spec (obj s)) = UpdateTaskPhaseUpdate"
      and "reconcileNormal L E scope s2 = (r3, s')"
proof -
  obtain r1 s1 where scope: "NewScope L E s = (r1, s1)" by fastforce
  show thesis
  proof (cases "\<exists>scope. r1 = Ret (Inr scope)")
    case False
    with run scope have "s' = s1"
      by (auto simp: reconcilePhases_def run_andThen run_return split: outcome.splits sum.splits)
    with scope show thesis using noScope by simp
  next
    case True
    then obtain scope where r1: "NewScope L E s = (Ret (Inr scope), s1)" using scope by auto
    obtain r2 s2 where status': "reconcileStatus L E scope s1 = (r2, s2)" by fastforce
    have same: "sameTask L (obj s) (obj s2)"
      using keepsD [OF kept_status status'] scope_frozen.obj_kept [OF scope] by (simp add: keptTask_def)
    have facts: "taskAborting L (obj s2) = taskAborting L (obj s)"
        "TargetPhase (Spec (obj s2)) = TargetPhase (Spec (obj s))"
      using taskAborting_same [OF same] sameTask_fields(7) [OF same] by simp_all
    obtain r3 s3 where abort': "reconcileAbort L E scope s2 = (r3, s3)" by fastforce
    obtain r4 s4 where normal': "reconcileNormal L E scope s2 = (r4, s4)" by fastforce
    have "s' = s2 \<or> taskAborting L (obj s) \<and> s' = s3 \<or>
        \<not> taskAborting L (obj s) \<and> TargetPhase (Spec (obj s)) = UpdateTaskPhaseUpdate \<and> s' = s4"
      using run r1 status' abort' normal'
      by (auto simp: reconcilePhases_def run_andThen run_return run_gets facts [symmetric]
          split: outcome.splits prod.splits if_splits)
    then show thesis
      using status [OF r1] abort [OF r1 status' same] normal [OF r1 status' same]
        status' abort' normal' same by blast
  qed
qed

section \<open>Creating node update tasks\<close>

lemma phases_creates:
  assumes run: "reconcilePhases L E s = (r, s')"
  shows "filter is_create_node (calls s') = filter is_create_node (calls s) \<or>
    (\<exists>scope s1 s2 u. NewScope L E s = (Ret (Inr scope), s1) \<and> sameTask L (obj s) (obj s2) \<and>
      \<not> taskAborting L (obj s) \<and> TargetPhase (Spec (obj s)) = UpdateTaskPhaseUpdate \<and>
      filter is_create_node (calls s') = filter is_create_node (calls s) @ [CreateNode u] \<and>
      creation_justified L E scope s2 u)" (is "?quiet s' \<or> ?new")
proof -
  have q1: "?quiet s1" if "NewScope L E s = (r1, s1)" for r1 s1
    by (rule scope_reads.makes_no_other [OF _ that]) simp
  have q2: "?quiet s2" if "NewScope L E s = (r1, s1)" "reconcileStatus L E scope s1 = (r2, s2)"
    for r1 s1 scope r2 s2
    using status_marks.makes_no_other [OF _ that(2), of is_create_node] q1 [OF that(1)] by simp
  from run show ?thesis
  proof (cases rule: phases_split)
    case (abort scope s1 r2 s2 r3)
    then show ?thesis
      using abort_phase.makes_no_other [OF _ abort(5), of is_create_node] q2 by simp
  next
    case (normal scope s1 r2 s2 r3)
    then show ?thesis
      using reconcileNormal_creates [OF normal(6)] q2 [OF normal(1,2)] by auto
  qed (use q1 q2 in blast)+
qed

lemma Reconcile_creates:
  assumes "api_GetUpdateTask E h0 ns n = Inr task"
    and "NewTaskHelper E (h0 @ [GetUpdateTask ns n]) task = None"
  shows "\<exists>cs. filter is_create_node (snd (Reconcile L E ns n h0)) =
      filter is_create_node h0 @ cs \<and> length cs \<le> 1 \<and>
    (\<forall>u. CreateNode u \<in> set cs \<longrightarrow>
      \<not> taskAborting L task \<and> TargetPhase (Spec task) = UpdateTaskPhaseUpdate \<and>
      (\<exists>scope s1 s2. NewScope L E \<lparr>calls = h0 @ [GetUpdateTask ns n], obj = task\<rparr> =
          (Ret (Inr scope), s1) \<and>
        sameTask L task (obj s2) \<and> creation_justified L E scope s2 u))"
proof -
  let ?s = "\<lparr>calls = h0 @ [GetUpdateTask ns n], obj = task\<rparr>"
  obtain r s1 where run: "reconcileTask L E ?s = (r, s1)" by fastforce
  have calls: "filter is_create_node (snd (Reconcile L E ns n h0)) = filter is_create_node (calls s1)"
    by (simp add: Reconcile_fetched [OF assms run])
  show ?thesis
  proof (cases "ContainsFinalizer L (Finalizers task) UpdateTaskFinalizer")
    case False
    with run have "calls s1 = calls ?s" by (auto simp: reconcileTask_def prog_simps)
    then show ?thesis by (simp add: calls)
  next
    case True
    with run have "reconcilePhases L E ?s = (r, s1)" by (simp add: reconcileTask_def prog_simps)
    from phases_creates [OF this] show ?thesis by (auto simp: calls)
  qed
qed

text \<open>
  C10. A reconciliation creates at most one node update task, and only when the task is not to be
  aborted, its target phase is Update, its node update tasks as listed have all ended without a
  failure, the machine is in scope and has none yet, and the kubeadm control plane is stable.
\<close>

theorem reconcile_creates:
  assumes "api_GetUpdateTask E h0 ns n = Inr task"
    and "NewTaskHelper E (h0 @ [GetUpdateTask ns n]) task = None"
  shows "\<exists>cs. filter is_create_node (snd (Reconcile L E ns n h0)) =
      filter is_create_node h0 @ cs \<and> length cs \<le> 1 \<and>
    (\<forall>u. CreateNode u \<in> set cs \<longrightarrow>
      \<not> taskAborting L task \<and> TargetPhase (Spec task) = UpdateTaskPhaseUpdate \<and>
      (\<exists>scope s1 s2. NewScope L E \<lparr>calls = h0 @ [GetUpdateTask ns n], obj = task\<rparr> =
          (Ret (Inr scope), s1) \<and>
        sameTask L task (obj s2) \<and> creation_justified L E scope s2 u))"
  by (rule Reconcile_creates [OF assms])

section \<open>Coming back\<close>

text \<open>
  Documented behaviour of \<open>ctrl.Result\<close> and of error aggregation: a result is zero when no field
  is set; an aggregate is nil exactly when all its errors are.
\<close>

definition result_laws :: "lib \<Rightarrow> bool" where
  "result_laws L \<longleftrightarrow> (\<forall>r. ResultIsZero L r \<longleftrightarrow> r = zeroResult) \<and>
     (\<forall>es. NewAggregate L es = None \<longleftrightarrow> (\<forall>e \<in> set es. e = None))"

text \<open>
  C22. A reconciliation that ends without an error asks to be called again unless the task it
  patched is in a final state: an unfinished task is never dropped.
\<close>

theorem unfinished_comes_back:
  assumes "result_laws L"
    and "api_GetUpdateTask E h0 ns n = Inr task"
    and "NewTaskHelper E (h0 @ [GetUpdateTask ns n]) task = None"
    and "fst (Reconcile L E ns n h0) = Ret (zeroResult, None)"
  shows "\<exists>h after. snd (Reconcile L E ns n h0) = h @ [PatchTask task after] \<and>
    api_PatchTask E h task after = None \<and> IsTerminated (State (Status after))"
proof -
  let ?s = "\<lparr>calls = h0 @ [GetUpdateTask ns n], obj = task\<rparr>"
  obtain r s1 where run: "reconcileTask L E ?s = (r, s1)" by fastforce
  note out = Reconcile_fetched [OF assms(2,3) run]
  obtain rr where r: "r = Ret rr" using assms(4) by (cases r) (auto simp: out)
  have ok: "api_PatchTask E (calls s1) task (finishTask L (obj s1)) = None"
    and err: "snd rr = None"
    using assms(1,4) by (auto simp: out r result_laws_def split: option.splits)
  have "finishResult L (obj s1) rr = zeroResult"
    using assms(4) by (simp add: out r)
  with err assms(1) have "IsTerminated (State (Status (obj s1)))"
    by (auto simp: finishResult_def result_laws_def zeroResult_def split: if_splits)
  with out ok show ?thesis by auto
qed

section \<open>A task without its finalizer\<close>

lemma Reconcile_unguarded:
  assumes "finalizer_laws L" and "result_laws L"
    and "api_GetUpdateTask E h0 ns n = Inr task"
    and "NewTaskHelper E (h0 @ [GetUpdateTask ns n]) task = None"
    and "UpdateTaskFinalizer \<notin> set (Finalizers task)"
    and "after = finishTask L
      (task\<lparr>Finalizers := AddFinalizer L (Finalizers task) UpdateTaskFinalizer\<rparr>)"
    and "api_PatchTask E (h0 @ [GetUpdateTask ns n]) task after = None"
  shows "Reconcile L E ns n h0 = (Ret (requeueAfter changedRequeueAfter, None),
    h0 @ [GetUpdateTask ns n, PatchTask task after])"
proof -
  let ?s1 = "\<lparr>calls = h0 @ [GetUpdateTask ns n],
    obj = task\<lparr>Finalizers := AddFinalizer L (Finalizers task) UpdateTaskFinalizer\<rparr>\<rparr>"
  have run: "reconcileTask L E \<lparr>calls = h0 @ [GetUpdateTask ns n], obj = task\<rparr> =
      (Ret (requeueAfter changedRequeueAfter, None), ?s1)"
    using assms(1,5) by (simp add: reconcileTask_def prog_simps finalizer_lawsD)
  show ?thesis
    using Reconcile_fetched [OF assms(3,4) run] assms(2,6,7)
    by (simp add: finishResult_def result_laws_def)
qed

text \<open>
  The first reconciliation of a task that has not ended does one thing only: it adds the
  finalizer, keeps the state, and comes back after 100 milliseconds. No cluster, machine or node
  update task is read or touched before the finalizer is stored.
\<close>

theorem first_pass_adds_finalizer:
  assumes "finalizer_laws L" and "result_laws L"
    and "api_GetUpdateTask E h0 ns n = Inr task"
    and "NewTaskHelper E (h0 @ [GetUpdateTask ns n]) task = None"
    and "UpdateTaskFinalizer \<notin> set (Finalizers task)"
    and "\<not> IsTerminated (State (Status task))"
    and "\<forall>h before after. api_PatchTask E h before after = None"
  shows "\<exists>after. Reconcile L E ns n h0 = (Ret (requeueAfter changedRequeueAfter, None),
      h0 @ [GetUpdateTask ns n, PatchTask task after]) \<and>
    set (Finalizers after) = insert UpdateTaskFinalizer (set (Finalizers task)) \<and>
    State (Status after) = State (Status task) \<and> sameTask L task after"
  using Reconcile_unguarded [OF assms(1-5) refl] assms(1,6,7)
  by (auto simp: finalizer_lawsD sameTask_def)

end
