(* ===== verification/Task_Lifecycle.thy ===== *)
theory Task_Lifecycle
  imports Task_Reconcile
begin

text \<open>
  The life of a stored update task: reconciliations patch it one after the other, and between them
  other clients edit its metadata and spec. The step relation uses \<open>Reconcile\<close> as it is, with a
  new behaviour of the outside world at each step.
\<close>

section \<open>Steps\<close>

inductive taskStep :: "lib \<Rightarrow> UpdateTask \<Rightarrow> UpdateTask \<Rightarrow> bool" for L where
  reconciled: "api_GetUpdateTask E h0 ns n = Inr t \<Longrightarrow>
    NewTaskHelper E (h0 @ [GetUpdateTask ns n]) t = None \<Longrightarrow>
    snd (Reconcile L E ns n h0) = h @ [PatchTask t t'] \<Longrightarrow> taskStep L t t'"
| edited: "Status t' = Status t \<Longrightarrow> Finalizers t' = Finalizers t \<Longrightarrow> taskStep L t t'"

inductive_cases taskStepE: "taskStep L t t'"

section \<open>The states a reconciliation can set\<close>

definition stateMoves :: "UpdateTask \<Rightarrow> UpdateTask \<Rightarrow> bool" where
  "stateMoves a b \<longleftrightarrow> State (Status b) = State (Status a) \<or>
     State (Status b) \<in> {UpdateTaskStateInProgress, UpdateTaskStateUpdated, UpdateTaskStateAborted}"

interpretation state_moves: object_preorder stateMoves
  by unfold_locales (auto simp: stateMoves_def)

lemma stateMoves_changes [simp]:
  "stateMoves t (onConditions f t)" "stateMoves t (trackTask L c t)"
  "stateMoves t (shareLabels m t)" "stateMoves t (t\<lparr>Finalizers := fs\<rparr>)"
  by (simp_all add: stateMoves_def State_trackTask)

lemma moves_create: "keeps stateMoves (CreateNodeUpdateTask L E x)"
  unfolding keeps_def
proof
  fix s
  obtain r s' where run: "CreateNodeUpdateTask L E x s = (r, s')" by fastforce
  then show "stateMoves (obj s) (obj (snd (CreateNodeUpdateTask L E x s)))"
    by (rule create_cases) (simp_all add: run state_moves.R_refl)
qed

lemma moves_status: "keeps stateMoves (reconcileStatus L E scope)"
  unfolding reconcileStatus_def
proof (intro state_moves.keeps_intros stateMoves_changes)
  fix m task x a
  show "keeps stateMoves (statusMachine L E (Name task) m x a)"
    by (rule state_moves.keeps_frozen) (simp add: run_statusMachine)
qed

lemma moves_reconcileTask: "keeps stateMoves (reconcileTask L E)"
  unfolding reconcileTask_def reconcilePhases_def reconcileNormal_def reconcileAbort_def
    abortNode_def scanNode_def controlPlanePreflight_def updateMachine_def createForMachine_def
  by (intro state_moves.keeps_intros moves_create moves_status stateMoves_changes
      state_moves.keeps_frozen scope_frozen.obj_same abort_frozen.obj_same
      preflight_frozen.obj_same)

lemma stateMoves_finish: "stateMoves a b \<Longrightarrow> stateMoves a (finishTask L b)"
  by (simp add: stateMoves_def)

lemma taskStep_moves: "taskStep L t t' \<Longrightarrow> stateMoves t t'"
proof (erule taskStepE)
  fix E h0 ns n h
  assume get: "api_GetUpdateTask E h0 ns n = Inr t"
    "NewTaskHelper E (h0 @ [GetUpdateTask ns n]) t = None"
    and patch: "snd (Reconcile L E ns n h0) = h @ [PatchTask t t']"
  from get show ?thesis
  proof (rule Reconcile_run [where L = L])
    fix r s1 cs
    assume "reconcileTask L E \<lparr>calls = h0 @ [GetUpdateTask ns n], obj = t\<rparr> = (r, s1)"
      and "snd (Reconcile L E ns n h0) =
        h0 @ GetUpdateTask ns n # cs @ [PatchTask t (finishTask L (obj s1))]"
    with keepsD [OF moves_reconcileTask] patch show ?thesis
      by (fastforce intro: stateMoves_finish)
  qed
qed (simp add: stateMoves_def)

text \<open>
  C33. An update task that starts without a state only ever gets the states InProgress, Updated and
  Aborted, whatever happens around it: a cluster update task never becomes Failed.
\<close>

theorem task_states:
  assumes "State (Status t0) = UpdateTaskStateUnknown" and "(taskStep L)\<^sup>*\<^sup>* t0 t"
  shows "State (Status t) \<in> {UpdateTaskStateUnknown, UpdateTaskStateInProgress,
    UpdateTaskStateUpdated, UpdateTaskStateAborted}"
  using assms(2)
proof (induction rule: rtranclp_induct)
  case base
  with assms(1) show ?case by simp
next
  case (step t t')
  from taskStep_moves [OF step.hyps(2)] step.IH show ?case
    by (auto simp: stateMoves_def)
qed

section \<open>Final states\<close>

text \<open>A task in a final state has given up its finalizer.\<close>

definition settled :: "UpdateTask \<Rightarrow> bool" where
  "settled t \<longleftrightarrow> (IsTerminated (State (Status t)) \<longrightarrow> UpdateTaskFinalizer \<notin> set (Finalizers t))"

lemma reconciled_after:
  assumes laws: "finalizer_laws L" and "settled t"
    and get: "api_GetUpdateTask E h0 ns n = Inr t"
      "NewTaskHelper E (h0 @ [GetUpdateTask ns n]) t = None"
    and patch: "snd (Reconcile L E ns n h0) = h @ [PatchTask t t']"
  shows "settled t' \<and> (IsTerminated (State (Status t)) \<longrightarrow> State (Status t') = State (Status t))"
  using get
proof (rule Reconcile_run [where L = L])
  fix r s1 cs
  assume run: "reconcileTask L E \<lparr>calls = h0 @ [GetUpdateTask ns n], obj = t\<rparr> = (r, s1)"
    and "snd (Reconcile L E ns n h0) =
      h0 @ GetUpdateTask ns n # cs @ [PatchTask t (finishTask L (obj s1))]"
  with patch have t': "t' = finishTask L (obj s1)" by simp
  have "settled t'"
    by (simp add: settled_def t' finalizer_lawsD [OF laws])
  moreover have "State (Status t') = State (Status t)" if "IsTerminated (State (Status t))"
  proof -
    have "UpdateTaskFinalizer \<notin> set (Finalizers t)" using assms(2) that by (simp add: settled_def)
    with run have "State (Status (obj s1)) = State (Status t)"
      by (auto simp: reconcileTask_def prog_simps finalizer_lawsD [OF laws])
    then show ?thesis by (simp add: t')
  qed
  ultimately show ?thesis by simp
qed

lemma taskStep_settled:
  assumes "finalizer_laws L" and "taskStep L t t'" and "settled t"
  shows "settled t'" and "IsTerminated (State (Status t)) \<Longrightarrow> State (Status t') = State (Status t)"
  using assms(2) reconciled_after [OF assms(1,3)]
  by (auto elim!: taskStepE simp: assms(3) [unfolded settled_def] settled_def)

lemma taskSteps_settled:
  assumes "finalizer_laws L" and "(taskStep L)\<^sup>*\<^sup>* t t'" and "settled t"
  shows "settled t' \<and> (IsTerminated (State (Status t)) \<longrightarrow> State (Status t') = State (Status t))"
  using assms(2)
proof (induction rule: rtranclp_induct)
  case base
  with assms(3) show ?case by simp
next
  case (step u v)
  with taskStep_settled [OF assms(1) step.hyps(2)] show ?case by auto
qed

text \<open>
  C9. Final states are final: once a task that started without a state is Updated or Aborted, no
  reconciliation and no edit of its spec (a deletion or a new target phase, say) changes its state
  any more, and it holds no update task finalizer.
\<close>

theorem final_states_stay:
  assumes "finalizer_laws L" and "State (Status t0) = UpdateTaskStateUnknown"
    and "(taskStep L)\<^sup>*\<^sup>* t0 t" and "IsTerminated (State (Status t))"
    and "(taskStep L)\<^sup>*\<^sup>* t t'"
  shows "State (Status t') = State (Status t) \<and> UpdateTaskFinalizer \<notin> set (Finalizers t')"
proof -
  have "settled t0" using assms(2) by (simp add: settled_def)
  then have "settled t" using taskSteps_settled [OF assms(1,3)] by blast
  then have "settled t'" "State (Status t') = State (Status t)"
    using taskSteps_settled [OF assms(1,5)] assms(4) by auto
  with assms(4) show ?thesis by (simp add: settled_def)
qed

end
