(* ===== verification/Rollout.thy ===== *)
theory Rollout
  imports Task_Lifecycle
begin

text \<open>
  The rollout of one update task over its machines: the node update tasks that carry its name
  change by reconciliations of the task, by the controllers that carry the node updates out, and by
  deletions. \<open>Reconcile\<close> runs as it is, on an outside world whose list of node update tasks with the
  task's label is the current one: the manager's client does not cache unstructured objects.
\<close>

section \<open>Steps\<close>

text \<open>The objects a stretch of calls asks the API server to create.\<close>

fun createdNodes :: "history \<Rightarrow> Unstructured list" where
  "createdNodes [] = []"
| "createdNodes (CreateNode u # cs) = u # createdNodes cs"
| "createdNodes (_ # cs) = createdNodes cs"

lemma createdNodes_append [simp]: "createdNodes (a @ b) = createdNodes a @ createdNodes b"
  by (induction a rule: createdNodes.induct) simp_all

lemma createdNodes_filter: "createdNodes (filter is_create_node cs) = createdNodes cs"
  by (induction cs rule: createdNodes.induct) simp_all

definition ended :: "lib \<Rightarrow> Unstructured \<Rightarrow> bool" where
  "ended L u \<longleftrightarrow> (case GetNodeUpdateTaskStatus L u of
      Inl _ \<Rightarrow> False | Inr st \<Rightarrow> IsTerminated (nus_State st))"

definition machineOf :: "lib \<Rightarrow> Unstructured \<Rightarrow> string option" where
  "machineOf L u = (case GetNodeUpdateTaskStatus L u of
      Inl _ \<Rightarrow> None | Inr st \<Rightarrow> Some (nus_MachineName st))"

text \<open>
  In a reconciliation every creation it asks for may take place or not (\<open>created\<close> is a part of what
  it asks for: a request may be refused, or fail after it was carried out). A node update may
  report anything as long as it stays a node update of its machine and a final state stays final.
\<close>

inductive rolloutStep :: "lib \<Rightarrow> Unstructured list \<Rightarrow> Unstructured list \<Rightarrow> bool" for L where
  reconciled: "api_GetUpdateTask E h0 ns n = Inr task \<Longrightarrow>
    NewTaskHelper E (h0 @ [GetUpdateTask ns n]) task = None \<Longrightarrow>
    (\<forall>h v k. api_ListUnstructured E h v k (Namespace task)
       [(ClusterUpdateTaskNameLabel, Name task)] = Inr us) \<Longrightarrow>
    (\<forall>h ns ls ms. api_ListMachines E h ns ls = Inr ms \<longrightarrow> (\<forall>x \<in> set ms. ascii (Name x))) \<Longrightarrow>
    snd (Reconcile L E ns n h0) = h0 @ cs \<Longrightarrow>
    created = [] \<or> created = createdNodes cs \<Longrightarrow>
    rolloutStep L us (us @ created)"
| reported: "(ended L u \<longrightarrow> ended L u') \<Longrightarrow> machineOf L u' = machineOf L u \<Longrightarrow>
    rolloutStep L (us @ u # vs) (us @ u' # vs)"
| deleted: "rolloutStep L (us @ u # vs) (us @ vs)"

section \<open>The invariant\<close>

text \<open>At most one node update has not ended, and no machine has two.\<close>

definition oneAtATime :: "lib \<Rightarrow> Unstructured list \<Rightarrow> bool" where
  "oneAtATime L us \<longleftrightarrow> length (filter (\<lambda>u. \<not> ended L u) us) \<le> 1 \<and>
     distinct (map (machineOf L) us)"

lemma oneAtATime_Nil [simp]: "oneAtATime L []"
  by (simp add: oneAtATime_def)

lemma oneAtATime_report:
  assumes "oneAtATime L (us @ u # vs)" and "ended L u \<longrightarrow> ended L u'"
    and "machineOf L u' = machineOf L u"
  shows "oneAtATime L (us @ u' # vs)"
  using assms by (auto simp: oneAtATime_def split: if_splits)

lemma oneAtATime_delete: "oneAtATime L (us @ u # vs) \<Longrightarrow> oneAtATime L (us @ vs)"
  by (auto simp: oneAtATime_def split: if_splits)

lemma oneAtATime_create:
  assumes "oneAtATime L us" and "\<forall>u \<in> set us. ended L u"
    and "\<forall>u \<in> set us. machineOf L u \<noteq> machineOf L v"
  shows "oneAtATime L (us @ [v])"
  using assms by (force simp: oneAtATime_def filter_empty_conv)

lemma justified_create:
  assumes "nested_laws L" and "creation_justified L E scope s v"
    and "\<forall>x \<in> set (SortedByCreationTimestamp L (UpdateMachines scope)). ascii (Name x)"
  shows "\<forall>u \<in> set (NodeUpdateTasks scope). ended L u \<and> machineOf L u \<noteq> machineOf L v"
proof -
  obtain sts x base where sts: "map (GetNodeUpdateTaskStatus L) (NodeUpdateTasks scope) = map Inr sts"
      "\<forall>st \<in> set sts. IsTerminated (nus_State st) \<and> nus_State st \<noteq> UpdateTaskStateFailed \<and>
         nus_MachineName st \<noteq> Name x"
    and x: "x \<in> set (SortedByCreationTimestamp L (UpdateMachines scope))"
    and v: "setFields L (nodeUpdateFields (obj s) x) base = Inr v"
    using assms(2) unfolding creation_justified_def by blast
  have "machineOf L v = Some (Name x)"
    using nodeUpdateFields_machineName [OF assms(1) v] nodeUpdateFields_phase [OF assms(1) v]
      assms(3) x by (simp add: machineOf_def GetNodeUpdateTaskStatus_def)
  moreover have "\<exists>st \<in> set sts. GetNodeUpdateTaskStatus L u = Inr st"
    if "u \<in> set (NodeUpdateTasks scope)" for u
  proof -
    have "GetNodeUpdateTaskStatus L u \<in> set (map (GetNodeUpdateTaskStatus L) (NodeUpdateTasks scope))"
      using that by simp
    then show ?thesis unfolding sts(1) by auto
  qed
  ultimately show ?thesis
    using sts(2) by (fastforce simp: ended_def machineOf_def)
qed

text \<open>
  What the machines of a scope are: those of the list, in some order. It follows from the laws of
  machine collections for lists with distinct names; here only membership matters.
\<close>

definition membership_laws :: "lib \<Rightarrow> bool" where
  "membership_laws L \<longleftrightarrow>
     (\<forall>ms. snd ` set (FromMachineList L ms) \<subseteq> set ms) \<and>
     (\<forall>xs. set (SortedByCreationTimestamp L xs) = snd ` set xs)"

text \<open>
  What a reconciliation asks to create: nothing, or one node update that the scope it collected
  justifies.
\<close>

lemma reconcile_creation:
  assumes get: "api_GetUpdateTask E h0 ns n = Inr task"
      "NewTaskHelper E (h0 @ [GetUpdateTask ns n]) task = None"
    and list: "\<forall>h v k. api_ListUnstructured E h v k (Namespace task)
      [(ClusterUpdateTaskNameLabel, Name task)] = Inr us"
    and cs: "snd (Reconcile L E ns n h0) = h0 @ cs"
  obtains (nothing) "createdNodes cs = []"
  | (new) v s scope h ls ms where
      "createdNodes cs = [v]" "creation_justified L E scope s v" "NodeUpdateTasks scope = us"
      "Name (obj s) = Name task" "Namespace (obj s) = Namespace task"
      "UpdateMachines scope = FromMachineList L ms"
      "api_ListMachines E h (Namespace task) ls = Inr ms"
proof -
  let ?s = "\<lparr>calls = h0 @ [GetUpdateTask ns n], obj = task\<rparr>"
  obtain r s1 where run: "reconcileTask L E ?s = (r, s1)" by fastforce
  have "snd (Reconcile L E ns n h0) = calls s1 @ [PatchTask task (finishTask L (obj s1))]"
    by (simp add: Reconcile_fetched [OF get run])
  then have same: "filter is_create_node (calls s1) = filter is_create_node h0 @ filter is_create_node cs"
    using arg_cong [OF cs, of "filter is_create_node"] by simp
  show thesis
  proof (cases "ContainsFinalizer L (Finalizers task) UpdateTaskFinalizer")
    case False
    with run have "calls s1 = calls ?s" by (auto simp: reconcileTask_def prog_simps)
    with same have "filter is_create_node cs = []" by simp
    then have "createdNodes cs = []" by (simp add: createdNodes_filter [symmetric, of cs])
    then show thesis by (rule nothing)
  next
    case True
    with run have "reconcilePhases L E ?s = (r, s1)" by (simp add: reconcileTask_def prog_simps)
    from phases_creates [OF this] same
    consider "filter is_create_node cs = []"
      | (one) scope s1 s2 v where "NewScope L E ?s = (Ret (Inr scope), s1)" "sameTask L task (obj s2)"
        "filter is_create_node cs = [CreateNode v]" "creation_justified L E scope s2 v"
      by auto
    then show thesis
    proof cases
      case 1
      have "createdNodes cs = []" by (simp add: createdNodes_filter [symmetric, of cs] 1)
      then show thesis by (rule nothing)
    next
      case one
      have v: "createdNodes cs = [v]"
        by (simp add: createdNodes_filter [symmetric, of cs] one(3))
      from one(1) show thesis
        by (rule scope_built)
          (rule new [OF v one(4)], use list sameTask_fields(1,2) [OF one(2)] in auto)
    qed
  qed
qed

lemma scope_machines:
  assumes "membership_laws L" and "UpdateMachines scope = FromMachineList L ms"
  shows "set (SortedByCreationTimestamp L (UpdateMachines scope)) \<subseteq> set ms"
  using assms by (simp add: membership_laws_def)

lemma reconciled_oneAtATime:
  assumes laws: "nested_laws L" "membership_laws L" and inv: "oneAtATime L us"
    and get: "api_GetUpdateTask E h0 ns n = Inr task"
      "NewTaskHelper E (h0 @ [GetUpdateTask ns n]) task = None"
    and list: "\<forall>h v k. api_ListUnstructured E h v k (Namespace task)
      [(ClusterUpdateTaskNameLabel, Name task)] = Inr us"
    and names: "\<forall>h ns ls ms. api_ListMachines E h ns ls = Inr ms \<longrightarrow> (\<forall>x \<in> set ms. ascii (Name x))"
    and cs: "snd (Reconcile L E ns n h0) = h0 @ cs"
  shows "oneAtATime L (us @ createdNodes cs)"
  using get list cs
proof (cases rule: reconcile_creation)
  case nothing
  with inv show ?thesis by simp
next
  case (new v s scope h ls ms)
  have "\<forall>x \<in> set (SortedByCreationTimestamp L (UpdateMachines scope)). ascii (Name x)"
    using scope_machines [OF laws(2) new(6)] names new(7) by blast
  from justified_create [OF laws(1) new(2) this] inv show ?thesis
    by (simp add: new(1,3) oneAtATime_create)
qed

lemma rolloutStep_oneAtATime:
  assumes "nested_laws L" and "membership_laws L" and "rolloutStep L us us'" and "oneAtATime L us"
  shows "oneAtATime L us'"
  using assms(3)
proof cases
  case (reconciled E h0 ns n task cs created)
  then have "oneAtATime L (us @ createdNodes cs)"
    by (intro reconciled_oneAtATime [OF assms(1,2,4)])
  with reconciled(1,7) assms(4) show ?thesis by auto
next
  case (reported u u' ws vs)
  with assms(4) oneAtATime_report show ?thesis by blast
next
  case (deleted ws u vs)
  with assms(4) oneAtATime_delete show ?thesis by blast
qed

text \<open>
  C1. The rollout goes one node at a time: starting without node update tasks, at any moment at
  most one node update task of the update task has not ended, and no machine has two.
\<close>

theorem rollout_one_at_a_time:
  assumes "nested_laws L" and "membership_laws L" and "(rolloutStep L)\<^sup>*\<^sup>* [] us"
  shows "length (filter (\<lambda>u. \<not> ended L u) us) \<le> 1 \<and> distinct (map (machineOf L) us)"
proof -
  have "oneAtATime L us"
    using assms(3)
    by (induction rule: rtranclp_induct) (auto intro: rolloutStep_oneAtATime [OF assms(1,2)])
  then show ?thesis by (simp add: oneAtATime_def)
qed


section \<open>Progress\<close>

lemma needsUpdate_snoc:
  "needsUpdate taskName (sts @ [st]) =
     (\<lambda>x. needsUpdate taskName sts x \<and> Name x \<noteq> nus_MachineName st)"
  by (rule ext) (auto simp: needsUpdate_def)

lemma filter_except_name:
  assumes "distinct (map Name xs)" and "x \<in> set xs" and "P x"
  shows "length (filter P xs) = Suc (length (filter (\<lambda>y. P y \<and> Name y \<noteq> Name x) xs))"
  using assms
proof (induction xs)
  case (Cons y ys)
  show ?case
  proof (cases "y = x")
    case True
    have "Name x \<notin> Name ` set ys" using Cons.prems True by simp
    then have "\<forall>z \<in> set ys. Name z \<noteq> Name x" by (metis imageI)
    then have "filter (\<lambda>z. P z \<and> Name z \<noteq> Name x) ys = filter P ys"
      by (intro filter_cong) auto
    with True Cons.prems show ?thesis by simp
  next
    case False
    with Cons.prems have "Name y \<noteq> Name x" by auto
    with False Cons show ?thesis by auto
  qed
qed simp

text \<open>
  Every creation is progress: when the update phase picks a machine and the node update task for
  it is built, that task reads back as a node update of exactly this machine, and the number of
  machines that still need one goes down by one.
\<close>

theorem creation_makes_progress:
  assumes "nested_laws L" and "ascii (Name x)" and "distinct (map Name xs)"
    and "find (needsUpdate taskName sts) xs = Some x"
    and "CreateNodeUpdateTask L E x s = (Ret (Some u, e), s')"
  shows "\<exists>st. GetNodeUpdateTaskStatus L u = Inr st \<and>
    length (filter (needsUpdate taskName sts) xs) =
      Suc (length (filter (needsUpdate taskName (sts @ [st])) xs))"
proof -
  have "\<exists>base. setFields L (nodeUpdateFields (obj s) x) base = Inr u"
    using assms(5) by (rule create_cases) auto
  then obtain base where u: "setFields L (nodeUpdateFields (obj s) x) base = Inr u" by blast
  obtain st where st: "GetNodeUpdateTaskStatus L u = Inr st" "nus_MachineName st = Name x"
    using nodeUpdateFields_machineName [OF assms(1) u assms(2)]
      nodeUpdateFields_phase [OF assms(1) u] by (simp add: GetNodeUpdateTaskStatus_def)
  have "x \<in> set xs" "needsUpdate taskName sts x"
    using assms(4) by (auto simp: find_Some_iff)
  from filter_except_name [where P = "needsUpdate taskName sts", OF assms(3) this] st show ?thesis
    by (auto simp: needsUpdate_snoc)
qed

end
