(* ===== verification/Docker_Node_Controller.thy ===== *)
theory Docker_Node_Controller
  imports Trace
begin

text \<open>
  The node update controller for docker machines,
  \<open>src/internal/controller/dockernodeupdatetask\_controller.go\<close>: it carries out one
  DockerNodeUpdateTask by running a command in the machine's container.
\<close>

section \<open>Model\<close>

definition setDockerState :: "UpdateTaskState \<Rightarrow> DockerNodeUpdateTask \<Rightarrow> DockerNodeUpdateTask" where
  "setDockerState st t = t\<lparr>DockerStatus := (DockerStatus t)\<lparr>dn_State := st\<rparr>\<rparr>"

text \<open>
  The body of the update: the error of the command is logged, not returned, and the output buffers
  only reach the log.
\<close>

definition execUpdate :: "env \<Rightarrow> Machine \<Rightarrow> string \<Rightarrow> (DockerNodeUpdateTask mem, unit) prog" where
  "execUpdate E machine machineName =
     (let input = ''echo 111 '' @ machineName; command = ''echo 222 '' @ machineName in
      andThen (invoke (ExecContainer (Name machine) input command)
          (\<lambda>h. api_ExecContainer E h (Name machine) input command)) (\<lambda>e.
      andThen (case e of
          Some _ \<Rightarrow> change (setDockerState UpdateTaskStateFailed)
        | None \<Rightarrow> return ()) (\<lambda>_.
      andThen (invoke (Sleep (10 * Second)) (\<lambda>_. ())) (\<lambda>_.
      change (setDockerState UpdateTaskStateUpdated)))))"

definition dockerTask ::
  "env \<Rightarrow> string \<Rightarrow> (DockerNodeUpdateTask mem, Result \<times> goerr option) prog" where
  "dockerTask E namespace =
     andThen (gets obj) (\<lambda>task. let machineName = dn_MachineName (DockerSpec task) in
     andThen (invoke (GetMachine namespace machineName)
         (\<lambda>h. api_GetMachine E h namespace machineName)) (\<lambda>r. case r of
         Inl err \<Rightarrow> return (zeroResult, Some err)
       | Inr machine \<Rightarrow>
     andThen (consult (NewDockerClient E)) (\<lambda>e. case e of
         Some err \<Rightarrow> return (zeroResult, Some err)
       | None \<Rightarrow>
         if dn_Phase (DockerSpec task) = UpdateTaskPhaseUpdate \<and>
            \<not> IsTerminated (dn_State (DockerStatus task))
         then andThen (execUpdate E machine machineName) (\<lambda>_. return (zeroResult, None))
         else return (zeroResult, None))))"

text \<open>The deferred patch; its error is only logged.\<close>

definition dockerPatch ::
  "env \<Rightarrow> DockerNodeUpdateTask \<Rightarrow> Result \<times> goerr option \<Rightarrow>
     (DockerNodeUpdateTask mem, Result \<times> goerr option) prog" where
  "dockerPatch E before r =
     andThen (gets obj) (\<lambda>task.
     andThen (invoke (PatchDockerTask before task) (\<lambda>h. api_PatchDockerTask E h before task))
       (\<lambda>_. return r))"

definition DockerReconcile ::
  "lib \<Rightarrow> env \<Rightarrow> string \<Rightarrow> string \<Rightarrow> history \<Rightarrow> (Result \<times> goerr option) outcome \<times> history" where
  "DockerReconcile L E namespace name h0 =
     (let h = h0 @ [GetDockerNodeUpdateTask namespace name] in
      case api_GetDockerNodeUpdateTask E h0 namespace name of
        Inl err \<Rightarrow>
          (Ret (if IsNotFound L err then (zeroResult, None) else (zeroResult, Some err)), h)
      | Inr task \<Rightarrow>
        (case NewDockerHelper E h task of
           Some err \<Rightarrow> (Ret (zeroResult, Some err), h)
         | None \<Rightarrow>
           (case withDefer (dockerTask E namespace) (zeroResult, None) (dockerPatch E task)
                   \<lparr>calls = h, obj = task\<rparr> of
              (r, s) \<Rightarrow> (r, calls s))))"

section \<open>What it does\<close>

lemma run_execUpdate:
  "execUpdate E machine mn s = (Ret (),
     s\<lparr>calls := calls s @ [ExecContainer (Name machine) (''echo 111 '' @ mn) (''echo 222 '' @ mn),
         Sleep (10 * Second)],
       obj := setDockerState UpdateTaskStateUpdated (obj s)\<rparr>)"
  by (simp add: execUpdate_def prog_simps Let_def setDockerState_def split: option.split)

text \<open>The specification: whether a task is due, and what remains of it after a pass.\<close>

definition dockerDue :: "DockerNodeUpdateTask \<Rightarrow> bool" where
  "dockerDue t \<longleftrightarrow> dn_Phase (DockerSpec t) = UpdateTaskPhaseUpdate \<and>
     \<not> IsTerminated (dn_State (DockerStatus t))"

text \<open>The machine whose container the command runs in, if the pass gets as far as that.\<close>

definition dockerTarget :: "env \<Rightarrow> history \<Rightarrow> string \<Rightarrow> DockerNodeUpdateTask \<Rightarrow> Machine option" where
  "dockerTarget E h ns t =
     (case api_GetMachine E h ns (dn_MachineName (DockerSpec t)) of
        Inl _ \<Rightarrow> None
      | Inr machine \<Rightarrow>
        if dockerDue t \<and>
          NewDockerClient E (h @ [GetMachine ns (dn_MachineName (DockerSpec t))]) = None
        then Some machine else None)"

definition dockerCommand :: "Machine \<Rightarrow> DockerNodeUpdateTask \<Rightarrow> call" where
  "dockerCommand machine t = ExecContainer (Name machine)
     (''echo 111 '' @ dn_MachineName (DockerSpec t)) (''echo 222 '' @ dn_MachineName (DockerSpec t))"

lemma run_dockerTask:
  "\<exists>rr. dockerTask E ns s = (Ret rr,
     case dockerTarget E (calls s) ns (obj s) of
       None \<Rightarrow> s\<lparr>calls := calls s @ [GetMachine ns (dn_MachineName (DockerSpec (obj s)))]\<rparr>
     | Some machine \<Rightarrow> s\<lparr>calls := calls s @
           [GetMachine ns (dn_MachineName (DockerSpec (obj s))),
            dockerCommand machine (obj s), Sleep (10 * Second)],
         obj := setDockerState UpdateTaskStateUpdated (obj s)\<rparr>) \<and>
     (dockerTarget E (calls s) ns (obj s) \<noteq> None \<longrightarrow> rr = (zeroResult, None))"
  by (auto simp: dockerTask_def dockerDue_def dockerTarget_def dockerCommand_def prog_simps
      run_execUpdate Let_def split: sum.split option.split)

lemma DockerReconcile_fetched:
  assumes "api_GetDockerNodeUpdateTask E h0 ns n = Inr task"
    and "NewDockerHelper E (h0 @ [GetDockerNodeUpdateTask ns n]) task = None"
    and "h = h0 @ [GetDockerNodeUpdateTask ns n]"
  shows "\<exists>rr. DockerReconcile L E ns n h0 = (Ret rr, h @
     GetMachine ns (dn_MachineName (DockerSpec task)) #
     (case dockerTarget E h ns task of
        None \<Rightarrow> [PatchDockerTask task task]
      | Some machine \<Rightarrow> [dockerCommand machine task, Sleep (10 * Second),
          PatchDockerTask task (setDockerState UpdateTaskStateUpdated task)])) \<and>
     (dockerTarget E h ns task \<noteq> None \<longrightarrow> rr = (zeroResult, None))"
  using run_dockerTask [of E ns "\<lparr>calls = h, obj = task\<rparr>"] assms
  by (auto simp: DockerReconcile_def withDefer_def dockerPatch_def prog_simps Let_def
      split: option.splits)

text \<open>
  C34. A docker node update that is due (phase Update, not ended) runs one command in the machine's
  container, waits ten seconds and is patched as Updated, without an error, whatever the command
  answers: a failed command is reported as a success.
\<close>

theorem docker_update_reports_updated:
  assumes "api_GetDockerNodeUpdateTask E h0 ns n = Inr task"
    and "NewDockerHelper E (h0 @ [GetDockerNodeUpdateTask ns n]) task = None"
    and "api_GetMachine E (h0 @ [GetDockerNodeUpdateTask ns n]) ns
      (dn_MachineName (DockerSpec task)) = Inr machine"
    and "\<forall>h. NewDockerClient E h = None"
    and "dockerDue task"
  shows "DockerReconcile L E ns n h0 = (Ret (zeroResult, None),
    h0 @ [GetDockerNodeUpdateTask ns n, GetMachine ns (dn_MachineName (DockerSpec task)),
      ExecContainer (Name machine) (''echo 111 '' @ dn_MachineName (DockerSpec task))
        (''echo 222 '' @ dn_MachineName (DockerSpec task)),
      Sleep (10 * Second),
      PatchDockerTask task (setDockerState UpdateTaskStateUpdated task)])"
proof -
  have "dockerTarget E (h0 @ [GetDockerNodeUpdateTask ns n]) ns task = Some machine"
    using assms(3-5) by (simp add: dockerTarget_def)
  with DockerReconcile_fetched [OF assms(1,2) refl, of L] show ?thesis
    by (auto simp: dockerCommand_def)
qed

fun is_exec :: "call \<Rightarrow> bool" where
  "is_exec (ExecContainer _ _ _) = True"
| "is_exec _ = False"

lemma is_exec_dockerCommand [simp]: "is_exec (dockerCommand machine t)"
  by (simp add: dockerCommand_def)

text \<open>
  A docker node update that is not due (it has ended, or its phase is Abort) is left as it is:
  no command runs and the patch changes nothing. So an aborted docker node update that has not
  ended never reaches a final state.
\<close>

theorem docker_not_due_unchanged:
  assumes "api_GetDockerNodeUpdateTask E h0 ns n = Inr task"
    and "NewDockerHelper E (h0 @ [GetDockerNodeUpdateTask ns n]) task = None"
    and "\<not> dockerDue task"
  shows "\<exists>r. DockerReconcile L E ns n h0 = (Ret r,
    h0 @ [GetDockerNodeUpdateTask ns n, GetMachine ns (dn_MachineName (DockerSpec task)),
      PatchDockerTask task task])"
proof -
  have "dockerTarget E (h0 @ [GetDockerNodeUpdateTask ns n]) ns task = None"
    using assms(3) by (simp add: dockerTarget_def split: sum.split)
  with DockerReconcile_fetched [OF assms(1,2) refl, of L] show ?thesis by auto
qed

text \<open>
  A pass over a docker node update never panics, runs at most one command, and changes the
  task's state only to Updated, when it was due; the rest of the task stays.
\<close>

theorem docker_pass_effects:
  "\<exists>r cs. DockerReconcile L E ns n h0 = (Ret r, h0 @ GetDockerNodeUpdateTask ns n # cs) \<and>
    length (filter is_exec cs) \<le> 1 \<and>
    (\<forall>before after. PatchDockerTask before after \<in> set cs \<longrightarrow>
      after = before \<or> after = setDockerState UpdateTaskStateUpdated before \<and> dockerDue before)"
proof (cases "api_GetDockerNodeUpdateTask E h0 ns n")
  case (Inl err)
  then show ?thesis by (simp add: DockerReconcile_def Let_def)
next
  case (Inr task)
  show ?thesis
  proof (cases "NewDockerHelper E (h0 @ [GetDockerNodeUpdateTask ns n]) task")
    case (Some err)
    with Inr show ?thesis by (simp add: DockerReconcile_def)
  next
    case None
    let ?h = "h0 @ [GetDockerNodeUpdateTask ns n]"
    have "dockerTarget E ?h ns task \<noteq> None \<longrightarrow> dockerDue task"
      by (simp add: dockerTarget_def split: sum.split)
    with DockerReconcile_fetched [OF Inr None refl, of L] show ?thesis
      by (cases "dockerTarget E ?h ns task") (auto simp: dockerCommand_def)
  qed
qed

end
