(* ===== verification/Lifecycle_Handlers.thy ===== *)
theory Lifecycle_Handlers
  imports Task_Status
begin

text \<open>
  The runtime extension handlers, \<open>src/internal/handlers/lifecycle/handlers.go\<close>: the external
  update of a control plane aborts the running update tasks, claims the control plane's machines
  for a new task and creates that task.
\<close>

section \<open>Model\<close>

definition abortTaskPatch :: string where
  \<open>abortTaskPatch = ''{"spec":{"phase":"Abort"}}''\<close>

text \<open>One turn of the loop over existing update tasks; \<open>&&\<close> evaluates from left to right.\<close>

definition abortExisting ::
  "lib \<Rightarrow> env \<Rightarrow> string \<Rightarrow> string \<Rightarrow> UpdateTask \<Rightarrow> unit \<Rightarrow>
     ('o mem, (unit, goerr option) flow) prog" where
  "abortExisting L E clusterName controlPlaneName task _ =
     (case ClusterRef (Spec task) of
        None \<Rightarrow> panic ''nil pointer dereference: task.Spec.ClusterRef''
      | Some clusterRef \<Rightarrow>
        if ref_Name clusterRef \<noteq> clusterName then return (Continue ())
        else (case ControlPlaneRef (Spec task) of
          None \<Rightarrow> panic ''nil pointer dereference: task.Spec.ControlPlaneRef''
        | Some controlPlaneRef \<Rightarrow>
          if ref_Name controlPlaneRef = controlPlaneName \<and>
             State (Status task) = UpdateTaskStateInProgress
          then andThen (invoke (MergePatchTask task abortTaskPatch)
              (\<lambda>h. api_MergePatchTask E h task abortTaskPatch)) (\<lambda>e. case e of
                Some err \<Rightarrow> return (Break (Some (errors_Wrap L err ''abort existing updateTask failed'')))
              | None \<Rightarrow> return (Continue ()))
          else return (Continue ())))"

definition claimMachine :: "lib \<Rightarrow> string \<Rightarrow> (string \<rightharpoonup> string) \<Rightarrow> Machine \<Rightarrow> Machine" where
  "claimMachine L newTaskName annotations machine =
     machine\<lparr>Annotations := Some (annotations(UpdateTaskAnnotationName \<mapsto> newTaskName)),
       MachineConditions := DeleteCondition L MachineUpToDate (MachineConditions machine)\<rparr>"

text \<open>
  One turn of the loop over machines. The result of the patch is compared with \<open>err\<close>, which is nil
  there, and on a failure that nil error is wrapped and returned.
\<close>

definition claimStep ::
  "lib \<Rightarrow> env \<Rightarrow> string \<Rightarrow> Machine \<Rightarrow> unit \<Rightarrow> ('o mem, (unit, goerr option) flow) prog" where
  "claimStep L E newTaskName machine _ =
     andThen (consult (\<lambda>h. NewMachineHelper E h machine)) (\<lambda>e. case e of
         Some err \<Rightarrow> return (Break (Some (errors_Wrap L err ''create machine patcher failed'')))
       | None \<Rightarrow>
     (case Annotations machine of
        None \<Rightarrow> panic ''assignment to entry in nil map: machine.Annotations''
      | Some annotations \<Rightarrow>
        (let claimed = claimMachine L newTaskName annotations machine in
         andThen (invoke (PatchMachine machine claimed)
             (\<lambda>h. api_PatchMachine E h machine claimed)) (\<lambda>e. case e of
               Some _ \<Rightarrow> return (Break (errors_WrapNil L ''patch machine failed''))
             | None \<Rightarrow> return (Continue ())))))"

definition newUpdateTask ::
  "lib \<Rightarrow> ObjectReference \<Rightarrow> ObjectReference \<Rightarrow> MachineSpec \<Rightarrow> string \<Rightarrow> ObjectReference \<Rightarrow> UpdateTask"
where
  "newUpdateTask L clusterRef controlPlaneRef newMachine newTaskName templateRef =
     \<lparr>Name = newTaskName, Namespace = ref_Namespace clusterRef, UID = '''',
      Labels = Some [ClusterNameLabel L \<mapsto> ref_Name clusterRef], Annotations = Some Map.empty,
      Finalizers = [], CreationTimestamp = 0, DeletionTimestamp = None, Kind = '''', APIVersion = '''',
      Spec = \<lparr>ClusterRef = Some clusterRef, ControlPlaneRef = Some controlPlaneRef,
        MachineDeploymentRef = None, MachinesRequireUpdate = [], NewMachineSpec = newMachine,
        NodeUpdateTemplate = \<lparr>Name = '''', Namespace = '''', UID = '''', Labels = None,
          Annotations = None, Finalizers = [], CreationTimestamp = 0, DeletionTimestamp = None,
          InfrastructureRef = templateRef\<rparr>,
        TargetPhase = UpdateTaskPhaseUpdate\<rparr>,
      Status = \<lparr>State = UpdateTaskStateUnknown, StatusConditions = []\<rparr>\<rparr>"

text \<open>The end of the handler: choose a policy and create the task.\<close>

definition createUpdateTask ::
  "lib \<Rightarrow> env \<Rightarrow> ObjectReference \<Rightarrow> ObjectReference \<Rightarrow> MachineSpec \<Rightarrow> string \<Rightarrow>
     ('o mem, goerr option) prog" where
  "createUpdateTask L E clusterRef controlPlaneRef newMachine newTaskName =
     andThen (invoke (ListUpdatePolicies (ref_Namespace clusterRef))
         (\<lambda>h. api_ListUpdatePolicies E h (ref_Namespace clusterRef))) (\<lambda>r. case r of
         Inl err \<Rightarrow> return (Some (errors_Wrap L err ''cannot find update policy''))
       | Inr policies \<Rightarrow>
     (case policies of
        [] \<Rightarrow> return (Some (errors_New L ''no policy found''))
      | policy # _ \<Rightarrow>
     (case NodeUpdateTemplateRef (PolicySpec policy) of
        None \<Rightarrow> panic ''nil pointer dereference: policy.Spec.NodeUpdateTemplateRef''
      | Some templateRef \<Rightarrow>
        (let newTask = newUpdateTask L clusterRef controlPlaneRef newMachine newTaskName templateRef in
         andThen (invoke (CreateTask newTask) (\<lambda>h. api_CreateTask E h newTask)) (\<lambda>e.
         return (map_option (\<lambda>err. errors_Wrap L err ''unable to create new updateTask'') e))))))"

definition claimMachines ::
  "lib \<Rightarrow> env \<Rightarrow> ObjectReference \<Rightarrow> string \<Rightarrow> ('o mem, (unit, goerr option) flow) prog" where
  "claimMachines L E clusterRef newTaskName =
     (let ls = [(ClusterNameLabel L, ref_Name clusterRef), (MachineControlPlaneLabel L, '''')] in
      andThen (invoke (ListMachines (ref_Namespace clusterRef) ls)
          (\<lambda>h. api_ListMachines E h (ref_Namespace clusterRef) ls)) (\<lambda>r. case r of
          Inl err \<Rightarrow> return (Break (Some (errors_Wrap L err ''list machine failed'')))
        | Inr machines \<Rightarrow> foreach (claimStep L E newTaskName) machines ()))"

definition abortTasks ::
  "lib \<Rightarrow> env \<Rightarrow> ObjectReference \<Rightarrow> ObjectReference \<Rightarrow> ('o mem, (unit, goerr option) flow) prog"
where
  "abortTasks L E clusterRef controlPlaneRef =
     (let ls = [(ClusterNameLabel L, ref_Name clusterRef)] in
      andThen (invoke (ListUpdateTasks (ref_Namespace clusterRef) ls)
          (\<lambda>h. api_ListUpdateTasks E h (ref_Namespace clusterRef) ls)) (\<lambda>r. case r of
          Inl err \<Rightarrow> return (Break (Some (errors_Wrap L err ''list updateTask failed'')))
        | Inr tasks \<Rightarrow>
          foreach (abortExisting L E (ref_Name clusterRef) (ref_Name controlPlaneRef)) tasks ()))"

definition doControlPlaneExternalUpdateImpl ::
  "lib \<Rightarrow> env \<Rightarrow> ControlPlaneExternalUpdateRequest \<Rightarrow> ('o mem, goerr option) prog" where
  "doControlPlaneExternalUpdateImpl L E request =
     (case cp_ClusterRef request of
        None \<Rightarrow> return (Some (errors_New L ''clusterRef is nil''))
      | Some clusterRef \<Rightarrow>
     andThen (invoke (GetCluster (ref_Namespace clusterRef) (ref_Name clusterRef))
         (\<lambda>h. api_GetCluster E h (ref_Namespace clusterRef) (ref_Name clusterRef)))
       (\<lambda>r. case r of
          Inl err \<Rightarrow> return (Some (errors_Wrap L err ''get cluster failed''))
        | Inr cluster \<Rightarrow>
       if DeletionTimestamp cluster \<noteq> None then return (Some (errors_New L ''cluster deleting''))
       else (case cp_ControlPlaneRef request of
          None \<Rightarrow> return (Some (errors_New L ''controlPlaneRef is nil''))
        | Some controlPlaneRef \<Rightarrow>
       andThen (abortTasks L E clusterRef controlPlaneRef) (\<lambda>f. case f of
          Break r \<Rightarrow> return r
        | Continue _ \<Rightarrow>
       andThen (consult (\<lambda>h. ref_Name clusterRef @ ''-update-'' @ RandomString E h 6))
         (\<lambda>newTaskName.
       andThen (claimMachines L E clusterRef newTaskName) (\<lambda>f. case f of
          Break r \<Rightarrow> return r
        | Continue _ \<Rightarrow>
          createUpdateTask L E clusterRef controlPlaneRef (cp_NewMachine request) newTaskName))))))"

definition DoControlPlaneExternalUpdate ::
  "lib \<Rightarrow> env \<Rightarrow> ControlPlaneExternalUpdateRequest \<Rightarrow> ExternalUpdateResponse \<Rightarrow>
     ('o mem, ExternalUpdateResponse) prog" where
  "DoControlPlaneExternalUpdate L E request response =
     andThen (doControlPlaneExternalUpdateImpl L E request) (\<lambda>e. case e of
         Some err \<Rightarrow> return (response\<lparr>resp_Status := ResponseStatusFailure,
           resp_Message := ErrorText L err\<rparr>)
       | None \<Rightarrow> return (response\<lparr>resp_Status := ResponseStatusSuccess\<rparr>))"

text \<open>The other hooks only log.\<close>

definition DoMachineDeploymentExternalUpdate ::
  "MachineDeploymentExternalUpdateRequest \<Rightarrow> ExternalUpdateResponse \<Rightarrow>
     ('o mem, ExternalUpdateResponse) prog" where
  "DoMachineDeploymentExternalUpdate request response = return response"

definition DoBeforeClusterUpgrade :: "'req \<Rightarrow> 'resp \<Rightarrow> ('o mem, 'resp) prog" where
  "DoBeforeClusterUpgrade request response = return response"

definition DoAfterControlPlaneUpgrade :: "'req \<Rightarrow> 'resp \<Rightarrow> ('o mem, 'resp) prog" where
  "DoAfterControlPlaneUpgrade request response = return response"

definition DoAfterClusterUpgrade :: "'req \<Rightarrow> 'resp \<Rightarrow> ('o mem, 'resp) prog" where
  "DoAfterClusterUpgrade request response = return response"

definition DoBeforeClusterCreate :: "'req \<Rightarrow> 'resp \<Rightarrow> ('o mem, 'resp) prog" where
  "DoBeforeClusterCreate request response = return response"

section \<open>The loops\<close>

text \<open>The existing tasks the handler is to abort.\<close>

definition toAbort :: "string \<Rightarrow> string \<Rightarrow> UpdateTask \<Rightarrow> bool" where
  "toAbort clusterName controlPlaneName t \<longleftrightarrow>
     map_option ref_Name (ClusterRef (Spec t)) = Some clusterName \<and>
     map_option ref_Name (ControlPlaneRef (Spec t)) = Some controlPlaneName \<and>
     State (Status t) = UpdateTaskStateInProgress"

definition claimCall :: "lib \<Rightarrow> string \<Rightarrow> Machine \<Rightarrow> call" where
  "claimCall L newTaskName m =
     PatchMachine m (claimMachine L newTaskName (the (Annotations m)) m)"

lemma abortExisting_continue:
  "abortExisting L E c p t () s = (Ret (Continue ()), s') \<Longrightarrow>
   s' = s\<lparr>calls := calls s @ (if toAbort c p t then [MergePatchTask t abortTaskPatch] else [])\<rparr>"
  by (auto simp: abortExisting_def toAbort_def prog_simps split: option.splits if_splits)

lemma abortLoop_calls:
  assumes "foreach (abortExisting L E c p) ts () s = (Ret (Continue ()), s')"
  shows "s' = s\<lparr>calls := calls s @
    map (\<lambda>t. MergePatchTask t abortTaskPatch) (filter (toAbort c p) ts)\<rparr>"
  using assms
proof (induction ts arbitrary: s)
  case Nil
  then show ?case by (simp add: run_return)
next
  case (Cons t ts)
  then obtain s1 where s1: "abortExisting L E c p t () s = (Ret (Continue ()), s1)"
    and rest: "foreach (abortExisting L E c p) ts () s1 = (Ret (Continue ()), s')"
    by (auto simp: run_foreach_Cons simp del: foreach.simps split: prod.splits outcome.splits flow.splits)
  from Cons.IH [OF rest] abortExisting_continue [OF s1] show ?case by simp
qed

lemma abortExisting_break:
  "abortExisting L E c p t () s = (Ret (Break r), s') \<Longrightarrow> r \<noteq> None"
  by (auto simp: abortExisting_def prog_simps split: option.splits if_splits)

lemma abortLoop_break:
  assumes "foreach (abortExisting L E c p) ts () s = (Ret (Break r), s')"
  shows "r \<noteq> None"
  using assms
proof (induction ts arbitrary: s)
  case Nil
  then show ?case by (simp add: run_return)
next
  case (Cons t ts)
  then show ?case
    by (auto simp: run_foreach_Cons simp del: foreach.simps split: prod.splits outcome.splits flow.splits
        dest: abortExisting_break)
qed

lemma claimStep_continue:
  "claimStep L E n m () s = (Ret (Continue ()), s') \<Longrightarrow>
   Annotations m \<noteq> None \<and> s' = s\<lparr>calls := calls s @ [claimCall L n m]\<rparr>"
  by (auto simp: claimStep_def claimCall_def prog_simps Let_def split: option.splits)

lemma claimStep_break:
  "claimStep L E n m () s = (Ret (Break None), s') \<Longrightarrow>
   \<exists>after err. calls s' = calls s @ [PatchMachine m after] \<and>
     api_PatchMachine E (calls s) m after = Some err"
  by (auto simp: claimStep_def prog_simps Let_def split: option.splits)

lemma claimLoop_calls:
  assumes "foreach (claimStep L E n) ms () s = (Ret (Continue ()), s')"
  shows "(\<forall>m \<in> set ms. Annotations m \<noteq> None) \<and>
    s' = s\<lparr>calls := calls s @ map (claimCall L n) ms\<rparr>"
  using assms
proof (induction ms arbitrary: s)
  case Nil
  then show ?case by (simp add: run_return)
next
  case (Cons m ms)
  then obtain s1 where s1: "claimStep L E n m () s = (Ret (Continue ()), s1)"
    and rest: "foreach (claimStep L E n) ms () s1 = (Ret (Continue ()), s')"
    by (auto simp: run_foreach_Cons simp del: foreach.simps split: prod.splits outcome.splits flow.splits)
  from Cons.IH [OF rest] claimStep_continue [OF s1] show ?case by simp
qed

lemma claimLoop_break:
  assumes "foreach (claimStep L E n) ms () s = (Ret (Break None), s')"
  shows "\<exists>h m after err. calls s' = h @ [PatchMachine m after] \<and>
    api_PatchMachine E h m after = Some err"
  using assms
proof (induction ms arbitrary: s)
  case Nil
  then show ?case by (simp add: run_return)
next
  case (Cons m ms)
  then show ?case
    by (auto simp: run_foreach_Cons simp del: foreach.simps split: prod.splits outcome.splits flow.splits
        dest: claimStep_break)
qed

text \<open>The same loops run to their end when the calls are answered.\<close>

lemma abortLoop_runs:
  assumes "\<forall>t \<in> set ts. ClusterRef (Spec t) \<noteq> None \<and> ControlPlaneRef (Spec t) \<noteq> None"
    and "\<forall>h t p. api_MergePatchTask E h t p = None"
  shows "foreach (abortExisting L E c p) ts () s = (Ret (Continue ()), s\<lparr>calls := calls s @
    map (\<lambda>t. MergePatchTask t abortTaskPatch) (filter (toAbort c p) ts)\<rparr>)"
  using assms(1)
proof (induction ts arbitrary: s)
  case Nil
  then show ?case by (simp add: run_return)
next
  case (Cons t ts)
  then have "abortExisting L E c p t () s = (Ret (Continue ()), s\<lparr>calls := calls s @
      (if toAbort c p t then [MergePatchTask t abortTaskPatch] else [])\<rparr>)"
    using assms(2) by (auto simp: abortExisting_def toAbort_def prog_simps)
  with Cons show ?case by (simp add: run_foreach_Cons del: foreach.simps)
qed

lemma claimLoop_runs:
  assumes "\<forall>m \<in> set ms. Annotations m \<noteq> None"
    and "\<forall>h m. NewMachineHelper E h m = None"
    and "\<forall>m \<in> set ms. \<forall>h m'. api_PatchMachine E h m m' = None"
  shows "foreach (claimStep L E n) ms () s =
    (Ret (Continue ()), s\<lparr>calls := calls s @ map (claimCall L n) ms\<rparr>)"
  using assms(1,3)
proof (induction ms arbitrary: s)
  case Nil
  then show ?case by (simp add: run_return)
next
  case (Cons m ms)
  then have "claimStep L E n m () s = (Ret (Continue ()), s\<lparr>calls := calls s @ [claimCall L n m]\<rparr>)"
    using assms(2) by (auto simp: claimStep_def claimCall_def prog_simps Let_def)
  with Cons show ?case by (simp add: run_foreach_Cons del: foreach.simps)
qed

section \<open>The phases of an accepted request\<close>

lemma abortTasks_continue:
  assumes "abortTasks L E c p s = (Ret (Continue ()), s')"
  shows "\<exists>tasks. api_ListUpdateTasks E (calls s) (ref_Namespace c)
      [(ClusterNameLabel L, ref_Name c)] = Inr tasks \<and>
    s' = s\<lparr>calls := calls s @
      ListUpdateTasks (ref_Namespace c) [(ClusterNameLabel L, ref_Name c)] #
      map (\<lambda>t. MergePatchTask t abortTaskPatch) (filter (toAbort (ref_Name c) (ref_Name p)) tasks)\<rparr>"
  using assms by (auto simp: abortTasks_def prog_simps Let_def split: sum.splits dest: abortLoop_calls)

lemma abortTasks_break:
  "abortTasks L E c p s = (Ret (Break r), s') \<Longrightarrow> r \<noteq> None"
  by (auto simp: abortTasks_def prog_simps Let_def split: sum.splits dest: abortLoop_break)

lemma claimMachines_continue:
  assumes "claimMachines L E c n s = (Ret (Continue ()), s')"
  shows "\<exists>ms. api_ListMachines E (calls s) (ref_Namespace c)
      [(ClusterNameLabel L, ref_Name c), (MachineControlPlaneLabel L, '''')] = Inr ms \<and>
    (\<forall>m \<in> set ms. Annotations m \<noteq> None) \<and>
    s' = s\<lparr>calls := calls s @ ListMachines (ref_Namespace c)
      [(ClusterNameLabel L, ref_Name c), (MachineControlPlaneLabel L, '''')] # map (claimCall L n) ms\<rparr>"
  using assms by (auto simp: claimMachines_def prog_simps Let_def split: sum.splits dest: claimLoop_calls)

lemma claimMachines_break:
  assumes "claimMachines L E c n s = (Ret (Break None), s')"
  shows "\<exists>h m after err. calls s' = h @ [PatchMachine m after] \<and>
    api_PatchMachine E h m after = Some err"
  using assms by (auto simp: claimMachines_def prog_simps Let_def split: sum.splits dest: claimLoop_break)

lemma createUpdateTask_done:
  assumes "createUpdateTask L E c p nm n s = (Ret None, s')"
  shows "\<exists>policy rest ref. api_ListUpdatePolicies E (calls s) (ref_Namespace c) = Inr (policy # rest) \<and>
    NodeUpdateTemplateRef (PolicySpec policy) = Some ref \<and>
    s' = s\<lparr>calls := calls s @
      [ListUpdatePolicies (ref_Namespace c), CreateTask (newUpdateTask L c p nm n ref)]\<rparr>"
  using assms
  by (auto simp: createUpdateTask_def prog_simps Let_def split: sum.splits list.splits option.splits)

text \<open>
  The trace of an accepted request in full: what the handler has read, and the calls it has made
  after reading the cluster.
\<close>

definition acceptedTrace :: "lib \<Rightarrow> env \<Rightarrow> ControlPlaneExternalUpdateRequest \<Rightarrow> history \<Rightarrow> history \<Rightarrow> bool"
where
  "acceptedTrace L E request h h' \<longleftrightarrow> (\<exists>c p cluster h1 tasks h2 n ms h3 policy rest ref.
     cp_ClusterRef request = Some c \<and> cp_ControlPlaneRef request = Some p \<and>
     api_GetCluster E h (ref_Namespace c) (ref_Name c) = Inr cluster \<and>
     DeletionTimestamp cluster = None \<and>
     h1 = h @ [GetCluster (ref_Namespace c) (ref_Name c)] \<and>
     api_ListUpdateTasks E h1 (ref_Namespace c) [(ClusterNameLabel L, ref_Name c)] = Inr tasks \<and>
     h2 = h1 @ ListUpdateTasks (ref_Namespace c) [(ClusterNameLabel L, ref_Name c)] #
       map (\<lambda>t. MergePatchTask t abortTaskPatch) (filter (toAbort (ref_Name c) (ref_Name p)) tasks) \<and>
     n = ref_Name c @ ''-update-'' @ RandomString E h2 6 \<and>
     api_ListMachines E h2 (ref_Namespace c)
       [(ClusterNameLabel L, ref_Name c), (MachineControlPlaneLabel L, '''')] = Inr ms \<and>
     (\<forall>m \<in> set ms. Annotations m \<noteq> None) \<and>
     h3 = h2 @ ListMachines (ref_Namespace c)
       [(ClusterNameLabel L, ref_Name c), (MachineControlPlaneLabel L, '''')] #
       map (claimCall L n) ms \<and>
     api_ListUpdatePolicies E h3 (ref_Namespace c) = Inr (policy # rest) \<and>
     NodeUpdateTemplateRef (PolicySpec policy) = Some ref \<and>
     h' = h3 @ [ListUpdatePolicies (ref_Namespace c),
       CreateTask (newUpdateTask L c p (cp_NewMachine request) n ref)])"

lemma accepted_cases:
  assumes run: "doControlPlaneExternalUpdateImpl L E request s = (Ret None, s')"
  shows "acceptedTrace L E request (calls s) (calls s') \<or>
    (\<exists>h m after err. calls s' = h @ [PatchMachine m after] \<and>
       api_PatchMachine E h m after = Some err)"
proof -
  obtain c where c: "cp_ClusterRef request = Some c"
    using run by (cases "cp_ClusterRef request")
      (auto simp: doControlPlaneExternalUpdateImpl_def prog_simps)
  obtain cluster where cluster: "api_GetCluster E (calls s) (ref_Namespace c) (ref_Name c) = Inr cluster"
    using run c by (cases "api_GetCluster E (calls s) (ref_Namespace c) (ref_Name c)")
      (auto simp: doControlPlaneExternalUpdateImpl_def prog_simps)
  have alive: "DeletionTimestamp cluster = None"
    using run c cluster by (cases "DeletionTimestamp cluster")
      (auto simp: doControlPlaneExternalUpdateImpl_def prog_simps)
  obtain p where p: "cp_ControlPlaneRef request = Some p"
    using run c cluster alive by (cases "cp_ControlPlaneRef request")
      (auto simp: doControlPlaneExternalUpdateImpl_def prog_simps)
  let ?s1 = "s\<lparr>calls := calls s @ [GetCluster (ref_Namespace c) (ref_Name c)]\<rparr>"
  obtain f s2 where abort: "abortTasks L E c p ?s1 = (f, s2)" by fastforce
  have f: "f = Ret (Continue ())"
    using run c cluster alive p abort
    by (auto simp: doControlPlaneExternalUpdateImpl_def prog_simps split: outcome.splits flow.splits
        dest: abortTasks_break)
  let ?n = "ref_Name c @ ''-update-'' @ RandomString E (calls s2) 6"
  obtain g s3 where claim: "claimMachines L E c ?n s2 = (g, s3)" by fastforce
  have "g = Ret (Continue ()) \<and>
      createUpdateTask L E c p (cp_NewMachine request) ?n s3 = (Ret None, s') \<or>
    g = Ret (Break None) \<and> s' = s3"
    using run c cluster alive p abort f claim
    by (auto simp: doControlPlaneExternalUpdateImpl_def prog_simps split: outcome.splits flow.splits)
  then show ?thesis
  proof (elim disjE conjE)
    assume "g = Ret (Break None)" and "s' = s3"
    with claimMachines_break [of L E c ?n s2 s3] claim show ?thesis by simp
  next
    assume g: "g = Ret (Continue ())"
      and create: "createUpdateTask L E c p (cp_NewMachine request) ?n s3 = (Ret None, s')"
    from abortTasks_continue [OF abort [unfolded f]] claimMachines_continue [OF claim [unfolded g]]
      createUpdateTask_done [OF create]
    have "acceptedTrace L E request (calls s) (calls s')"
      unfolding acceptedTrace_def using c p cluster alive
      by (elim exE conjE) (intro exI conjI, (assumption | rule refl | simp)+)
    then show ?thesis by simp
  qed
qed

section \<open>Properties\<close>

text \<open>
  When the machine patches go through, a request is answered with success only after all its
  work is done: the running update tasks of this control plane (and no others) were told to abort,
  every control plane machine was claimed for the new task (its annotation names the task, its
  MachineUpToDate condition is gone), and the task was created with the first policy's template.
\<close>

theorem accepted_request_does_everything:
  assumes "\<forall>h before after. api_PatchMachine E h before after = None"
    and "DoControlPlaneExternalUpdate L E request response s = (Ret response', s')"
    and "resp_Status response' = ResponseStatusSuccess"
  shows "acceptedTrace L E request (calls s) (calls s')"
proof -
  obtain e where "doControlPlaneExternalUpdateImpl L E request s = (Ret e, s')"
    and "response' = (case e of
        Some err \<Rightarrow> response\<lparr>resp_Status := ResponseStatusFailure, resp_Message := ErrorText L err\<rparr>
      | None \<Rightarrow> response\<lparr>resp_Status := ResponseStatusSuccess\<rparr>)"
    using assms(2) by (auto simp: DoControlPlaneExternalUpdate_def prog_simps
        split: prod.splits outcome.splits option.splits)
  with assms(3) have "doControlPlaneExternalUpdateImpl L E request s = (Ret None, s')"
    by (auto split: option.splits)
  from accepted_cases [OF this] assms(1) show ?thesis by auto
qed

text \<open>Documented behaviour of \<open>errors.Wrap\<close>: wrapping a nil error gives nil.\<close>

definition wrap_laws :: "lib \<Rightarrow> bool" where
  "wrap_laws L \<longleftrightarrow> (\<forall>msg. errors_WrapNil L msg = None)"

text \<open>
  C36. A failed machine patch is swallowed, whatever machine it hits: the request is answered with
  success although running update tasks were told to abort, only the machines before the failing one
  were claimed, the machines after it were not tried and no update task was created.
\<close>

theorem failed_claim_is_accepted:
  assumes "wrap_laws L"
    and "cp_ClusterRef request = Some c" and "cp_ControlPlaneRef request = Some p"
    and "\<forall>h. api_GetCluster E h (ref_Namespace c) (ref_Name c) = Inr cluster"
    and "DeletionTimestamp cluster = None"
    and "\<forall>h ns ls. api_ListUpdateTasks E h ns ls = Inr ts"
    and "\<forall>t \<in> set ts. ClusterRef (Spec t) \<noteq> None \<and> ControlPlaneRef (Spec t) \<noteq> None"
    and "\<forall>h t patch. api_MergePatchTask E h t patch = None"
    and "\<forall>h ns ls. api_ListMachines E h ns ls = Inr (ms1 @ m # ms2)"
    and "\<forall>x \<in> set ms1. Annotations x \<noteq> None" and "Annotations m \<noteq> None"
    and "\<forall>h x. NewMachineHelper E h x = None"
    and "\<forall>x \<in> set ms1. \<forall>h y. api_PatchMachine E h x y = None"
    and "\<forall>h y. api_PatchMachine E h m y = Some err"
  shows "\<exists>n. DoControlPlaneExternalUpdate L E request response s =
    (Ret (response\<lparr>resp_Status := ResponseStatusSuccess\<rparr>),
     s\<lparr>calls := calls s @
       [GetCluster (ref_Namespace c) (ref_Name c),
        ListUpdateTasks (ref_Namespace c) [(ClusterNameLabel L, ref_Name c)]] @
       map (\<lambda>t. MergePatchTask t abortTaskPatch) (filter (toAbort (ref_Name c) (ref_Name p)) ts) @
       [ListMachines (ref_Namespace c) [(ClusterNameLabel L, ref_Name c), (MachineControlPlaneLabel L, '''')]] @
       map (claimCall L n) ms1 @ [claimCall L n m]\<rparr>)"
proof -
  have stop: "foreach (claimStep L E n) (ms1 @ m # ms2) () s' =
      (Ret (Break None), s'\<lparr>calls := calls s' @ map (claimCall L n) ms1 @ [claimCall L n m]\<rparr>)" for n s'
    using assms(1,11,12,14)
    by (auto simp: run_foreach_append run_foreach_Cons claimLoop_runs [OF assms(10,12,13)]
        claimStep_def claimCall_def wrap_laws_def prog_simps Let_def simp del: foreach.simps)
  show ?thesis
    using assms(2-6) assms(9)
    by (simp add: DoControlPlaneExternalUpdate_def doControlPlaneExternalUpdateImpl_def abortTasks_def
        claimMachines_def abortLoop_runs [OF assms(7,8)] stop prog_simps Let_def del: foreach.simps)
      (rule exI, rule refl)
qed

lemma steady_abortExisting:
  assumes "ClusterRef (Spec t) \<noteq> None" and "ControlPlaneRef (Spec t) \<noteq> None"
  shows "steady (\<lambda>_. True) (abortExisting L E cn pn t a)"
  using assms by (clarsimp simp: abortExisting_def) (auto intro!: steady_intros)

lemma steady_claimStep:
  "Annotations m \<noteq> None \<Longrightarrow> steady (\<lambda>_. True) (claimStep L E n m a)"
  by (auto simp: claimStep_def steady_def prog_simps Let_def split: option.split)

text \<open>
  C38. The handler returns, without a panic, when every listed update task names its cluster and its
  control plane, every listed machine has annotations, and every policy names a template.
\<close>

theorem handler_returns:
  assumes "\<forall>h ns ls ts. api_ListUpdateTasks E h ns ls = Inr ts \<longrightarrow>
      (\<forall>t \<in> set ts. ClusterRef (Spec t) \<noteq> None \<and> ControlPlaneRef (Spec t) \<noteq> None)"
    and "\<forall>h ns ls ms. api_ListMachines E h ns ls = Inr ms \<longrightarrow> (\<forall>m \<in> set ms. Annotations m \<noteq> None)"
    and "\<forall>h ns ps. api_ListUpdatePolicies E h ns = Inr ps \<longrightarrow>
      (\<forall>p \<in> set ps. NodeUpdateTemplateRef (PolicySpec p) \<noteq> None)"
  shows "\<exists>response' s'. DoControlPlaneExternalUpdate L E request response s = (Ret response', s')"
proof -
  have abort: "steady (\<lambda>_. True) (abortTasks L E c p)" for c p
    unfolding abortTasks_def Let_def using assms(1)
    by (intro steady_answer) (auto intro!: steady_return steady_foreach steady_abortExisting split: sum.split)
  have claim: "steady (\<lambda>_. True) (claimMachines L E c n)" for c n
    unfolding claimMachines_def Let_def using assms(2)
    by (intro steady_answer) (auto intro!: steady_return steady_foreach steady_claimStep split: sum.split)
  have create: "steady (\<lambda>_. True) (createUpdateTask L E c p nm n)" for c p nm n
    unfolding createUpdateTask_def Let_def using assms(3)
    by (intro steady_answer)
      (fastforce intro!: steady_return steady_andThen steady_invoke split: sum.split list.split option.split)
  have "steady (\<lambda>_. True) (DoControlPlaneExternalUpdate L E request response)"
    unfolding DoControlPlaneExternalUpdate_def doControlPlaneExternalUpdateImpl_def
    by (intro steady_intros abort claim create)
  then show ?thesis by (auto simp: steady_def)
qed

end
