(* ===== verification/Json_Fields.thy ===== *)
theory Json_Fields
  imports Node_Update
begin

text \<open>
  JSON objects as the API server stores them: reading and writing a field along a path, JSON merge
  patches (RFC 7396), and the field access of unstructured objects in these terms.
\<close>

section \<open>Fields of JSON objects\<close>

fun getPath :: "json \<Rightarrow> string list \<Rightarrow> json option" where
  "getPath j [] = Some j"
| "getPath (JObject kvs) (k # p) = (case map_of kvs k of None \<Rightarrow> None | Some j \<Rightarrow> getPath j p)"
| "getPath _ (k # p) = None"

fun setKey :: "string \<Rightarrow> json \<Rightarrow> (string \<times> json) list \<Rightarrow> (string \<times> json) list" where
  "setKey k j [] = [(k, j)]"
| "setKey k j ((k', j') # kvs) = (if k' = k then (k, j) # kvs else (k', j') # setKey k j kvs)"

fun setPath :: "json \<Rightarrow> string list \<Rightarrow> string \<Rightarrow> json option" where
  "setPath j [] v = Some (JString v)"
| "setPath (JObject kvs) (k # p) v =
     map_option (\<lambda>j. JObject (setKey k j kvs))
       (setPath (case map_of kvs k of None \<Rightarrow> JObject [] | Some j \<Rightarrow> j) p v)"
| "setPath _ (k # p) v = None"

lemma map_of_setKey [simp]: "map_of (setKey k j kvs) k' = (if k' = k then Some j else map_of kvs k')"
  by (induction kvs) auto

lemma getPath_setPath: "setPath j p v = Some j' \<Longrightarrow> getPath j' p = Some (JString v)"
  by (induction j p v arbitrary: j' rule: setPath.induct) auto

lemma getPath_empty: "p \<noteq> [] \<Longrightarrow> getPath (JObject []) p = None"
  by (cases p) auto

lemma getPath_apart: "setPath j p v = Some j' \<Longrightarrow> apart p q \<Longrightarrow> getPath j' q = getPath j q"
proof (induction j p v arbitrary: j' q rule: setPath.induct)
  case (2 kvs k p v)
  then obtain b q' where q: "q = b # q'" by (cases q) auto
  show ?case
  proof (cases "b = k")
    case True
    with 2 q obtain j1 where
      "setPath (case map_of kvs k of None \<Rightarrow> JObject [] | Some j \<Rightarrow> j) p v = Some j1"
      "j' = JObject (setKey k j1 kvs)" "apart p q'" by auto
    moreover from this have "q' \<noteq> []" by (cases p) auto
    ultimately show ?thesis
      using "2.IH" [of j1 q'] q True by (auto split: option.splits simp: getPath_empty)
  qed (use 2 q in auto)
qed auto

section \<open>Field access of unstructured objects\<close>

text \<open>
  Documented behaviour: \<open>UnstructuredUnmarshalField\<close> finds a string that is there and reports a missing
  field; \<open>SetNestedField\<close> writes the value at the path, making objects on the way, or fails when it
  would have to go through something else.
\<close>

definition field_laws :: "lib \<Rightarrow> bool" where
  "field_laws L \<longleftrightarrow>
     (\<forall>u p v. getPath (Object u) p = Some (JString v) \<longrightarrow> UnmarshalString L u p = Inr v) \<and>
     (\<forall>u p. getPath (Object u) p = None \<longrightarrow> (\<exists>e. UnmarshalString L u p = Inl e)) \<and>
     (\<forall>u v p u'. SetNestedField L u v p = Inr u' \<longrightarrow> setPath (Object u) p v = Some (Object u'))"

lemma field_lawsD:
  assumes "field_laws L"
  shows "getPath (Object u) p = Some (JString v) \<Longrightarrow> UnmarshalString L u p = Inr v"
    and "getPath (Object u) p = None \<Longrightarrow> \<exists>e. UnmarshalString L u p = Inl e"
    and "SetNestedField L u v p = Inr u' \<Longrightarrow> setPath (Object u) p v = Some (Object u')"
  using assms by (auto simp: field_laws_def)

lemma setFields_untouched:
  assumes "field_laws L" and "setFields L fs u = Inr u'" and "\<forall>(v, p, m) \<in> set fs. apart p q"
  shows "getPath (Object u') q = getPath (Object u) q"
  using assms(2,3)
proof (induction fs arbitrary: u)
  case (Cons f fs)
  obtain v p m where f: "f = (v, p, m)" by (cases f) auto
  obtain u1 where u1: "SetNestedField L u v p = Inr u1" "setFields L fs u1 = Inr u'"
    using Cons.prems(1) by (auto simp: f split: sum.splits)
  have "getPath (Object u1) q = getPath (Object u) q"
    using getPath_apart [OF field_lawsD(3) [OF assms(1) u1(1)]] Cons.prems(2) by (simp add: f)
  with Cons.IH [OF u1(2)] Cons.prems(2) show ?case by simp
qed simp

lemma setFields_written:
  assumes "field_laws L" and "setFields L flds u = Inr u'"
    and "flds = fs @ (v, p, m) # gs" and "\<forall>(v', q, m') \<in> set gs. apart q p"
  shows "getPath (Object u') p = Some (JString v)"
  using assms(2,3)
proof (induction fs arbitrary: flds u)
  case Nil
  then obtain u1 where u1: "SetNestedField L u v p = Inr u1" "setFields L gs u1 = Inr u'"
    by (auto split: sum.splits)
  have "getPath (Object u1) p = Some (JString v)"
    by (rule getPath_setPath [OF field_lawsD(3) [OF assms(1) u1(1)]])
  with setFields_untouched [OF assms(1) u1(2) assms(4)] show ?case by simp
next
  case (Cons f fs)
  then show ?case by (cases f) (auto split: sum.splits)
qed

section \<open>Merge patches\<close>

fun mergePatch :: "json \<Rightarrow> json \<Rightarrow> json"
  and mergeFields :: "(string \<times> json) list \<Rightarrow> (string \<times> json) list \<Rightarrow> (string \<times> json) list" where
  "mergePatch t (JObject kvs) = JObject (mergeFields (case t of JObject fs \<Rightarrow> fs | _ \<Rightarrow> []) kvs)"
| "mergePatch t p = p"
| "mergeFields fs [] = fs"
| "mergeFields fs ((k, v) # kvs) = mergeFields
     (if v = JNull then filter (\<lambda>(k', _). k' \<noteq> k) fs
      else setKey k (mergePatch (case map_of fs k of None \<Rightarrow> JNull | Some j \<Rightarrow> j) v) fs) kvs"

text \<open>The patch that sets one string, and its text; \<open>sep\<close> is what stands between a colon and the value.\<close>

fun fieldPatch :: "string list \<Rightarrow> string \<Rightarrow> json" where
  "fieldPatch [] v = JString v"
| "fieldPatch (k # p) v = JObject [(k, fieldPatch p v)]"

fun fieldPatchText :: "string \<Rightarrow> string list \<Rightarrow> string \<Rightarrow> string" where
  "fieldPatchText sep [] v = CHR 0x22 # v @ [CHR 0x22]"
| "fieldPatchText sep (k # p) v =
     CHR ''{'' # CHR 0x22 # k @ CHR 0x22 # CHR '':'' # sep @ fieldPatchText sep p v @ [CHR ''}'']"

lemma fieldPatch_not_null [simp]: "fieldPatch p v \<noteq> JNull"
  by (cases p) simp_all

lemma mergePatch_field:
  "setPath j p v = Some j' \<Longrightarrow> mergePatch j (fieldPatch p v) = j'"
proof (induction j p v arbitrary: j' rule: setPath.induct)
  case (2 kvs k p v)
  then obtain j1 where j1: "setPath (case map_of kvs k of None \<Rightarrow> JObject [] | Some j \<Rightarrow> j) p v = Some j1"
      "j' = JObject (setKey k j1 kvs)" by auto
  have "mergePatch JNull (fieldPatch p v) = mergePatch (JObject []) (fieldPatch p v)"
    by (cases p) simp_all
  then have "mergePatch (case map_of kvs k of None \<Rightarrow> JNull | Some j \<Rightarrow> j) (fieldPatch p v) = j1"
    using "2.IH" [OF j1(1)] by (auto split: option.splits)
  with j1(2) show ?case by simp
qed simp_all

text \<open>The abort request to a node update task sets its \<open>spec.phase\<close>.\<close>

lemma abortNodePatch_text:
  "abortNodePatch = fieldPatchText '' '' [''spec'', ''phase''] UpdateTaskPhaseAbort"
  by (simp add: abortNodePatch_def UpdateTaskPhaseAbort_def)

end
