(* ===== verification/Reference_Platform.thy ===== *)
theory Reference_Platform
  imports Rollout Docker_Node_Controller Lifecycle_Handlers Json_Fields
begin

text \<open>
  A concrete outside world: library functions that behave as documented, with the proof that they
  satisfy every law the theorems use, and an API server with fixed contents that accepts every
  write. The scenarios of the development run on it.
\<close>

section \<open>Library functions\<close>

text \<open>\<open>collections.FromMachineList\<close>: the last machine of a name stays.\<close>

fun fromMachines :: "Machine list \<Rightarrow> Machines" where
  "fromMachines [] = []"
| "fromMachines (m # ms) =
     (if Name m \<in> set (map Name ms) then fromMachines ms else (Name m, m) # fromMachines ms)"

lemma fromMachines_keys: "\<forall>(k, m) \<in> set (fromMachines ms). k = Name m \<and> m \<in> set ms"
  by (induction ms) auto

lemma fromMachines_entry: "(k, m) \<in> set (fromMachines ms) \<Longrightarrow> k = Name m \<and> m \<in> set ms"
  using fromMachines_keys by blast

lemma distinct_fromMachines: "distinct (map fst (fromMachines ms))"
  using fromMachines_keys by (induction ms) fastforce+

lemma fromMachines_distinct:
  "distinct (map Name ms) \<Longrightarrow> fromMachines ms = map (\<lambda>m. (Name m, m)) ms"
  by (induction ms) auto

fun sortedInsert :: "Machine \<Rightarrow> Machine list \<Rightarrow> Machine list" where
  "sortedInsert m [] = [m]"
| "sortedInsert m (x # xs) =
     (if CreationTimestamp m \<le> CreationTimestamp x then m # x # xs else x # sortedInsert m xs)"

fun sortMachines :: "Machines \<Rightarrow> Machine list" where
  "sortMachines [] = []"
| "sortMachines ((k, m) # xs) = sortedInsert m (sortMachines xs)"

lemma set_sortedInsert [simp]: "set (sortedInsert m xs) = insert m (set xs)"
  by (induction xs) auto

lemma set_sortMachines [simp]: "set (sortMachines xs) = snd ` set xs"
  by (induction xs rule: sortMachines.induct) auto

lemma distinct_sortedInsert:
  "distinct (map Name (sortedInsert m xs)) \<longleftrightarrow> Name m \<notin> Name ` set xs \<and> distinct (map Name xs)"
  by (induction xs) auto

lemma distinct_sortMachines:
  assumes "distinct (map fst xs)" and "\<forall>(k, m) \<in> set xs. k = Name m"
  shows "distinct (map Name (sortMachines xs))"
  using assms
proof (induction xs rule: sortMachines.induct)
  case (2 k m xs)
  then show ?case by (force simp: distinct_sortedInsert)
qed simp

text \<open>\<open>conditions.Set\<close>: replace the condition of that type, or add it.\<close>

fun putCondition :: "Condition \<Rightarrow> Conditions \<Rightarrow> Conditions" where
  "putCondition c [] = [c]"
| "putCondition c (d # ds) =
     (if cond_Type d = cond_Type c then c # ds else d # putCondition c ds)"

definition trueCondition :: "string \<Rightarrow> Condition" where
  "trueCondition t = \<lparr>cond_Type = t, cond_Status = ConditionTrue, cond_Severity = OtherSeverity '''',
     cond_Reason = '''', cond_Message = ''''\<rparr>"

definition falseCondition ::
  "string \<Rightarrow> string \<Rightarrow> ConditionSeverity \<Rightarrow> string \<Rightarrow> Condition" where
  "falseCondition t reason sev msg = \<lparr>cond_Type = t, cond_Status = ConditionFalse,
     cond_Severity = sev, cond_Reason = reason, cond_Message = msg\<rparr>"

definition refLib :: lib where
  "refLib = \<lparr>IsNotFound = (\<lambda>e. e = GoErr ''not found''),
     errors_New = GoErr,
     errors_Wrap = (\<lambda>e msg. case e of GoErr t \<Rightarrow> GoErr (msg @ '': '' @ t)),
     errors_WrapNil = (\<lambda>_. None),
     ErrorText = (\<lambda>e. case e of GoErr t \<Rightarrow> t),
     NewAggregate = (\<lambda>es. Option.bind (find (\<lambda>e. e \<noteq> None) es) id),
     ContainsFinalizer = (\<lambda>fs f. f \<in> set fs),
     AddFinalizer = (\<lambda>fs f. if f \<in> set fs then fs else fs @ [f]),
     RemoveFinalizer = (\<lambda>fs f. filter (\<lambda>x. x \<noteq> f) fs),
     MarkTrue = (\<lambda>t. putCondition (trueCondition t)),
     MarkFalse = (\<lambda>t reason sev msg. putCondition (falseCondition t reason sev msg)),
     DeleteCondition = (\<lambda>t. filter (\<lambda>c. cond_Type c \<noteq> t)),
     GetCondition = (\<lambda>cs t. find (\<lambda>c. cond_Type c = t) cs),
     SetSummary = (\<lambda>ts cs. if list_all (\<lambda>c. cond_Type c \<in> set ts \<longrightarrow> cond_Status c = ConditionTrue) cs
        then putCondition (trueCondition ''Ready'') cs
        else putCondition (falseCondition ''Ready'' '''' ConditionSeverityInfo '''') cs),
     SeverityText = (\<lambda>_. ''''),
     TimeBefore = (<),
     TimeIsZero = (\<lambda>t. t = None),
     ResultIsZero = (\<lambda>r. r = zeroResult),
     FromMachineList = fromMachines,
     FilterMachines = (\<lambda>p. filter (\<lambda>(k, m). p m)),
     HasDeletionTimestamp = (\<lambda>m. DeletionTimestamp m \<noteq> None),
     SortedByCreationTimestamp = sortMachines,
     GetCreationTimestamp = (\<lambda>u. case getPath (Object u) [''metadata'', ''creationTimestamp''] of
        Some (JInt t) \<Rightarrow> t | _ \<Rightarrow> 0),
     UnmarshalString = (\<lambda>u p. case getPath (Object u) p of
        Some (JString v) \<Rightarrow> Inr v | _ \<Rightarrow> Inl (GoErr ''field not found'')),
     UnmarshalConditions = (\<lambda>_ _. []),
     SetNestedField = (\<lambda>u v p. case setPath (Object u) p v of
        Some j \<Rightarrow> Inr \<lparr>Object = j\<rparr> | None \<Rightarrow> Inl (GoErr ''not a map'')),
     ClusterNameLabel = ''cluster.x-k8s.io/cluster-name'',
     MachineControlPlaneLabel = ''cluster.x-k8s.io/control-plane'',
     MachineControlPlaneNameLabel = ''cluster.x-k8s.io/control-plane-name'',
     MachineDeploymentNameLabel = ''cluster.x-k8s.io/deployment-name'',
     MachineAPIServerPodHealthyCondition = ''APIServerPodHealthy'',
     MachineControllerManagerPodHealthyCondition = ''ControllerManagerPodHealthy'',
     MachineSchedulerPodHealthyCondition = ''SchedulerPodHealthy'',
     MachineEtcdPodHealthyCondition = ''EtcdPodHealthy'',
     MachineEtcdMemberHealthyCondition = ''EtcdMemberHealthy''\<rparr>"

section \<open>The laws hold\<close>

lemma refLib_nested: "nested_laws refLib"
  by (auto simp: nested_laws_def refLib_def getPath_setPath getPath_apart split: option.splits)

lemma refLib_fields: "field_laws refLib"
  by (auto simp: field_laws_def refLib_def split: option.splits)

lemma refLib_collections: "collections_laws refLib"
proof -
  have "set (map snd (fromMachines ms)) = set ms" if "distinct (map Name ms)" for ms
    using fromMachines_distinct [OF that] by force
  then show ?thesis
    by (auto simp: collections_laws_def refLib_def distinct_fromMachines distinct_sortMachines
        dest: fromMachines_entry)
qed

lemma refLib_membership: "membership_laws refLib"
  using fromMachines_keys by (fastforce simp: membership_laws_def refLib_def)

lemma refLib_time: "time_laws refLib"
  by (simp add: time_laws_def refLib_def)

lemma refLib_finalizer: "finalizer_laws refLib"
  by (auto simp: finalizer_laws_def refLib_def)

lemma refLib_result: "result_laws refLib"
proof -
  have "Option.bind (find (\<lambda>e. e \<noteq> None) es) id = None \<longleftrightarrow> (\<forall>e \<in> set es. e = None)" for es :: "goerr option list"
    by (induction es) auto
  then show ?thesis by (simp add: result_laws_def refLib_def)
qed

lemma refLib_wrap: "wrap_laws refLib"
  by (simp add: wrap_laws_def refLib_def)

end
