(* ===== verification/Scenarios.thy ===== *)
theory Scenarios
  imports Reference_Platform
begin

text \<open>
  Concrete runs: a cluster with a kubeadm control plane of three machines and one update task for
  it, on the reference platform. Each theorem of the development that has hypotheses is applied
  here to such a run, with its hypotheses evaluated.
\<close>

section \<open>The objects\<close>

definition aRef :: "string \<Rightarrow> string \<Rightarrow> ObjectReference" where
  "aRef kind name = \<lparr>ref_Kind = kind, ref_Namespace = ''ns'', ref_Name = name, ref_UID = '''',
     ref_APIVersion = ''v1beta1''\<rparr>"

definition aMachine :: "string \<Rightarrow> Time \<Rightarrow> string option \<Rightarrow> Machine" where
  "aMachine name created task = \<lparr>Name = name, Namespace = ''ns'', UID = '''', Labels = None,
     Annotations = Some (case task of None \<Rightarrow> Map.empty | Some t \<Rightarrow> [UpdateTaskAnnotationName \<mapsto> t]),
     Finalizers = [], CreationTimestamp = created, DeletionTimestamp = None,
     Kind = ''Machine'', APIVersion = ''v1beta1'', NodeRef = Some (aRef ''Node'' name),
     MachineConditions = map trueCondition [''APIServerPodHealthy'', ''ControllerManagerPodHealthy'',
       ''SchedulerPodHealthy'', ''EtcdPodHealthy'', ''EtcdMemberHealthy'']\<rparr>"

definition m1 :: Machine where "m1 = aMachine ''m1'' 1 (Some ''up'')"
definition m2 :: Machine where "m2 = aMachine ''m2'' 2 (Some ''up'')"
definition m3 :: Machine where "m3 = aMachine ''m3'' 3 None"

definition sickMachine :: Machine where
  "sickMachine = m2\<lparr>MachineConditions := [falseCondition ''APIServerPodHealthy'' '''' ConditionSeverityError '''']\<rparr>"

definition aCluster :: Cluster where
  "aCluster = \<lparr>Name = ''c'', Namespace = ''ns'', UID = '''', Labels = None, Annotations = None,
     Finalizers = [], CreationTimestamp = 0, DeletionTimestamp = None,
     Kind = ''Cluster'', APIVersion = ''v1beta1''\<rparr>"

definition aControlPlane :: KubeadmControlPlane where
  "aControlPlane = \<lparr>Name = ''kcp'', Namespace = ''ns'', UID = '''',
     Labels = Some [''cluster.x-k8s.io/cluster-name'' \<mapsto> ''c''], Annotations = None,
     Finalizers = [], CreationTimestamp = 0, DeletionTimestamp = None,
     Kind = ''KubeadmControlPlane'', APIVersion = ''v1beta1'', ClusterConfig = None,
     ControlPlaneConditions = []\<rparr>"

definition aSpec :: "UpdateTaskPhase \<Rightarrow> UpdateTaskSpec" where
  "aSpec phase = \<lparr>ClusterRef = Some (aRef ''Cluster'' ''c''),
     ControlPlaneRef = Some (aRef ''KubeadmControlPlane'' ''kcp''), MachineDeploymentRef = None,
     MachinesRequireUpdate = [],
     NewMachineSpec = \<lparr>ms_Version = ''v1.29'', ms_BootstrapConfig = ''b'', ms_InfraMachine = ''i''\<rparr>,
     NodeUpdateTemplate = \<lparr>Name = '''', Namespace = '''', UID = '''', Labels = None,
       Annotations = None, Finalizers = [], CreationTimestamp = 0, DeletionTimestamp = None,
       InfrastructureRef = aRef ''DockerNodeUpdateTaskTemplate'' ''tpl''\<rparr>,
     TargetPhase = phase\<rparr>"

definition aTask :: "string list \<Rightarrow> UpdateTaskPhase \<Rightarrow> UpdateTaskState \<Rightarrow> UpdateTask" where
  "aTask fs phase state = \<lparr>Name = ''up'', Namespace = ''ns'', UID = ''uid'', Labels = None,
     Annotations = None, Finalizers = fs, CreationTimestamp = 0, DeletionTimestamp = None,
     Kind = ''UpdateTask'', APIVersion = ''v1beta1'', Spec = aSpec phase,
     Status = \<lparr>State = state, StatusConditions = []\<rparr>\<rparr>"

definition aNode :: "string \<Rightarrow> int \<Rightarrow> UpdateTaskState \<Rightarrow> Unstructured" where
  "aNode machine created state = \<lparr>Object = JObject
     [(''metadata'', JObject [(''creationTimestamp'', JInt created)]),
      (''spec'', JObject [(''machineName'', JString machine), (''phase'', JString ''Update'')]),
      (''status'', JObject [(''state'', JString state)])]\<rparr>"

definition aStatus :: "string \<Rightarrow> int \<Rightarrow> UpdateTaskState \<Rightarrow> NodeUpdateTaskStatus" where
  "aStatus machine created state = \<lparr>nus_CreationTimestamp = created, nus_MachineName = machine,
     nus_Phase = ''Update'', nus_State = state, nus_Conditions = []\<rparr>"

text \<open>A node update task without the field \<open>spec.machineName\<close>.\<close>

definition brokenNode :: Unstructured where
  "brokenNode = \<lparr>Object = JObject []\<rparr>"

lemma status_aNode [simp]: "GetNodeUpdateTaskStatus refLib (aNode m t st) = Inr (aStatus m t st)"
  by (simp add: GetNodeUpdateTaskStatus_def refLib_def aNode_def aStatus_def)

lemma status_brokenNode: "\<exists>e. GetNodeUpdateTaskStatus refLib brokenNode = Inl e"
  by (simp add: GetNodeUpdateTaskStatus_def refLib_def brokenNode_def)

definition aDockerTask :: "UpdateTaskPhase \<Rightarrow> DockerNodeUpdateTask" where
  "aDockerTask phase = \<lparr>Name = ''d'', Namespace = ''ns'', UID = '''', Labels = None,
     Annotations = None, Finalizers = [], CreationTimestamp = 0, DeletionTimestamp = None,
     Kind = ''DockerNodeUpdateTask'', APIVersion = ''v1beta1'',
     DockerSpec = \<lparr>dn_MachineName = ''m1'',
       dn_NewMachineSpec = \<lparr>ms_Version = '''', ms_BootstrapConfig = '''', ms_InfraMachine = ''''\<rparr>,
       dn_Phase = phase\<rparr>,
     DockerStatus = \<lparr>dn_State = UpdateTaskStateUnknown, dn_Conditions = []\<rparr>\<rparr>"

definition aPolicy :: UpdatePolicy where
  "aPolicy = \<lparr>Name = ''policy'', Namespace = ''ns'', UID = '''', Labels = None,
     Annotations = None, Finalizers = [], CreationTimestamp = 0, DeletionTimestamp = None,
     Kind = ''UpdatePolicy'', APIVersion = ''v1beta1'',
     PolicySpec = \<lparr>NodeUpdateTemplateRef = Some (aRef ''DockerNodeUpdateTaskTemplate'' ''tpl'')\<rparr>\<rparr>"

text \<open>An API server that holds these objects and accepts every write.\<close>

definition server ::
  "UpdateTask \<Rightarrow> DockerNodeUpdateTask \<Rightarrow> Machine list \<Rightarrow> Unstructured list \<Rightarrow> env" where
  "server task docker machines nodes = \<lparr>
     api_GetUpdateTask = (\<lambda>h ns n. if ns = ''ns'' \<and> n = ''up'' then Inr task else Inl (GoErr ''not found'')),
     api_GetCluster = (\<lambda>h ns n. Inr aCluster),
     api_GetKubeadmControlPlane = (\<lambda>h ns n. Inr aControlPlane),
     api_GetMachine = (\<lambda>h ns n. case find (\<lambda>m. Name m = n) machines of
        Some m \<Rightarrow> Inr m | None \<Rightarrow> Inl (GoErr ''not found'')),
     api_GetDockerNodeUpdateTask = (\<lambda>h ns n. Inr docker),
     api_GetExternal = (\<lambda>h ref ns. Inr \<lparr>Object = JObject []\<rparr>),
     api_ListMachines = (\<lambda>h ns ls. Inr machines),
     api_ListUpdateTasks = (\<lambda>h ns ls. Inr [task]),
     api_ListUpdatePolicies = (\<lambda>h ns. Inr [aPolicy]),
     api_ListUnstructured = (\<lambda>h v k ns ls. Inr nodes),
     api_CreateNode = (\<lambda>h u. None),
     api_CreateTask = (\<lambda>h t. None),
     api_MergePatchNode = (\<lambda>h u p. None),
     api_MergePatchTask = (\<lambda>h t p. None),
     NewTaskHelper = (\<lambda>h t. None),
     NewMachineHelper = (\<lambda>h m. None),
     NewDockerHelper = (\<lambda>h t. None),
     api_PatchTask = (\<lambda>h a b. None),
     api_PatchMachine = (\<lambda>h a b. None),
     api_PatchDockerTask = (\<lambda>h a b. None),
     GenerateTemplate = (\<lambda>h inp. Inr \<lparr>Object = JObject []\<rparr>),
     RandomString = (\<lambda>h n. ''abcdef''),
     NewDockerClient = (\<lambda>h. None),
     api_ExecContainer = (\<lambda>h c i cmd. None)\<rparr>"

definition calm :: "UpdateTask \<Rightarrow> Unstructured list \<Rightarrow> env" where
  "calm task nodes = server task (aDockerTask UpdateTaskPhaseUpdate) [m1, m2, m3] nodes"

definition updating :: UpdateTask where
  "updating = aTask [UpdateTaskFinalizer] UpdateTaskPhaseUpdate UpdateTaskStateInProgress"

definition aborting :: UpdateTask where
  "aborting = aTask [UpdateTaskFinalizer] UpdateTaskPhaseAbort UpdateTaskStateInProgress"

definition memOf :: "UpdateTask \<Rightarrow> UpdateTask mem" where
  "memOf task = \<lparr>calls = [], obj = task\<rparr>"

lemmas object_defs = aRef_def aMachine_def m1_def m2_def m3_def aCluster_def aControlPlane_def
  aSpec_def aTask_def updating_def aborting_def memOf_def

lemmas server_defs = server_def calm_def

definition aScope :: "Machine list \<Rightarrow> Unstructured list \<Rightarrow> UpdateTaskScope" where
  "aScope machines nodes = \<lparr>ScopeCluster = aCluster, UpdateMachines = fromMachines machines,
     NodeUpdateTasks = nodes\<rparr>"

lemma sorted_machines [simp]:
  "SortedByCreationTimestamp refLib [(''m1'', m1), (''m2'', m2), (''m3'', m3)] = [m1, m2, m3]"
  by (simp add: refLib_def object_defs)

lemma names [simp]: "Name m1 = ''m1''" "Name m2 = ''m2''" "Name m3 = ''m3''"
  "Name updating = ''up''" "Name aborting = ''up''"
  "Namespace updating = ''ns''" "Namespace aborting = ''ns''"
  by (simp_all add: object_defs)

section \<open>Node update tasks and the scope\<close>

theorem created_node_reads_back_witness:
  "\<exists>u e s' st. CreateNodeUpdateTask refLib (calm updating []) m1 (memOf updating) = (Ret (Some u, e), s') \<and>
     GetNodeUpdateTaskStatus refLib u = Inr st \<and> nus_MachineName st = ''m1'' \<and>
     last (calls s') = CreateNode u"
proof -
  have "\<exists>u e s'. CreateNodeUpdateTask refLib (calm updating []) m1 (memOf updating) = (Ret (Some u, e), s')"
    by (simp add: CreateNodeUpdateTask_def prog_simps server_defs object_defs nodeUpdateFields_def
        refLib_def)
  then obtain u e s' where run:
    "CreateNodeUpdateTask refLib (calm updating []) m1 (memOf updating) = (Ret (Some u, e), s')" by blast
  have "ascii (Name m1)" by (simp add: ascii_def)
  from created_node_reads_back [OF refLib_nested this run] run show ?thesis by auto
qed

theorem scope_machine_selection_witness:
  "\<exists>sc s'. NewScope refLib (calm updating []) (memOf updating) = (Ret (Inr sc), s') \<and>
     (\<exists>h ms ls. api_ListMachines (calm updating []) h ''ns'' ls = Inr ms \<and>
        UpdateMachines sc = FromMachineList refLib ms)"
proof -
  have "\<exists>sc s'. NewScope refLib (calm updating []) (memOf updating) = (Ret (Inr sc), s')"
    by (simp add: NewScope_def machineLabels_def prog_simps server_defs object_defs Let_def)
  then obtain sc s' where run:
    "NewScope refLib (calm updating []) (memOf updating) = (Ret (Inr sc), s')" by blast
  from scope_machine_selection [OF run] run show ?thesis
    by (auto simp: memOf_def)
qed

text \<open>An unhealthy machine is waited for; a control plane that says itself it is unhealthy is not.\<close>

definition ailingControlPlane :: KubeadmControlPlane where
  "ailingControlPlane = aControlPlane\<lparr>ControlPlaneConditions :=
     [falseCondition ''EtcdClusterHealthy'' ''Unhealthy'' ConditionSeverityError '''']\<rparr>"

definition ailing :: "Machine list \<Rightarrow> env" where
  "ailing machines = (server updating (aDockerTask UpdateTaskPhaseUpdate) machines [])
     \<lparr>api_GetKubeadmControlPlane := (\<lambda>h ns n. Inr ailingControlPlane)\<rparr>"

theorem preflight_answer_witness:
  "fst (PreflightCheckForKubeadmControlPlane refLib (ailing [m1, sickMachine]) ''ns''
      (aRef ''KubeadmControlPlane'' ''kcp'') (memOf updating)) =
    Ret (requeueAfter preflightFailedRequeueAfter, None) \<and>
   fst (PreflightCheckForKubeadmControlPlane refLib (ailing [m1]) ''ns''
      (aRef ''KubeadmControlPlane'' ''kcp'') (memOf updating)) = Ret (zeroResult, None)"
proof
  have cp: "map_get (Labels ailingControlPlane) (ClusterNameLabel refLib) = Some ''c''"
    by (simp add: ailingControlPlane_def aControlPlane_def refLib_def)
  have sick: "\<not> machine_healthy refLib ailingControlPlane sickMachine"
    and well: "machine_healthy refLib ailingControlPlane m1"
    by (simp_all add: machine_healthy_def allMachineHealthConditions_def condition_good_def isEtcdManaged_def
        sickMachine_def refLib_def falseCondition_def trueCondition_def ailingControlPlane_def object_defs)
  have alive: "\<not> (\<exists>m \<in> set [m1, sickMachine]. HasDeletionTimestamp refLib m)"
    by (simp add: refLib_def sickMachine_def object_defs)
  show "fst (PreflightCheckForKubeadmControlPlane refLib (ailing [m1, sickMachine]) ''ns''
      (aRef ''KubeadmControlPlane'' ''kcp'') (memOf updating)) =
    Ret (requeueAfter preflightFailedRequeueAfter, None)"
    using preflight_answer [OF refLib_collections _ cp, of "ailing [m1, sickMachine]" "memOf updating"
        "''ns''" "aRef ''KubeadmControlPlane'' ''kcp''" "[m1, sickMachine]"] alive sick
    by (simp add: ailing_def server_def sickMachine_def)
  show "fst (PreflightCheckForKubeadmControlPlane refLib (ailing [m1]) ''ns''
      (aRef ''KubeadmControlPlane'' ''kcp'') (memOf updating)) = Ret (zeroResult, None)"
    using preflight_answer [OF refLib_collections _ cp, of "ailing [m1]" "memOf updating"
        "''ns''" "aRef ''KubeadmControlPlane'' ''kcp''" "[m1]"] alive well
    by (simp add: ailing_def server_def)
qed

section \<open>The status phase\<close>

definition bothUpdated :: "Unstructured list" where
  "bothUpdated = [aNode ''m1'' 1 UpdateTaskStateUpdated, aNode ''m2'' 2 UpdateTaskStateUpdated]"

definition secondRuns :: "Unstructured list" where
  "secondRuns = [aNode ''m1'' 1 UpdateTaskStateUpdated, aNode ''m2'' 2 UpdateTaskStateInProgress]"

definition secondFailed :: "Unstructured list" where
  "secondFailed = [aNode ''m1'' 1 UpdateTaskStateUpdated, aNode ''m2'' 2 UpdateTaskStateFailed]"

lemmas node_list_defs = bothUpdated_def secondRuns_def secondFailed_def

lemma aStatus_fields [simp]:
  "nus_MachineName (aStatus m t st) = m" "nus_State (aStatus m t st) = st"
  "nus_CreationTimestamp (aStatus m t st) = t"
  by (simp_all add: aStatus_def)

lemma collect_two:
  assumes "a \<noteq> b"
  shows "collectStatuses refLib [aNode a t st, aNode b t' st'] Map.empty =
    Inr [a \<mapsto> aStatus a t st, b \<mapsto> aStatus b t' st']"
  using assms by (simp add: recordStatus_def)

lemma collect_lists:
  "collectStatuses refLib bothUpdated Map.empty = Inr
     [''m1'' \<mapsto> aStatus ''m1'' 1 UpdateTaskStateUpdated, ''m2'' \<mapsto> aStatus ''m2'' 2 UpdateTaskStateUpdated]"
  "collectStatuses refLib secondRuns Map.empty = Inr
     [''m1'' \<mapsto> aStatus ''m1'' 1 UpdateTaskStateUpdated, ''m2'' \<mapsto> aStatus ''m2'' 2 UpdateTaskStateInProgress]"
  "collectStatuses refLib secondFailed Map.empty = Inr
     [''m1'' \<mapsto> aStatus ''m1'' 1 UpdateTaskStateUpdated, ''m2'' \<mapsto> aStatus ''m2'' 2 UpdateTaskStateFailed]"
  unfolding node_list_defs by (rule collect_two, simp)+

lemma aScope_fields [simp]:
  "NodeUpdateTasks (aScope ms us) = us" "UpdateMachines (aScope ms us) = fromMachines ms"
  by (simp_all add: aScope_def)

lemma memOf_fields [simp]: "calls (memOf t) = []" "obj (memOf t) = t"
  by (simp_all add: memOf_def)

lemma not_aborting [simp]: "\<not> taskAborting refLib updating" "taskAborting refLib aborting"
  by (simp_all add: taskAborting_def object_defs refLib_def)

lemma scope_of_machines [simp]:
  "isMachineInUpdateScope m1 ''up''" "isMachineInUpdateScope m2 ''up''"
  "\<not> isMachineInUpdateScope m3 ''up''"
  by (simp_all add: isMachineInUpdateScope_def object_defs)

theorem latest_status_wins_witness:
  "\<exists>m st. collectStatuses refLib [aNode ''m1'' 1 UpdateTaskStateFailed, aNode ''m1'' 2 UpdateTaskStateUpdated]
       Map.empty = Inr m \<and> m ''m1'' = Some st \<and>
     first_latest ''m1'' [aStatus ''m1'' 1 UpdateTaskStateFailed, aStatus ''m1'' 2 UpdateTaskStateUpdated] st"
proof -
  let ?us = "[aNode ''m1'' 1 UpdateTaskStateFailed, aNode ''m1'' 2 UpdateTaskStateUpdated]"
  have run: "collectStatuses refLib ?us Map.empty = Inr [''m1'' \<mapsto> aStatus ''m1'' 2 UpdateTaskStateUpdated]"
    by (simp add: recordStatus_def refLib_time [unfolded time_laws_def])
  from latest_status_wins [OF refLib_time run] run show ?thesis
    by (auto simp: Cons_eq_map_conv dest!: spec [of _ "''m1''"])
qed

theorem update_state_witness:
  "State (Status (obj (snd (reconcileStatus refLib (calm updating bothUpdated)
     (aScope [m1, m2, m3] bothUpdated) (memOf updating))))) = UpdateTaskStateUpdated"
proof -
  obtain r s' where run: "reconcileStatus refLib (calm updating bothUpdated)
     (aScope [m1, m2, m3] bothUpdated) (memOf updating) = (r, s')" by fastforce
  with update_state [where L = refLib and scope = "aScope [m1, m2, m3] bothUpdated",
      OF _ run] show ?thesis
    by (simp add: collect_lists tracked_def stateOf_def)
qed

theorem abort_state_witness:
  "State (Status (obj (snd (reconcileStatus refLib (calm aborting secondRuns)
     (aScope [m1, m2, m3] secondRuns) (memOf aborting))))) = UpdateTaskStateInProgress"
proof -
  obtain r s' where run: "reconcileStatus refLib (calm aborting secondRuns)
     (aScope [m1, m2, m3] secondRuns) (memOf aborting) = (r, s')" by fastforce
  with abort_state [where L = refLib and scope = "aScope [m1, m2, m3] secondRuns", OF _ run]
  show ?thesis
    by (simp add: collect_lists stateOf_def)
qed

theorem counters_partition_witness:
  "\<exists>c s'. foreach (statusMachine refLib (calm updating []) ''up''
       [''m1'' \<mapsto> aStatus ''m1'' 1 UpdateTaskStateUpdated]) [m1, m2, m3] zeroCounts (memOf updating) =
     (Ret (Continue c), s') \<and>
   n_updated c + n_aborted c + n_failed c + n_inProgress c + n_waitForUpdate c = n_total c"
proof -
  let ?m = "[''m1'' \<mapsto> aStatus ''m1'' 1 UpdateTaskStateUpdated]"
  obtain c s' where run: "foreach (statusMachine refLib (calm updating []) ''up'' ?m)
      [m1, m2, m3] zeroCounts (memOf updating) = (Ret (Continue c), s')"
    using run_statusLoop [of refLib "calm updating []" "''up''" ?m "[m1, m2, m3]" zeroCounts "memOf updating"]
    by blast
  have "\<forall>x \<in> set [m1, m2, m3]. \<not> oddState ?m x"
    by (simp add: oddState_def stateOf_def)
  with counters_partition [OF run] run show ?thesis by blast
qed

theorem status_marks_machines_witness:
  "calls (snd (reconcileStatus refLib (calm updating secondRuns)
     (aScope [m1, m2, m3] secondRuns) (memOf updating))) =
   [PatchMachine m1 (markMachine refLib (Some (aStatus ''m1'' 1 UpdateTaskStateUpdated)) m1),
    PatchMachine m2 (markMachine refLib (Some (aStatus ''m2'' 2 UpdateTaskStateInProgress)) m2)]"
proof -
  obtain r s' where run: "reconcileStatus refLib (calm updating secondRuns)
     (aScope [m1, m2, m3] secondRuns) (memOf updating) = (r, s')" by fastforce
  have "\<forall>h x. NewMachineHelper (calm updating secondRuns) h x = None"
    by (simp add: server_defs)
  with status_marks_machines [where L = refLib and scope = "aScope [m1, m2, m3] secondRuns", OF _ run]
    run show ?thesis
    by (auto simp: collect_lists)
qed

theorem status_error_changes_nothing_witness:
  "\<exists>err. reconcileStatus refLib (calm updating [brokenNode])
     (aScope [m1, m2, m3] [brokenNode]) (memOf updating) = (Ret (zeroResult, Some err), memOf updating)"
proof -
  obtain e where "GetNodeUpdateTaskStatus refLib brokenNode = Inl e"
    using status_brokenNode by blast
  then show ?thesis
    by (intro status_error_changes_nothing [of brokenNode]) simp_all
qed

theorem progressMessage_injective_witness:
  "progressMessage ''inProgress'' zeroCounts = progressMessage ''inProgress'' (zeroCounts\<lparr>n_total := 5\<rparr>) \<and>
   n_failed zeroCounts = n_failed (zeroCounts\<lparr>n_total := 5\<rparr>)"
proof -
  have same: "progressMessage ''inProgress'' zeroCounts =
      progressMessage ''inProgress'' (zeroCounts\<lparr>n_total := 5\<rparr>)"
    by (simp add: progressMessage_def)
  with progressMessage_injective [OF same] show ?thesis by blast
qed

section \<open>The abort and update phases\<close>

theorem abort_requests_unfinished_witness:
  "reconcileAbort refLib (calm aborting secondRuns) (aScope [m1, m2, m3] secondRuns) (memOf aborting) =
   (Ret (zeroResult, None),
    \<lparr>calls = [MergePatchNode (aNode ''m2'' 2 UpdateTaskStateInProgress) abortNodePatch],
     obj = onConditions (MarkTrue refLib AbortOperationCondition)
       (onConditions (DeleteCondition refLib UpdateOperationCondition) aborting)\<rparr>)"
proof -
  have read: "\<forall>u \<in> set (NodeUpdateTasks (aScope [m1, m2, m3] secondRuns)).
      GetNodeUpdateTaskStatus refLib u = Inr (projr (GetNodeUpdateTaskStatus refLib u))"
    by (simp add: secondRuns_def)
  have sent: "\<forall>h u. api_MergePatchNode (calm aborting secondRuns) h u abortNodePatch = None"
    by (simp add: server_defs)
  from abort_requests_unfinished [OF read sent, of "memOf aborting"] show ?thesis
    by (simp add: secondRuns_def)
qed

definition refusing :: "UpdateTask \<Rightarrow> Unstructured list \<Rightarrow> env" where
  "refusing task nodes = (calm task nodes)\<lparr>api_MergePatchNode := (\<lambda>h u p. Some (GoErr ''refused''))\<rparr>"

theorem abort_stops_at_refusal_witness:
  "fst (reconcileAbort refLib (refusing aborting secondRuns) (aScope [m1, m2, m3] secondRuns)
     (memOf aborting)) = Ret (zeroResult, Some (GoErr ''refused''))"
proof -
  let ?scope = "aScope [m1, m2, m3] secondRuns"
  have split: "NodeUpdateTasks ?scope =
      [aNode ''m1'' 1 UpdateTaskStateUpdated] @ aNode ''m2'' 2 UpdateTaskStateInProgress # []"
    by (simp add: secondRuns_def)
  have "api_MergePatchNode (refusing aborting secondRuns) (calls (memOf aborting))
      (aNode ''m2'' 2 UpdateTaskStateInProgress) abortNodePatch = Some (GoErr ''refused'')"
    by (simp add: refusing_def)
  from abort_stops_at_refusal [OF split, of refLib "aStatus ''m2'' 2 UpdateTaskStateInProgress",
      OF _ _ _ this]
  show ?thesis by simp
qed

definition firstUpdated :: "Unstructured list" where
  "firstUpdated = [aNode ''m1'' 1 UpdateTaskStateUpdated]"

lemma calm_healthy:
  "fst (PreflightCheckForKubeadmControlPlane refLib (calm task nodes) ''ns''
     (aRef ''KubeadmControlPlane'' ''kcp'') s) = Ret (zeroResult, None)"
  by (simp add: PreflightCheckForKubeadmControlPlane_def preflightChecks_def prog_simps
      server_defs aControlPlane_def refLib_def Let_def machineErrors_def machineErrorsOf_def
      preflightCheckCondition_def allMachineHealthConditions_def isEtcdManaged_def
      trueCondition_def aMachine_def m1_def m2_def m3_def)

lemma ControlPlaneRef_updating [simp]:
  "ControlPlaneRef (Spec updating) = Some (aRef ''KubeadmControlPlane'' ''kcp'')"
  "ClusterRef (Spec updating) = Some (aRef ''Cluster'' ''c'')"
  "ref_Kind (aRef k n) = k" "ref_Name (aRef k n) = n" "ref_Namespace (aRef k n) = ''ns''"
  by (simp_all add: object_defs)

lemma refLib_simps [simp]:
  "ResultIsZero refLib r \<longleftrightarrow> r = zeroResult" "FromMachineList refLib = fromMachines"
  by (simp_all add: refLib_def)

lemma calm_preflight:
  assumes "ControlPlaneRef (Spec (obj s)) = Some (aRef ''KubeadmControlPlane'' ''kcp'')"
    and "Namespace (obj s) = ''ns''"
  shows "\<exists>s1. controlPlanePreflight refLib (calm task nodes) s = (Ret (Continue ()), s1) \<and>
     Spec (obj s1) = Spec (obj s) \<and> State (Status (obj s1)) = State (Status (obj s))"
proof -
  obtain r s1 where run: "PreflightCheckForKubeadmControlPlane refLib (calm task nodes) ''ns''
      (aRef ''KubeadmControlPlane'' ''kcp'') s = (r, s1)" by fastforce
  moreover have "r = Ret (zeroResult, None)"
    using calm_healthy [of task nodes s] run by simp
  moreover have "obj s1 = obj s"
    using preflight_frozen.obj_kept [OF run] .
  ultimately show ?thesis
    using assms by (simp add: controlPlanePreflight_def prog_simps)
qed

lemma calm_create:
  assumes "ClusterRef (Spec (obj s)) = ClusterRef (Spec updating)"
  shows "\<exists>u s'. CreateNodeUpdateTask refLib (calm task nodes) m s = (Ret (Some u, None), s') \<and>
     CreateNode u \<in> set (calls s')"
  using assms
  by (simp add: CreateNodeUpdateTask_def prog_simps server_defs nodeUpdateFields_def object_defs)
    (simp add: refLib_def prog_simps)

theorem update_picks_first_waiting_witness:
  "fst (reconcileNormal refLib (calm updating firstUpdated) (aScope [m1, m2, m3] firstUpdated)
     (memOf updating)) = Ret (requeueAfter changedRequeueAfter, None)"
proof -
  let ?scope = "aScope [m1, m2, m3] firstUpdated"
  have sts: "map (GetNodeUpdateTaskStatus refLib) (NodeUpdateTasks ?scope) =
      map Inr [aStatus ''m1'' 1 UpdateTaskStateUpdated]"
    by (simp add: firstUpdated_def)
  obtain s1 where pre: "controlPlanePreflight refLib (calm updating firstUpdated) (memOf updating) =
      (Ret (Continue ()), s1)" "ClusterRef (Spec (obj s1)) = ClusterRef (Spec updating)"
    using calm_preflight [of "memOf updating" updating firstUpdated] by auto
  obtain u s2 where "CreateNodeUpdateTask refLib (calm updating firstUpdated) m2 s1 =
      (Ret (Some u, None), s2)"
    using calm_create [OF pre(2)] by blast
  with update_picks_first_waiting [OF sts _ pre(1)] show ?thesis
    by (simp add: needsUpdate_def)
qed

theorem update_creates_one_when_idle_witness:
  "\<exists>cs. filter is_create_node (calls (snd (reconcileNormal refLib (calm updating firstUpdated)
       (aScope [m1, m2, m3] firstUpdated) (memOf updating)))) = cs \<and> length cs \<le> 1"
proof -
  obtain r s' where run: "reconcileNormal refLib (calm updating firstUpdated)
      (aScope [m1, m2, m3] firstUpdated) (memOf updating) = (r, s')" by fastforce
  from update_creates_one_when_idle [OF run] run show ?thesis by auto
qed

theorem update_blocked_witness:
  "fst (reconcileNormal refLib (calm updating secondFailed) (aScope [m1, m2, m3] secondFailed)
     (memOf updating)) = Ret (zeroResult, None)"
proof -
  let ?scope = "aScope [m1, m2, m3] secondFailed"
  have split: "NodeUpdateTasks ?scope =
      [aNode ''m1'' 1 UpdateTaskStateUpdated] @ aNode ''m2'' 2 UpdateTaskStateFailed # []"
    by (simp add: secondFailed_def)
  from update_blocked [OF split, of refLib "aStatus ''m2'' 2 UpdateTaskStateFailed"
      "calm updating secondFailed" "memOf updating"]
  show ?thesis by simp
qed

definition sick :: "UpdateTask \<Rightarrow> Unstructured list \<Rightarrow> env" where
  "sick task nodes = server task (aDockerTask UpdateTaskPhaseUpdate) [m1, sickMachine] nodes"

theorem preflight_holds_update_back_witness:
  "fst (reconcileNormal refLib (sick updating firstUpdated) (aScope [m1, m2, m3] firstUpdated)
     (memOf updating)) = Ret (requeueAfter preflightFailedRequeueAfter, None)"
proof -
  obtain r s1 where run: "PreflightCheckForKubeadmControlPlane refLib (sick updating firstUpdated)
      (Namespace (obj (memOf updating))) (aRef ''KubeadmControlPlane'' ''kcp'') (memOf updating) =
      (Ret r, s1)"
    using preflight_no_panic by blast
  then have r: "r = (requeueAfter preflightFailedRequeueAfter, None)"
    by (auto simp: PreflightCheckForKubeadmControlPlane_def preflightChecks_def prog_simps
      sick_def server_def aControlPlane_def sickMachine_def falseCondition_def refLib_def Let_def
      machineErrors_def machineErrorsOf_def preflightCheckCondition_def
      allMachineHealthConditions_def aMachine_def m1_def m2_def)
  from preflight_holds_update_back [where scope = "aScope [m1, m2, m3] firstUpdated", OF _ _ _ run [unfolded r]]
  show ?thesis by (simp add: firstUpdated_def)
qed

section \<open>Whole reconciliations\<close>

lemma calm_get [simp]: "api_GetUpdateTask (calm task nodes) h ''ns'' ''up'' = Inr task"
  by (simp add: server_defs)

lemma calm_helper [simp]: "NewTaskHelper (calm task nodes) h t = None"
  by (simp add: server_defs)

lemma calm_patch [simp]: "api_PatchTask (calm task nodes) h a b = None"
  by (simp add: server_defs)

theorem reconcile_patches_once_witness:
  "\<exists>cs after. snd (Reconcile refLib (calm updating secondRuns) ''ns'' ''up'' []) =
      GetUpdateTask ''ns'' ''up'' # cs @ [PatchTask updating after] \<and> sameTask refLib updating after"
  using reconcile_patches_once [of "calm updating secondRuns" "[]" "''ns''" "''up''" updating refLib]
  by auto

theorem finalizer_follows_state_witness:
  "\<exists>h after. snd (Reconcile refLib (calm updating secondRuns) ''ns'' ''up'' []) =
      h @ [PatchTask updating after] \<and>
    (UpdateTaskFinalizer \<in> set (Finalizers after) \<longleftrightarrow> \<not> IsTerminated (State (Status after)))"
  using finalizer_follows_state [OF refLib_finalizer,
      of "calm updating secondRuns" "[]" "''ns''" "''up''" updating]
  by auto

definition homeless :: UpdateTask where
  "homeless = updating\<lparr>Spec := (aSpec UpdateTaskPhaseUpdate)\<lparr>ClusterRef := None\<rparr>\<rparr>"

theorem reconcile_panics_iff_witness:
  "\<exists>e. fst (Reconcile refLib (calm homeless []) ''ns'' ''up'' []) = Panic e"
  using reconcile_panics_iff [of "calm homeless []" "[]" "''ns''" "''up''" homeless refLib]
  by (simp add: homeless_def updating_def aTask_def refLib_def)

definition fresh :: "string list \<Rightarrow> UpdateTaskState \<Rightarrow> UpdateTask" where
  "fresh fs state = aTask fs UpdateTaskPhaseUpdate state"

lemma fresh_fields [simp]:
  "Finalizers (fresh fs st) = fs" "State (Status (fresh fs st)) = st" "Name (fresh fs st) = ''up''"
  "Namespace (fresh fs st) = ''ns''" "Spec (fresh fs st) = Spec updating"
  "\<not> taskAborting refLib (fresh fs st)"
  by (simp_all add: fresh_def object_defs taskAborting_def refLib_def)

theorem first_pass_adds_finalizer_witness:
  "\<exists>after. Reconcile refLib (calm (fresh [] UpdateTaskStateUnknown) []) ''ns'' ''up'' [] =
      (Ret (requeueAfter changedRequeueAfter, None),
       [GetUpdateTask ''ns'' ''up'', PatchTask (fresh [] UpdateTaskStateUnknown) after]) \<and>
     set (Finalizers after) = {UpdateTaskFinalizer}"
  using first_pass_adds_finalizer [OF refLib_finalizer refLib_result,
      of "calm (fresh [] UpdateTaskStateUnknown) []" "[]" "''ns''" "''up''"
        "fresh [] UpdateTaskStateUnknown"]
  by auto

text \<open>A reconciliation after the last node update ended.\<close>

lemma calm_scope:
  assumes "Spec (obj s) = Spec updating" and "Namespace (obj s) = ''ns''" and "Name (obj s) = ''up''"
  shows "\<exists>s1. NewScope refLib (calm task nodes) s = (Ret (Inr (aScope [m1, m2, m3] nodes)), s1) \<and>
    obj s1 = obj s"
proof -
  have "\<exists>s1. NewScope refLib (calm task nodes) s = (Ret (Inr (aScope [m1, m2, m3] nodes)), s1)"
    using assms
    by (simp add: NewScope_def machineLabels_def prog_simps Let_def aScope_def server_defs)
  then show ?thesis using scope_frozen.obj_kept by blast
qed

text \<open>A reconciliation that creates the node update task of the second machine.\<close>

lemma second_pass:
  "\<exists>u. CreateNode u \<in> set (snd (Reconcile refLib
     (calm (fresh [UpdateTaskFinalizer] st) firstUpdated) ''ns'' ''up'' []))"
proof -
  let ?t = "fresh [UpdateTaskFinalizer] st"
  let ?E = "calm ?t firstUpdated"
  let ?s = "\<lparr>calls = [GetUpdateTask ''ns'' ''up''], obj = ?t\<rparr>"
  let ?scope = "aScope [m1, m2, m3] firstUpdated"
  obtain s1 where scope: "NewScope refLib ?E ?s = (Ret (Inr ?scope), s1)" "obj s1 = ?t"
    using calm_scope [of ?s] by auto
  have m: "collectStatuses refLib (NodeUpdateTasks ?scope) Map.empty =
      Inr [''m1'' \<mapsto> aStatus ''m1'' 1 UpdateTaskStateUpdated]"
    by (simp add: firstUpdated_def recordStatus_def)
  obtain r2 s2 where status: "reconcileStatus refLib ?E ?scope s1 = (r2, s2)" by fastforce
  note status_facts = reconcileStatus_obj [OF m status]
  have same: "sameTask refLib ?t (obj s2)"
    using status_facts(2) scope(2) by (simp add: sameTask_def)
  note same_fields = sameTask_fields [OF same] taskAborting_same [OF same]
  obtain s3 where pre: "controlPlanePreflight refLib ?E s2 = (Ret (Continue ()), s3)"
      "Spec (obj s3) = Spec (obj s2)"
    using calm_preflight [of s2] same_fields by auto
  obtain u s4 where create: "CreateNodeUpdateTask refLib ?E m2 s3 = (Ret (Some u, None), s4)"
      "CreateNode u \<in> set (calls s4)"
    using calm_create [of s3 ?t firstUpdated m2] pre(2) same_fields(8) by auto
  have sts: "map (GetNodeUpdateTaskStatus refLib) (NodeUpdateTasks ?scope) =
      map Inr [aStatus ''m1'' 1 UpdateTaskStateUpdated]"
    by (simp add: firstUpdated_def)
  have name: "Name (obj s2) = ''up''" using same_fields(1) by simp
  obtain s5 where normal: "reconcileNormal refLib ?E ?scope s2 =
      (Ret (requeueAfter changedRequeueAfter, None), s5)" "calls s5 = calls s4"
    using reconcileNormal_picks [OF sts _ pre(1)] create(1) by (simp add: needsUpdate_def name)
  have phase: "TargetPhase (Spec (obj s2)) = UpdateTaskPhaseUpdate" "\<not> taskAborting refLib (obj s2)"
    using same_fields(7,11) by (simp_all add: aSpec_def updating_def aTask_def)
  have "\<exists>r. reconcileTask refLib ?E ?s = (r, s5)"
    using scope status status_facts(1) normal(1) phase
    by (simp add: reconcileTask_def reconcilePhases_def prog_simps finalizer_lawsD [OF refLib_finalizer])
  then show ?thesis
    using Reconcile_fetched [of ?E "[]" "''ns''" "''up''" ?t refLib] create(2) normal(2) by auto
qed

theorem reconcile_creates_witness:
  "\<exists>u. filter is_create_node (snd (Reconcile refLib
       (calm (fresh [UpdateTaskFinalizer] UpdateTaskStateInProgress) firstUpdated) ''ns'' ''up'' [])) =
     [CreateNode u]"
proof -
  let ?t = "fresh [UpdateTaskFinalizer] UpdateTaskStateInProgress"
  from reconcile_creates [of "calm ?t firstUpdated" "[]" "''ns''" "''up''" ?t refLib]
  obtain cs where cs: "filter is_create_node
      (snd (Reconcile refLib (calm ?t firstUpdated) ''ns'' ''up'' [])) = cs" "length cs \<le> 1"
    by auto
  obtain u where "CreateNode u \<in> set cs"
    using second_pass [of UpdateTaskStateInProgress] cs(1) by force
  with cs have "cs = [CreateNode u]" by (cases cs) auto
  with cs(1) show ?thesis by blast
qed

lemma last_pass:
  "\<exists>h after. Reconcile refLib (calm (fresh [UpdateTaskFinalizer] st) bothUpdated) ''ns'' ''up'' [] =
      (Ret (zeroResult, None), h @ [PatchTask (fresh [UpdateTaskFinalizer] st) after]) \<and>
    State (Status after) = UpdateTaskStateUpdated"
proof -
  let ?t = "fresh [UpdateTaskFinalizer] st"
  let ?E = "calm ?t bothUpdated"
  let ?s = "\<lparr>calls = [GetUpdateTask ''ns'' ''up''], obj = ?t\<rparr>"
  let ?scope = "aScope [m1, m2, m3] bothUpdated"
  obtain s1 where scope: "NewScope refLib ?E ?s = (Ret (Inr ?scope), s1)" "obj s1 = ?t"
    using calm_scope [of ?s] by auto
  obtain m where m: "collectStatuses refLib (NodeUpdateTasks ?scope) Map.empty = Inr m"
    and m_at: "m ''m1'' \<noteq> None" "m ''m2'' \<noteq> None"
      "\<forall>x \<in> set [m1, m2, m3]. tracked ''up'' m x \<longrightarrow> stateOf m x = Some UpdateTaskStateUpdated"
    by (simp add: collect_lists tracked_def stateOf_def)
  obtain r2 s2 where status: "reconcileStatus refLib ?E ?scope s1 = (r2, s2)" by fastforce
  note status_facts = reconcileStatus_obj [OF m status]
  have counts: "n_total (census ''up'' m [m1, m2, m3]) = n_updated (census ''up'' m [m1, m2, m3])"
    using m_at(3) by (auto simp: census_machine tracked_def stateOf_def)
  have obj2: "obj s2 = trackTask refLib (census ''up'' m [m1, m2, m3]) ?t"
    using status_facts(2) scope(2) by simp
  have state2: "State (Status (obj s2)) = UpdateTaskStateUpdated"
    by (simp add: obj2 State_trackTask counts)
  obtain s3 where pre: "controlPlanePreflight refLib ?E s2 = (Ret (Continue ()), s3)"
      "State (Status (obj s3)) = UpdateTaskStateUpdated"
    using calm_preflight [of s2] state2 by (auto simp: obj2)
  have sts: "map (GetNodeUpdateTaskStatus refLib) (NodeUpdateTasks ?scope) =
      map Inr [aStatus ''m1'' 1 UpdateTaskStateUpdated, aStatus ''m2'' 2 UpdateTaskStateUpdated]"
    by (simp add: bothUpdated_def)
  have normal: "reconcileNormal refLib ?E ?scope s2 = (Ret (zeroResult, None),
      s3\<lparr>obj := onConditions (MarkTrue refLib UpdateOperationCondition) (obj s3)\<rparr>)"
    using reconcileNormal_picks [OF sts _ pre(1)] by (simp add: needsUpdate_def obj2)
  have "reconcileTask refLib ?E ?s = (Ret (zeroResult, None),
      s3\<lparr>obj := onConditions (MarkTrue refLib UpdateOperationCondition) (obj s3)\<rparr>)"
    using scope status status_facts(1) normal
    by (simp add: reconcileTask_def reconcilePhases_def prog_simps obj2 aSpec_def updating_def
        aTask_def finalizer_lawsD [OF refLib_finalizer])
  then show ?thesis
    using Reconcile_fetched [of ?E "[]" "''ns''" "''up''" ?t refLib] pre(2)
    by (simp add: finishResult_def)
qed

theorem unfinished_comes_back_witness:
  "\<exists>h after. snd (Reconcile refLib (calm updating bothUpdated) ''ns'' ''up'' []) =
      h @ [PatchTask updating after] \<and> IsTerminated (State (Status after))"
proof -
  have "updating = fresh [UpdateTaskFinalizer] UpdateTaskStateInProgress"
    by (simp add: fresh_def updating_def)
  then have "fst (Reconcile refLib (calm updating bothUpdated) ''ns'' ''up'' []) = Ret (zeroResult, None)"
    using last_pass [of UpdateTaskStateInProgress] by auto
  from unfinished_comes_back [OF refLib_result _ _ this, of updating] show ?thesis by auto
qed

section \<open>The life of a task and the rollout\<close>

text \<open>The task that a last pass leaves Updated, and the same task when it is told to abort later.\<close>

lemma updated_reachable:
  "\<exists>t. (taskStep refLib)\<^sup>*\<^sup>* (fresh [UpdateTaskFinalizer] UpdateTaskStateUnknown) t \<and>
     State (Status t) = UpdateTaskStateUpdated"
proof -
  let ?t0 = "fresh [UpdateTaskFinalizer] UpdateTaskStateUnknown"
  obtain h t where pass: "Reconcile refLib (calm ?t0 bothUpdated) ''ns'' ''up'' [] =
      (Ret (zeroResult, None), h @ [PatchTask ?t0 t])" "State (Status t) = UpdateTaskStateUpdated"
    using last_pass by blast
  have "taskStep refLib ?t0 t"
  proof (rule taskStep.reconciled)
    show "api_GetUpdateTask (calm ?t0 bothUpdated) [] ''ns'' ''up'' = Inr ?t0" by simp
    show "NewTaskHelper (calm ?t0 bothUpdated) ([] @ [GetUpdateTask ''ns'' ''up'']) ?t0 = None" by simp
    show "snd (Reconcile refLib (calm ?t0 bothUpdated) ''ns'' ''up'' []) = h @ [PatchTask ?t0 t]"
      by (simp add: pass(1))
  qed
  with pass(2) show ?thesis by blast
qed

theorem task_states_witness:
  "\<exists>t. (taskStep refLib)\<^sup>*\<^sup>* (fresh [UpdateTaskFinalizer] UpdateTaskStateUnknown) t \<and>
     State (Status t) = UpdateTaskStateUpdated \<and> State (Status t) \<noteq> UpdateTaskStateFailed"
proof -
  obtain t where t: "(taskStep refLib)\<^sup>*\<^sup>* (fresh [UpdateTaskFinalizer] UpdateTaskStateUnknown) t"
    "State (Status t) = UpdateTaskStateUpdated"
    using updated_reachable by blast
  with task_states [OF _ t(1)] show ?thesis by auto
qed

theorem final_states_stay_witness:
  "\<exists>t t'. (taskStep refLib)\<^sup>*\<^sup>* (fresh [UpdateTaskFinalizer] UpdateTaskStateUnknown) t \<and>
     (taskStep refLib)\<^sup>*\<^sup>* t t' \<and> TargetPhase (Spec t') = UpdateTaskPhaseAbort \<and>
     State (Status t') = UpdateTaskStateUpdated \<and> UpdateTaskFinalizer \<notin> set (Finalizers t')"
proof -
  obtain t where t: "(taskStep refLib)\<^sup>*\<^sup>* (fresh [UpdateTaskFinalizer] UpdateTaskStateUnknown) t"
    "State (Status t) = UpdateTaskStateUpdated"
    using updated_reachable by blast
  let ?t' = "t\<lparr>Spec := (Spec t)\<lparr>TargetPhase := UpdateTaskPhaseAbort\<rparr>\<rparr>"
  have "taskStep refLib t ?t'" by (rule edited) simp_all
  then have step: "(taskStep refLib)\<^sup>*\<^sup>* t ?t'" by blast
  have "State (Status ?t') = State (Status t) \<and> UpdateTaskFinalizer \<notin> set (Finalizers ?t')"
    by (rule final_states_stay [OF refLib_finalizer _ t(1) _ step]) (simp_all add: t(2))
  with t step show ?thesis by (intro exI [of _ t] exI [of _ ?t']) simp
qed

theorem rollout_one_at_a_time_witness:
  "\<exists>cs. snd (Reconcile refLib (calm updating []) ''ns'' ''up'' []) = cs \<and>
     length (filter (\<lambda>u. \<not> ended refLib u) (createdNodes cs)) \<le> 1 \<and>
     distinct (map (machineOf refLib) (createdNodes cs))"
proof -
  let ?cs = "snd (Reconcile refLib (calm updating []) ''ns'' ''up'' [])"
  have "rolloutStep refLib [] ([] @ createdNodes ?cs)"
  proof (rule rolloutStep.reconciled)
    show "api_GetUpdateTask (calm updating []) [] ''ns'' ''up'' = Inr updating" by simp
    show "NewTaskHelper (calm updating []) ([] @ [GetUpdateTask ''ns'' ''up'']) updating = None" by simp
    show "\<forall>h v k. api_ListUnstructured (calm updating []) h v k (Namespace updating)
        [(ClusterUpdateTaskNameLabel, Name updating)] = Inr []"
      by (simp add: server_defs)
    show "\<forall>h ns ls ms. api_ListMachines (calm updating []) h ns ls = Inr ms \<longrightarrow>
        (\<forall>x \<in> set ms. ascii (Name x))"
      by (simp add: server_defs ascii_def)
    show "snd (Reconcile refLib (calm updating []) ''ns'' ''up'' []) = [] @ ?cs" by simp
    show "createdNodes ?cs = [] \<or> createdNodes ?cs = createdNodes ?cs" by simp
  qed
  then have "(rolloutStep refLib)\<^sup>*\<^sup>* [] (createdNodes ?cs)" by auto
  from rollout_one_at_a_time [OF refLib_nested refLib_membership this] show ?thesis by blast
qed

section \<open>Docker node updates\<close>

definition failingDocker :: "DockerNodeUpdateTask \<Rightarrow> env" where
  "failingDocker t = (server updating t [m1] [])\<lparr>api_ExecContainer := (\<lambda>h c i cmd. Some (GoErr ''exec''))\<rparr>"

theorem docker_update_reports_updated_witness:
  "fst (DockerReconcile refLib (failingDocker (aDockerTask UpdateTaskPhaseUpdate)) ''ns'' ''d'' []) =
     Ret (zeroResult, None) \<and>
   last (snd (DockerReconcile refLib (failingDocker (aDockerTask UpdateTaskPhaseUpdate)) ''ns'' ''d'' [])) =
     PatchDockerTask (aDockerTask UpdateTaskPhaseUpdate)
       (setDockerState UpdateTaskStateUpdated (aDockerTask UpdateTaskPhaseUpdate))"
  using docker_update_reports_updated [of "failingDocker (aDockerTask UpdateTaskPhaseUpdate)" "[]"
      "''ns''" "''d''" "aDockerTask UpdateTaskPhaseUpdate" m1 refLib]
  by (simp add: failingDocker_def server_def aDockerTask_def dockerDue_def)

theorem docker_not_due_unchanged_witness:
  "\<exists>r. DockerReconcile refLib (failingDocker (aDockerTask UpdateTaskPhaseAbort)) ''ns'' ''d'' [] =
     (Ret r, [GetDockerNodeUpdateTask ''ns'' ''d'', GetMachine ''ns'' ''m1'',
       PatchDockerTask (aDockerTask UpdateTaskPhaseAbort) (aDockerTask UpdateTaskPhaseAbort)])"
  using docker_not_due_unchanged [of "failingDocker (aDockerTask UpdateTaskPhaseAbort)" "[]"
      "''ns''" "''d''" "aDockerTask UpdateTaskPhaseAbort" refLib]
  by (simp add: failingDocker_def server_def aDockerTask_def dockerDue_def)

section \<open>The hook\<close>

definition aRequest :: ControlPlaneExternalUpdateRequest where
  "aRequest = \<lparr>cp_ClusterRef = Some (aRef ''Cluster'' ''c''),
     cp_ControlPlaneRef = Some (aRef ''KubeadmControlPlane'' ''kcp''),
     cp_MachinesRequireUpdate = [],
     cp_NewMachine = \<lparr>ms_Version = ''v1.30'', ms_BootstrapConfig = ''b'', ms_InfraMachine = ''i''\<rparr>\<rparr>"

definition noResponse :: ExternalUpdateResponse where
  "noResponse = \<lparr>resp_Status = ResponseStatusUnset, resp_Message = ''''\<rparr>"

lemma aRequest_fields [simp]:
  "cp_ClusterRef aRequest = Some (aRef ''Cluster'' ''c'')"
  "cp_ControlPlaneRef aRequest = Some (aRef ''KubeadmControlPlane'' ''kcp'')"
  by (simp_all add: aRequest_def)

lemma annotated [simp]:
  "Annotations m1 = Some [UpdateTaskAnnotationName \<mapsto> ''up'']"
  "Annotations m2 = Some [UpdateTaskAnnotationName \<mapsto> ''up'']" "Annotations m3 = Some Map.empty"
  by (simp_all add: object_defs)

lemma calm_accepts:
  "\<exists>response' s'. DoControlPlaneExternalUpdate refLib (calm updating []) aRequest noResponse
     (memOf updating) = (Ret response', s') \<and> resp_Status response' = ResponseStatusSuccess"
  by (simp add: DoControlPlaneExternalUpdate_def doControlPlaneExternalUpdateImpl_def
      abortTasks_def abortExisting_def claimMachines_def claimStep_def createUpdateTask_def
      prog_simps Let_def server_def calm_def aCluster_def aPolicy_def m1_def m2_def m3_def
      aMachine_def split: if_split)

theorem accepted_request_does_everything_witness:
  "\<exists>h. calls (snd (DoControlPlaneExternalUpdate refLib (calm updating []) aRequest noResponse
     (memOf updating))) = h \<and> acceptedTrace refLib (calm updating []) aRequest [] h"
proof -
  obtain response' s' where run: "DoControlPlaneExternalUpdate refLib (calm updating []) aRequest
      noResponse (memOf updating) = (Ret response', s')" "resp_Status response' = ResponseStatusSuccess"
    using calm_accepts by blast
  have "\<forall>h before after. api_PatchMachine (calm updating []) h before after = None"
    by (simp add: server_defs)
  from accepted_request_does_everything [OF this run] run(1) show ?thesis by simp
qed

definition conflicted :: env where
  "conflicted = (calm updating [])
     \<lparr>api_PatchMachine := (\<lambda>h a b. if a = m2 then Some (GoErr ''conflict'') else None)\<rparr>"

theorem failed_claim_is_accepted_witness:
  "\<exists>response' s' n. DoControlPlaneExternalUpdate refLib conflicted aRequest noResponse (memOf updating) =
     (Ret response', s') \<and> resp_Status response' = ResponseStatusSuccess \<and>
     MergePatchTask updating abortTaskPatch \<in> set (calls s') \<and>
     filter is_patch_machine (calls s') = [claimCall refLib n m1, claimCall refLib n m2] \<and>
     (\<forall>t. CreateTask t \<notin> set (calls s'))"
proof -
  have "m1 \<noteq> m2" by (simp add: object_defs)
  moreover have "toAbort ''c'' ''kcp'' updating" by (simp add: toAbort_def object_defs)
  moreover note failed_claim_is_accepted [OF refLib_wrap, of aRequest "aRef ''Cluster'' ''c''"
      "aRef ''KubeadmControlPlane'' ''kcp''" conflicted aCluster "[updating]" "[m1]" m2 "[m3]"
      "GoErr ''conflict''" noResponse "memOf updating"]
  ultimately obtain n where
    "DoControlPlaneExternalUpdate refLib conflicted aRequest noResponse (memOf updating) =
      (Ret (noResponse\<lparr>resp_Status := ResponseStatusSuccess\<rparr>), (memOf updating)\<lparr>calls :=
        [GetCluster ''ns'' ''c'', ListUpdateTasks ''ns'' [(ClusterNameLabel refLib, ''c'')],
         MergePatchTask updating abortTaskPatch,
         ListMachines ''ns'' [(ClusterNameLabel refLib, ''c''), (MachineControlPlaneLabel refLib, '''')],
         claimCall refLib n m1, claimCall refLib n m2]\<rparr>)"
    by (auto simp: conflicted_def server_defs updating_def aTask_def aSpec_def aRef_def aCluster_def memOf_def)
  then show ?thesis by (intro exI conjI) (assumption | auto simp: claimCall_def)+
qed

theorem handler_returns_witness:
  "\<exists>response' s'. DoControlPlaneExternalUpdate refLib (calm updating []) aRequest noResponse
     (memOf updating) = (Ret response', s')"
  by (rule handler_returns) (simp_all add: server_defs aPolicy_def)


theorem creation_makes_progress_witness:
  "\<exists>u st. GetNodeUpdateTaskStatus refLib u = Inr st \<and>
     length (filter (needsUpdate ''up'' [aStatus ''m1'' 1 UpdateTaskStateUpdated]) [m1, m2, m3]) =
     Suc (length (filter (needsUpdate ''up'' ([aStatus ''m1'' 1 UpdateTaskStateUpdated] @ [st]))
       [m1, m2, m3]))"
proof -
  obtain u s' where run: "CreateNodeUpdateTask refLib (calm updating []) m2 (memOf updating) =
      (Ret (Some u, None), s')"
    using calm_create [of "memOf updating" updating "[]" m2] by auto
  have found: "find (needsUpdate ''up'' [aStatus ''m1'' 1 UpdateTaskStateUpdated]) [m1, m2, m3] = Some m2"
    by (simp add: needsUpdate_def)
  have names: "ascii (Name m2)" "distinct (map Name [m1, m2, m3])"
    by (simp_all add: ascii_def)
  show ?thesis
    using creation_makes_progress [OF refLib_nested names found run] by blast
qed

theorem docker_pass_effects_witness:
  "\<exists>r cs. DockerReconcile refLib (failingDocker (aDockerTask UpdateTaskPhaseUpdate)) ''ns'' ''d'' [] =
     (Ret r, GetDockerNodeUpdateTask ''ns'' ''d'' # cs) \<and> length (filter is_exec cs) \<le> 1"
  using docker_pass_effects [of refLib "failingDocker (aDockerTask UpdateTaskPhaseUpdate)"
      "''ns''" "''d''" "[]"]
  by auto


theorem scan_agrees_with_status_witness:
  "\<exists>m. foreach (scanNode refLib) bothUpdated Map.empty (memOf updating) =
      (Ret (Continue m), memOf updating) \<and> collectStatuses refLib bothUpdated Map.empty = Inr m"
proof -
  obtain m where "collectStatuses refLib bothUpdated Map.empty = Inr m"
    by (simp add: collect_lists(1))
  moreover have "\<forall>u \<in> set bothUpdated. \<exists>st. GetNodeUpdateTaskStatus refLib u = Inr st \<and>
      IsTerminated (nus_State st) \<and> nus_State st \<noteq> UpdateTaskStateFailed"
    by (simp add: bothUpdated_def)
  ultimately show ?thesis
    using scan_agrees_with_status [of refLib bothUpdated "memOf updating" m "memOf updating"] by blast
qed

end
