(* ===== verification/Manager_Setup.thy ===== *)
theory Manager_Setup
  imports Kube_Types
begin

text \<open>
  The process, \<open>src/cmd/main.go\<close>: the flags with their defaults and the start-up sequence. A step
  that fails ends the process with status 1; the few errors the code throws away do not. What the
  steps do inside the frameworks is a parameter: it answers each step, given the steps before it.
\<close>

section \<open>Flags\<close>

definition Minute :: Duration where
  "Minute = 60 * Second"

record Flags =
  enableLeaderElection :: bool
  leaderElectionLeaseDuration :: Duration
  leaderElectionRenewDeadline :: Duration
  leaderElectionRetryPeriod :: Duration
  profilerAddress :: string
  enableContentionProfiling :: bool
  syncPeriod :: Duration
  restConfigQPS :: int
  restConfigBurst :: int
  webhookPort :: int
  webhookCertDir :: string
  healthAddr :: string

definition InitFlags :: Flags where
  "InitFlags =
     \<lparr>enableLeaderElection = False,
      leaderElectionLeaseDuration = 15 * Second,
      leaderElectionRenewDeadline = 10 * Second,
      leaderElectionRetryPeriod = 2 * Second,
      profilerAddress = '''',
      enableContentionProfiling = False,
      syncPeriod = 10 * Minute,
      restConfigQPS = 20,
      restConfigBurst = 30,
      webhookPort = 9443,
      webhookCertDir = ''/tmp/k8s-webhook-server/serving-certs/'',
      healthAddr = '':9440''\<rparr>"

section \<open>Steps\<close>

record RestConfig =
  rest_QPS :: int
  rest_Burst :: int
  rest_UserAgentFor :: string

record ServerOptions =
  srv_Port :: int
  srv_CertDir :: string

record ManagerOptions =
  mgr_LeaderElection :: bool
  mgr_LeaderElectionID :: string
  mgr_LeaseDuration :: Duration
  mgr_RenewDeadline :: Duration
  mgr_RetryPeriod :: Duration
  mgr_HealthProbeBindAddress :: string
  mgr_PprofBindAddress :: string
  mgr_SyncPeriod :: Duration
  mgr_UncachedKinds :: "string list"

datatype boot =
    AddToScheme string
  | AddToCatalog string
  | SetLogLevel string
  | ParseFlags
  | ValidateLogOptions
  | SetLogger
  | GetConfigOrDie
  | SetRestConfig RestConfig
  | GetTLSOverrides
  | SetBlockProfileRate int
  | NewServer ServerOptions
  | NewManager RestConfig ManagerOptions
  | SetupSignalHandler
  | AddExtensionHandler string string string
  | AddReadyzCheck string
  | AddHealthzCheck string
  | SetupController string
  | StartManager

datatype onError = ExitOnError | PanicOnError | IgnoreError

type_synonym bootStep = "onError \<times> boot"

text \<open>
  \<open>init\<close> registers the types; of its errors only that of the own API group matters
  (\<open>utilruntime.Must\<close>).
\<close>

definition initSteps :: "bootStep list" where
  "initSteps =
     [(IgnoreError, AddToScheme ''clientgoscheme''), (IgnoreError, AddToScheme ''apiextensionsv1''),
      (IgnoreError, AddToScheme ''clusterv1''), (IgnoreError, AddToScheme ''bootstrapv1''),
      (IgnoreError, AddToScheme ''controlplanev1''), (PanicOnError, AddToScheme ''updatev1beta1''),
      (IgnoreError, AddToCatalog ''runtimehooksv1'')]"

definition controllerName :: string where
  "controllerName = ''cluster-api-inplace-updater-manager''"

definition restConfigOf :: "Flags \<Rightarrow> RestConfig" where
  "restConfigOf f = \<lparr>rest_QPS = restConfigQPS f, rest_Burst = restConfigBurst f,
     rest_UserAgentFor = controllerName\<rparr>"

definition ctrlOptions :: "Flags \<Rightarrow> ManagerOptions" where
  "ctrlOptions f =
     \<lparr>mgr_LeaderElection = enableLeaderElection f,
      mgr_LeaderElectionID = ''controller-leader-election-inplace-updater-extension'',
      mgr_LeaseDuration = leaderElectionLeaseDuration f,
      mgr_RenewDeadline = leaderElectionRenewDeadline f,
      mgr_RetryPeriod = leaderElectionRetryPeriod f,
      mgr_HealthProbeBindAddress = healthAddr f,
      mgr_PprofBindAddress = profilerAddress f,
      mgr_SyncPeriod = syncPeriod f,
      mgr_UncachedKinds = [''ConfigMap'', ''Secret'']\<rparr>"

definition setupLifecycleHookHandlers :: "bootStep list" where
  "setupLifecycleHookHandlers =
     [(ExitOnError, AddExtensionHandler ''BeforeClusterCreate'' ''before-cluster-create''
         ''DoBeforeClusterCreate''),
      (ExitOnError, AddExtensionHandler ''BeforeClusterUpgrade'' ''before-cluster-upgrade''
         ''DoBeforeClusterUpgrade''),
      (ExitOnError, AddExtensionHandler ''AfterControlPlaneUpgrade'' ''after-control-plane-upgrade''
         ''DoAfterControlPlaneUpgrade''),
      (ExitOnError, AddExtensionHandler ''AfterClusterUpgrade'' ''after-cluster-upgrade''
         ''DoAfterClusterUpgrade'')]"

definition setupChecks :: "bootStep list" where
  "setupChecks = [(ExitOnError, AddReadyzCheck ''webhook''), (ExitOnError, AddHealthzCheck ''webhook'')]"

definition setupReconcilers :: "bootStep list" where
  "setupReconcilers =
     [(ExitOnError, SetupController ''UpdateTaskReconciler''),
      (ExitOnError, SetupController ''DockerNodeUpdateTaskReconciler'')]"

text \<open>
  What \<open>main\<close> does up to the parsing of the flags, and from there on; \<open>f\<close> are the flags as parsed.
\<close>

definition flagSteps :: "bootStep list" where
  "flagSteps = [(ExitOnError, SetLogLevel ''2''), (ExitOnError, ParseFlags)]"

definition mainSteps :: "Flags \<Rightarrow> bootStep list" where
  "mainSteps f =
     [(ExitOnError, ValidateLogOptions), (ExitOnError, SetLogger), (ExitOnError, GetConfigOrDie),
      (ExitOnError, SetRestConfig (restConfigOf f)), (ExitOnError, GetTLSOverrides)] @
     (if enableContentionProfiling f then [(ExitOnError, SetBlockProfileRate 1)] else []) @
     [(ExitOnError, NewServer \<lparr>srv_Port = webhookPort f, srv_CertDir = webhookCertDir f\<rparr>),
      (ExitOnError, NewManager (restConfigOf f) (ctrlOptions f)),
      (ExitOnError, SetupSignalHandler)] @
     setupLifecycleHookHandlers @ setupChecks @ setupReconcilers @ [(ExitOnError, StartManager)]"

section \<open>Running the steps\<close>

type_synonym bootEnv = "boot list \<Rightarrow> boot \<Rightarrow> goerr option"

fun runBoot :: "bootEnv \<Rightarrow> bootStep list \<Rightarrow> (boot list, unit) prog" where
  "runBoot B [] h = (Ret (), h)"
| "runBoot B ((onErr, c) # cs) h =
     (case B h c of
        None \<Rightarrow> runBoot B cs (h @ [c])
      | Some _ \<Rightarrow>
        (case onErr of
           IgnoreError \<Rightarrow> runBoot B cs (h @ [c])
         | ExitOnError \<Rightarrow> (Panic ''exit status 1'', h @ [c])
         | PanicOnError \<Rightarrow> (Panic ''panic'', h @ [c])))"

definition bootSequence :: "(Flags \<Rightarrow> Flags) \<Rightarrow> bootStep list" where
  "bootSequence parse = initSteps @ flagSteps @ mainSteps (parse InitFlags)"

definition startProcess :: "bootEnv \<Rightarrow> (Flags \<Rightarrow> Flags) \<Rightarrow> unit outcome \<times> boot list" where
  "startProcess B parse = runBoot B (bootSequence parse) []"

section \<open>Properties\<close>

lemma runBoot_result:
  "case runBoot B cs h of
     (Ret _, tr) \<Rightarrow> tr = h @ map snd cs
   | (Panic _, tr) \<Rightarrow> \<exists>before onErr c rest. cs = before @ (onErr, c) # rest \<and>
       onErr \<noteq> IgnoreError \<and> tr = h @ map snd before @ [c] \<and> B (h @ map snd before) c \<noteq> None"
proof (induction cs arbitrary: h)
  case (Cons s cs)
  obtain onErr c where s: "s = (onErr, c)" by (cases s)
  show ?case
  proof (cases "B h c = None \<or> onErr = IgnoreError")
    case True
    then have run: "runBoot B (s # cs) h = runBoot B cs (h @ [c])"
      using s by (auto split: option.split)
    obtain r tr where rec: "runBoot B cs (h @ [c]) = (r, tr)" by fastforce
    show ?thesis
    proof (cases r)
      case (Ret u)
      with Cons.IH [of "h @ [c]"] rec run s show ?thesis by simp
    next
      case (Panic e)
      with Cons.IH [of "h @ [c]"] rec obtain before onErr' c' rest where
        "cs = before @ (onErr', c') # rest" "onErr' \<noteq> IgnoreError"
        "tr = (h @ [c]) @ map snd before @ [c']" "B ((h @ [c]) @ map snd before) c' \<noteq> None"
        by auto
      then have "s # cs = (s # before) @ (onErr', c') # rest" "onErr' \<noteq> IgnoreError"
        "tr = h @ map snd (s # before) @ [c']" "B (h @ map snd (s # before)) c' \<noteq> None"
        using s by simp_all
      then show ?thesis
        unfolding run rec Panic prod.case outcome.case by blast
    qed
  next
    case False
    then have "runBoot B (s # cs) h = (Panic (if onErr = ExitOnError then ''exit status 1''
        else ''panic''), h @ [c])"
      using s by (cases onErr) (auto split: option.split)
    with False s show ?thesis by (auto intro!: exI [of _ "[]"])
  qed
qed simp

text \<open>
  The process starts its manager as the last step, after the webhook server, the hooks, the
  checks and both reconcilers are set up, or it stops at the first step that fails; an error of
  \<open>init\<close> that the code throws away stops nothing.
\<close>

theorem start_all_or_stop:
  "case startProcess B parse of
     (Ret _, steps) \<Rightarrow> steps = map snd (bootSequence parse) \<and> last steps = StartManager
   | (Panic _, steps) \<Rightarrow> \<exists>before onErr c rest. bootSequence parse = before @ (onErr, c) # rest \<and>
       onErr \<noteq> IgnoreError \<and> steps = map snd before @ [c] \<and> B (map snd before) c \<noteq> None \<and>
       (StartManager \<in> set steps \<longleftrightarrow> rest = [])"
proof -
  obtain r steps where run: "startProcess B parse = (r, steps)" by fastforce
  have shape: "\<exists>xs. bootSequence parse = xs @ [(ExitOnError, StartManager)] \<and> StartManager \<notin> snd ` set xs"
    by (auto simp: bootSequence_def mainSteps_def initSteps_def flagSteps_def
        setupLifecycleHookHandlers_def setupChecks_def setupReconcilers_def)
  then obtain xs where xs: "bootSequence parse = xs @ [(ExitOnError, StartManager)]"
    "StartManager \<notin> snd ` set xs" by blast
  show ?thesis
  proof (cases r)
    case (Ret u)
    with runBoot_result [where B = B and cs = "bootSequence parse" and h = "[]"] run xs show ?thesis
      by (simp add: startProcess_def)
  next
    case (Panic e)
    with runBoot_result [where B = B and cs = "bootSequence parse" and h = "[]"] run obtain before onErr c rest where
      split: "bootSequence parse = before @ (onErr, c) # rest" "onErr \<noteq> IgnoreError"
      "steps = map snd before @ [c]" "B (map snd before) c \<noteq> None"
      by (auto simp: startProcess_def)
    have "StartManager \<in> set steps \<longleftrightarrow> rest = []"
      using split(1,3) xs by (cases rest rule: rev_cases) (auto simp: image_iff)
    with split Panic run show ?thesis by auto
  qed
qed

lemma added_extension_handlers:
  assumes "AddExtensionHandler hook name handler \<in> set (snd (startProcess B parse))"
  shows "handler \<in> {''DoBeforeClusterCreate'', ''DoBeforeClusterUpgrade'',
     ''DoAfterControlPlaneUpgrade'', ''DoAfterClusterUpgrade''}"
proof -
  have "set (snd (startProcess B parse)) \<subseteq> set (map snd (bootSequence parse))"
    using runBoot_result [where B = B and cs = "bootSequence parse" and h = "[]"]
    by (auto simp: startProcess_def split: prod.splits outcome.splits)
  with assms have "AddExtensionHandler hook name handler \<in> set (map snd (bootSequence parse))" by blast
  then show ?thesis
    by (auto simp: bootSequence_def mainSteps_def initSteps_def flagSteps_def
        setupLifecycleHookHandlers_def setupChecks_def setupReconcilers_def split: if_splits)
qed

text \<open>
  The hook that starts an update is never registered: the only extension handlers the process
  adds are the four that just log, so the external update of a control plane cannot be called.
\<close>

theorem external_update_not_registered:
  "AddExtensionHandler hook name handler \<in> set (snd (startProcess B parse)) \<Longrightarrow>
   handler \<in> {''DoBeforeClusterCreate'', ''DoBeforeClusterUpgrade'',
     ''DoAfterControlPlaneUpgrade'', ''DoAfterClusterUpgrade''} \<and>
   handler \<noteq> ''DoControlPlaneExternalUpdate''"
  by (drule added_extension_handlers) auto

theorem external_update_not_registered_witness:
  "AddExtensionHandler ''BeforeClusterCreate'' ''before-cluster-create'' ''DoBeforeClusterCreate''
     \<in> set (snd (startProcess (\<lambda>_ _. None) id)) \<and>
   ''DoBeforeClusterCreate'' \<noteq> ''DoControlPlaneExternalUpdate''"
proof -
  have added: "AddExtensionHandler ''BeforeClusterCreate'' ''before-cluster-create'' ''DoBeforeClusterCreate''
     \<in> set (snd (startProcess (\<lambda>_ _. None) id))"
    by (simp add: startProcess_def bootSequence_def mainSteps_def initSteps_def flagSteps_def
        setupLifecycleHookHandlers_def setupChecks_def setupReconcilers_def InitFlags_def)
  from external_update_not_registered [OF added] added show ?thesis by blast
qed

text \<open>
  Without flags the manager gets options that leader election accepts: the lease is longer than
  the renewal deadline, and the deadline longer than 1.2 times the retry period.
\<close>

theorem default_leader_election_valid:
  "mgr_LeaseDuration (ctrlOptions InitFlags) > mgr_RenewDeadline (ctrlOptions InitFlags) \<and>
   10 * mgr_RenewDeadline (ctrlOptions InitFlags) > 12 * mgr_RetryPeriod (ctrlOptions InitFlags) \<and>
   mgr_RetryPeriod (ctrlOptions InitFlags) > 0"
  by (simp add: ctrlOptions_def InitFlags_def Second_def Millisecond_def)

end
