(* ===== verification/Go_Heap.thy ===== *)
theory Go_Heap
  imports Kube_Types
begin

text \<open>
  Storage that objects share through pointers: a heap of cells and a limit below which every
  address in use lies. Everywhere else in the development an object is a value; here pointers,
  maps and slices are addresses, so that it can be said which storage two objects share. A cell
  is what one allocation holds: the target of a pointer, a map, or the array behind a slice (the
  program only ranges over whole slices, so a slice is the address of its elements).
\<close>

section \<open>The heap\<close>

type_synonym addr = nat

record 'c heap =
  store :: "addr \<Rightarrow> 'c"
  limit :: addr

definition alloc :: "'c \<Rightarrow> ('c heap, addr) prog" where
  "alloc c h = (Ret (limit h), h\<lparr>store := (store h)(limit h := c), limit := Suc (limit h)\<rparr>)"

definition put :: "addr \<Rightarrow> 'c \<Rightarrow> 'c heap \<Rightarrow> 'c heap" where
  "put a c h = h\<lparr>store := (store h)(a := c)\<rparr>"

definition setCell :: "addr \<Rightarrow> ('c \<Rightarrow> 'c) \<Rightarrow> ('c heap, unit) prog" where
  "setCell a f h = (Ret (), put a (f (store h a)) h)"

lemma run_alloc [prog_simps]:
  "alloc c h = (Ret (limit h), h\<lparr>store := (store h)(limit h := c), limit := Suc (limit h)\<rparr>)"
  by (rule alloc_def)

lemma run_setCell [prog_simps]: "setCell a f h = (Ret (), put a (f (store h a)) h)"
  by (rule setCell_def)

lemma put_simps [simp]:
  "store (put a c h) = (store h)(a := c)"
  "limit (put a c h) = limit h"
  by (simp_all add: put_def)

text \<open>A later heap: nothing that was in use has changed.\<close>

definition extends :: "'c heap \<Rightarrow> 'c heap \<Rightarrow> bool" where
  "extends h h' \<longleftrightarrow> limit h \<le> limit h' \<and> (\<forall>a < limit h. store h' a = store h a)"

lemma extends_refl [simp, intro]: "extends h h"
  by (simp add: extends_def)

lemma extends_trans: "extends h h' \<Longrightarrow> extends h' h'' \<Longrightarrow> extends h h''"
  by (fastforce simp: extends_def)

lemma extends_limit: "extends h h' \<Longrightarrow> limit h \<le> limit h'"
  by (simp add: extends_def)

lemma extends_alloc [simp]:
  "extends h (h\<lparr>store := (store h)(limit h := c), limit := Suc (limit h)\<rparr>)"
  by (simp add: extends_def)

lemma extends_put: "extends h h' \<Longrightarrow> limit h \<le> a \<Longrightarrow> extends h (put a c h')"
  by (simp add: extends_def)

section \<open>Deep copies\<close>

text \<open>
  The contract of a \<open>DeepCopyInto\<close>. \<open>value h x\<close> is everything that can be read of \<open>x\<close> through
  its pointers, \<open>reach h x\<close> the storage it is read from, \<open>into x\<close> the copy. The copy returns,
  leaves all storage in use as it is, has the same value and lies in new storage only. What is read
  of an object depends only on the storage it reaches.
\<close>

locale deep_copying =
  fixes "value" :: "'c heap \<Rightarrow> 'x \<Rightarrow> 'v"
    and reach :: "'c heap \<Rightarrow> 'x \<Rightarrow> addr set"
    and into :: "'x \<Rightarrow> ('c heap, 'x) prog"
  assumes copies: "reach h x \<subseteq> {..<limit h} \<Longrightarrow> \<exists>y h'. into x h = (Ret y, h') \<and> extends h h' \<and>
      value h' y = value h x \<and> reach h' y \<subseteq> {limit h..<limit h'}"
    and reads_value: "(\<And>a. a \<in> reach h x \<Longrightarrow> store h' a = store h a) \<Longrightarrow> value h' x = value h x"
    and reads_reach: "(\<And>a. a \<in> reach h x \<Longrightarrow> store h' a = store h a) \<Longrightarrow> reach h' x = reach h x"
begin

lemma kept_later:
  assumes "extends h h'" and "reach h x \<subseteq> {..<limit h}"
  shows "value h' x = value h x" and "reach h' x = reach h x"
  using assms by (auto intro!: reads_value reads_reach simp: extends_def subset_iff)

lemma copies_later:
  assumes "extends h h1" and "reach h x \<subseteq> {..<limit h}"
  obtains y h2 where "into x h1 = (Ret y, h2)" and "extends h1 h2" and
    "value h2 y = value h x" and "reach h2 y \<subseteq> {limit h1..<limit h2}"
proof -
  have same: "value h1 x = value h x" "reach h1 x = reach h x"
    using kept_later [OF assms] by simp_all
  have "reach h1 x \<subseteq> {..<limit h1}"
    using assms(2) extends_limit [OF assms(1)] same by fastforce
  from copies [OF this] show ?thesis using that same by auto
qed

lemma put_elsewhere:
  assumes "a \<notin> reach h x"
  shows "value (put a c h) x = value h x" and "reach (put a c h) x = reach h x"
  using assms by (auto intro!: reads_value reads_reach)

text \<open>Writes to the copy do not show in the original, nor the other way round.\<close>

lemma isolated:
  assumes "reach h x \<subseteq> {..<limit h}" and "into x h = (Ret y, h')"
  shows "a \<in> reach h' y \<Longrightarrow> value (put a c h') x = value h x"
    and "a \<in> reach h x \<Longrightarrow> value (put a c h') y = value h x"
proof -
  obtain y' h'' where "into x h = (Ret y', h'')" "extends h h''" "value h'' y' = value h x"
      "reach h'' y' \<subseteq> {limit h..<limit h''}"
    using copies [OF assms(1)] by blast
  then have c: "extends h h'" "value h' y = value h x" "reach h' y \<subseteq> {limit h..<limit h'}"
    using assms(2) by auto
  note x = kept_later [OF c(1) assms(1)]
  show "a \<in> reach h' y \<Longrightarrow> value (put a c h') x = value h x"
    using x c(3) assms(1) put_elsewhere(1) [of a h' x c] by fastforce
  show "a \<in> reach h x \<Longrightarrow> value (put a c h') y = value h x"
    using c assms(1) put_elsewhere(1) [of a h' y c] by fastforce
qed

end

section \<open>Parts of structs\<close>

text \<open>A field without pointers is copied by assignment.\<close>

definition plainValue :: "'c heap \<Rightarrow> 'x \<Rightarrow> 'x" where
  "plainValue h x = x"

definition noReach :: "'c heap \<Rightarrow> 'x \<Rightarrow> addr set" where
  "noReach h x = {}"

lemma plain_simps [simp]: "plainValue h x = x" "noReach h x = {}"
  by (simp_all add: plainValue_def noReach_def)

lemma plainValue_id [simp]: "plainValue h = (\<lambda>x. x)"
  by (simp add: fun_eq_iff)

interpretation plain: deep_copying plainValue noReach return
  by unfold_locales (auto simp: prog_simps)

text \<open>Two fields copied one after the other.\<close>

definition bothValue where
  "bothValue v w h = (\<lambda>(x, y). (v h x, w h y))"

definition bothReach where
  "bothReach r q h = (\<lambda>(x, y). r h x \<union> q h y)"

definition bothInto :: "('x \<Rightarrow> ('c heap, 'x) prog) \<Rightarrow> ('y \<Rightarrow> ('c heap, 'y) prog) \<Rightarrow>
    'x \<times> 'y \<Rightarrow> ('c heap, 'x \<times> 'y) prog" where
  "bothInto c d = (\<lambda>(x, y). andThen (c x) (\<lambda>x'. andThen (d y) (\<lambda>y'. return (x', y'))))"

lemma both_simps [simp]:
  "bothValue v w h (x, y) = (v h x, w h y)"
  "bothReach r q h (x, y) = r h x \<union> q h y"
  by (simp_all add: bothValue_def bothReach_def)

lemma both_copying:
  assumes "deep_copying v r c" and "deep_copying w q d"
  shows "deep_copying (bothValue v w) (bothReach r q) (bothInto c d)"
proof (unfold_locales, goal_cases)
  case (1 h p)
  obtain x y where p: "p = (x, y)" by fastforce
  with 1 have in_use: "r h x \<subseteq> {..<limit h}" "q h y \<subseteq> {..<limit h}" by simp_all
  obtain x' h1 where 1: "c x h = (Ret x', h1)" "extends h h1" "v h1 x' = v h x"
      "r h1 x' \<subseteq> {limit h..<limit h1}"
    using deep_copying.copies_later [OF assms(1) extends_refl in_use(1)] by metis
  obtain y' h2 where 2: "d y h1 = (Ret y', h2)" "extends h1 h2" "w h2 y' = w h y"
      "q h2 y' \<subseteq> {limit h1..<limit h2}"
    using deep_copying.copies_later [OF assms(2) 1(2) in_use(2)] by metis
  have "r h1 x' \<subseteq> {..<limit h1}" using 1(4) by auto
  note x' = deep_copying.kept_later [OF assms(1) 2(2) this]
  have "limit h \<le> limit h1" "limit h1 \<le> limit h2" using 1(2) 2(2) by (auto dest: extends_limit)
  then have "r h2 x' \<union> q h2 y' \<subseteq> {limit h..<limit h2}"
    using 1(4) 2(4) x'(2) by (fastforce simp: subset_iff)
  moreover have "bothInto c d p h = (Ret (x', y'), h2)"
    using 1(1) 2(1) p by (simp add: bothInto_def prog_simps)
  ultimately show ?case
    using 1 2 x'(1) p extends_trans [OF 1(2) 2(2)] by auto
next
  case (2 h p h')
  obtain x y where p: "p = (x, y)" by fastforce
  with 2 show ?case
    using deep_copying.reads_value [OF assms(1), of h x h']
      deep_copying.reads_value [OF assms(2), of h y h'] by simp
next
  case (3 h p h')
  obtain x y where p: "p = (x, y)" by fastforce
  with 3 show ?case
    using deep_copying.reads_reach [OF assms(1), of h x h']
      deep_copying.reads_reach [OF assms(2), of h y h'] by simp
qed

text \<open>
  A struct is its fields: \<open>parts\<close> takes it apart and \<open>whole\<close> replaces its fields, so a copy of the
  fields is a copy of the struct.
\<close>

lemma struct_copying:
  assumes "deep_copying v r c"
    and "\<And>x. into x = andThen (c (parts x)) (\<lambda>y. return (whole x y))"
    and "\<And>x y. parts (whole x y) = y"
    and "\<And>h x. val h x = v h (parts x)" and "\<And>h x. rch h x = r h (parts x)"
  shows "deep_copying val rch into"
proof (unfold_locales, goal_cases)
  case (1 h x)
  then obtain y h' where "c (parts x) h = (Ret y, h')" "extends h h'" "v h' y = v h (parts x)"
      "r h' y \<subseteq> {limit h..<limit h'}"
    using deep_copying.copies [OF assms(1), of h "parts x"] assms(5) by auto
  then show ?case using assms(2-5) by (auto simp: prog_simps)
next
  case (2 h x h')
  then show ?case using deep_copying.reads_value [OF assms(1)] assms(4,5) by metis
next
  case (3 h x h')
  then show ?case using deep_copying.reads_reach [OF assms(1)] assms(5) by metis
qed


section \<open>Pointers and slices\<close>

text \<open>
  \<open>*out = new(T); **out = **in\<close> for a target without pointers, and \<open>*out = make([]T, len(*in));
  copy(*out, *in)\<close> for elements without pointers: a new cell with the content of the old one; nil
  stays nil.
\<close>

definition targetValue :: "'c heap \<Rightarrow> addr option \<Rightarrow> 'c option" where
  "targetValue h p = map_option (store h) p"

definition targetReach :: "'c heap \<Rightarrow> addr option \<Rightarrow> addr set" where
  "targetReach h p = (case p of None \<Rightarrow> {} | Some a \<Rightarrow> {a})"

definition copyTarget :: "addr option \<Rightarrow> ('c heap, addr option) prog" where
  "copyTarget p = (case p of
      None \<Rightarrow> return None
    | Some a \<Rightarrow> andThen (gets (\<lambda>h. store h a)) (\<lambda>c.
        andThen (alloc c) (\<lambda>b. return (Some b))))"

interpretation target: deep_copying targetValue targetReach copyTarget
proof (unfold_locales, goal_cases)
  case (1 h x)
  then show ?case
    by (auto simp: targetValue_def targetReach_def copyTarget_def prog_simps split: option.splits)
next
  case (2 h x h')
  then show ?case by (cases x) (simp_all add: targetValue_def targetReach_def)
next
  case (3 h x h')
  then show ?case by (simp add: targetReach_def split: option.split)
qed

text \<open>
  \<open>*out = make([]T, len(*in)); for i := range *in { (*in)[i].DeepCopyInto(&(*out)[i]) }\<close>. The
  functions \<open>un\<close> and \<open>mk\<close> read and write the elements of the array's cell; an array under
  construction holds the elements filled so far.
\<close>

definition structsValue where
  "structsValue un v h p = map_option (\<lambda>a. map (v h) (un (store h a))) p"

definition structsReach where
  "structsReach un r h p = (case p of None \<Rightarrow> {}
    | Some a \<Rightarrow> insert a (\<Union>x \<in> set (un (store h a)). r h x))"

definition copyElem :: "('x list \<Rightarrow> 'c) \<Rightarrow> ('c \<Rightarrow> 'x list) \<Rightarrow> ('x \<Rightarrow> ('c heap, 'x) prog) \<Rightarrow>
    addr \<Rightarrow> 'x \<Rightarrow> unit \<Rightarrow> ('c heap, (unit, unit) flow) prog" where
  "copyElem mk un into b x u = andThen (into x) (\<lambda>y.
     andThen (setCell b (\<lambda>c. mk (un c @ [y]))) (\<lambda>_. return (Continue ())))"

definition copyStructs :: "('x list \<Rightarrow> 'c) \<Rightarrow> ('c \<Rightarrow> 'x list) \<Rightarrow> ('x \<Rightarrow> ('c heap, 'x) prog) \<Rightarrow>
    addr option \<Rightarrow> ('c heap, addr option) prog" where
  "copyStructs mk un into p = (case p of
      None \<Rightarrow> return None
    | Some a \<Rightarrow> andThen (gets (\<lambda>h. un (store h a))) (\<lambda>xs.
        andThen (alloc (mk [])) (\<lambda>b.
        andThen (foreach (copyElem mk un into b) xs ()) (\<lambda>_. return (Some b)))))"

lemma foreach_copyElem:
  assumes copy: "deep_copying v r into" and un: "\<And>xs. un (mk xs) = xs"
    and base: "extends h0 h" "limit h0 = b" "Suc b \<le> limit h" "un (store h b) = ys"
      "(\<Union>y \<in> set ys. r h y) \<subseteq> {Suc b..<limit h}"
    and xs: "\<And>x. x \<in> set xs \<Longrightarrow> r h0 x \<subseteq> {..<b}"
  shows "\<exists>zs h'. foreach (copyElem mk un into b) xs () h = (Ret (Continue ()), h') \<and>
    extends h0 h' \<and> limit h \<le> limit h' \<and> un (store h' b) = ys @ zs \<and>
    map (v h') (ys @ zs) = map (v h) ys @ map (v h0) xs \<and>
    (\<Union>y \<in> set (ys @ zs). r h' y) \<subseteq> {Suc b..<limit h'}"
  using base xs
proof (induction xs arbitrary: h ys)
  case Nil
  then show ?case by (auto simp: prog_simps)
next
  case (Cons x xs)
  note copying = copy
  have "r h0 x \<subseteq> {..<limit h0}" using Cons.prems(2,6) by simp
  then obtain y h1 where 1: "into x h = (Ret y, h1)" "extends h h1" "v h1 y = v h0 x"
      "r h1 y \<subseteq> {limit h..<limit h1}"
    using deep_copying.copies_later [OF copying Cons.prems(1)] by metis
  have lim: "limit h \<le> limit h1" using 1(2) by (rule extends_limit)
  define h2 where "h2 = put b (mk (un (store h1 b) @ [y])) h1"
  have b1: "un (store h1 b) = ys"
    using Cons.prems(3,4) 1(2) by (simp add: extends_def)
  have old: "v h2 z = v h z \<and> r h2 z = r h z" if "z \<in> set ys" for z
  proof -
    have z: "r h z \<subseteq> {Suc b..<limit h}" using Cons.prems(5) that by blast
    then have "r h z \<subseteq> {..<limit h}" by auto
    note k = deep_copying.kept_later [OF copying 1(2) this]
    have "b \<notin> r h1 z" using z k(2) by auto
    from deep_copying.put_elsewhere [OF copying this] k show ?thesis by (simp add: h2_def)
  qed
  have "b \<notin> r h1 y" using 1(4) Cons.prems(3) by auto
  note new = deep_copying.put_elsewhere [OF copying this, of "mk (un (store h1 b) @ [y])"]
  have "extends h0 h2"
    unfolding h2_def using extends_trans [OF Cons.prems(1) 1(2)] Cons.prems(2) by (simp add: extends_put)
  moreover have "Suc b \<le> limit h2" using lim Cons.prems(3) by (simp add: h2_def)
  moreover have "un (store h2 b) = ys @ [y]" by (simp add: h2_def un b1)
  moreover have "(\<Union>z \<in> set (ys @ [y]). r h2 z) \<subseteq> {Suc b..<limit h2}"
    using old new(2) 1(4) lim Cons.prems(3,5) by (fastforce simp: h2_def subset_iff)
  ultimately obtain zs h' where IH: "foreach (copyElem mk un into b) xs () h2 = (Ret (Continue ()), h')"
      "extends h0 h'" "limit h2 \<le> limit h'" "un (store h' b) = (ys @ [y]) @ zs"
      "map (v h') ((ys @ [y]) @ zs) = map (v h2) (ys @ [y]) @ map (v h0) xs"
      "(\<Union>z \<in> set ((ys @ [y]) @ zs). r h' z) \<subseteq> {Suc b..<limit h'}"
    using Cons.IH [of h2 "ys @ [y]"] Cons.prems(2,6) by auto
  have "foreach (copyElem mk un into b) (x # xs) () h = (Ret (Continue ()), h')"
    using 1(1) IH(1) by (simp add: copyElem_def prog_simps h2_def)
  moreover have "map (v h2) (ys @ [y]) = map (v h) ys @ [v h0 x]"
    using old new(1) 1(3) by (simp add: h2_def)
  moreover have "limit h \<le> limit h'" using lim IH(3) by (simp add: h2_def)
  ultimately show ?case
    using IH by (intro exI [of _ "y # zs"] exI [of _ h']) simp
qed

lemma structs_copying:
  assumes copy: "deep_copying v r into" and un: "\<And>xs. un (mk xs) = xs"
  shows "deep_copying (structsValue un v) (structsReach un r) (copyStructs mk un into)"
proof (unfold_locales, goal_cases)
  case (1 h p)
  show ?case
  proof (cases p)
    case None
    then show ?thesis by (auto simp: copyStructs_def structsValue_def structsReach_def prog_simps)
  next
    case (Some a)
    define h1 where "h1 = h\<lparr>store := (store h)(limit h := mk []), limit := Suc (limit h)\<rparr>"
    have "r h x \<subseteq> {..<limit h}" if "x \<in> set (un (store h a))" for x
      using 1 Some that by (auto simp: structsReach_def)
    then obtain zs h' where zs: "foreach (copyElem mk un into (limit h)) (un (store h a)) () h1 =
          (Ret (Continue ()), h')" "extends h h'" "limit h1 \<le> limit h'" "un (store h' (limit h)) = zs"
        "map (v h') zs = map (v h) (un (store h a))"
        "(\<Union>y \<in> set zs. r h' y) \<subseteq> {Suc (limit h)..<limit h'}"
      using foreach_copyElem [OF copy, of un mk h h1 "limit h" "[]" "un (store h a)"] un
      by (auto simp: h1_def)
    have "copyStructs mk un into p h = (Ret (Some (limit h)), h')"
      using zs(1) Some by (simp add: copyStructs_def prog_simps h1_def)
    moreover have "structsReach un r h' (Some (limit h)) \<subseteq> {limit h..<limit h'}"
      using zs(3,4,6) by (fastforce simp: structsReach_def h1_def subset_iff)
    ultimately show ?thesis using zs Some by (simp add: structsValue_def)
  qed
next
  case (2 h p h')
  show ?case
  proof (cases p)
    case (Some a)
    then have "store h' a = store h a" using 2 by (simp add: structsReach_def)
    moreover have "v h' x = v h x" if "x \<in> set (un (store h a))" for x
      using 2 Some that by (intro deep_copying.reads_value [OF copy]) (auto simp: structsReach_def)
    ultimately show ?thesis using Some by (simp add: structsValue_def)
  qed (simp add: structsValue_def)
next
  case (3 h p h')
  show ?case
  proof (cases p)
    case (Some a)
    then have "store h' a = store h a" using 3 by (simp add: structsReach_def)
    moreover have "r h' x = r h x" if "x \<in> set (un (store h a))" for x
      using 3 Some that by (intro deep_copying.reads_reach [OF copy]) (auto simp: structsReach_def)
    ultimately show ?thesis using Some by (simp add: structsReach_def)
  qed (simp add: structsReach_def)
qed

section \<open>Pointers to objects\<close>

text \<open>
  \<open>DeepCopy\<close> of a pointer: nil for nil, else a new object filled by \<open>DeepCopyInto\<close>.
\<close>

definition pointerValue where
  "pointerValue v h p = map_option (v h) p"

definition pointerReach where
  "pointerReach r h p = (case p of None \<Rightarrow> {} | Some x \<Rightarrow> r h x)"

definition deepCopy :: "('x \<Rightarrow> ('c heap, 'x) prog) \<Rightarrow> 'x option \<Rightarrow> ('c heap, 'x option) prog" where
  "deepCopy into in' = (case in' of
      None \<Rightarrow> return None
    | Some x \<Rightarrow> andThen (into x) (\<lambda>out. return (Some out)))"

lemma pointer_copying:
  assumes "deep_copying v r into"
  shows "deep_copying (pointerValue v) (pointerReach r) (deepCopy into)"
proof (unfold_locales, goal_cases)
  case (1 h p)
  show ?case
  proof (cases p)
    case None
    then show ?thesis by (simp add: pointerValue_def pointerReach_def deepCopy_def prog_simps)
  next
    case (Some x)
    with 1 have "r h x \<subseteq> {..<limit h}" by (simp add: pointerReach_def)
    then obtain y h' where "into x h = (Ret y, h')" "extends h h'" "v h' y = v h x"
        "r h' y \<subseteq> {limit h..<limit h'}"
      using deep_copying.copies [OF assms] by metis
    with Some show ?thesis
      by (simp add: pointerValue_def pointerReach_def deepCopy_def prog_simps)
  qed
next
  case (2 h p h')
  show ?case
  proof (cases p)
    case (Some x)
    then have "v h' x = v h x"
      using 2 by (intro deep_copying.reads_value [OF assms]) (simp add: pointerReach_def)
    with Some show ?thesis by (simp add: pointerValue_def)
  qed (simp add: pointerValue_def)
next
  case (3 h p h')
  show ?case
  proof (cases p)
    case (Some x)
    then have "r h' x = r h x"
      using 3 by (intro deep_copying.reads_reach [OF assms]) (simp add: pointerReach_def)
    with Some show ?thesis by (simp add: pointerReach_def)
  qed (simp add: pointerReach_def)
qed

end
