(* ===== verification/Object_Memory.thy ===== *)
theory Object_Memory
  imports Go_Heap Api_Types
begin

text \<open>
  The objects of \<open>src/api/v1beta1\<close> as they lie in memory: the structs of the API with every pointer,
  map and slice an address of the heap (\<^theory_text>\<open>Go_Heap\<close>), nil being \<^term>\<open>None\<close>. The suffix \<open>_mem\<close>
  tells them from the values of \<open>Api_Types\<close>. Structs without pointers (\<open>MachineSpec\<close>, the spec of a
  docker node update task) need no second form.
\<close>

section \<open>Structs of the libraries\<close>

text \<open>
  The embedded structs of apimachinery and Cluster API, with the fields the development knows, and
  their \<open>DeepCopyInto\<close> as parameters.
\<close>

record TypeMeta =
  tm_Kind :: string
  tm_APIVersion :: string

record ObjectMeta_mem =
  om_Name :: string
  om_Namespace :: string
  om_UID :: string
  om_Labels :: "addr option"
  om_Annotations :: "addr option"
  om_Finalizers :: "addr option"
  om_CreationTimestamp :: Time
  om_DeletionTimestamp :: "addr option"

record ListMeta_mem =
  lm_ResourceVersion :: string
  lm_Continue :: string
  lm_RemainingItemCount :: "addr option"

text \<open>\<open>clusterv1.ObjectMeta\<close>, the metadata of templates.\<close>

record TemplateMeta_mem =
  cm_Labels :: "addr option"
  cm_Annotations :: "addr option"

text \<open>\<open>runtimehooksv1.CommonRequest\<close> and \<open>runtimehooksv1.CommonRetryResponse\<close>.\<close>

record CommonRequest_mem =
  rq_Settings :: "addr option"

record CommonRetryResponse =
  rr_Status :: ResponseStatus
  rr_Message :: string
  rr_RetryAfterSeconds :: int

section \<open>Structs of the API group\<close>

record NodeUpdateTaskTemplateSpec_mem =
  nt_ObjectMeta :: ObjectMeta_mem
  nt_InfrastructureRef :: ObjectReference

record UpdateTaskSpec_mem =
  ts_ClusterRef :: "addr option"
  ts_ControlPlaneRef :: "addr option"
  ts_MachineDeploymentRef :: "addr option"
  ts_MachinesRequireUpdate :: "addr option"
  ts_NewMachineSpec :: MachineSpec
  ts_NodeUpdateTemplate :: NodeUpdateTaskTemplateSpec_mem
  ts_TargetPhase :: UpdateTaskPhase

record UpdateTaskStatus_mem =
  tt_State :: UpdateTaskState
  tt_Conditions :: "addr option"

record UpdateTask_mem =
  ta_TypeMeta :: TypeMeta
  ta_ObjectMeta :: ObjectMeta_mem
  ta_Spec :: UpdateTaskSpec_mem
  ta_Status :: UpdateTaskStatus_mem

record UpdateTaskList_mem =
  tl_TypeMeta :: TypeMeta
  tl_ListMeta :: ListMeta_mem
  tl_Items :: "addr option"

record UpdatePolicySpec_mem =
  ps_NodeUpdateTemplateRef :: "addr option"

record UpdatePolicy_mem =
  po_TypeMeta :: TypeMeta
  po_ObjectMeta :: ObjectMeta_mem
  po_Spec :: UpdatePolicySpec_mem
  po_Status :: UpdatePolicyStatus

record UpdatePolicyList_mem =
  pl_TypeMeta :: TypeMeta
  pl_ListMeta :: ListMeta_mem
  pl_Items :: "addr option"

record DockerNodeUpdateTaskStatus_mem =
  ds_State :: UpdateTaskState
  ds_Conditions :: "addr option"

record DockerNodeUpdateTask_mem =
  dt_TypeMeta :: TypeMeta
  dt_ObjectMeta :: ObjectMeta_mem
  dt_Spec :: DockerNodeUpdateTaskSpec
  dt_Status :: DockerNodeUpdateTaskStatus_mem

record DockerNodeUpdateTaskList_mem =
  dl_TypeMeta :: TypeMeta
  dl_ListMeta :: ListMeta_mem
  dl_Items :: "addr option"

record DockerNodeUpdateTaskTemplateResource_mem =
  dr_ObjectMeta :: TemplateMeta_mem
  dr_Spec :: DockerNodeUpdateTaskSpec

record DockerNodeUpdateTaskTemplateSpec_mem =
  dp_Template :: DockerNodeUpdateTaskTemplateResource_mem

record DockerNodeUpdateTaskTemplate_mem =
  dm_TypeMeta :: TypeMeta
  dm_ObjectMeta :: ObjectMeta_mem
  dm_Spec :: DockerNodeUpdateTaskTemplateSpec_mem

record DockerNodeUpdateTaskTemplateList_mem =
  dk_TypeMeta :: TypeMeta
  dk_ListMeta :: ListMeta_mem
  dk_Items :: "addr option"

record FakeNodeUpdateTaskStatus_mem =
  fs_State :: UpdateTaskState
  fs_Conditions :: "addr option"

record FakeNodeUpdateTask_mem =
  ft_TypeMeta :: TypeMeta
  ft_ObjectMeta :: ObjectMeta_mem
  ft_Spec :: FakeNodeUpdateTaskSpec
  ft_Status :: FakeNodeUpdateTaskStatus_mem

record FakeNodeUpdateTaskList_mem =
  fl_TypeMeta :: TypeMeta
  fl_ListMeta :: ListMeta_mem
  fl_Items :: "addr option"

record FakeNodeUpdateTaskTemplateResource_mem =
  fr_ObjectMeta :: TemplateMeta_mem
  fr_Spec :: FakeNodeUpdateTaskSpec

record FakeNodeUpdateTaskTemplateSpec_mem =
  fp_Template :: FakeNodeUpdateTaskTemplateResource_mem

record FakeNodeUpdateTaskTemplate_mem =
  fm_TypeMeta :: TypeMeta
  fm_ObjectMeta :: ObjectMeta_mem
  fm_Spec :: FakeNodeUpdateTaskTemplateSpec_mem

record FakeNodeUpdateTaskTemplateList_mem =
  fk_TypeMeta :: TypeMeta
  fk_ListMeta :: ListMeta_mem
  fk_Items :: "addr option"

record ControlPlaneExternalUpdateRequest_mem =
  cq_TypeMeta :: TypeMeta
  cq_CommonRequest :: CommonRequest_mem
  cq_ClusterRef :: "addr option"
  cq_ControlPlaneRef :: "addr option"
  cq_MachinesRequireUpdate :: "addr option"
  cq_NewMachine :: MachineSpec

record ControlPlaneExternalUpdateResponse_mem =
  ca_TypeMeta :: TypeMeta
  ca_CommonRetryResponse :: CommonRetryResponse

record MachineDeploymentExternalUpdateRequest_mem =
  mq_TypeMeta :: TypeMeta
  mq_CommonRequest :: CommonRequest_mem
  mq_ClusterRef :: "addr option"
  mq_MachineDeploymentRef :: "addr option"
  mq_MachinesRequireUpdate :: "addr option"
  mq_NewMachine :: MachineSpec

record MachineDeploymentExternalUpdateResponse_mem =
  ma_TypeMeta :: TypeMeta
  ma_CommonRetryResponse :: CommonRetryResponse

section \<open>Cells\<close>

text \<open>What one allocation holds. Go's types make sure that an address leads to a cell of its kind.\<close>

datatype cell =
    RefCell (theRef: ObjectReference)
  | RefArray (theRefs: "ObjectReference list")
  | MapCell (theMap: "string \<rightharpoonup> string")
  | StringArray (theStrings: "string list")
  | TimeCell (theTime: Time)
  | IntCell (theInt: int)
  | ConditionArray (theConditions: Conditions)
  | TasksArray (theTasks: "UpdateTask_mem list")
  | PoliciesArray (thePolicies: "UpdatePolicy_mem list")
  | DockerTasksArray (theDockerTasks: "DockerNodeUpdateTask_mem list")
  | DockerTemplatesArray (theDockerTemplates: "DockerNodeUpdateTaskTemplate_mem list")
  | FakeTasksArray (theFakeTasks: "FakeNodeUpdateTask_mem list")
  | FakeTemplatesArray (theFakeTemplates: "FakeNodeUpdateTaskTemplate_mem list")

text \<open>The deep copies of the libraries' structs.\<close>

record copylib =
  ObjectMeta_copyInto :: "ObjectMeta_mem \<Rightarrow> (cell heap, ObjectMeta_mem) prog"
  ListMeta_copyInto :: "ListMeta_mem \<Rightarrow> (cell heap, ListMeta_mem) prog"
  TemplateMeta_copyInto :: "TemplateMeta_mem \<Rightarrow> (cell heap, TemplateMeta_mem) prog"
  CommonRequest_copyInto :: "CommonRequest_mem \<Rightarrow> (cell heap, CommonRequest_mem) prog"
  Condition_copyInto :: "Condition \<Rightarrow> (cell heap, Condition) prog"

end
