(* ===== verification/Deep_Copies.thy ===== *)
theory Deep_Copies
  imports Object_Memory
begin

text \<open>
  \<open>src/api/v1beta1/zz\_generated.deepcopy.go\<close>: for each struct \<open>T\<close> of the API group
  \<open>T_DeepCopyInto\<close> and \<open>T_DeepCopy\<close>, and for the kinds that are API objects \<open>T_DeepCopyObject\<close>.
  \<open>T_DeepCopyInto x\<close> is \<open>in.DeepCopyInto(out)\<close>: \<open>x\<close> is \<open>*in\<close>, the result is what \<open>*out\<close> holds
  when it returns; it starts from \<open>*out = *in\<close> and replaces the fields one after the other.
\<close>

section \<open>DeepCopyInto and DeepCopy\<close>

definition MachineSpec_DeepCopyInto :: "MachineSpec \<Rightarrow> (cell heap, MachineSpec) prog"
    where
  "MachineSpec_DeepCopyInto x =
    (let out = x in
     return out)"

definition MachineSpec_DeepCopy :: "MachineSpec option \<Rightarrow> (cell heap, MachineSpec
    option) prog" where
  "MachineSpec_DeepCopy = deepCopy MachineSpec_DeepCopyInto"

definition NodeUpdateTaskTemplateSpec_DeepCopyInto :: "copylib \<Rightarrow>
    NodeUpdateTaskTemplateSpec_mem \<Rightarrow> (cell heap, NodeUpdateTaskTemplateSpec_mem)
    prog" where
  "NodeUpdateTaskTemplateSpec_DeepCopyInto K x =
    (let out = x in
     andThen (ObjectMeta_copyInto K (nt_ObjectMeta x)) (\<lambda>y.
     let out = out\<lparr>nt_ObjectMeta := y\<rparr> in
     let out = out\<lparr>nt_InfrastructureRef := nt_InfrastructureRef x\<rparr> in
     return out))"

definition NodeUpdateTaskTemplateSpec_DeepCopy :: "copylib \<Rightarrow>
    NodeUpdateTaskTemplateSpec_mem option \<Rightarrow> (cell heap,
    NodeUpdateTaskTemplateSpec_mem option) prog" where
  "NodeUpdateTaskTemplateSpec_DeepCopy K = deepCopy (NodeUpdateTaskTemplateSpec_DeepCopyInto K)"

definition UpdateTaskSpec_DeepCopyInto :: "copylib \<Rightarrow> UpdateTaskSpec_mem \<Rightarrow>
    (cell heap, UpdateTaskSpec_mem) prog" where
  "UpdateTaskSpec_DeepCopyInto K x =
    (let out = x in
     andThen (copyTarget (ts_ClusterRef x)) (\<lambda>y.
     let out = out\<lparr>ts_ClusterRef := y\<rparr> in
     andThen (copyTarget (ts_ControlPlaneRef x)) (\<lambda>y.
     let out = out\<lparr>ts_ControlPlaneRef := y\<rparr> in
     andThen (copyTarget (ts_MachineDeploymentRef x)) (\<lambda>y.
     let out = out\<lparr>ts_MachineDeploymentRef := y\<rparr> in
     andThen (copyTarget (ts_MachinesRequireUpdate x)) (\<lambda>y.
     let out = out\<lparr>ts_MachinesRequireUpdate := y\<rparr> in
     let out = out\<lparr>ts_NewMachineSpec := ts_NewMachineSpec x\<rparr> in
     andThen (NodeUpdateTaskTemplateSpec_DeepCopyInto K (ts_NodeUpdateTemplate x)) (\<lambda>y.
     let out = out\<lparr>ts_NodeUpdateTemplate := y\<rparr> in
     return out))))))"

definition UpdateTaskSpec_DeepCopy :: "copylib \<Rightarrow> UpdateTaskSpec_mem option
    \<Rightarrow> (cell heap, UpdateTaskSpec_mem option) prog" where
  "UpdateTaskSpec_DeepCopy K = deepCopy (UpdateTaskSpec_DeepCopyInto K)"

definition UpdateTaskStatus_DeepCopyInto :: "copylib \<Rightarrow> UpdateTaskStatus_mem
    \<Rightarrow> (cell heap, UpdateTaskStatus_mem) prog" where
  "UpdateTaskStatus_DeepCopyInto K x =
    (let out = x in
     andThen (copyStructs ConditionArray theConditions (Condition_copyInto K) (tt_Conditions x))
         (\<lambda>y.
     let out = out\<lparr>tt_Conditions := y\<rparr> in
     return out))"

definition UpdateTaskStatus_DeepCopy :: "copylib \<Rightarrow> UpdateTaskStatus_mem option
    \<Rightarrow> (cell heap, UpdateTaskStatus_mem option) prog" where
  "UpdateTaskStatus_DeepCopy K = deepCopy (UpdateTaskStatus_DeepCopyInto K)"

definition UpdateTask_DeepCopyInto :: "copylib \<Rightarrow> UpdateTask_mem \<Rightarrow> (cell
    heap, UpdateTask_mem) prog" where
  "UpdateTask_DeepCopyInto K x =
    (let out = x in
     let out = out\<lparr>ta_TypeMeta := ta_TypeMeta x\<rparr> in
     andThen (ObjectMeta_copyInto K (ta_ObjectMeta x)) (\<lambda>y.
     let out = out\<lparr>ta_ObjectMeta := y\<rparr> in
     andThen (UpdateTaskSpec_DeepCopyInto K (ta_Spec x)) (\<lambda>y.
     let out = out\<lparr>ta_Spec := y\<rparr> in
     andThen (UpdateTaskStatus_DeepCopyInto K (ta_Status x)) (\<lambda>y.
     let out = out\<lparr>ta_Status := y\<rparr> in
     return out))))"

definition UpdateTask_DeepCopy :: "copylib \<Rightarrow> UpdateTask_mem option \<Rightarrow>
    (cell heap, UpdateTask_mem option) prog" where
  "UpdateTask_DeepCopy K = deepCopy (UpdateTask_DeepCopyInto K)"

definition UpdateTaskList_DeepCopyInto :: "copylib \<Rightarrow> UpdateTaskList_mem \<Rightarrow>
    (cell heap, UpdateTaskList_mem) prog" where
  "UpdateTaskList_DeepCopyInto K x =
    (let out = x in
     let out = out\<lparr>tl_TypeMeta := tl_TypeMeta x\<rparr> in
     andThen (ListMeta_copyInto K (tl_ListMeta x)) (\<lambda>y.
     let out = out\<lparr>tl_ListMeta := y\<rparr> in
     andThen (copyStructs TasksArray theTasks (UpdateTask_DeepCopyInto K) (tl_Items x))
         (\<lambda>y.
     let out = out\<lparr>tl_Items := y\<rparr> in
     return out)))"

definition UpdateTaskList_DeepCopy :: "copylib \<Rightarrow> UpdateTaskList_mem option
    \<Rightarrow> (cell heap, UpdateTaskList_mem option) prog" where
  "UpdateTaskList_DeepCopy K = deepCopy (UpdateTaskList_DeepCopyInto K)"

definition UpdatePolicySpec_DeepCopyInto :: "UpdatePolicySpec_mem \<Rightarrow> (cell heap,
    UpdatePolicySpec_mem) prog" where
  "UpdatePolicySpec_DeepCopyInto x =
    (let out = x in
     andThen (copyTarget (ps_NodeUpdateTemplateRef x)) (\<lambda>y.
     let out = out\<lparr>ps_NodeUpdateTemplateRef := y\<rparr> in
     return out))"

definition UpdatePolicySpec_DeepCopy :: "UpdatePolicySpec_mem option \<Rightarrow> (cell heap,
    UpdatePolicySpec_mem option) prog" where
  "UpdatePolicySpec_DeepCopy = deepCopy UpdatePolicySpec_DeepCopyInto"

definition UpdatePolicyStatus_DeepCopyInto :: "UpdatePolicyStatus \<Rightarrow> (cell heap,
    UpdatePolicyStatus) prog" where
  "UpdatePolicyStatus_DeepCopyInto x =
    (let out = x in
     return out)"

definition UpdatePolicyStatus_DeepCopy :: "UpdatePolicyStatus option \<Rightarrow> (cell heap,
    UpdatePolicyStatus option) prog" where
  "UpdatePolicyStatus_DeepCopy = deepCopy UpdatePolicyStatus_DeepCopyInto"

definition UpdatePolicy_DeepCopyInto :: "copylib \<Rightarrow> UpdatePolicy_mem \<Rightarrow>
    (cell heap, UpdatePolicy_mem) prog" where
  "UpdatePolicy_DeepCopyInto K x =
    (let out = x in
     let out = out\<lparr>po_TypeMeta := po_TypeMeta x\<rparr> in
     andThen (ObjectMeta_copyInto K (po_ObjectMeta x)) (\<lambda>y.
     let out = out\<lparr>po_ObjectMeta := y\<rparr> in
     andThen (UpdatePolicySpec_DeepCopyInto (po_Spec x)) (\<lambda>y.
     let out = out\<lparr>po_Spec := y\<rparr> in
     let out = out\<lparr>po_Status := po_Status x\<rparr> in
     return out)))"

definition UpdatePolicy_DeepCopy :: "copylib \<Rightarrow> UpdatePolicy_mem option \<Rightarrow>
    (cell heap, UpdatePolicy_mem option) prog" where
  "UpdatePolicy_DeepCopy K = deepCopy (UpdatePolicy_DeepCopyInto K)"

definition UpdatePolicyList_DeepCopyInto :: "copylib \<Rightarrow> UpdatePolicyList_mem
    \<Rightarrow> (cell heap, UpdatePolicyList_mem) prog" where
  "UpdatePolicyList_DeepCopyInto K x =
    (let out = x in
     let out = out\<lparr>pl_TypeMeta := pl_TypeMeta x\<rparr> in
     andThen (ListMeta_copyInto K (pl_ListMeta x)) (\<lambda>y.
     let out = out\<lparr>pl_ListMeta := y\<rparr> in
     andThen (copyStructs PoliciesArray thePolicies (UpdatePolicy_DeepCopyInto K) (pl_Items x))
         (\<lambda>y.
     let out = out\<lparr>pl_Items := y\<rparr> in
     return out)))"

definition UpdatePolicyList_DeepCopy :: "copylib \<Rightarrow> UpdatePolicyList_mem option
    \<Rightarrow> (cell heap, UpdatePolicyList_mem option) prog" where
  "UpdatePolicyList_DeepCopy K = deepCopy (UpdatePolicyList_DeepCopyInto K)"

definition DockerNodeUpdateTaskSpec_DeepCopyInto :: "DockerNodeUpdateTaskSpec \<Rightarrow> (cell
    heap, DockerNodeUpdateTaskSpec) prog" where
  "DockerNodeUpdateTaskSpec_DeepCopyInto x =
    (let out = x in
     let out = out\<lparr>dn_NewMachineSpec := dn_NewMachineSpec x\<rparr> in
     return out)"

definition DockerNodeUpdateTaskSpec_DeepCopy :: "DockerNodeUpdateTaskSpec option \<Rightarrow>
    (cell heap, DockerNodeUpdateTaskSpec option) prog" where
  "DockerNodeUpdateTaskSpec_DeepCopy = deepCopy DockerNodeUpdateTaskSpec_DeepCopyInto"

definition DockerNodeUpdateTaskStatus_DeepCopyInto :: "copylib \<Rightarrow>
    DockerNodeUpdateTaskStatus_mem \<Rightarrow> (cell heap, DockerNodeUpdateTaskStatus_mem)
    prog" where
  "DockerNodeUpdateTaskStatus_DeepCopyInto K x =
    (let out = x in
     andThen (copyStructs ConditionArray theConditions (Condition_copyInto K) (ds_Conditions x))
         (\<lambda>y.
     let out = out\<lparr>ds_Conditions := y\<rparr> in
     return out))"

definition DockerNodeUpdateTaskStatus_DeepCopy :: "copylib \<Rightarrow>
    DockerNodeUpdateTaskStatus_mem option \<Rightarrow> (cell heap,
    DockerNodeUpdateTaskStatus_mem option) prog" where
  "DockerNodeUpdateTaskStatus_DeepCopy K = deepCopy (DockerNodeUpdateTaskStatus_DeepCopyInto K)"

definition DockerNodeUpdateTask_DeepCopyInto :: "copylib \<Rightarrow> DockerNodeUpdateTask_mem
    \<Rightarrow> (cell heap, DockerNodeUpdateTask_mem) prog" where
  "DockerNodeUpdateTask_DeepCopyInto K x =
    (let out = x in
     let out = out\<lparr>dt_TypeMeta := dt_TypeMeta x\<rparr> in
     andThen (ObjectMeta_copyInto K (dt_ObjectMeta x)) (\<lambda>y.
     let out = out\<lparr>dt_ObjectMeta := y\<rparr> in
     let out = out\<lparr>dt_Spec := dt_Spec x\<rparr> in
     andThen (DockerNodeUpdateTaskStatus_DeepCopyInto K (dt_Status x)) (\<lambda>y.
     let out = out\<lparr>dt_Status := y\<rparr> in
     return out)))"

definition DockerNodeUpdateTask_DeepCopy :: "copylib \<Rightarrow> DockerNodeUpdateTask_mem
    option \<Rightarrow> (cell heap, DockerNodeUpdateTask_mem option) prog" where
  "DockerNodeUpdateTask_DeepCopy K = deepCopy (DockerNodeUpdateTask_DeepCopyInto K)"

definition DockerNodeUpdateTaskList_DeepCopyInto :: "copylib \<Rightarrow>
    DockerNodeUpdateTaskList_mem \<Rightarrow> (cell heap, DockerNodeUpdateTaskList_mem) prog"
    where
  "DockerNodeUpdateTaskList_DeepCopyInto K x =
    (let out = x in
     let out = out\<lparr>dl_TypeMeta := dl_TypeMeta x\<rparr> in
     andThen (ListMeta_copyInto K (dl_ListMeta x)) (\<lambda>y.
     let out = out\<lparr>dl_ListMeta := y\<rparr> in
     andThen (copyStructs DockerTasksArray theDockerTasks (DockerNodeUpdateTask_DeepCopyInto K)
         (dl_Items x)) (\<lambda>y.
     let out = out\<lparr>dl_Items := y\<rparr> in
     return out)))"

definition DockerNodeUpdateTaskList_DeepCopy :: "copylib \<Rightarrow>
    DockerNodeUpdateTaskList_mem option \<Rightarrow> (cell heap, DockerNodeUpdateTaskList_mem
    option) prog" where
  "DockerNodeUpdateTaskList_DeepCopy K = deepCopy (DockerNodeUpdateTaskList_DeepCopyInto K)"

definition DockerNodeUpdateTaskTemplateResource_DeepCopyInto :: "copylib \<Rightarrow>
    DockerNodeUpdateTaskTemplateResource_mem \<Rightarrow> (cell heap,
    DockerNodeUpdateTaskTemplateResource_mem) prog" where
  "DockerNodeUpdateTaskTemplateResource_DeepCopyInto K x =
    (let out = x in
     andThen (TemplateMeta_copyInto K (dr_ObjectMeta x)) (\<lambda>y.
     let out = out\<lparr>dr_ObjectMeta := y\<rparr> in
     let out = out\<lparr>dr_Spec := dr_Spec x\<rparr> in
     return out))"

definition DockerNodeUpdateTaskTemplateResource_DeepCopy :: "copylib \<Rightarrow>
    DockerNodeUpdateTaskTemplateResource_mem option \<Rightarrow> (cell heap,
    DockerNodeUpdateTaskTemplateResource_mem option) prog" where
  "DockerNodeUpdateTaskTemplateResource_DeepCopy K = deepCopy
      (DockerNodeUpdateTaskTemplateResource_DeepCopyInto K)"

definition DockerNodeUpdateTaskTemplateSpec_DeepCopyInto :: "copylib \<Rightarrow>
    DockerNodeUpdateTaskTemplateSpec_mem \<Rightarrow> (cell heap,
    DockerNodeUpdateTaskTemplateSpec_mem) prog" where
  "DockerNodeUpdateTaskTemplateSpec_DeepCopyInto K x =
    (let out = x in
     andThen (DockerNodeUpdateTaskTemplateResource_DeepCopyInto K (dp_Template x)) (\<lambda>y.
     let out = out\<lparr>dp_Template := y\<rparr> in
     return out))"

definition DockerNodeUpdateTaskTemplateSpec_DeepCopy :: "copylib \<Rightarrow>
    DockerNodeUpdateTaskTemplateSpec_mem option \<Rightarrow> (cell heap,
    DockerNodeUpdateTaskTemplateSpec_mem option) prog" where
  "DockerNodeUpdateTaskTemplateSpec_DeepCopy K = deepCopy
      (DockerNodeUpdateTaskTemplateSpec_DeepCopyInto K)"

definition DockerNodeUpdateTaskTemplate_DeepCopyInto :: "copylib \<Rightarrow>
    DockerNodeUpdateTaskTemplate_mem \<Rightarrow> (cell heap, DockerNodeUpdateTaskTemplate_mem)
    prog" where
  "DockerNodeUpdateTaskTemplate_DeepCopyInto K x =
    (let out = x in
     let out = out\<lparr>dm_TypeMeta := dm_TypeMeta x\<rparr> in
     andThen (ObjectMeta_copyInto K (dm_ObjectMeta x)) (\<lambda>y.
     let out = out\<lparr>dm_ObjectMeta := y\<rparr> in
     andThen (DockerNodeUpdateTaskTemplateSpec_DeepCopyInto K (dm_Spec x)) (\<lambda>y.
     let out = out\<lparr>dm_Spec := y\<rparr> in
     return out)))"

definition DockerNodeUpdateTaskTemplate_DeepCopy :: "copylib \<Rightarrow>
    DockerNodeUpdateTaskTemplate_mem option \<Rightarrow> (cell heap,
    DockerNodeUpdateTaskTemplate_mem option) prog" where
  "DockerNodeUpdateTaskTemplate_DeepCopy K = deepCopy (DockerNodeUpdateTaskTemplate_DeepCopyInto
      K)"

definition DockerNodeUpdateTaskTemplateList_DeepCopyInto :: "copylib \<Rightarrow>
    DockerNodeUpdateTaskTemplateList_mem \<Rightarrow> (cell heap,
    DockerNodeUpdateTaskTemplateList_mem) prog" where
  "DockerNodeUpdateTaskTemplateList_DeepCopyInto K x =
    (let out = x in
     let out = out\<lparr>dk_TypeMeta := dk_TypeMeta x\<rparr> in
     andThen (ListMeta_copyInto K (dk_ListMeta x)) (\<lambda>y.
     let out = out\<lparr>dk_ListMeta := y\<rparr> in
     andThen (copyStructs DockerTemplatesArray theDockerTemplates
         (DockerNodeUpdateTaskTemplate_DeepCopyInto K) (dk_Items x)) (\<lambda>y.
     let out = out\<lparr>dk_Items := y\<rparr> in
     return out)))"

definition DockerNodeUpdateTaskTemplateList_DeepCopy :: "copylib \<Rightarrow>
    DockerNodeUpdateTaskTemplateList_mem option \<Rightarrow> (cell heap,
    DockerNodeUpdateTaskTemplateList_mem option) prog" where
  "DockerNodeUpdateTaskTemplateList_DeepCopy K = deepCopy
      (DockerNodeUpdateTaskTemplateList_DeepCopyInto K)"

definition FakeNodeUpdateTaskSpec_DeepCopyInto :: "FakeNodeUpdateTaskSpec \<Rightarrow> (cell
    heap, FakeNodeUpdateTaskSpec) prog" where
  "FakeNodeUpdateTaskSpec_DeepCopyInto x =
    (let out = x in
     let out = out\<lparr>fk_NewMachineSpec := fk_NewMachineSpec x\<rparr> in
     return out)"

definition FakeNodeUpdateTaskSpec_DeepCopy :: "FakeNodeUpdateTaskSpec option \<Rightarrow> (cell
    heap, FakeNodeUpdateTaskSpec option) prog" where
  "FakeNodeUpdateTaskSpec_DeepCopy = deepCopy FakeNodeUpdateTaskSpec_DeepCopyInto"

definition FakeNodeUpdateTaskStatus_DeepCopyInto :: "copylib \<Rightarrow>
    FakeNodeUpdateTaskStatus_mem \<Rightarrow> (cell heap, FakeNodeUpdateTaskStatus_mem) prog"
    where
  "FakeNodeUpdateTaskStatus_DeepCopyInto K x =
    (let out = x in
     andThen (copyStructs ConditionArray theConditions (Condition_copyInto K) (fs_Conditions x))
         (\<lambda>y.
     let out = out\<lparr>fs_Conditions := y\<rparr> in
     return out))"

definition FakeNodeUpdateTaskStatus_DeepCopy :: "copylib \<Rightarrow>
    FakeNodeUpdateTaskStatus_mem option \<Rightarrow> (cell heap, FakeNodeUpdateTaskStatus_mem
    option) prog" where
  "FakeNodeUpdateTaskStatus_DeepCopy K = deepCopy (FakeNodeUpdateTaskStatus_DeepCopyInto K)"

definition FakeNodeUpdateTask_DeepCopyInto :: "copylib \<Rightarrow> FakeNodeUpdateTask_mem
    \<Rightarrow> (cell heap, FakeNodeUpdateTask_mem) prog" where
  "FakeNodeUpdateTask_DeepCopyInto K x =
    (let out = x in
     let out = out\<lparr>ft_TypeMeta := ft_TypeMeta x\<rparr> in
     andThen (ObjectMeta_copyInto K (ft_ObjectMeta x)) (\<lambda>y.
     let out = out\<lparr>ft_ObjectMeta := y\<rparr> in
     let out = out\<lparr>ft_Spec := ft_Spec x\<rparr> in
     andThen (FakeNodeUpdateTaskStatus_DeepCopyInto K (ft_Status x)) (\<lambda>y.
     let out = out\<lparr>ft_Status := y\<rparr> in
     return out)))"

definition FakeNodeUpdateTask_DeepCopy :: "copylib \<Rightarrow> FakeNodeUpdateTask_mem option
    \<Rightarrow> (cell heap, FakeNodeUpdateTask_mem option) prog" where
  "FakeNodeUpdateTask_DeepCopy K = deepCopy (FakeNodeUpdateTask_DeepCopyInto K)"

definition FakeNodeUpdateTaskList_DeepCopyInto :: "copylib \<Rightarrow>
    FakeNodeUpdateTaskList_mem \<Rightarrow> (cell heap, FakeNodeUpdateTaskList_mem) prog" where
  "FakeNodeUpdateTaskList_DeepCopyInto K x =
    (let out = x in
     let out = out\<lparr>fl_TypeMeta := fl_TypeMeta x\<rparr> in
     andThen (ListMeta_copyInto K (fl_ListMeta x)) (\<lambda>y.
     let out = out\<lparr>fl_ListMeta := y\<rparr> in
     andThen (copyStructs FakeTasksArray theFakeTasks (FakeNodeUpdateTask_DeepCopyInto K)
         (fl_Items x)) (\<lambda>y.
     let out = out\<lparr>fl_Items := y\<rparr> in
     return out)))"

definition FakeNodeUpdateTaskList_DeepCopy :: "copylib \<Rightarrow> FakeNodeUpdateTaskList_mem
    option \<Rightarrow> (cell heap, FakeNodeUpdateTaskList_mem option) prog" where
  "FakeNodeUpdateTaskList_DeepCopy K = deepCopy (FakeNodeUpdateTaskList_DeepCopyInto K)"

definition FakeNodeUpdateTaskTemplateResource_DeepCopyInto :: "copylib \<Rightarrow>
    FakeNodeUpdateTaskTemplateResource_mem \<Rightarrow> (cell heap,
    FakeNodeUpdateTaskTemplateResource_mem) prog" where
  "FakeNodeUpdateTaskTemplateResource_DeepCopyInto K x =
    (let out = x in
     andThen (TemplateMeta_copyInto K (fr_ObjectMeta x)) (\<lambda>y.
     let out = out\<lparr>fr_ObjectMeta := y\<rparr> in
     let out = out\<lparr>fr_Spec := fr_Spec x\<rparr> in
     return out))"

definition FakeNodeUpdateTaskTemplateResource_DeepCopy :: "copylib \<Rightarrow>
    FakeNodeUpdateTaskTemplateResource_mem option \<Rightarrow> (cell heap,
    FakeNodeUpdateTaskTemplateResource_mem option) prog" where
  "FakeNodeUpdateTaskTemplateResource_DeepCopy K = deepCopy
      (FakeNodeUpdateTaskTemplateResource_DeepCopyInto K)"

definition FakeNodeUpdateTaskTemplateSpec_DeepCopyInto :: "copylib \<Rightarrow>
    FakeNodeUpdateTaskTemplateSpec_mem \<Rightarrow> (cell heap,
    FakeNodeUpdateTaskTemplateSpec_mem) prog" where
  "FakeNodeUpdateTaskTemplateSpec_DeepCopyInto K x =
    (let out = x in
     andThen (FakeNodeUpdateTaskTemplateResource_DeepCopyInto K (fp_Template x)) (\<lambda>y.
     let out = out\<lparr>fp_Template := y\<rparr> in
     return out))"

definition FakeNodeUpdateTaskTemplateSpec_DeepCopy :: "copylib \<Rightarrow>
    FakeNodeUpdateTaskTemplateSpec_mem option \<Rightarrow> (cell heap,
    FakeNodeUpdateTaskTemplateSpec_mem option) prog" where
  "FakeNodeUpdateTaskTemplateSpec_DeepCopy K = deepCopy
      (FakeNodeUpdateTaskTemplateSpec_DeepCopyInto K)"

definition FakeNodeUpdateTaskTemplate_DeepCopyInto :: "copylib \<Rightarrow>
    FakeNodeUpdateTaskTemplate_mem \<Rightarrow> (cell heap, FakeNodeUpdateTaskTemplate_mem)
    prog" where
  "FakeNodeUpdateTaskTemplate_DeepCopyInto K x =
    (let out = x in
     let out = out\<lparr>fm_TypeMeta := fm_TypeMeta x\<rparr> in
     andThen (ObjectMeta_copyInto K (fm_ObjectMeta x)) (\<lambda>y.
     let out = out\<lparr>fm_ObjectMeta := y\<rparr> in
     andThen (FakeNodeUpdateTaskTemplateSpec_DeepCopyInto K (fm_Spec x)) (\<lambda>y.
     let out = out\<lparr>fm_Spec := y\<rparr> in
     return out)))"

definition FakeNodeUpdateTaskTemplate_DeepCopy :: "copylib \<Rightarrow>
    FakeNodeUpdateTaskTemplate_mem option \<Rightarrow> (cell heap,
    FakeNodeUpdateTaskTemplate_mem option) prog" where
  "FakeNodeUpdateTaskTemplate_DeepCopy K = deepCopy (FakeNodeUpdateTaskTemplate_DeepCopyInto K)"

definition FakeNodeUpdateTaskTemplateList_DeepCopyInto :: "copylib \<Rightarrow>
    FakeNodeUpdateTaskTemplateList_mem \<Rightarrow> (cell heap,
    FakeNodeUpdateTaskTemplateList_mem) prog" where
  "FakeNodeUpdateTaskTemplateList_DeepCopyInto K x =
    (let out = x in
     let out = out\<lparr>fk_TypeMeta := fk_TypeMeta x\<rparr> in
     andThen (ListMeta_copyInto K (fk_ListMeta x)) (\<lambda>y.
     let out = out\<lparr>fk_ListMeta := y\<rparr> in
     andThen (copyStructs FakeTemplatesArray theFakeTemplates
         (FakeNodeUpdateTaskTemplate_DeepCopyInto K) (fk_Items x)) (\<lambda>y.
     let out = out\<lparr>fk_Items := y\<rparr> in
     return out)))"

definition FakeNodeUpdateTaskTemplateList_DeepCopy :: "copylib \<Rightarrow>
    FakeNodeUpdateTaskTemplateList_mem option \<Rightarrow> (cell heap,
    FakeNodeUpdateTaskTemplateList_mem option) prog" where
  "FakeNodeUpdateTaskTemplateList_DeepCopy K = deepCopy
      (FakeNodeUpdateTaskTemplateList_DeepCopyInto K)"

definition ControlPlaneExternalUpdateRequest_DeepCopyInto :: "copylib \<Rightarrow>
    ControlPlaneExternalUpdateRequest_mem \<Rightarrow> (cell heap,
    ControlPlaneExternalUpdateRequest_mem) prog" where
  "ControlPlaneExternalUpdateRequest_DeepCopyInto K x =
    (let out = x in
     let out = out\<lparr>cq_TypeMeta := cq_TypeMeta x\<rparr> in
     andThen (CommonRequest_copyInto K (cq_CommonRequest x)) (\<lambda>y.
     let out = out\<lparr>cq_CommonRequest := y\<rparr> in
     andThen (copyTarget (cq_ClusterRef x)) (\<lambda>y.
     let out = out\<lparr>cq_ClusterRef := y\<rparr> in
     andThen (copyTarget (cq_ControlPlaneRef x)) (\<lambda>y.
     let out = out\<lparr>cq_ControlPlaneRef := y\<rparr> in
     andThen (copyTarget (cq_MachinesRequireUpdate x)) (\<lambda>y.
     let out = out\<lparr>cq_MachinesRequireUpdate := y\<rparr> in
     let out = out\<lparr>cq_NewMachine := cq_NewMachine x\<rparr> in
     return out)))))"

definition ControlPlaneExternalUpdateRequest_DeepCopy :: "copylib \<Rightarrow>
    ControlPlaneExternalUpdateRequest_mem option \<Rightarrow> (cell heap,
    ControlPlaneExternalUpdateRequest_mem option) prog" where
  "ControlPlaneExternalUpdateRequest_DeepCopy K = deepCopy
      (ControlPlaneExternalUpdateRequest_DeepCopyInto K)"

definition ControlPlaneExternalUpdateResponse_DeepCopyInto ::
    "ControlPlaneExternalUpdateResponse_mem \<Rightarrow> (cell heap,
    ControlPlaneExternalUpdateResponse_mem) prog" where
  "ControlPlaneExternalUpdateResponse_DeepCopyInto x =
    (let out = x in
     let out = out\<lparr>ca_TypeMeta := ca_TypeMeta x\<rparr> in
     let out = out\<lparr>ca_CommonRetryResponse := ca_CommonRetryResponse x\<rparr> in
     return out)"

definition ControlPlaneExternalUpdateResponse_DeepCopy :: "ControlPlaneExternalUpdateResponse_mem
    option \<Rightarrow> (cell heap, ControlPlaneExternalUpdateResponse_mem option) prog" where
  "ControlPlaneExternalUpdateResponse_DeepCopy = deepCopy
      ControlPlaneExternalUpdateResponse_DeepCopyInto"

definition MachineDeploymentExternalUpdateRequest_DeepCopyInto :: "copylib \<Rightarrow>
    MachineDeploymentExternalUpdateRequest_mem \<Rightarrow> (cell heap,
    MachineDeploymentExternalUpdateRequest_mem) prog" where
  "MachineDeploymentExternalUpdateRequest_DeepCopyInto K x =
    (let out = x in
     let out = out\<lparr>mq_TypeMeta := mq_TypeMeta x\<rparr> in
     andThen (CommonRequest_copyInto K (mq_CommonRequest x)) (\<lambda>y.
     let out = out\<lparr>mq_CommonRequest := y\<rparr> in
     andThen (copyTarget (mq_ClusterRef x)) (\<lambda>y.
     let out = out\<lparr>mq_ClusterRef := y\<rparr> in
     andThen (copyTarget (mq_MachineDeploymentRef x)) (\<lambda>y.
     let out = out\<lparr>mq_MachineDeploymentRef := y\<rparr> in
     andThen (copyTarget (mq_MachinesRequireUpdate x)) (\<lambda>y.
     let out = out\<lparr>mq_MachinesRequireUpdate := y\<rparr> in
     let out = out\<lparr>mq_NewMachine := mq_NewMachine x\<rparr> in
     return out)))))"

definition MachineDeploymentExternalUpdateRequest_DeepCopy :: "copylib \<Rightarrow>
    MachineDeploymentExternalUpdateRequest_mem option \<Rightarrow> (cell heap,
    MachineDeploymentExternalUpdateRequest_mem option) prog" where
  "MachineDeploymentExternalUpdateRequest_DeepCopy K = deepCopy
      (MachineDeploymentExternalUpdateRequest_DeepCopyInto K)"

definition MachineDeploymentExternalUpdateResponse_DeepCopyInto ::
    "MachineDeploymentExternalUpdateResponse_mem \<Rightarrow> (cell heap,
    MachineDeploymentExternalUpdateResponse_mem) prog" where
  "MachineDeploymentExternalUpdateResponse_DeepCopyInto x =
    (let out = x in
     let out = out\<lparr>ma_TypeMeta := ma_TypeMeta x\<rparr> in
     let out = out\<lparr>ma_CommonRetryResponse := ma_CommonRetryResponse x\<rparr> in
     return out)"

definition MachineDeploymentExternalUpdateResponse_DeepCopy ::
    "MachineDeploymentExternalUpdateResponse_mem option \<Rightarrow> (cell heap,
    MachineDeploymentExternalUpdateResponse_mem option) prog" where
  "MachineDeploymentExternalUpdateResponse_DeepCopy = deepCopy
      MachineDeploymentExternalUpdateResponse_DeepCopyInto"

section \<open>DeepCopyObject\<close>

text \<open>
  A \<open>runtime.Object\<close> that is not the nil interface: a pointer, nil or not, with its type. The code
  tests the copy before it returns it, so that a nil pointer becomes the nil interface.
\<close>

datatype runtime_Object =
    UpdateTaskObject "UpdateTask_mem option"
  | UpdateTaskListObject "UpdateTaskList_mem option"
  | UpdatePolicyObject "UpdatePolicy_mem option"
  | UpdatePolicyListObject "UpdatePolicyList_mem option"
  | DockerNodeUpdateTaskObject "DockerNodeUpdateTask_mem option"
  | DockerNodeUpdateTaskListObject "DockerNodeUpdateTaskList_mem option"
  | DockerNodeUpdateTaskTemplateObject "DockerNodeUpdateTaskTemplate_mem option"
  | DockerNodeUpdateTaskTemplateListObject "DockerNodeUpdateTaskTemplateList_mem option"
  | FakeNodeUpdateTaskObject "FakeNodeUpdateTask_mem option"
  | FakeNodeUpdateTaskListObject "FakeNodeUpdateTaskList_mem option"
  | FakeNodeUpdateTaskTemplateObject "FakeNodeUpdateTaskTemplate_mem option"
  | FakeNodeUpdateTaskTemplateListObject "FakeNodeUpdateTaskTemplateList_mem option"

definition UpdateTask_DeepCopyObject ::
    "copylib \<Rightarrow> UpdateTask_mem option \<Rightarrow> (cell heap, runtime_Object option)
        prog" where
  "UpdateTask_DeepCopyObject K x = andThen (UpdateTask_DeepCopy K x) (\<lambda>c. case c of
     Some _ \<Rightarrow> return (Some (UpdateTaskObject c)) | None \<Rightarrow> return None)"

definition UpdateTaskList_DeepCopyObject ::
    "copylib \<Rightarrow> UpdateTaskList_mem option \<Rightarrow> (cell heap, runtime_Object
        option) prog" where
  "UpdateTaskList_DeepCopyObject K x = andThen (UpdateTaskList_DeepCopy K x) (\<lambda>c. case c
      of
     Some _ \<Rightarrow> return (Some (UpdateTaskListObject c)) | None \<Rightarrow> return
         None)"

definition UpdatePolicy_DeepCopyObject ::
    "copylib \<Rightarrow> UpdatePolicy_mem option \<Rightarrow> (cell heap, runtime_Object
        option) prog" where
  "UpdatePolicy_DeepCopyObject K x = andThen (UpdatePolicy_DeepCopy K x) (\<lambda>c. case c of
     Some _ \<Rightarrow> return (Some (UpdatePolicyObject c)) | None \<Rightarrow> return None)"

definition UpdatePolicyList_DeepCopyObject ::
    "copylib \<Rightarrow> UpdatePolicyList_mem option \<Rightarrow> (cell heap, runtime_Object
        option) prog" where
  "UpdatePolicyList_DeepCopyObject K x = andThen (UpdatePolicyList_DeepCopy K x) (\<lambda>c.
      case c of
     Some _ \<Rightarrow> return (Some (UpdatePolicyListObject c)) | None \<Rightarrow> return
         None)"

definition DockerNodeUpdateTask_DeepCopyObject ::
    "copylib \<Rightarrow> DockerNodeUpdateTask_mem option \<Rightarrow> (cell heap,
        runtime_Object option) prog" where
  "DockerNodeUpdateTask_DeepCopyObject K x = andThen (DockerNodeUpdateTask_DeepCopy K x)
      (\<lambda>c. case c of
     Some _ \<Rightarrow> return (Some (DockerNodeUpdateTaskObject c)) | None \<Rightarrow>
         return None)"

definition DockerNodeUpdateTaskList_DeepCopyObject ::
    "copylib \<Rightarrow> DockerNodeUpdateTaskList_mem option \<Rightarrow> (cell heap,
        runtime_Object option) prog" where
  "DockerNodeUpdateTaskList_DeepCopyObject K x = andThen (DockerNodeUpdateTaskList_DeepCopy K x)
      (\<lambda>c. case c of
     Some _ \<Rightarrow> return (Some (DockerNodeUpdateTaskListObject c)) | None \<Rightarrow>
         return None)"

definition DockerNodeUpdateTaskTemplate_DeepCopyObject ::
    "copylib \<Rightarrow> DockerNodeUpdateTaskTemplate_mem option \<Rightarrow> (cell heap,
        runtime_Object option) prog" where
  "DockerNodeUpdateTaskTemplate_DeepCopyObject K x = andThen
      (DockerNodeUpdateTaskTemplate_DeepCopy K x) (\<lambda>c. case c of
     Some _ \<Rightarrow> return (Some (DockerNodeUpdateTaskTemplateObject c)) | None
         \<Rightarrow> return None)"

definition DockerNodeUpdateTaskTemplateList_DeepCopyObject ::
    "copylib \<Rightarrow> DockerNodeUpdateTaskTemplateList_mem option \<Rightarrow> (cell heap,
        runtime_Object option) prog" where
  "DockerNodeUpdateTaskTemplateList_DeepCopyObject K x = andThen
      (DockerNodeUpdateTaskTemplateList_DeepCopy K x) (\<lambda>c. case c of
     Some _ \<Rightarrow> return (Some (DockerNodeUpdateTaskTemplateListObject c)) | None
         \<Rightarrow> return None)"

definition FakeNodeUpdateTask_DeepCopyObject ::
    "copylib \<Rightarrow> FakeNodeUpdateTask_mem option \<Rightarrow> (cell heap, runtime_Object
        option) prog" where
  "FakeNodeUpdateTask_DeepCopyObject K x = andThen (FakeNodeUpdateTask_DeepCopy K x) (\<lambda>c.
      case c of
     Some _ \<Rightarrow> return (Some (FakeNodeUpdateTaskObject c)) | None \<Rightarrow> return
         None)"

definition FakeNodeUpdateTaskList_DeepCopyObject ::
    "copylib \<Rightarrow> FakeNodeUpdateTaskList_mem option \<Rightarrow> (cell heap,
        runtime_Object option) prog" where
  "FakeNodeUpdateTaskList_DeepCopyObject K x = andThen (FakeNodeUpdateTaskList_DeepCopy K x)
      (\<lambda>c. case c of
     Some _ \<Rightarrow> return (Some (FakeNodeUpdateTaskListObject c)) | None \<Rightarrow>
         return None)"

definition FakeNodeUpdateTaskTemplate_DeepCopyObject ::
    "copylib \<Rightarrow> FakeNodeUpdateTaskTemplate_mem option \<Rightarrow> (cell heap,
        runtime_Object option) prog" where
  "FakeNodeUpdateTaskTemplate_DeepCopyObject K x = andThen (FakeNodeUpdateTaskTemplate_DeepCopy K
      x) (\<lambda>c. case c of
     Some _ \<Rightarrow> return (Some (FakeNodeUpdateTaskTemplateObject c)) | None \<Rightarrow>
         return None)"

definition FakeNodeUpdateTaskTemplateList_DeepCopyObject ::
    "copylib \<Rightarrow> FakeNodeUpdateTaskTemplateList_mem option \<Rightarrow> (cell heap,
        runtime_Object option) prog" where
  "FakeNodeUpdateTaskTemplateList_DeepCopyObject K x = andThen
      (FakeNodeUpdateTaskTemplateList_DeepCopy K x) (\<lambda>c. case c of
     Some _ \<Rightarrow> return (Some (FakeNodeUpdateTaskTemplateListObject c)) | None
         \<Rightarrow> return None)"

text \<open>A call of the method on an interface value.\<close>

definition DeepCopyObject :: "copylib \<Rightarrow> runtime_Object \<Rightarrow> (cell heap,
    runtime_Object option) prog" where
  "DeepCopyObject K obj = (case obj of
     UpdateTaskObject x \<Rightarrow> UpdateTask_DeepCopyObject K x
   | UpdateTaskListObject x \<Rightarrow> UpdateTaskList_DeepCopyObject K x
   | UpdatePolicyObject x \<Rightarrow> UpdatePolicy_DeepCopyObject K x
   | UpdatePolicyListObject x \<Rightarrow> UpdatePolicyList_DeepCopyObject K x
   | DockerNodeUpdateTaskObject x \<Rightarrow> DockerNodeUpdateTask_DeepCopyObject K x
   | DockerNodeUpdateTaskListObject x \<Rightarrow> DockerNodeUpdateTaskList_DeepCopyObject K x
   | DockerNodeUpdateTaskTemplateObject x \<Rightarrow>
       DockerNodeUpdateTaskTemplate_DeepCopyObject K x
   | DockerNodeUpdateTaskTemplateListObject x \<Rightarrow>
       DockerNodeUpdateTaskTemplateList_DeepCopyObject K x
   | FakeNodeUpdateTaskObject x \<Rightarrow> FakeNodeUpdateTask_DeepCopyObject K x
   | FakeNodeUpdateTaskListObject x \<Rightarrow> FakeNodeUpdateTaskList_DeepCopyObject K x
   | FakeNodeUpdateTaskTemplateObject x \<Rightarrow> FakeNodeUpdateTaskTemplate_DeepCopyObject K
       x
   | FakeNodeUpdateTaskTemplateListObject x \<Rightarrow>
       FakeNodeUpdateTaskTemplateList_DeepCopyObject K x)"

end
