(* ===== verification/Deep_Copy_Laws.thy ===== *)
theory Deep_Copy_Laws
  imports Deep_Copies
begin

text \<open>
  What can be read of each struct through its pointers (\<open>T_value\<close>) and the storage
      it is read from
  (\<open>T_reach\<close>), and that each generated \<open>DeepCopyInto\<close> follows the
      contract of a deep copy (locale
  \<^theory_text>\<open>deep_copying\<close>): same value, new storage, nothing else touched.
\<close>

lemmas plain_copying = plain.deep_copying_axioms
lemmas target_copying = target.deep_copying_axioms

section \<open>Structs of the libraries\<close>

definition ObjectMeta_value where
  "ObjectMeta_value h x =
    (targetValue h (om_Labels x), targetValue h (om_Annotations x),
     targetValue h (om_Finalizers x), targetValue h (om_DeletionTimestamp x),
     om_Name x, om_Namespace x, om_UID x, om_CreationTimestamp x)"

definition ObjectMeta_reach :: "cell heap \<Rightarrow> ObjectMeta_mem \<Rightarrow> addr set"
    where
  "ObjectMeta_reach h x =
    targetReach h (om_Labels x) \<union> targetReach h (om_Annotations x) \<union>
    targetReach h (om_Finalizers x) \<union> targetReach h (om_DeletionTimestamp x)"

definition ListMeta_value where
  "ListMeta_value h x =
    (targetValue h (lm_RemainingItemCount x), lm_ResourceVersion x, lm_Continue x)"

definition ListMeta_reach :: "cell heap \<Rightarrow> ListMeta_mem \<Rightarrow> addr set" where
  "ListMeta_reach h x = targetReach h (lm_RemainingItemCount x)"

definition TemplateMeta_value where
  "TemplateMeta_value h x = (targetValue h (cm_Labels x), targetValue h (cm_Annotations x))"

definition TemplateMeta_reach :: "cell heap \<Rightarrow> TemplateMeta_mem \<Rightarrow> addr
    set" where
  "TemplateMeta_reach h x = targetReach h (cm_Labels x) \<union> targetReach h (cm_Annotations x)"

definition CommonRequest_value where
  "CommonRequest_value h x = targetValue h (rq_Settings x)"

definition CommonRequest_reach :: "cell heap \<Rightarrow> CommonRequest_mem \<Rightarrow> addr
    set" where
  "CommonRequest_reach h x = targetReach h (rq_Settings x)"

text \<open>The documented behaviour of the libraries' deep copies.\<close>

definition copylib_laws :: "copylib \<Rightarrow> bool" where
  "copylib_laws K \<longleftrightarrow>
     deep_copying ObjectMeta_value ObjectMeta_reach (ObjectMeta_copyInto K) \<and>
     deep_copying ListMeta_value ListMeta_reach (ListMeta_copyInto K) \<and>
     deep_copying TemplateMeta_value TemplateMeta_reach (TemplateMeta_copyInto K) \<and>
     deep_copying CommonRequest_value CommonRequest_reach (CommonRequest_copyInto K) \<and>
     deep_copying plainValue noReach (Condition_copyInto K)"

lemma copylib_lawsD:
  assumes "copylib_laws K"
  shows "deep_copying ObjectMeta_value ObjectMeta_reach (ObjectMeta_copyInto K)"
    and "deep_copying ListMeta_value ListMeta_reach (ListMeta_copyInto K)"
    and "deep_copying TemplateMeta_value TemplateMeta_reach (TemplateMeta_copyInto K)"
    and "deep_copying CommonRequest_value CommonRequest_reach (CommonRequest_copyInto K)"
    and "deep_copying plainValue noReach (Condition_copyInto K)"
  using assms by (simp_all add: copylib_laws_def)

lemma conditions_copying:
  "copylib_laws K \<Longrightarrow> deep_copying (structsValue theConditions plainValue)
     (structsReach theConditions noReach)
     (copyStructs ConditionArray theConditions (Condition_copyInto K))"
  by (rule structs_copying [OF copylib_lawsD(5)]) simp_all

lemmas copy_simps = bothInto_def andThen_assoc Let_def

section \<open>What the structs hold and reach\<close>

definition NodeUpdateTaskTemplateSpec_value where
  "NodeUpdateTaskTemplateSpec_value h x =
    (ObjectMeta_value h (nt_ObjectMeta x),
     nt_InfrastructureRef x)"

definition NodeUpdateTaskTemplateSpec_reach :: "cell heap \<Rightarrow>
    NodeUpdateTaskTemplateSpec_mem \<Rightarrow> addr set" where
  "NodeUpdateTaskTemplateSpec_reach h x =
    ObjectMeta_reach h (nt_ObjectMeta x)"

definition UpdateTaskSpec_value where
  "UpdateTaskSpec_value h x =
    (targetValue h (ts_ClusterRef x),
     targetValue h (ts_ControlPlaneRef x),
     targetValue h (ts_MachineDeploymentRef x),
     targetValue h (ts_MachinesRequireUpdate x),
     NodeUpdateTaskTemplateSpec_value h (ts_NodeUpdateTemplate x),
     ts_NewMachineSpec x,
     ts_TargetPhase x)"

definition UpdateTaskSpec_reach :: "cell heap \<Rightarrow> UpdateTaskSpec_mem \<Rightarrow> addr
    set" where
  "UpdateTaskSpec_reach h x =
    targetReach h (ts_ClusterRef x) \<union>
    targetReach h (ts_ControlPlaneRef x) \<union>
    targetReach h (ts_MachineDeploymentRef x) \<union>
    targetReach h (ts_MachinesRequireUpdate x) \<union>
    NodeUpdateTaskTemplateSpec_reach h (ts_NodeUpdateTemplate x)"

definition UpdateTaskStatus_value where
  "UpdateTaskStatus_value h x =
    (structsValue theConditions plainValue h (tt_Conditions x),
     tt_State x)"

definition UpdateTaskStatus_reach :: "cell heap \<Rightarrow> UpdateTaskStatus_mem \<Rightarrow>
    addr set" where
  "UpdateTaskStatus_reach h x =
    structsReach theConditions noReach h (tt_Conditions x)"

definition UpdateTask_value where
  "UpdateTask_value h x =
    (ObjectMeta_value h (ta_ObjectMeta x),
     UpdateTaskSpec_value h (ta_Spec x),
     UpdateTaskStatus_value h (ta_Status x),
     ta_TypeMeta x)"

definition UpdateTask_reach :: "cell heap \<Rightarrow> UpdateTask_mem \<Rightarrow> addr set"
    where
  "UpdateTask_reach h x =
    ObjectMeta_reach h (ta_ObjectMeta x) \<union>
    UpdateTaskSpec_reach h (ta_Spec x) \<union>
    UpdateTaskStatus_reach h (ta_Status x)"

definition UpdateTaskList_value where
  "UpdateTaskList_value h x =
    (ListMeta_value h (tl_ListMeta x),
     structsValue theTasks UpdateTask_value h (tl_Items x),
     tl_TypeMeta x)"

definition UpdateTaskList_reach :: "cell heap \<Rightarrow> UpdateTaskList_mem \<Rightarrow> addr
    set" where
  "UpdateTaskList_reach h x =
    ListMeta_reach h (tl_ListMeta x) \<union>
    structsReach theTasks UpdateTask_reach h (tl_Items x)"

definition UpdatePolicySpec_value where
  "UpdatePolicySpec_value h x =
    (targetValue h (ps_NodeUpdateTemplateRef x))"

definition UpdatePolicySpec_reach :: "cell heap \<Rightarrow> UpdatePolicySpec_mem \<Rightarrow>
    addr set" where
  "UpdatePolicySpec_reach h x =
    targetReach h (ps_NodeUpdateTemplateRef x)"

definition UpdatePolicy_value where
  "UpdatePolicy_value h x =
    (ObjectMeta_value h (po_ObjectMeta x),
     UpdatePolicySpec_value h (po_Spec x),
     po_TypeMeta x,
     po_Status x)"

definition UpdatePolicy_reach :: "cell heap \<Rightarrow> UpdatePolicy_mem \<Rightarrow> addr
    set" where
  "UpdatePolicy_reach h x =
    ObjectMeta_reach h (po_ObjectMeta x) \<union>
    UpdatePolicySpec_reach h (po_Spec x)"

definition UpdatePolicyList_value where
  "UpdatePolicyList_value h x =
    (ListMeta_value h (pl_ListMeta x),
     structsValue thePolicies UpdatePolicy_value h (pl_Items x),
     pl_TypeMeta x)"

definition UpdatePolicyList_reach :: "cell heap \<Rightarrow> UpdatePolicyList_mem \<Rightarrow>
    addr set" where
  "UpdatePolicyList_reach h x =
    ListMeta_reach h (pl_ListMeta x) \<union>
    structsReach thePolicies UpdatePolicy_reach h (pl_Items x)"

definition DockerNodeUpdateTaskStatus_value where
  "DockerNodeUpdateTaskStatus_value h x =
    (structsValue theConditions plainValue h (ds_Conditions x),
     ds_State x)"

definition DockerNodeUpdateTaskStatus_reach :: "cell heap \<Rightarrow>
    DockerNodeUpdateTaskStatus_mem \<Rightarrow> addr set" where
  "DockerNodeUpdateTaskStatus_reach h x =
    structsReach theConditions noReach h (ds_Conditions x)"

definition DockerNodeUpdateTask_value where
  "DockerNodeUpdateTask_value h x =
    (ObjectMeta_value h (dt_ObjectMeta x),
     DockerNodeUpdateTaskStatus_value h (dt_Status x),
     dt_TypeMeta x,
     dt_Spec x)"

definition DockerNodeUpdateTask_reach :: "cell heap \<Rightarrow> DockerNodeUpdateTask_mem
    \<Rightarrow> addr set" where
  "DockerNodeUpdateTask_reach h x =
    ObjectMeta_reach h (dt_ObjectMeta x) \<union>
    DockerNodeUpdateTaskStatus_reach h (dt_Status x)"

definition DockerNodeUpdateTaskList_value where
  "DockerNodeUpdateTaskList_value h x =
    (ListMeta_value h (dl_ListMeta x),
     structsValue theDockerTasks DockerNodeUpdateTask_value h (dl_Items x),
     dl_TypeMeta x)"

definition DockerNodeUpdateTaskList_reach :: "cell heap \<Rightarrow>
    DockerNodeUpdateTaskList_mem \<Rightarrow> addr set" where
  "DockerNodeUpdateTaskList_reach h x =
    ListMeta_reach h (dl_ListMeta x) \<union>
    structsReach theDockerTasks DockerNodeUpdateTask_reach h (dl_Items x)"

definition DockerNodeUpdateTaskTemplateResource_value where
  "DockerNodeUpdateTaskTemplateResource_value h x =
    (TemplateMeta_value h (dr_ObjectMeta x),
     dr_Spec x)"

definition DockerNodeUpdateTaskTemplateResource_reach :: "cell heap \<Rightarrow>
    DockerNodeUpdateTaskTemplateResource_mem \<Rightarrow> addr set" where
  "DockerNodeUpdateTaskTemplateResource_reach h x =
    TemplateMeta_reach h (dr_ObjectMeta x)"

definition DockerNodeUpdateTaskTemplateSpec_value where
  "DockerNodeUpdateTaskTemplateSpec_value h x =
    (DockerNodeUpdateTaskTemplateResource_value h (dp_Template x))"

definition DockerNodeUpdateTaskTemplateSpec_reach :: "cell heap \<Rightarrow>
    DockerNodeUpdateTaskTemplateSpec_mem \<Rightarrow> addr set" where
  "DockerNodeUpdateTaskTemplateSpec_reach h x =
    DockerNodeUpdateTaskTemplateResource_reach h (dp_Template x)"

definition DockerNodeUpdateTaskTemplate_value where
  "DockerNodeUpdateTaskTemplate_value h x =
    (ObjectMeta_value h (dm_ObjectMeta x),
     DockerNodeUpdateTaskTemplateSpec_value h (dm_Spec x),
     dm_TypeMeta x)"

definition DockerNodeUpdateTaskTemplate_reach :: "cell heap \<Rightarrow>
    DockerNodeUpdateTaskTemplate_mem \<Rightarrow> addr set" where
  "DockerNodeUpdateTaskTemplate_reach h x =
    ObjectMeta_reach h (dm_ObjectMeta x) \<union>
    DockerNodeUpdateTaskTemplateSpec_reach h (dm_Spec x)"

definition DockerNodeUpdateTaskTemplateList_value where
  "DockerNodeUpdateTaskTemplateList_value h x =
    (ListMeta_value h (dk_ListMeta x),
     structsValue theDockerTemplates DockerNodeUpdateTaskTemplate_value h (dk_Items x),
     dk_TypeMeta x)"

definition DockerNodeUpdateTaskTemplateList_reach :: "cell heap \<Rightarrow>
    DockerNodeUpdateTaskTemplateList_mem \<Rightarrow> addr set" where
  "DockerNodeUpdateTaskTemplateList_reach h x =
    ListMeta_reach h (dk_ListMeta x) \<union>
    structsReach theDockerTemplates DockerNodeUpdateTaskTemplate_reach h (dk_Items x)"

definition FakeNodeUpdateTaskStatus_value where
  "FakeNodeUpdateTaskStatus_value h x =
    (structsValue theConditions plainValue h (fs_Conditions x),
     fs_State x)"

definition FakeNodeUpdateTaskStatus_reach :: "cell heap \<Rightarrow>
    FakeNodeUpdateTaskStatus_mem \<Rightarrow> addr set" where
  "FakeNodeUpdateTaskStatus_reach h x =
    structsReach theConditions noReach h (fs_Conditions x)"

definition FakeNodeUpdateTask_value where
  "FakeNodeUpdateTask_value h x =
    (ObjectMeta_value h (ft_ObjectMeta x),
     FakeNodeUpdateTaskStatus_value h (ft_Status x),
     ft_TypeMeta x,
     ft_Spec x)"

definition FakeNodeUpdateTask_reach :: "cell heap \<Rightarrow> FakeNodeUpdateTask_mem
    \<Rightarrow> addr set" where
  "FakeNodeUpdateTask_reach h x =
    ObjectMeta_reach h (ft_ObjectMeta x) \<union>
    FakeNodeUpdateTaskStatus_reach h (ft_Status x)"

definition FakeNodeUpdateTaskList_value where
  "FakeNodeUpdateTaskList_value h x =
    (ListMeta_value h (fl_ListMeta x),
     structsValue theFakeTasks FakeNodeUpdateTask_value h (fl_Items x),
     fl_TypeMeta x)"

definition FakeNodeUpdateTaskList_reach :: "cell heap \<Rightarrow> FakeNodeUpdateTaskList_mem
    \<Rightarrow> addr set" where
  "FakeNodeUpdateTaskList_reach h x =
    ListMeta_reach h (fl_ListMeta x) \<union>
    structsReach theFakeTasks FakeNodeUpdateTask_reach h (fl_Items x)"

definition FakeNodeUpdateTaskTemplateResource_value where
  "FakeNodeUpdateTaskTemplateResource_value h x =
    (TemplateMeta_value h (fr_ObjectMeta x),
     fr_Spec x)"

definition FakeNodeUpdateTaskTemplateResource_reach :: "cell heap \<Rightarrow>
    FakeNodeUpdateTaskTemplateResource_mem \<Rightarrow> addr set" where
  "FakeNodeUpdateTaskTemplateResource_reach h x =
    TemplateMeta_reach h (fr_ObjectMeta x)"

definition FakeNodeUpdateTaskTemplateSpec_value where
  "FakeNodeUpdateTaskTemplateSpec_value h x =
    (FakeNodeUpdateTaskTemplateResource_value h (fp_Template x))"

definition FakeNodeUpdateTaskTemplateSpec_reach :: "cell heap \<Rightarrow>
    FakeNodeUpdateTaskTemplateSpec_mem \<Rightarrow> addr set" where
  "FakeNodeUpdateTaskTemplateSpec_reach h x =
    FakeNodeUpdateTaskTemplateResource_reach h (fp_Template x)"

definition FakeNodeUpdateTaskTemplate_value where
  "FakeNodeUpdateTaskTemplate_value h x =
    (ObjectMeta_value h (fm_ObjectMeta x),
     FakeNodeUpdateTaskTemplateSpec_value h (fm_Spec x),
     fm_TypeMeta x)"

definition FakeNodeUpdateTaskTemplate_reach :: "cell heap \<Rightarrow>
    FakeNodeUpdateTaskTemplate_mem \<Rightarrow> addr set" where
  "FakeNodeUpdateTaskTemplate_reach h x =
    ObjectMeta_reach h (fm_ObjectMeta x) \<union>
    FakeNodeUpdateTaskTemplateSpec_reach h (fm_Spec x)"

definition FakeNodeUpdateTaskTemplateList_value where
  "FakeNodeUpdateTaskTemplateList_value h x =
    (ListMeta_value h (fk_ListMeta x),
     structsValue theFakeTemplates FakeNodeUpdateTaskTemplate_value h (fk_Items x),
     fk_TypeMeta x)"

definition FakeNodeUpdateTaskTemplateList_reach :: "cell heap \<Rightarrow>
    FakeNodeUpdateTaskTemplateList_mem \<Rightarrow> addr set" where
  "FakeNodeUpdateTaskTemplateList_reach h x =
    ListMeta_reach h (fk_ListMeta x) \<union>
    structsReach theFakeTemplates FakeNodeUpdateTaskTemplate_reach h (fk_Items x)"

definition ControlPlaneExternalUpdateRequest_value where
  "ControlPlaneExternalUpdateRequest_value h x =
    (CommonRequest_value h (cq_CommonRequest x),
     targetValue h (cq_ClusterRef x),
     targetValue h (cq_ControlPlaneRef x),
     targetValue h (cq_MachinesRequireUpdate x),
     cq_TypeMeta x,
     cq_NewMachine x)"

definition ControlPlaneExternalUpdateRequest_reach :: "cell heap \<Rightarrow>
    ControlPlaneExternalUpdateRequest_mem \<Rightarrow> addr set" where
  "ControlPlaneExternalUpdateRequest_reach h x =
    CommonRequest_reach h (cq_CommonRequest x) \<union>
    targetReach h (cq_ClusterRef x) \<union>
    targetReach h (cq_ControlPlaneRef x) \<union>
    targetReach h (cq_MachinesRequireUpdate x)"

definition MachineDeploymentExternalUpdateRequest_value where
  "MachineDeploymentExternalUpdateRequest_value h x =
    (CommonRequest_value h (mq_CommonRequest x),
     targetValue h (mq_ClusterRef x),
     targetValue h (mq_MachineDeploymentRef x),
     targetValue h (mq_MachinesRequireUpdate x),
     mq_TypeMeta x,
     mq_NewMachine x)"

definition MachineDeploymentExternalUpdateRequest_reach :: "cell heap \<Rightarrow>
    MachineDeploymentExternalUpdateRequest_mem \<Rightarrow> addr set" where
  "MachineDeploymentExternalUpdateRequest_reach h x =
    CommonRequest_reach h (mq_CommonRequest x) \<union>
    targetReach h (mq_ClusterRef x) \<union>
    targetReach h (mq_MachineDeploymentRef x) \<union>
    targetReach h (mq_MachinesRequireUpdate x)"

section \<open>The contract, struct by struct\<close>

text \<open>Structs without pointers are copied by assignment.\<close>

lemma flat_copies [simp]:
  "MachineSpec_DeepCopyInto = return"
  "UpdatePolicyStatus_DeepCopyInto = return"
  "DockerNodeUpdateTaskSpec_DeepCopyInto = return"
  "FakeNodeUpdateTaskSpec_DeepCopyInto = return"
  "ControlPlaneExternalUpdateResponse_DeepCopyInto = return"
  "MachineDeploymentExternalUpdateResponse_DeepCopyInto = return"
  by (rule ext; simp add: MachineSpec_DeepCopyInto_def UpdatePolicyStatus_DeepCopyInto_def
      DockerNodeUpdateTaskSpec_DeepCopyInto_def FakeNodeUpdateTaskSpec_DeepCopyInto_def
      ControlPlaneExternalUpdateResponse_DeepCopyInto_def
      MachineDeploymentExternalUpdateResponse_DeepCopyInto_def)+

lemma NodeUpdateTaskTemplateSpec_copying:
  assumes K: "copylib_laws K"
  shows "deep_copying NodeUpdateTaskTemplateSpec_value NodeUpdateTaskTemplateSpec_reach
      (NodeUpdateTaskTemplateSpec_DeepCopyInto K)"
  by (rule struct_copying [OF both_copying [OF copylib_lawsD(1) [OF K]
    plain_copying],
      where parts = "\<lambda>x. (nt_ObjectMeta x, nt_InfrastructureRef x)"
        and whole = "\<lambda>x (a0, a1). x\<lparr>nt_ObjectMeta := a0, nt_InfrastructureRef :=
            a1\<rparr>"])
    (auto simp: NodeUpdateTaskTemplateSpec_DeepCopyInto_def NodeUpdateTaskTemplateSpec_value_def
        NodeUpdateTaskTemplateSpec_reach_def copy_simps)

lemma UpdateTaskSpec_copying:
  assumes K: "copylib_laws K"
  shows "deep_copying UpdateTaskSpec_value UpdateTaskSpec_reach (UpdateTaskSpec_DeepCopyInto K)"
  by (rule struct_copying [OF both_copying [OF target_copying
    both_copying [OF target_copying
    both_copying [OF target_copying
    both_copying [OF target_copying
    both_copying [OF NodeUpdateTaskTemplateSpec_copying [OF K]
    plain_copying]]]]],
      where parts = "\<lambda>x. (ts_ClusterRef x, ts_ControlPlaneRef x, ts_MachineDeploymentRef
          x, ts_MachinesRequireUpdate x, ts_NodeUpdateTemplate x, ts_NewMachineSpec x,
          ts_TargetPhase x)"
        and whole = "\<lambda>x (a0, a1, a2, a3, a4, a5, a6). x\<lparr>ts_ClusterRef := a0,
            ts_ControlPlaneRef := a1, ts_MachineDeploymentRef := a2, ts_MachinesRequireUpdate :=
            a3, ts_NewMachineSpec := a5, ts_NodeUpdateTemplate := a4, ts_TargetPhase :=
            a6\<rparr>"])
    (auto simp: UpdateTaskSpec_DeepCopyInto_def UpdateTaskSpec_value_def UpdateTaskSpec_reach_def
        copy_simps)

lemma UpdateTaskStatus_copying:
  assumes K: "copylib_laws K"
  shows "deep_copying UpdateTaskStatus_value UpdateTaskStatus_reach
      (UpdateTaskStatus_DeepCopyInto K)"
  by (rule struct_copying [OF both_copying [OF conditions_copying [OF K]
    plain_copying],
      where parts = "\<lambda>x. (tt_Conditions x, tt_State x)"
        and whole = "\<lambda>x (a0, a1). x\<lparr>tt_State := a1, tt_Conditions := a0\<rparr>"])
    (auto simp: UpdateTaskStatus_DeepCopyInto_def UpdateTaskStatus_value_def
        UpdateTaskStatus_reach_def copy_simps)

lemma UpdateTask_copying:
  assumes K: "copylib_laws K"
  shows "deep_copying UpdateTask_value UpdateTask_reach (UpdateTask_DeepCopyInto K)"
  by (rule struct_copying [OF both_copying [OF copylib_lawsD(1) [OF K]
    both_copying [OF UpdateTaskSpec_copying [OF K]
    both_copying [OF UpdateTaskStatus_copying [OF K]
    plain_copying]]],
      where parts = "\<lambda>x. (ta_ObjectMeta x, ta_Spec x, ta_Status x, ta_TypeMeta x)"
        and whole = "\<lambda>x (a0, a1, a2, a3). x\<lparr>ta_TypeMeta := a3, ta_ObjectMeta :=
            a0, ta_Spec := a1, ta_Status := a2\<rparr>"])
    (auto simp: UpdateTask_DeepCopyInto_def UpdateTask_value_def UpdateTask_reach_def copy_simps)

lemma UpdateTaskList_copying:
  assumes K: "copylib_laws K"
  shows "deep_copying UpdateTaskList_value UpdateTaskList_reach (UpdateTaskList_DeepCopyInto K)"
  by (rule struct_copying [OF both_copying [OF copylib_lawsD(2) [OF K]
    both_copying [OF structs_copying [OF UpdateTask_copying [OF K], of theTasks TasksArray]
    plain_copying]],
      where parts = "\<lambda>x. (tl_ListMeta x, tl_Items x, tl_TypeMeta x)"
        and whole = "\<lambda>x (a0, a1, a2). x\<lparr>tl_TypeMeta := a2, tl_ListMeta := a0,
            tl_Items := a1\<rparr>"])
    (auto simp: UpdateTaskList_DeepCopyInto_def UpdateTaskList_value_def UpdateTaskList_reach_def
        copy_simps)

lemma UpdatePolicySpec_copying:
  shows "deep_copying UpdatePolicySpec_value UpdatePolicySpec_reach UpdatePolicySpec_DeepCopyInto"
  by (rule struct_copying [OF target_copying,
      where parts = "\<lambda>x. (ps_NodeUpdateTemplateRef x)"
        and whole = "\<lambda>x a0. x\<lparr>ps_NodeUpdateTemplateRef := a0\<rparr>"])
    (auto simp: UpdatePolicySpec_DeepCopyInto_def UpdatePolicySpec_value_def
        UpdatePolicySpec_reach_def copy_simps)

lemma UpdatePolicy_copying:
  assumes K: "copylib_laws K"
  shows "deep_copying UpdatePolicy_value UpdatePolicy_reach (UpdatePolicy_DeepCopyInto K)"
  by (rule struct_copying [OF both_copying [OF copylib_lawsD(1) [OF K]
    both_copying [OF UpdatePolicySpec_copying
    plain_copying]],
      where parts = "\<lambda>x. (po_ObjectMeta x, po_Spec x, po_TypeMeta x, po_Status x)"
        and whole = "\<lambda>x (a0, a1, a2, a3). x\<lparr>po_TypeMeta := a2, po_ObjectMeta :=
            a0, po_Spec := a1, po_Status := a3\<rparr>"])
    (auto simp: UpdatePolicy_DeepCopyInto_def UpdatePolicy_value_def UpdatePolicy_reach_def
        copy_simps)

lemma UpdatePolicyList_copying:
  assumes K: "copylib_laws K"
  shows "deep_copying UpdatePolicyList_value UpdatePolicyList_reach
      (UpdatePolicyList_DeepCopyInto K)"
  by (rule struct_copying [OF both_copying [OF copylib_lawsD(2) [OF K]
    both_copying [OF structs_copying [OF UpdatePolicy_copying [OF K], of thePolicies
        PoliciesArray]
    plain_copying]],
      where parts = "\<lambda>x. (pl_ListMeta x, pl_Items x, pl_TypeMeta x)"
        and whole = "\<lambda>x (a0, a1, a2). x\<lparr>pl_TypeMeta := a2, pl_ListMeta := a0,
            pl_Items := a1\<rparr>"])
    (auto simp: UpdatePolicyList_DeepCopyInto_def UpdatePolicyList_value_def
        UpdatePolicyList_reach_def copy_simps)

lemma DockerNodeUpdateTaskStatus_copying:
  assumes K: "copylib_laws K"
  shows "deep_copying DockerNodeUpdateTaskStatus_value DockerNodeUpdateTaskStatus_reach
      (DockerNodeUpdateTaskStatus_DeepCopyInto K)"
  by (rule struct_copying [OF both_copying [OF conditions_copying [OF K]
    plain_copying],
      where parts = "\<lambda>x. (ds_Conditions x, ds_State x)"
        and whole = "\<lambda>x (a0, a1). x\<lparr>ds_State := a1, ds_Conditions := a0\<rparr>"])
    (auto simp: DockerNodeUpdateTaskStatus_DeepCopyInto_def DockerNodeUpdateTaskStatus_value_def
        DockerNodeUpdateTaskStatus_reach_def copy_simps)

lemma DockerNodeUpdateTask_copying:
  assumes K: "copylib_laws K"
  shows "deep_copying DockerNodeUpdateTask_value DockerNodeUpdateTask_reach
      (DockerNodeUpdateTask_DeepCopyInto K)"
  by (rule struct_copying [OF both_copying [OF copylib_lawsD(1) [OF K]
    both_copying [OF DockerNodeUpdateTaskStatus_copying [OF K]
    plain_copying]],
      where parts = "\<lambda>x. (dt_ObjectMeta x, dt_Status x, dt_TypeMeta x, dt_Spec x)"
        and whole = "\<lambda>x (a0, a1, a2, a3). x\<lparr>dt_TypeMeta := a2, dt_ObjectMeta :=
            a0, dt_Spec := a3, dt_Status := a1\<rparr>"])
    (auto simp: DockerNodeUpdateTask_DeepCopyInto_def DockerNodeUpdateTask_value_def
        DockerNodeUpdateTask_reach_def copy_simps)

lemma DockerNodeUpdateTaskList_copying:
  assumes K: "copylib_laws K"
  shows "deep_copying DockerNodeUpdateTaskList_value DockerNodeUpdateTaskList_reach
      (DockerNodeUpdateTaskList_DeepCopyInto K)"
  by (rule struct_copying [OF both_copying [OF copylib_lawsD(2) [OF K]
    both_copying [OF structs_copying [OF DockerNodeUpdateTask_copying [OF K], of theDockerTasks
        DockerTasksArray]
    plain_copying]],
      where parts = "\<lambda>x. (dl_ListMeta x, dl_Items x, dl_TypeMeta x)"
        and whole = "\<lambda>x (a0, a1, a2). x\<lparr>dl_TypeMeta := a2, dl_ListMeta := a0,
            dl_Items := a1\<rparr>"])
    (auto simp: DockerNodeUpdateTaskList_DeepCopyInto_def DockerNodeUpdateTaskList_value_def
        DockerNodeUpdateTaskList_reach_def copy_simps)

lemma DockerNodeUpdateTaskTemplateResource_copying:
  assumes K: "copylib_laws K"
  shows "deep_copying DockerNodeUpdateTaskTemplateResource_value
      DockerNodeUpdateTaskTemplateResource_reach
      (DockerNodeUpdateTaskTemplateResource_DeepCopyInto K)"
  by (rule struct_copying [OF both_copying [OF copylib_lawsD(3) [OF K]
    plain_copying],
      where parts = "\<lambda>x. (dr_ObjectMeta x, dr_Spec x)"
        and whole = "\<lambda>x (a0, a1). x\<lparr>dr_ObjectMeta := a0, dr_Spec := a1\<rparr>"])
    (auto simp: DockerNodeUpdateTaskTemplateResource_DeepCopyInto_def
        DockerNodeUpdateTaskTemplateResource_value_def
        DockerNodeUpdateTaskTemplateResource_reach_def copy_simps)

lemma DockerNodeUpdateTaskTemplateSpec_copying:
  assumes K: "copylib_laws K"
  shows "deep_copying DockerNodeUpdateTaskTemplateSpec_value
      DockerNodeUpdateTaskTemplateSpec_reach (DockerNodeUpdateTaskTemplateSpec_DeepCopyInto K)"
  by (rule struct_copying [OF DockerNodeUpdateTaskTemplateResource_copying [OF K],
      where parts = "\<lambda>x. (dp_Template x)"
        and whole = "\<lambda>x a0. x\<lparr>dp_Template := a0\<rparr>"])
    (auto simp: DockerNodeUpdateTaskTemplateSpec_DeepCopyInto_def
        DockerNodeUpdateTaskTemplateSpec_value_def DockerNodeUpdateTaskTemplateSpec_reach_def
        copy_simps)

lemma DockerNodeUpdateTaskTemplate_copying:
  assumes K: "copylib_laws K"
  shows "deep_copying DockerNodeUpdateTaskTemplate_value DockerNodeUpdateTaskTemplate_reach
      (DockerNodeUpdateTaskTemplate_DeepCopyInto K)"
  by (rule struct_copying [OF both_copying [OF copylib_lawsD(1) [OF K]
    both_copying [OF DockerNodeUpdateTaskTemplateSpec_copying [OF K]
    plain_copying]],
      where parts = "\<lambda>x. (dm_ObjectMeta x, dm_Spec x, dm_TypeMeta x)"
        and whole = "\<lambda>x (a0, a1, a2). x\<lparr>dm_TypeMeta := a2, dm_ObjectMeta := a0,
            dm_Spec := a1\<rparr>"])
    (auto simp: DockerNodeUpdateTaskTemplate_DeepCopyInto_def
        DockerNodeUpdateTaskTemplate_value_def DockerNodeUpdateTaskTemplate_reach_def copy_simps)

lemma DockerNodeUpdateTaskTemplateList_copying:
  assumes K: "copylib_laws K"
  shows "deep_copying DockerNodeUpdateTaskTemplateList_value
      DockerNodeUpdateTaskTemplateList_reach (DockerNodeUpdateTaskTemplateList_DeepCopyInto K)"
  by (rule struct_copying [OF both_copying [OF copylib_lawsD(2) [OF K]
    both_copying [OF structs_copying [OF DockerNodeUpdateTaskTemplate_copying [OF K], of
        theDockerTemplates DockerTemplatesArray]
    plain_copying]],
      where parts = "\<lambda>x. (dk_ListMeta x, dk_Items x, dk_TypeMeta x)"
        and whole = "\<lambda>x (a0, a1, a2). x\<lparr>dk_TypeMeta := a2, dk_ListMeta := a0,
            dk_Items := a1\<rparr>"])
    (auto simp: DockerNodeUpdateTaskTemplateList_DeepCopyInto_def
        DockerNodeUpdateTaskTemplateList_value_def DockerNodeUpdateTaskTemplateList_reach_def
        copy_simps)

lemma FakeNodeUpdateTaskStatus_copying:
  assumes K: "copylib_laws K"
  shows "deep_copying FakeNodeUpdateTaskStatus_value FakeNodeUpdateTaskStatus_reach
      (FakeNodeUpdateTaskStatus_DeepCopyInto K)"
  by (rule struct_copying [OF both_copying [OF conditions_copying [OF K]
    plain_copying],
      where parts = "\<lambda>x. (fs_Conditions x, fs_State x)"
        and whole = "\<lambda>x (a0, a1). x\<lparr>fs_State := a1, fs_Conditions := a0\<rparr>"])
    (auto simp: FakeNodeUpdateTaskStatus_DeepCopyInto_def FakeNodeUpdateTaskStatus_value_def
        FakeNodeUpdateTaskStatus_reach_def copy_simps)

lemma FakeNodeUpdateTask_copying:
  assumes K: "copylib_laws K"
  shows "deep_copying FakeNodeUpdateTask_value FakeNodeUpdateTask_reach
      (FakeNodeUpdateTask_DeepCopyInto K)"
  by (rule struct_copying [OF both_copying [OF copylib_lawsD(1) [OF K]
    both_copying [OF FakeNodeUpdateTaskStatus_copying [OF K]
    plain_copying]],
      where parts = "\<lambda>x. (ft_ObjectMeta x, ft_Status x, ft_TypeMeta x, ft_Spec x)"
        and whole = "\<lambda>x (a0, a1, a2, a3). x\<lparr>ft_TypeMeta := a2, ft_ObjectMeta :=
            a0, ft_Spec := a3, ft_Status := a1\<rparr>"])
    (auto simp: FakeNodeUpdateTask_DeepCopyInto_def FakeNodeUpdateTask_value_def
        FakeNodeUpdateTask_reach_def copy_simps)

lemma FakeNodeUpdateTaskList_copying:
  assumes K: "copylib_laws K"
  shows "deep_copying FakeNodeUpdateTaskList_value FakeNodeUpdateTaskList_reach
      (FakeNodeUpdateTaskList_DeepCopyInto K)"
  by (rule struct_copying [OF both_copying [OF copylib_lawsD(2) [OF K]
    both_copying [OF structs_copying [OF FakeNodeUpdateTask_copying [OF K], of theFakeTasks
        FakeTasksArray]
    plain_copying]],
      where parts = "\<lambda>x. (fl_ListMeta x, fl_Items x, fl_TypeMeta x)"
        and whole = "\<lambda>x (a0, a1, a2). x\<lparr>fl_TypeMeta := a2, fl_ListMeta := a0,
            fl_Items := a1\<rparr>"])
    (auto simp: FakeNodeUpdateTaskList_DeepCopyInto_def FakeNodeUpdateTaskList_value_def
        FakeNodeUpdateTaskList_reach_def copy_simps)

lemma FakeNodeUpdateTaskTemplateResource_copying:
  assumes K: "copylib_laws K"
  shows "deep_copying FakeNodeUpdateTaskTemplateResource_value
      FakeNodeUpdateTaskTemplateResource_reach (FakeNodeUpdateTaskTemplateResource_DeepCopyInto
      K)"
  by (rule struct_copying [OF both_copying [OF copylib_lawsD(3) [OF K]
    plain_copying],
      where parts = "\<lambda>x. (fr_ObjectMeta x, fr_Spec x)"
        and whole = "\<lambda>x (a0, a1). x\<lparr>fr_ObjectMeta := a0, fr_Spec := a1\<rparr>"])
    (auto simp: FakeNodeUpdateTaskTemplateResource_DeepCopyInto_def
        FakeNodeUpdateTaskTemplateResource_value_def FakeNodeUpdateTaskTemplateResource_reach_def
        copy_simps)

lemma FakeNodeUpdateTaskTemplateSpec_copying:
  assumes K: "copylib_laws K"
  shows "deep_copying FakeNodeUpdateTaskTemplateSpec_value FakeNodeUpdateTaskTemplateSpec_reach
      (FakeNodeUpdateTaskTemplateSpec_DeepCopyInto K)"
  by (rule struct_copying [OF FakeNodeUpdateTaskTemplateResource_copying [OF K],
      where parts = "\<lambda>x. (fp_Template x)"
        and whole = "\<lambda>x a0. x\<lparr>fp_Template := a0\<rparr>"])
    (auto simp: FakeNodeUpdateTaskTemplateSpec_DeepCopyInto_def
        FakeNodeUpdateTaskTemplateSpec_value_def FakeNodeUpdateTaskTemplateSpec_reach_def
        copy_simps)

lemma FakeNodeUpdateTaskTemplate_copying:
  assumes K: "copylib_laws K"
  shows "deep_copying FakeNodeUpdateTaskTemplate_value FakeNodeUpdateTaskTemplate_reach
      (FakeNodeUpdateTaskTemplate_DeepCopyInto K)"
  by (rule struct_copying [OF both_copying [OF copylib_lawsD(1) [OF K]
    both_copying [OF FakeNodeUpdateTaskTemplateSpec_copying [OF K]
    plain_copying]],
      where parts = "\<lambda>x. (fm_ObjectMeta x, fm_Spec x, fm_TypeMeta x)"
        and whole = "\<lambda>x (a0, a1, a2). x\<lparr>fm_TypeMeta := a2, fm_ObjectMeta := a0,
            fm_Spec := a1\<rparr>"])
    (auto simp: FakeNodeUpdateTaskTemplate_DeepCopyInto_def FakeNodeUpdateTaskTemplate_value_def
        FakeNodeUpdateTaskTemplate_reach_def copy_simps)

lemma FakeNodeUpdateTaskTemplateList_copying:
  assumes K: "copylib_laws K"
  shows "deep_copying FakeNodeUpdateTaskTemplateList_value FakeNodeUpdateTaskTemplateList_reach
      (FakeNodeUpdateTaskTemplateList_DeepCopyInto K)"
  by (rule struct_copying [OF both_copying [OF copylib_lawsD(2) [OF K]
    both_copying [OF structs_copying [OF FakeNodeUpdateTaskTemplate_copying [OF K], of
        theFakeTemplates FakeTemplatesArray]
    plain_copying]],
      where parts = "\<lambda>x. (fk_ListMeta x, fk_Items x, fk_TypeMeta x)"
        and whole = "\<lambda>x (a0, a1, a2). x\<lparr>fk_TypeMeta := a2, fk_ListMeta := a0,
            fk_Items := a1\<rparr>"])
    (auto simp: FakeNodeUpdateTaskTemplateList_DeepCopyInto_def
        FakeNodeUpdateTaskTemplateList_value_def FakeNodeUpdateTaskTemplateList_reach_def
        copy_simps)

lemma ControlPlaneExternalUpdateRequest_copying:
  assumes K: "copylib_laws K"
  shows "deep_copying ControlPlaneExternalUpdateRequest_value
      ControlPlaneExternalUpdateRequest_reach (ControlPlaneExternalUpdateRequest_DeepCopyInto K)"
  by (rule struct_copying [OF both_copying [OF copylib_lawsD(4) [OF K]
    both_copying [OF target_copying
    both_copying [OF target_copying
    both_copying [OF target_copying
    plain_copying]]]],
      where parts = "\<lambda>x. (cq_CommonRequest x, cq_ClusterRef x, cq_ControlPlaneRef x,
          cq_MachinesRequireUpdate x, cq_TypeMeta x, cq_NewMachine x)"
        and whole = "\<lambda>x (a0, a1, a2, a3, a4, a5). x\<lparr>cq_TypeMeta := a4,
            cq_CommonRequest := a0, cq_ClusterRef := a1, cq_ControlPlaneRef := a2,
            cq_MachinesRequireUpdate := a3, cq_NewMachine := a5\<rparr>"])
    (auto simp: ControlPlaneExternalUpdateRequest_DeepCopyInto_def
        ControlPlaneExternalUpdateRequest_value_def ControlPlaneExternalUpdateRequest_reach_def
        copy_simps)

lemma MachineDeploymentExternalUpdateRequest_copying:
  assumes K: "copylib_laws K"
  shows "deep_copying MachineDeploymentExternalUpdateRequest_value
      MachineDeploymentExternalUpdateRequest_reach
      (MachineDeploymentExternalUpdateRequest_DeepCopyInto K)"
  by (rule struct_copying [OF both_copying [OF copylib_lawsD(4) [OF K]
    both_copying [OF target_copying
    both_copying [OF target_copying
    both_copying [OF target_copying
    plain_copying]]]],
      where parts = "\<lambda>x. (mq_CommonRequest x, mq_ClusterRef x, mq_MachineDeploymentRef x,
          mq_MachinesRequireUpdate x, mq_TypeMeta x, mq_NewMachine x)"
        and whole = "\<lambda>x (a0, a1, a2, a3, a4, a5). x\<lparr>mq_TypeMeta := a4,
            mq_CommonRequest := a0, mq_ClusterRef := a1, mq_MachineDeploymentRef := a2,
            mq_MachinesRequireUpdate := a3, mq_NewMachine := a5\<rparr>"])
    (auto simp: MachineDeploymentExternalUpdateRequest_DeepCopyInto_def
        MachineDeploymentExternalUpdateRequest_value_def
        MachineDeploymentExternalUpdateRequest_reach_def copy_simps)

end
