(* ===== verification/Deep_Copy_Objects.thy ===== *)
theory Deep_Copy_Objects
  imports Deep_Copy_Laws
begin

text \<open>
  \<open>DeepCopyObject\<close> on any object of the API group: what a client, a cache or a queue of
  controller-runtime calls before it hands an object out. Equality of value, isolation from the
  original and the absence of typed nil pointers.
\<close>

section \<open>Objects as values\<close>

fun isNil :: "runtime_Object \<Rightarrow> bool" where
  "isNil (UpdateTaskObject p) = (p = None)"
| "isNil (UpdateTaskListObject p) = (p = None)"
| "isNil (UpdatePolicyObject p) = (p = None)"
| "isNil (UpdatePolicyListObject p) = (p = None)"
| "isNil (DockerNodeUpdateTaskObject p) = (p = None)"
| "isNil (DockerNodeUpdateTaskListObject p) = (p = None)"
| "isNil (DockerNodeUpdateTaskTemplateObject p) = (p = None)"
| "isNil (DockerNodeUpdateTaskTemplateListObject p) = (p = None)"
| "isNil (FakeNodeUpdateTaskObject p) = (p = None)"
| "isNil (FakeNodeUpdateTaskListObject p) = (p = None)"
| "isNil (FakeNodeUpdateTaskTemplateObject p) = (p = None)"
| "isNil (FakeNodeUpdateTaskTemplateListObject p) = (p = None)"

text \<open>The kind of an object is the name of its Go type.\<close>

fun objectKind :: "runtime_Object \<Rightarrow> string" where
  "objectKind (UpdateTaskObject _) = ''UpdateTask''"
| "objectKind (UpdateTaskListObject _) = ''UpdateTaskList''"
| "objectKind (UpdatePolicyObject _) = ''UpdatePolicy''"
| "objectKind (UpdatePolicyListObject _) = ''UpdatePolicyList''"
| "objectKind (DockerNodeUpdateTaskObject _) = ''DockerNodeUpdateTask''"
| "objectKind (DockerNodeUpdateTaskListObject _) = ''DockerNodeUpdateTaskList''"
| "objectKind (DockerNodeUpdateTaskTemplateObject _) = ''DockerNodeUpdateTaskTemplate''"
| "objectKind (DockerNodeUpdateTaskTemplateListObject _) = ''DockerNodeUpdateTaskTemplateList''"
| "objectKind (FakeNodeUpdateTaskObject _) = ''FakeNodeUpdateTask''"
| "objectKind (FakeNodeUpdateTaskListObject _) = ''FakeNodeUpdateTaskList''"
| "objectKind (FakeNodeUpdateTaskTemplateObject _) = ''FakeNodeUpdateTaskTemplate''"
| "objectKind (FakeNodeUpdateTaskTemplateListObject _) = ''FakeNodeUpdateTaskTemplateList''"

text \<open>The storage an object reaches.\<close>

fun objectReach :: "cell heap \<Rightarrow> runtime_Object \<Rightarrow> addr set" where
  "objectReach h (UpdateTaskObject p) = pointerReach UpdateTask_reach h p"
| "objectReach h (UpdateTaskListObject p) = pointerReach UpdateTaskList_reach h p"
| "objectReach h (UpdatePolicyObject p) = pointerReach UpdatePolicy_reach h p"
| "objectReach h (UpdatePolicyListObject p) = pointerReach UpdatePolicyList_reach h p"
| "objectReach h (DockerNodeUpdateTaskObject p) = pointerReach DockerNodeUpdateTask_reach h p"
| "objectReach h (DockerNodeUpdateTaskListObject p) = pointerReach DockerNodeUpdateTaskList_reach h p"
| "objectReach h (DockerNodeUpdateTaskTemplateObject p) = pointerReach DockerNodeUpdateTaskTemplate_reach h p"
| "objectReach h (DockerNodeUpdateTaskTemplateListObject p) = pointerReach DockerNodeUpdateTaskTemplateList_reach h p"
| "objectReach h (FakeNodeUpdateTaskObject p) = pointerReach FakeNodeUpdateTask_reach h p"
| "objectReach h (FakeNodeUpdateTaskListObject p) = pointerReach FakeNodeUpdateTaskList_reach h p"
| "objectReach h (FakeNodeUpdateTaskTemplateObject p) = pointerReach FakeNodeUpdateTaskTemplate_reach h p"
| "objectReach h (FakeNodeUpdateTaskTemplateListObject p) = pointerReach FakeNodeUpdateTaskTemplateList_reach h p"

text \<open>Two objects, each read in its heap, have the same type and the same value.\<close>

definition sameObject :: "cell heap \<Rightarrow> runtime_Object \<Rightarrow> cell heap \<Rightarrow> runtime_Object \<Rightarrow> bool" where
  "sameObject h o1 h' o2 = (case o1 of
     UpdateTaskObject p \<Rightarrow> (case o2 of UpdateTaskObject q \<Rightarrow>
       pointerValue UpdateTask_value h p = pointerValue UpdateTask_value h' q | _ \<Rightarrow> False)
   | UpdateTaskListObject p \<Rightarrow> (case o2 of UpdateTaskListObject q \<Rightarrow>
       pointerValue UpdateTaskList_value h p = pointerValue UpdateTaskList_value h' q | _ \<Rightarrow> False)
   | UpdatePolicyObject p \<Rightarrow> (case o2 of UpdatePolicyObject q \<Rightarrow>
       pointerValue UpdatePolicy_value h p = pointerValue UpdatePolicy_value h' q | _ \<Rightarrow> False)
   | UpdatePolicyListObject p \<Rightarrow> (case o2 of UpdatePolicyListObject q \<Rightarrow>
       pointerValue UpdatePolicyList_value h p = pointerValue UpdatePolicyList_value h' q | _ \<Rightarrow> False)
   | DockerNodeUpdateTaskObject p \<Rightarrow> (case o2 of DockerNodeUpdateTaskObject q \<Rightarrow>
       pointerValue DockerNodeUpdateTask_value h p = pointerValue DockerNodeUpdateTask_value h' q | _ \<Rightarrow> False)
   | DockerNodeUpdateTaskListObject p \<Rightarrow> (case o2 of DockerNodeUpdateTaskListObject q \<Rightarrow>
       pointerValue DockerNodeUpdateTaskList_value h p = pointerValue DockerNodeUpdateTaskList_value h' q | _ \<Rightarrow> False)
   | DockerNodeUpdateTaskTemplateObject p \<Rightarrow> (case o2 of DockerNodeUpdateTaskTemplateObject q \<Rightarrow>
       pointerValue DockerNodeUpdateTaskTemplate_value h p = pointerValue DockerNodeUpdateTaskTemplate_value h' q | _ \<Rightarrow> False)
   | DockerNodeUpdateTaskTemplateListObject p \<Rightarrow> (case o2 of DockerNodeUpdateTaskTemplateListObject q \<Rightarrow>
       pointerValue DockerNodeUpdateTaskTemplateList_value h p = pointerValue DockerNodeUpdateTaskTemplateList_value h' q | _ \<Rightarrow> False)
   | FakeNodeUpdateTaskObject p \<Rightarrow> (case o2 of FakeNodeUpdateTaskObject q \<Rightarrow>
       pointerValue FakeNodeUpdateTask_value h p = pointerValue FakeNodeUpdateTask_value h' q | _ \<Rightarrow> False)
   | FakeNodeUpdateTaskListObject p \<Rightarrow> (case o2 of FakeNodeUpdateTaskListObject q \<Rightarrow>
       pointerValue FakeNodeUpdateTaskList_value h p = pointerValue FakeNodeUpdateTaskList_value h' q | _ \<Rightarrow> False)
   | FakeNodeUpdateTaskTemplateObject p \<Rightarrow> (case o2 of FakeNodeUpdateTaskTemplateObject q \<Rightarrow>
       pointerValue FakeNodeUpdateTaskTemplate_value h p = pointerValue FakeNodeUpdateTaskTemplate_value h' q | _ \<Rightarrow> False)
   | FakeNodeUpdateTaskTemplateListObject p \<Rightarrow> (case o2 of FakeNodeUpdateTaskTemplateListObject q \<Rightarrow>
       pointerValue FakeNodeUpdateTaskTemplateList_value h p = pointerValue FakeNodeUpdateTaskTemplateList_value h' q | _ \<Rightarrow> False))"

lemma sameObject_kind: "sameObject h o1 h' o2 \<Longrightarrow> objectKind o2 = objectKind o1"
  by (cases o1; cases o2) (simp_all add: sameObject_def)

lemma sameObject_trans: "sameObject h o1 h' o2 \<Longrightarrow> sameObject h' o2 h'' o3 \<Longrightarrow> sameObject h o1 h'' o3"
  by (cases o1; cases o2; simp add: sameObject_def; cases o3; simp)

section \<open>Copies of objects\<close>

text \<open>One kind of object: its \<open>DeepCopyObject\<close> wraps the pointer copy.\<close>

definition copyKind :: "('x option \<Rightarrow> runtime_Object) \<Rightarrow> ('x \<Rightarrow> (cell heap, 'x) prog) \<Rightarrow>
    'x option \<Rightarrow> (cell heap, runtime_Object option) prog" where
  "copyKind C into p = andThen (deepCopy into p) (\<lambda>c. case c of
     Some _ \<Rightarrow> return (Some (C c)) | None \<Rightarrow> return None)"

lemma copyKind_nil: "copyKind C into None h = (Ret None, h)"
  by (simp add: copyKind_def deepCopy_def prog_simps)

lemma copyKind_some:
  assumes "deep_copying v r into" and "pointerReach r h p \<subseteq> {..<limit h}" and "p \<noteq> None"
  obtains y h' where "copyKind C into p h = (Ret (Some (C (Some y))), h')" and "extends h h'"
    and "pointerValue v h p = pointerValue v h' (Some y)"
    and "pointerReach r h' (Some y) \<subseteq> {limit h..<limit h'}"
proof -
  obtain x where p: "p = Some x" using assms(3) by blast
  obtain q h' where q: "deepCopy into p h = (Ret q, h')" "extends h h'"
      "pointerValue v h' q = pointerValue v h p" "pointerReach r h' q \<subseteq> {limit h..<limit h'}"
    using deep_copying.copies [OF pointer_copying [OF assms(1)] assms(2)] by metis
  from q(3) p obtain y where "q = Some y" by (cases q) (simp_all add: pointerValue_def)
  with q that show ?thesis by (simp add: copyKind_def prog_simps)
qed

lemma copyKinds:
  "UpdateTask_DeepCopyObject K = copyKind UpdateTaskObject (UpdateTask_DeepCopyInto K)"
  "UpdateTaskList_DeepCopyObject K = copyKind UpdateTaskListObject (UpdateTaskList_DeepCopyInto K)"
  "UpdatePolicy_DeepCopyObject K = copyKind UpdatePolicyObject (UpdatePolicy_DeepCopyInto K)"
  "UpdatePolicyList_DeepCopyObject K = copyKind UpdatePolicyListObject (UpdatePolicyList_DeepCopyInto K)"
  "DockerNodeUpdateTask_DeepCopyObject K = copyKind DockerNodeUpdateTaskObject (DockerNodeUpdateTask_DeepCopyInto K)"
  "DockerNodeUpdateTaskList_DeepCopyObject K = copyKind DockerNodeUpdateTaskListObject (DockerNodeUpdateTaskList_DeepCopyInto K)"
  "DockerNodeUpdateTaskTemplate_DeepCopyObject K = copyKind DockerNodeUpdateTaskTemplateObject (DockerNodeUpdateTaskTemplate_DeepCopyInto K)"
  "DockerNodeUpdateTaskTemplateList_DeepCopyObject K = copyKind DockerNodeUpdateTaskTemplateListObject (DockerNodeUpdateTaskTemplateList_DeepCopyInto K)"
  "FakeNodeUpdateTask_DeepCopyObject K = copyKind FakeNodeUpdateTaskObject (FakeNodeUpdateTask_DeepCopyInto K)"
  "FakeNodeUpdateTaskList_DeepCopyObject K = copyKind FakeNodeUpdateTaskListObject (FakeNodeUpdateTaskList_DeepCopyInto K)"
  "FakeNodeUpdateTaskTemplate_DeepCopyObject K = copyKind FakeNodeUpdateTaskTemplateObject (FakeNodeUpdateTaskTemplate_DeepCopyInto K)"
  "FakeNodeUpdateTaskTemplateList_DeepCopyObject K = copyKind FakeNodeUpdateTaskTemplateListObject (FakeNodeUpdateTaskTemplateList_DeepCopyInto K)"
  by (rule ext; simp add: copyKind_def
    UpdateTask_DeepCopyObject_def UpdateTask_DeepCopy_def
    UpdateTaskList_DeepCopyObject_def UpdateTaskList_DeepCopy_def
    UpdatePolicy_DeepCopyObject_def UpdatePolicy_DeepCopy_def
    UpdatePolicyList_DeepCopyObject_def UpdatePolicyList_DeepCopy_def
    DockerNodeUpdateTask_DeepCopyObject_def DockerNodeUpdateTask_DeepCopy_def
    DockerNodeUpdateTaskList_DeepCopyObject_def DockerNodeUpdateTaskList_DeepCopy_def
    DockerNodeUpdateTaskTemplate_DeepCopyObject_def DockerNodeUpdateTaskTemplate_DeepCopy_def
    DockerNodeUpdateTaskTemplateList_DeepCopyObject_def DockerNodeUpdateTaskTemplateList_DeepCopy_def
    FakeNodeUpdateTask_DeepCopyObject_def FakeNodeUpdateTask_DeepCopy_def
    FakeNodeUpdateTaskList_DeepCopyObject_def FakeNodeUpdateTaskList_DeepCopy_def
    FakeNodeUpdateTaskTemplate_DeepCopyObject_def FakeNodeUpdateTaskTemplate_DeepCopy_def
    FakeNodeUpdateTaskTemplateList_DeepCopyObject_def FakeNodeUpdateTaskTemplateList_DeepCopy_def)+

text \<open>
  What makes a Go type an object of the API group, in terms of the functions above: the contract
  every kind offers to the callers of \<open>runtime.Object\<close>.
\<close>

locale object_kind =
  fixes C :: "'x option \<Rightarrow> runtime_Object"
    and v :: "cell heap \<Rightarrow> 'x \<Rightarrow> 'v"
    and r :: "cell heap \<Rightarrow> 'x \<Rightarrow> addr set"
    and into :: "copylib \<Rightarrow> 'x \<Rightarrow> (cell heap, 'x) prog"
  assumes copying: "copylib_laws K \<Longrightarrow> deep_copying v r (into K)"
    and dispatch: "DeepCopyObject K (C p) = copyKind C (into K) p"
    and reach: "objectReach h (C p) = pointerReach r h p"
    and same: "sameObject h (C p) h' (C q) \<longleftrightarrow> pointerValue v h p = pointerValue v h' q"
    and nil: "isNil (C p) \<longleftrightarrow> p = None"
    and kind: "objectKind (C p) = objectKind (C q)"
begin

lemma copies:
  assumes K: "copylib_laws K" and "objectReach h (C p) \<subseteq> {..<limit h}" and "\<not> isNil (C p)"
  shows "\<exists>c h'. DeepCopyObject K (C p) h = (Ret (Some c), h') \<and> \<not> isNil c \<and> extends h h' \<and>
    sameObject h (C p) h' c \<and> objectReach h' c \<subseteq> {limit h..<limit h'}"
proof -
  have "pointerReach r h p \<subseteq> {..<limit h}" "p \<noteq> None"
    using assms(2,3) by (simp_all add: reach nil)
  then obtain y h' where y: "copyKind C (into K) p h = (Ret (Some (C (Some y))), h')" "extends h h'"
      "pointerValue v h p = pointerValue v h' (Some y)"
      "pointerReach r h' (Some y) \<subseteq> {limit h..<limit h'}"
    using copyKind_some [OF copying [OF K]] by metis
  then show ?thesis
    by (intro exI [of _ "C (Some y)"] exI [of _ h']) (simp add: dispatch reach same nil)
qed

lemma reads:
  assumes "copylib_laws K" and "\<And>a. a \<in> objectReach h (C p) \<Longrightarrow> store h' a = store h a"
  shows "sameObject h (C p) h' (C p) \<and> objectReach h' (C p) = objectReach h (C p)"
  using deep_copying.reads_value [OF pointer_copying [OF copying [OF assms(1)]], of h p h']
    deep_copying.reads_reach [OF pointer_copying [OF copying [OF assms(1)]], of h p h'] assms(2)
  by (simp add: reach same)

lemma keeps_kind:
  assumes "DeepCopyObject K (C p) h = (Ret res, h')"
  shows "(case res of None \<Rightarrow> isNil (C p) \<and> h' = h
    | Some c \<Rightarrow> \<not> isNil (C p) \<and> \<not> isNil c \<and> objectKind c = objectKind (C p))"
  using assms by (cases p)
    (auto simp: dispatch copyKind_def deepCopy_def prog_simps nil intro: kind
      split: prod.splits outcome.splits)

end

interpretation updateTask: object_kind UpdateTaskObject UpdateTask_value UpdateTask_reach UpdateTask_DeepCopyInto
  by (rule object_kind.intro)
    (simp_all add: UpdateTask_copying DeepCopyObject_def copyKinds sameObject_def)

interpretation updateTaskList: object_kind UpdateTaskListObject UpdateTaskList_value UpdateTaskList_reach UpdateTaskList_DeepCopyInto
  by (rule object_kind.intro)
    (simp_all add: UpdateTaskList_copying DeepCopyObject_def copyKinds sameObject_def)

interpretation updatePolicy: object_kind UpdatePolicyObject UpdatePolicy_value UpdatePolicy_reach UpdatePolicy_DeepCopyInto
  by (rule object_kind.intro)
    (simp_all add: UpdatePolicy_copying DeepCopyObject_def copyKinds sameObject_def)

interpretation updatePolicyList: object_kind UpdatePolicyListObject UpdatePolicyList_value UpdatePolicyList_reach UpdatePolicyList_DeepCopyInto
  by (rule object_kind.intro)
    (simp_all add: UpdatePolicyList_copying DeepCopyObject_def copyKinds sameObject_def)

interpretation dockerNodeUpdateTask: object_kind DockerNodeUpdateTaskObject DockerNodeUpdateTask_value DockerNodeUpdateTask_reach DockerNodeUpdateTask_DeepCopyInto
  by (rule object_kind.intro)
    (simp_all add: DockerNodeUpdateTask_copying DeepCopyObject_def copyKinds sameObject_def)

interpretation dockerNodeUpdateTaskList: object_kind DockerNodeUpdateTaskListObject DockerNodeUpdateTaskList_value DockerNodeUpdateTaskList_reach DockerNodeUpdateTaskList_DeepCopyInto
  by (rule object_kind.intro)
    (simp_all add: DockerNodeUpdateTaskList_copying DeepCopyObject_def copyKinds sameObject_def)

interpretation dockerNodeUpdateTaskTemplate: object_kind DockerNodeUpdateTaskTemplateObject DockerNodeUpdateTaskTemplate_value DockerNodeUpdateTaskTemplate_reach DockerNodeUpdateTaskTemplate_DeepCopyInto
  by (rule object_kind.intro)
    (simp_all add: DockerNodeUpdateTaskTemplate_copying DeepCopyObject_def copyKinds sameObject_def)

interpretation dockerNodeUpdateTaskTemplateList: object_kind DockerNodeUpdateTaskTemplateListObject DockerNodeUpdateTaskTemplateList_value DockerNodeUpdateTaskTemplateList_reach DockerNodeUpdateTaskTemplateList_DeepCopyInto
  by (rule object_kind.intro)
    (simp_all add: DockerNodeUpdateTaskTemplateList_copying DeepCopyObject_def copyKinds sameObject_def)

interpretation fakeNodeUpdateTask: object_kind FakeNodeUpdateTaskObject FakeNodeUpdateTask_value FakeNodeUpdateTask_reach FakeNodeUpdateTask_DeepCopyInto
  by (rule object_kind.intro)
    (simp_all add: FakeNodeUpdateTask_copying DeepCopyObject_def copyKinds sameObject_def)

interpretation fakeNodeUpdateTaskList: object_kind FakeNodeUpdateTaskListObject FakeNodeUpdateTaskList_value FakeNodeUpdateTaskList_reach FakeNodeUpdateTaskList_DeepCopyInto
  by (rule object_kind.intro)
    (simp_all add: FakeNodeUpdateTaskList_copying DeepCopyObject_def copyKinds sameObject_def)

interpretation fakeNodeUpdateTaskTemplate: object_kind FakeNodeUpdateTaskTemplateObject FakeNodeUpdateTaskTemplate_value FakeNodeUpdateTaskTemplate_reach FakeNodeUpdateTaskTemplate_DeepCopyInto
  by (rule object_kind.intro)
    (simp_all add: FakeNodeUpdateTaskTemplate_copying DeepCopyObject_def copyKinds sameObject_def)

interpretation fakeNodeUpdateTaskTemplateList: object_kind FakeNodeUpdateTaskTemplateListObject FakeNodeUpdateTaskTemplateList_value FakeNodeUpdateTaskTemplateList_reach FakeNodeUpdateTaskTemplateList_DeepCopyInto
  by (rule object_kind.intro)
    (simp_all add: FakeNodeUpdateTaskTemplateList_copying DeepCopyObject_def copyKinds sameObject_def)

lemmas object_copies =
  updateTask.copies
  updateTaskList.copies
  updatePolicy.copies
  updatePolicyList.copies
  dockerNodeUpdateTask.copies
  dockerNodeUpdateTaskList.copies
  dockerNodeUpdateTaskTemplate.copies
  dockerNodeUpdateTaskTemplateList.copies
  fakeNodeUpdateTask.copies
  fakeNodeUpdateTaskList.copies
  fakeNodeUpdateTaskTemplate.copies
  fakeNodeUpdateTaskTemplateList.copies

lemmas object_reads =
  updateTask.reads
  updateTaskList.reads
  updatePolicy.reads
  updatePolicyList.reads
  dockerNodeUpdateTask.reads
  dockerNodeUpdateTaskList.reads
  dockerNodeUpdateTaskTemplate.reads
  dockerNodeUpdateTaskTemplateList.reads
  fakeNodeUpdateTask.reads
  fakeNodeUpdateTaskList.reads
  fakeNodeUpdateTaskTemplate.reads
  fakeNodeUpdateTaskTemplateList.reads

lemmas object_keeps_kind =
  updateTask.keeps_kind
  updateTaskList.keeps_kind
  updatePolicy.keeps_kind
  updatePolicyList.keeps_kind
  dockerNodeUpdateTask.keeps_kind
  dockerNodeUpdateTaskList.keeps_kind
  dockerNodeUpdateTaskTemplate.keeps_kind
  dockerNodeUpdateTaskTemplateList.keeps_kind
  fakeNodeUpdateTask.keeps_kind
  fakeNodeUpdateTaskList.keeps_kind
  fakeNodeUpdateTaskTemplate.keeps_kind
  fakeNodeUpdateTaskTemplateList.keeps_kind

lemma DeepCopyObject_copies:
  assumes "copylib_laws K" and "objectReach h obj \<subseteq> {..<limit h}" and "\<not> isNil obj"
  shows "\<exists>c h'. DeepCopyObject K obj h = (Ret (Some c), h') \<and> \<not> isNil c \<and> extends h h' \<and>
    sameObject h obj h' c \<and> objectReach h' c \<subseteq> {limit h..<limit h'}"
  using assms by (cases obj) (simp only:, rule object_copies; simp)+

lemma DeepCopyObject_reads:
  assumes "copylib_laws K" and "\<And>a. a \<in> objectReach h obj \<Longrightarrow> store h' a = store h a"
  shows "sameObject h obj h' obj \<and> objectReach h' obj = objectReach h obj"
  using assms by (cases obj) (simp only:, rule object_reads; simp)+

end
