(* ===== verification/Memory_Sharing.thy ===== *)
theory Memory_Sharing
  imports Deep_Copy_Objects Node_Update
begin

text \<open>
  What deep copies are for: an object handed out by \<open>DeepCopyObject\<close> shares no storage with the
  original, so that a reconciliation may write to its update task. One such write is in
  \<open>CreateNodeUpdateTask\<close>, which puts two entries into the label map of the task's template; here it
  is run on the heap and compared with its model on values (\<^const>\<open>shareLabels\<close>).
\<close>

section \<open>Objects handed out as copies\<close>

text \<open>
  C19. A deep copy of any object of the API group returns, has the type and the value of the
  original, and shares no storage with it: whatever is later written to the storage of the copy, the
  original reads as before, and whatever is written to the storage of the original, the copy reads
  as the original did.
\<close>

theorem deep_copy_isolated:
  assumes "copylib_laws K" and "objectReach h x \<subseteq> {..<limit h}" and "\<not> isNil x"
  shows "\<exists>c h'. DeepCopyObject K x h = (Ret (Some c), h') \<and> sameObject h x h' c \<and>
    (\<forall>h''. (\<forall>a. a \<notin> objectReach h' c \<longrightarrow> store h'' a = store h' a) \<longrightarrow> sameObject h x h'' x) \<and>
    (\<forall>h''. (\<forall>a. a \<notin> objectReach h x \<longrightarrow> store h'' a = store h' a) \<longrightarrow> sameObject h x h'' c)"
proof -
  obtain c h' where c: "DeepCopyObject K x h = (Ret (Some c), h')" "extends h h'"
      "sameObject h x h' c" "objectReach h' c \<subseteq> {limit h..<limit h'}"
    using DeepCopyObject_copies [OF assms] by blast
  have apart: "a \<notin> objectReach h' c \<or> a \<notin> objectReach h x" for a
    using c(4) assms(2) by fastforce
  have "sameObject h x h'' x"
    if "\<forall>a. a \<notin> objectReach h' c \<longrightarrow> store h'' a = store h' a" for h''
    using DeepCopyObject_reads [OF assms(1), of h x h''] that apart assms(2) c(2)
    by (force simp: extends_def)
  moreover have "sameObject h x h'' c"
    if "\<forall>a. a \<notin> objectReach h x \<longrightarrow> store h'' a = store h' a" for h''
    using DeepCopyObject_reads [OF assms(1), of h' c h''] that apart sameObject_trans [OF c(3)] by blast
  ultimately show ?thesis using c by blast
qed

text \<open>
  C40. \<open>DeepCopyObject\<close> keeps the dynamic type: the copy of an object has the object's kind and is
  no nil pointer, and the copy of a nil pointer is the nil interface, never a typed nil that would
  compare unequal to nil.
\<close>

theorem deep_copy_object_type:
  assumes "DeepCopyObject K x h = (Ret res, h')"
  shows "case res of
      None \<Rightarrow> isNil x \<and> h' = h
    | Some c \<Rightarrow> \<not> isNil x \<and> \<not> isNil c \<and> objectKind c = objectKind x"
  using assms by (cases x) (simp only:, drule object_keeps_kind, simp)+

section \<open>Library copies that follow the contract\<close>

text \<open>What the generated code of apimachinery and Cluster API does for the fields known here.\<close>

definition refCopies :: copylib where
  "refCopies = \<lparr>
     ObjectMeta_copyInto = (\<lambda>x.
       andThen (copyTarget (om_Labels x)) (\<lambda>l.
       andThen (copyTarget (om_Annotations x)) (\<lambda>n.
       andThen (copyTarget (om_Finalizers x)) (\<lambda>f.
       andThen (copyTarget (om_DeletionTimestamp x)) (\<lambda>d.
       return (x\<lparr>om_Labels := l, om_Annotations := n, om_Finalizers := f,
         om_DeletionTimestamp := d\<rparr>)))))),
     ListMeta_copyInto = (\<lambda>x. andThen (copyTarget (lm_RemainingItemCount x)) (\<lambda>r.
       return (x\<lparr>lm_RemainingItemCount := r\<rparr>))),
     TemplateMeta_copyInto = (\<lambda>x.
       andThen (copyTarget (cm_Labels x)) (\<lambda>l.
       andThen (copyTarget (cm_Annotations x)) (\<lambda>n.
       return (x\<lparr>cm_Labels := l, cm_Annotations := n\<rparr>)))),
     CommonRequest_copyInto = (\<lambda>x. andThen (copyTarget (rq_Settings x)) (\<lambda>r.
       return (x\<lparr>rq_Settings := r\<rparr>))),
     Condition_copyInto = return\<rparr>"

lemma refCopies_ObjectMeta:
  "deep_copying ObjectMeta_value ObjectMeta_reach (ObjectMeta_copyInto refCopies)"
  by (rule struct_copying [OF both_copying [OF target_copying
    both_copying [OF target_copying
    both_copying [OF target_copying
    both_copying [OF target_copying plain_copying]]]],
      where parts = "\<lambda>x. (om_Labels x, om_Annotations x, om_Finalizers x, om_DeletionTimestamp x,
          om_Name x, om_Namespace x, om_UID x, om_CreationTimestamp x)"
        and whole = "\<lambda>x (l, n, f, d, a, b, c, e). x\<lparr>om_Name := a, om_Namespace := b, om_UID := c,
          om_Labels := l, om_Annotations := n, om_Finalizers := f, om_CreationTimestamp := e,
          om_DeletionTimestamp := d\<rparr>"])
    (auto simp: refCopies_def ObjectMeta_value_def ObjectMeta_reach_def copy_simps)

lemma refCopies_laws [simp]: "copylib_laws refCopies"
proof -
  have "deep_copying ListMeta_value ListMeta_reach (ListMeta_copyInto refCopies)"
    by (rule struct_copying [OF both_copying [OF target_copying plain_copying],
        where parts = "\<lambda>x. (lm_RemainingItemCount x, lm_ResourceVersion x, lm_Continue x)"
          and whole = "\<lambda>x (r, a, b). x\<lparr>lm_ResourceVersion := a, lm_Continue := b,
            lm_RemainingItemCount := r\<rparr>"])
      (auto simp: refCopies_def ListMeta_value_def ListMeta_reach_def copy_simps)
  moreover have "deep_copying TemplateMeta_value TemplateMeta_reach (TemplateMeta_copyInto refCopies)"
    by (rule struct_copying [OF both_copying [OF target_copying target_copying],
        where parts = "\<lambda>x. (cm_Labels x, cm_Annotations x)"
          and whole = "\<lambda>x (l, n). x\<lparr>cm_Labels := l, cm_Annotations := n\<rparr>"])
      (auto simp: refCopies_def TemplateMeta_value_def TemplateMeta_reach_def copy_simps)
  moreover have "deep_copying CommonRequest_value CommonRequest_reach (CommonRequest_copyInto refCopies)"
    by (rule struct_copying [OF target_copying, where parts = "\<lambda>x. rq_Settings x"
          and whole = "\<lambda>x r. x\<lparr>rq_Settings := r\<rparr>"])
      (auto simp: refCopies_def CommonRequest_value_def CommonRequest_reach_def copy_simps)
  moreover have "deep_copying plainValue noReach (Condition_copyInto refCopies)"
    by (simp add: refCopies_def plain_copying)
  ultimately show ?thesis using refCopies_ObjectMeta by (simp add: copylib_laws_def)
qed


section \<open>The update task an object in memory stands for\<close>

definition sliceOf :: "(cell \<Rightarrow> 'a list) \<Rightarrow> cell heap \<Rightarrow> addr option \<Rightarrow> 'a list" where
  "sliceOf un h p = (case p of None \<Rightarrow> [] | Some a \<Rightarrow> un (store h a))"

definition targetOf :: "(cell \<Rightarrow> 'a) \<Rightarrow> cell heap \<Rightarrow> addr option \<Rightarrow> 'a option" where
  "targetOf un h p = map_option (\<lambda>a. un (store h a)) p"

definition templateOf :: "cell heap \<Rightarrow> NodeUpdateTaskTemplateSpec_mem \<Rightarrow> NodeUpdateTaskTemplateSpec" where
  "templateOf h x =
    \<lparr>Name = om_Name (nt_ObjectMeta x), Namespace = om_Namespace (nt_ObjectMeta x),
     UID = om_UID (nt_ObjectMeta x),
     Labels = targetOf theMap h (om_Labels (nt_ObjectMeta x)),
     Annotations = targetOf theMap h (om_Annotations (nt_ObjectMeta x)),
     Finalizers = sliceOf theStrings h (om_Finalizers (nt_ObjectMeta x)),
     CreationTimestamp = om_CreationTimestamp (nt_ObjectMeta x),
     DeletionTimestamp = targetOf theTime h (om_DeletionTimestamp (nt_ObjectMeta x)),
     InfrastructureRef = nt_InfrastructureRef x\<rparr>"

definition specOf :: "cell heap \<Rightarrow> UpdateTaskSpec_mem \<Rightarrow> UpdateTaskSpec" where
  "specOf h x =
    \<lparr>ClusterRef = targetOf theRef h (ts_ClusterRef x),
     ControlPlaneRef = targetOf theRef h (ts_ControlPlaneRef x),
     MachineDeploymentRef = targetOf theRef h (ts_MachineDeploymentRef x),
     MachinesRequireUpdate = sliceOf theRefs h (ts_MachinesRequireUpdate x),
     NewMachineSpec = ts_NewMachineSpec x,
     NodeUpdateTemplate = templateOf h (ts_NodeUpdateTemplate x),
     TargetPhase = ts_TargetPhase x\<rparr>"

definition taskOf :: "cell heap \<Rightarrow> UpdateTask_mem \<Rightarrow> UpdateTask" where
  "taskOf h x =
    \<lparr>Name = om_Name (ta_ObjectMeta x), Namespace = om_Namespace (ta_ObjectMeta x),
     UID = om_UID (ta_ObjectMeta x),
     Labels = targetOf theMap h (om_Labels (ta_ObjectMeta x)),
     Annotations = targetOf theMap h (om_Annotations (ta_ObjectMeta x)),
     Finalizers = sliceOf theStrings h (om_Finalizers (ta_ObjectMeta x)),
     CreationTimestamp = om_CreationTimestamp (ta_ObjectMeta x),
     DeletionTimestamp = targetOf theTime h (om_DeletionTimestamp (ta_ObjectMeta x)),
     Kind = tm_Kind (ta_TypeMeta x), APIVersion = tm_APIVersion (ta_TypeMeta x),
     Spec = specOf h (ta_Spec x),
     Status = \<lparr>State = tt_State (ta_Status x),
       StatusConditions = sliceOf theConditions h (tt_Conditions (ta_Status x))\<rparr>\<rparr>"

lemma targetOf_same:
  "targetValue h p = targetValue h' q \<Longrightarrow> targetOf un h p = targetOf un h' q"
  "targetValue h p = targetValue h' q \<Longrightarrow> sliceOf un' h p = sliceOf un' h' q"
  by (cases p; cases q; simp add: targetValue_def targetOf_def sliceOf_def)+

lemma sliceOf_same:
  "structsValue un plainValue h p = structsValue un plainValue h' q \<Longrightarrow> sliceOf un h p = sliceOf un h' q"
  by (cases p; cases q) (simp_all add: structsValue_def sliceOf_def list.map_id)

text \<open>What can be read of a task in memory determines the task.\<close>

lemma taskOf_same:
  assumes "UpdateTask_value h x = UpdateTask_value h' y"
  shows "taskOf h x = taskOf h' y"
  using assms
  by (auto simp: UpdateTask_value_def UpdateTaskSpec_value_def UpdateTaskStatus_value_def
      NodeUpdateTaskTemplateSpec_value_def ObjectMeta_value_def taskOf_def specOf_def templateOf_def
      intro: targetOf_same sliceOf_same)

lemmas task_reads = deep_copying.reads_value [OF UpdateTask_copying [OF refCopies_laws]]

section \<open>The label write of CreateNodeUpdateTask\<close>

definition templateLabels :: "UpdateTask_mem \<Rightarrow> addr option" where
  "templateLabels t = om_Labels (nt_ObjectMeta (ts_NodeUpdateTemplate (ta_Spec t)))"

text \<open>
  \<open>labels := task.Spec.NodeUpdateTemplate.Labels\<close>, a new map when that is nil, and the two entries
  written into it.
\<close>

definition putNodeLabels :: "lib \<Rightarrow> UpdateTask_mem \<Rightarrow> (cell heap, addr) prog" where
  "putNodeLabels L task =
     andThen (case templateLabels task of
         None \<Rightarrow> alloc (MapCell Map.empty)
       | Some labels \<Rightarrow> return labels) (\<lambda>labels.
     (case ts_ClusterRef (ta_Spec task) of
        None \<Rightarrow> panic ''nil pointer dereference: task.Spec.ClusterRef''
      | Some r \<Rightarrow>
     andThen (gets (\<lambda>h. ref_Name (theRef (store h r)))) (\<lambda>clusterName.
     andThen (setCell labels (\<lambda>m. MapCell ((theMap m)(ClusterNameLabel L \<mapsto> clusterName)))) (\<lambda>_.
     andThen (setCell labels (\<lambda>m. MapCell ((theMap m)
         (ClusterUpdateTaskNameLabel \<mapsto> om_Name (ta_ObjectMeta task))))) (\<lambda>_.
     return labels)))))"

definition withoutLabels :: "UpdateTask_mem \<Rightarrow> UpdateTask_mem" where
  "withoutLabels t = t\<lparr>ta_Spec := (ta_Spec t)\<lparr>ts_NodeUpdateTemplate :=
     (ts_NodeUpdateTemplate (ta_Spec t))\<lparr>nt_ObjectMeta :=
       (nt_ObjectMeta (ts_NodeUpdateTemplate (ta_Spec t)))\<lparr>om_Labels := None\<rparr>\<rparr>\<rparr>\<rparr>"

text \<open>No other part of the task uses the label map of its template.\<close>

definition labelsOwned :: "cell heap \<Rightarrow> UpdateTask_mem \<Rightarrow> bool" where
  "labelsOwned h t \<longleftrightarrow> (case templateLabels t of
     None \<Rightarrow> True | Some a \<Rightarrow> a \<notin> UpdateTask_reach h (withoutLabels t))"

definition setTemplateLabels :: "gomap \<Rightarrow> UpdateTask \<Rightarrow> UpdateTask" where
  "setTemplateLabels m task = task\<lparr>Spec := (Spec task)\<lparr>NodeUpdateTemplate :=
     (NodeUpdateTemplate (Spec task))\<lparr>Labels := m\<rparr>\<rparr>\<rparr>"

lemma taskOf_labels:
  "taskOf h t = setTemplateLabels (targetOf theMap h (templateLabels t)) (taskOf h (withoutLabels t))"
  by (simp add: taskOf_def specOf_def templateOf_def setTemplateLabels_def templateLabels_def
      withoutLabels_def)

lemma shareLabels_taskOf:
  "shareLabels m (taskOf h t) = setTemplateLabels (map_option (\<lambda>_. m) (templateLabels t))
     (taskOf h (withoutLabels t))"
  by (cases "templateLabels t")
    (simp_all add: taskOf_def specOf_def templateOf_def setTemplateLabels_def shareLabels_def
      templateLabels_def withoutLabels_def targetOf_def)

lemma reach_withoutLabels:
  "UpdateTask_reach h t = UpdateTask_reach h (withoutLabels t) \<union> targetReach h (templateLabels t)"
  by (auto simp: UpdateTask_reach_def UpdateTaskSpec_reach_def NodeUpdateTaskTemplateSpec_reach_def
      ObjectMeta_reach_def withoutLabels_def templateLabels_def targetReach_def)

lemma putNodeLabels_refines:
  assumes "UpdateTask_reach h t \<subseteq> {..<limit h}" and "labelsOwned h t"
    and "ClusterRef (Spec (taskOf h t)) = Some clusterRef"
  obtains a h' where "putNodeLabels L t h = (Ret a, h')"
    and "theMap (store h' a) = nodeLabels L (taskOf h t) (ref_Name clusterRef)"
    and "taskOf h' t = shareLabels (nodeLabels L (taskOf h t) (ref_Name clusterRef)) (taskOf h t)"
    and "\<And>b. b \<notin> targetReach h (templateLabels t) \<Longrightarrow> b < limit h \<Longrightarrow> store h' b = store h b"
proof -
  let ?m = "nodeLabels L (taskOf h t) (ref_Name clusterRef)"
  obtain r where r: "ts_ClusterRef (ta_Spec t) = Some r" "theRef (store h r) = clusterRef"
    using assms(3) by (auto simp: taskOf_def specOf_def targetOf_def)
  have r_used: "r \<in> UpdateTask_reach h (withoutLabels t)"
    using r(1) by (simp add: UpdateTask_reach_def UpdateTaskSpec_reach_def targetReach_def withoutLabels_def)
  have name: "Name (taskOf h t) = om_Name (ta_ObjectMeta t)" by (simp add: taskOf_def)
  have labels: "Labels (NodeUpdateTemplate (Spec (taskOf h t))) = targetOf theMap h (templateLabels t)"
    by (simp add: taskOf_def specOf_def templateOf_def templateLabels_def)
  have other: "UpdateTask_reach h (withoutLabels t) \<subseteq> {..<limit h}"
    using assms(1) reach_withoutLabels [of h t] by simp
  show thesis
  proof (cases "templateLabels t")
    case None
    define h' where "h' = h\<lparr>store := (store h)(limit h := MapCell ?m), limit := Suc (limit h)\<rparr>"
    have "putNodeLabels L t h = (Ret (limit h), h')"
      using None r r_used other labels name
      by (auto simp: putNodeLabels_def prog_simps h'_def put_def nodeLabels_def targetOf_def)
    moreover have "taskOf h' (withoutLabels t) = taskOf h (withoutLabels t)"
      using other by (intro taskOf_same task_reads) (auto simp: h'_def)
    then have "taskOf h' t = shareLabels ?m (taskOf h t)"
      using None by (simp only: taskOf_labels [of h' t] shareLabels_taskOf) (simp add: targetOf_def)
    moreover have "theMap (store h' (limit h)) = ?m" by (simp add: h'_def)
    moreover have "store h' b = store h b" if "b < limit h" for b
      using that by (simp add: h'_def)
    ultimately show ?thesis using that [of "limit h" h'] by blast
  next
    case (Some a)
    define h' where "h' = put a (MapCell ?m) h"
    have a: "a \<notin> UpdateTask_reach h (withoutLabels t)"
      using assms(2) Some by (simp add: labelsOwned_def)
    then have "a \<noteq> r" using r_used by blast
    then have "putNodeLabels L t h = (Ret a, h')"
      using Some r labels name
      by (simp add: putNodeLabels_def prog_simps h'_def put_def nodeLabels_def targetOf_def)
    moreover have "taskOf h' (withoutLabels t) = taskOf h (withoutLabels t)"
      using a by (intro taskOf_same task_reads) (auto simp: h'_def)
    then have "taskOf h' t = shareLabels ?m (taskOf h t)"
      using Some by (simp only: taskOf_labels [of h' t] shareLabels_taskOf)
        (simp add: targetOf_def h'_def)
    moreover have "theMap (store h' a) = ?m" by (simp add: h'_def)
    moreover have "store h' b = store h b" if "b \<notin> targetReach h (templateLabels t)" for b
      using that Some by (simp add: h'_def targetReach_def)
    ultimately show ?thesis using that [of a h'] by blast
  qed
qed

text \<open>
  C29. The value model of the label write is right, and the write does not escape: run on a deep copy
  of a task (as the client's cache hands it out), the heap program that writes the two labels
  computes the labels of the model, changes the copy exactly as \<open>shareLabels\<close> says, and leaves the
  task it was copied from as it was.
\<close>

theorem label_write_stays_in_copy:
  assumes "copylib_laws K" and "UpdateTask_reach h x \<subseteq> {..<limit h}"
    and "UpdateTask_DeepCopyInto K x h = (Ret y, h1)" and "labelsOwned h1 y"
    and "ClusterRef (Spec (taskOf h x)) = Some clusterRef"
  shows "\<exists>labels h2. putNodeLabels L y h1 = (Ret labels, h2) \<and>
    theMap (store h2 labels) = nodeLabels L (taskOf h x) (ref_Name clusterRef) \<and>
    taskOf h2 y = shareLabels (nodeLabels L (taskOf h x) (ref_Name clusterRef)) (taskOf h x) \<and>
    taskOf h2 x = taskOf h x"
proof -
  obtain y' h' where y: "UpdateTask_DeepCopyInto K x h = (Ret y', h')" "extends h h'"
      "UpdateTask_value h' y' = UpdateTask_value h x" "UpdateTask_reach h' y' \<subseteq> {limit h..<limit h'}"
    using deep_copying.copies [OF UpdateTask_copying [OF assms(1)] assms(2)] by blast
  then have [simp]: "y' = y" "h' = h1" using assms(3) by simp_all
  have same: "taskOf h1 y = taskOf h x" using y(3) by (intro taskOf_same) simp
  have in_use: "UpdateTask_reach h1 y \<subseteq> {..<limit h1}" using y(4) by auto
  obtain a h2 where a: "putNodeLabels L y h1 = (Ret a, h2)"
      "theMap (store h2 a) = nodeLabels L (taskOf h1 y) (ref_Name clusterRef)"
      "taskOf h2 y = shareLabels (nodeLabels L (taskOf h1 y) (ref_Name clusterRef)) (taskOf h1 y)"
      "\<And>b. b \<notin> targetReach h1 (templateLabels y) \<Longrightarrow> b < limit h1 \<Longrightarrow> store h2 b = store h1 b"
    using putNodeLabels_refines [OF in_use assms(4)] assms(5) same by metis
  have "store h2 b = store h b" if "b \<in> UpdateTask_reach h x" for b
  proof -
    have "b < limit h" using that assms(2) by blast
    moreover from this have "b \<notin> targetReach h1 (templateLabels y)"
      using y(4) reach_withoutLabels [of h1 y] by auto
    ultimately show ?thesis using a(4) y(2) by (simp add: extends_def)
  qed
  then have "taskOf h2 x = taskOf h x" by (intro taskOf_same task_reads)
  with a same show ?thesis by simp
qed

end
