(* ===== verification/Memory_Scenarios.thy ===== *)
theory Memory_Scenarios
  imports Memory_Sharing Reference_Platform
begin

text \<open>
  An update task in memory, with a cluster reference, a label map in its template and one condition,
  and the theorems about deep copies applied to it.
\<close>

definition exampleHeap :: "cell heap" where
  "exampleHeap = \<lparr>store = (\<lambda>_. IntCell 0)(
     0 := MapCell [''app'' \<mapsto> ''web''],
     1 := RefCell \<lparr>ref_Kind = ''Cluster'', ref_Namespace = ''ns'', ref_Name = ''c1'', ref_UID = '''',
       ref_APIVersion = ''''\<rparr>,
     2 := ConditionArray [\<lparr>cond_Type = ''Ready'', cond_Status = ConditionTrue,
       cond_Severity = ConditionSeverityInfo, cond_Reason = '''', cond_Message = ''''\<rparr>]),
     limit = 3\<rparr>"

definition plainMeta :: "string \<Rightarrow> ObjectMeta_mem" where
  "plainMeta n = \<lparr>om_Name = n, om_Namespace = ''ns'', om_UID = '''', om_Labels = None,
     om_Annotations = None, om_Finalizers = None, om_CreationTimestamp = 0,
     om_DeletionTimestamp = None\<rparr>"

definition exampleTask :: UpdateTask_mem where
  "exampleTask = \<lparr>
     ta_TypeMeta = \<lparr>tm_Kind = ''UpdateTask'', tm_APIVersion = ''v1beta1''\<rparr>,
     ta_ObjectMeta = plainMeta ''t1'',
     ta_Spec = \<lparr>ts_ClusterRef = Some 1, ts_ControlPlaneRef = None, ts_MachineDeploymentRef = None,
       ts_MachinesRequireUpdate = None,
       ts_NewMachineSpec = \<lparr>ms_Version = ''v1'', ms_BootstrapConfig = '''', ms_InfraMachine = ''''\<rparr>,
       ts_NodeUpdateTemplate = \<lparr>nt_ObjectMeta = (plainMeta '''')\<lparr>om_Labels := Some 0\<rparr>,
         nt_InfrastructureRef = \<lparr>ref_Kind = ''K'', ref_Namespace = ''ns'', ref_Name = ''tm'',
           ref_UID = '''', ref_APIVersion = ''''\<rparr>\<rparr>,
       ts_TargetPhase = UpdateTaskPhaseUpdate\<rparr>,
     ta_Status = \<lparr>tt_State = UpdateTaskStateUnknown, tt_Conditions = Some 2\<rparr>\<rparr>"

lemmas example_defs = exampleHeap_def exampleTask_def plainMeta_def

lemmas reach_defs = UpdateTask_reach_def UpdateTaskSpec_reach_def UpdateTaskStatus_reach_def
  NodeUpdateTaskTemplateSpec_reach_def ObjectMeta_reach_def targetReach_def structsReach_def

lemma exampleTask_in_use: "UpdateTask_reach exampleHeap exampleTask \<subseteq> {..<limit exampleHeap}"
  by (simp add: reach_defs example_defs)

lemma exampleObject_in_use:
  "objectReach exampleHeap (UpdateTaskObject (Some exampleTask)) \<subseteq> {..<limit exampleHeap}"
  using exampleTask_in_use by (simp add: pointerReach_def)

theorem deep_copy_isolated_witness:
  "\<exists>c h'. DeepCopyObject refCopies (UpdateTaskObject (Some exampleTask)) exampleHeap = (Ret (Some c), h') \<and>
    sameObject exampleHeap (UpdateTaskObject (Some exampleTask)) h' c \<and>
    (\<forall>h''. (\<forall>a. a \<notin> objectReach h' c \<longrightarrow> store h'' a = store h' a) \<longrightarrow>
       sameObject exampleHeap (UpdateTaskObject (Some exampleTask)) h'' (UpdateTaskObject (Some exampleTask)))"
  using deep_copy_isolated [OF refCopies_laws exampleObject_in_use] by fastforce

lemma exampleTask_copied:
  obtains c h' where
    "DeepCopyObject refCopies (UpdateTaskObject (Some exampleTask)) exampleHeap = (Ret (Some c), h')"
  using DeepCopyObject_copies [OF refCopies_laws exampleObject_in_use] by fastforce

theorem deep_copy_object_type_witness:
  "(\<exists>c h'. DeepCopyObject refCopies (UpdateTaskObject (Some exampleTask)) exampleHeap =
      (Ret (Some c), h') \<and> \<not> isNil c \<and> objectKind c = ''UpdateTask'')"
proof -
  obtain c h' where c: "DeepCopyObject refCopies (UpdateTaskObject (Some exampleTask)) exampleHeap =
      (Ret (Some c), h')"
    using exampleTask_copied .
  with deep_copy_object_type [OF c] show ?thesis by auto
qed

text \<open>The copy of the example: three new cells, reached by the pointers of the original.\<close>

definition exampleCopy :: UpdateTask_mem where
  "exampleCopy = exampleTask\<lparr>
     ta_Spec := (ta_Spec exampleTask)\<lparr>ts_ClusterRef := Some 3,
       ts_NodeUpdateTemplate := (ts_NodeUpdateTemplate (ta_Spec exampleTask))\<lparr>
         nt_ObjectMeta := (plainMeta '''')\<lparr>om_Labels := Some 4\<rparr>\<rparr>\<rparr>,
     ta_Status := (ta_Status exampleTask)\<lparr>tt_Conditions := Some 5\<rparr>\<rparr>"

definition copiedHeap :: "cell heap" where
  "copiedHeap = exampleHeap\<lparr>store := (store exampleHeap)(3 := store exampleHeap 1,
     4 := store exampleHeap 0, 5 := store exampleHeap 2), limit := 6\<rparr>"

lemma exampleTask_copy:
  "UpdateTask_DeepCopyInto refCopies exampleTask exampleHeap = (Ret exampleCopy, copiedHeap)"
  by (simp add: UpdateTask_DeepCopyInto_def UpdateTaskSpec_DeepCopyInto_def
      UpdateTaskStatus_DeepCopyInto_def NodeUpdateTaskTemplateSpec_DeepCopyInto_def refCopies_def
      copyTarget_def copyStructs_def copyElem_def prog_simps example_defs exampleCopy_def
      copiedHeap_def put_def Let_def numeral_eq_Suc fun_upd_twist)

theorem label_write_stays_in_copy_witness:
  "\<exists>labels h2. putNodeLabels refLib exampleCopy copiedHeap = (Ret labels, h2) \<and>
     theMap (store h2 labels) =
       nodeLabels refLib (taskOf exampleHeap exampleTask) ''c1'' \<and>
     taskOf h2 exampleTask = taskOf exampleHeap exampleTask"
proof -
  have "labelsOwned copiedHeap exampleCopy"
    by (simp add: labelsOwned_def templateLabels_def withoutLabels_def reach_defs exampleCopy_def
        copiedHeap_def example_defs)
  moreover have "ClusterRef (Spec (taskOf exampleHeap exampleTask)) = Some
      \<lparr>ref_Kind = ''Cluster'', ref_Namespace = ''ns'', ref_Name = ''c1'', ref_UID = '''',
       ref_APIVersion = ''''\<rparr>"
    by (simp add: taskOf_def specOf_def targetOf_def example_defs)
  ultimately show ?thesis
    using label_write_stays_in_copy [OF refCopies_laws exampleTask_in_use exampleTask_copy]
    by fastforce
qed

end
