(* ===== verification/Api_Group.thy ===== *)
theory Api_Group
  imports Deep_Copy_Objects
begin

text \<open>
  The API group (\<open>src/api/v1beta1/groupversion\_info.go\<close>) and the registration of its Go types in
  the \<open>init\<close> functions of the type files: what \<open>AddToScheme\<close> makes known to the manager's scheme.
  Types are named by their kind (\<^const>\<open>objectKind\<close>).
\<close>

section \<open>Model\<close>

record GroupVersion =
  gv_Group :: string
  gv_Version :: string

definition updateGroupVersion :: GroupVersion where
  "updateGroupVersion = \<lparr>gv_Group = ''update.extension.cluster.x-k8s.io'', gv_Version = ''v1beta1''\<rparr>"

text \<open>
  The arguments of the calls of \<open>SchemeBuilder.Register\<close>. Go runs the \<open>init\<close> functions of a package
  in the order of its files' names.
\<close>

definition init_dockernodeupdatetask :: "string list" where
  "init_dockernodeupdatetask =
     [''DockerNodeUpdateTask'', ''DockerNodeUpdateTaskList'', ''DockerNodeUpdateTaskTemplate'',
      ''FakeNodeUpdateTaskTemplateList'']"

definition init_fakenodeupdatetask :: "string list" where
  "init_fakenodeupdatetask =
     [''FakeNodeUpdateTask'', ''FakeNodeUpdateTaskTemplate'', ''FakeNodeUpdateTaskList'',
      ''FakeNodeUpdateTaskTemplateList'']"

definition init_updatepolicy :: "string list" where
  "init_updatepolicy = [''UpdatePolicy'', ''UpdatePolicyList'']"

definition init_updatetask :: "string list" where
  "init_updatetask = [''UpdateTask'', ''UpdateTaskList'']"

definition registrations :: "string list list" where
  "registrations =
     [init_dockernodeupdatetask, init_fakenodeupdatetask, init_updatepolicy, init_updatetask]"

text \<open>
  The scheme library: \<open>AddKnownTypes\<close> is what the builder does with the arguments of one
  \<open>Register\<close>, \<open>Recognizes\<close> tells whether a scheme knows a kind. Every group version also gets a few
  kinds of the library itself (\<open>metaKinds\<close>, the kinds of options and watch events).
\<close>

record 's schemelib =
  AddKnownTypes :: "GroupVersion \<Rightarrow> string list \<Rightarrow> 's \<Rightarrow> 's"
  Recognizes :: "'s \<Rightarrow> GroupVersion \<Rightarrow> string \<Rightarrow> bool"
  metaKinds :: "string list"

definition AddToScheme :: "'s schemelib \<Rightarrow> 's \<Rightarrow> 's" where
  "AddToScheme S scheme = fold (AddKnownTypes S updateGroupVersion) registrations scheme"

section \<open>What the scheme knows\<close>

definition scheme_laws :: "'s schemelib \<Rightarrow> bool" where
  "scheme_laws S \<longleftrightarrow> (\<forall>gv ks s k. k \<notin> set (metaKinds S) \<longrightarrow>
     Recognizes S (AddKnownTypes S gv ks s) gv k = (k \<in> set ks \<or> Recognizes S s gv k))"

lemma Recognizes_fold:
  assumes "scheme_laws S" and "k \<notin> set (metaKinds S)"
  shows "Recognizes S (fold (AddKnownTypes S gv) kss s) gv k \<longleftrightarrow>
    (\<exists>ks \<in> set kss. k \<in> set ks) \<or> Recognizes S s gv k"
  using assms by (induction kss arbitrary: s) (auto simp: scheme_laws_def)

text \<open>
  After \<open>AddToScheme\<close> a scheme that knew nothing of the group knows every object type of the
  group except \<open>DockerNodeUpdateTaskTemplateList\<close>: the docker \<open>init\<close> registers the list of the fake
  templates in its place.
\<close>

theorem scheme_lacks_docker_template_list:
  assumes "scheme_laws S" and "\<And>k. \<not> Recognizes S s updateGroupVersion k"
    and "objectKind x \<notin> set (metaKinds S)"
  shows "Recognizes S (AddToScheme S s) updateGroupVersion (objectKind x) \<longleftrightarrow>
    (\<forall>p. x \<noteq> DockerNodeUpdateTaskTemplateListObject p)"
  unfolding AddToScheme_def Recognizes_fold [OF assms(1,3)]
  using assms(2)
  by (cases x) (simp_all add: registrations_def init_dockernodeupdatetask_def
      init_fakenodeupdatetask_def init_updatepolicy_def init_updatetask_def)

text \<open>A scheme that is the list of the kinds it knows.\<close>

definition listScheme :: "(GroupVersion \<times> string) list schemelib" where
  "listScheme = \<lparr>
     AddKnownTypes = (\<lambda>gv ks s. map (Pair gv) (ks @ [''ListOptions'', ''WatchEvent'']) @ s),
     Recognizes = (\<lambda>s gv k. (gv, k) \<in> set s),
     metaKinds = [''ListOptions'', ''WatchEvent'']\<rparr>"

theorem scheme_lacks_docker_template_list_witness:
  "\<not> Recognizes listScheme (AddToScheme listScheme []) updateGroupVersion
       ''DockerNodeUpdateTaskTemplateList'' \<and>
   Recognizes listScheme (AddToScheme listScheme []) updateGroupVersion ''UpdateTask''"
proof -
  have laws: "scheme_laws listScheme" by (auto simp: scheme_laws_def listScheme_def)
  have fresh: "\<not> Recognizes listScheme [] updateGroupVersion k" for k
    by (simp add: listScheme_def)
  show ?thesis
    using scheme_lacks_docker_template_list [OF laws fresh,
        where x = "DockerNodeUpdateTaskTemplateListObject None"]
      scheme_lacks_docker_template_list [OF laws fresh, where x = "UpdateTaskObject None"]
    by (simp add: listScheme_def)
qed

end
