(* ===== verification/Planner.thy ===== *)
theory Planner
  imports Rollout
begin

text \<open>
  What the update task controller is meant to do, without clients, conditions and calls: from a view
  of the cluster (the machines and what their node updates report) the planner computes the state of
  the update task and the next move. \<open>Reconcile\<close> is shown to carry out exactly the planned move
  when the API server answers its calls.
\<close>

section \<open>The planner\<close>

record View =
  v_aborting :: bool
  v_updating :: bool
  v_steady :: bool
  v_machines :: "(string \<times> bool) list"
  v_reports :: "(string \<times> UpdateTaskState) list"

text \<open>
  Machines are listed by name in order of creation, with whether they belong to the update; reports
  are the node updates, by machine, with their states.
\<close>

datatype move = Stay | Update string | AbortAll "string list"

definition concerned :: "View \<Rightarrow> string \<times> bool \<Rightarrow> bool" where
  "concerned v x \<longleftrightarrow> snd x \<or> map_of (v_reports v) (fst x) \<noteq> None"

definition plannedState :: "View \<Rightarrow> UpdateTaskState" where
  "plannedState v =
     (if v_aborting v then
        if \<exists>x \<in> set (v_machines v). map_of (v_reports v) (fst x) = Some UpdateTaskStateInProgress \<or>
             map_of (v_reports v) (fst x) = Some UpdateTaskStateUnknown
        then UpdateTaskStateInProgress else UpdateTaskStateAborted
      else
        if \<forall>x \<in> set (v_machines v). concerned v x \<longrightarrow>
             map_of (v_reports v) (fst x) = Some UpdateTaskStateUpdated
        then UpdateTaskStateUpdated else UpdateTaskStateInProgress)"

definition nextMachine :: "View \<Rightarrow> string option" where
  "nextMachine v = map_option fst (find (\<lambda>(name, inScope). inScope \<and>
     map_of (v_reports v) name = None) (v_machines v))"

definition plannedMove :: "View \<Rightarrow> move" where
  "plannedMove v =
     (if v_aborting v then
        AbortAll (map fst (filter (\<lambda>(_, st). \<not> IsTerminated st) (v_reports v)))
      else if v_updating v \<and> v_steady v \<and>
          (\<forall>(_, st) \<in> set (v_reports v). IsTerminated st \<and> st \<noteq> UpdateTaskStateFailed)
      then (case nextMachine v of None \<Rightarrow> Stay | Some name \<Rightarrow> Update name)
      else Stay)"

section \<open>The view the controller has\<close>

text \<open>The part of the cluster that stays while the update runs.\<close>

record World =
  w_cluster :: Cluster
  w_controlPlane :: KubeadmControlPlane
  w_machines :: "Machine list"

definition orderedMachines :: "lib \<Rightarrow> World \<Rightarrow> Machine list" where
  "orderedMachines L W = SortedByCreationTimestamp L (FromMachineList L (w_machines W))"

definition controlPlaneSteady :: "lib \<Rightarrow> World \<Rightarrow> UpdateTask \<Rightarrow> bool" where
  "controlPlaneSteady L W task \<longleftrightarrow> (case ControlPlaneRef (Spec task) of
     None \<Rightarrow> True
   | Some ref \<Rightarrow> ref_Kind ref = ''KubeadmControlPlane'' \<longrightarrow>
       (\<forall>x \<in> set (w_machines W). \<not> HasDeletionTimestamp L x \<and>
          machine_healthy L (w_controlPlane W) x))"

definition viewOf :: "lib \<Rightarrow> World \<Rightarrow> UpdateTask \<Rightarrow> NodeUpdateTaskStatus list \<Rightarrow> View" where
  "viewOf L W task sts =
     \<lparr>v_aborting = taskAborting L task,
      v_updating = (TargetPhase (Spec task) = UpdateTaskPhaseUpdate),
      v_steady = controlPlaneSteady L W task,
      v_machines = map (\<lambda>x. (Name x, isMachineInUpdateScope x (Name task))) (orderedMachines L W),
      v_reports = map (\<lambda>st. (nus_MachineName st, nus_State st)) sts\<rparr>"

text \<open>
  The API server holds the task, the world and the node update tasks with the task's label, and carries
  out what it is asked; templates can be filled. What it holds for other update tasks is left open.
\<close>

definition serves ::
  "lib \<Rightarrow> env \<Rightarrow> World \<Rightarrow> string \<Rightarrow> string \<Rightarrow> UpdateTask \<Rightarrow> Unstructured list \<Rightarrow> bool" where
  "serves L E W ns n task us \<longleftrightarrow>
     (\<forall>h. api_GetUpdateTask E h ns n = Inr task) \<and>
     (\<forall>h t. NewTaskHelper E h t = None) \<and>
     (\<forall>h a b. api_GetCluster E h a b = Inr (w_cluster W)) \<and>
     (\<forall>h a b. api_GetKubeadmControlPlane E h a b = Inr (w_controlPlane W)) \<and>
     (\<forall>h a ls. api_ListMachines E h a ls = Inr (w_machines W)) \<and>
     (\<forall>h v k. api_ListUnstructured E h v k (Namespace task)
        [(ClusterUpdateTaskNameLabel, Name task)] = Inr us) \<and>
     (\<forall>h r a. \<exists>u. api_GetExternal E h r a = Inr u) \<and>
     (\<forall>h i. \<exists>base. GenerateTemplate E h i = Inr base \<and>
        (\<forall>x \<in> set (w_machines W). \<exists>u. setFields L (nodeUpdateFields task x) base = Inr u)) \<and>
     (\<forall>h u. api_CreateNode E h u = None) \<and>
     (\<forall>h u. api_MergePatchNode E h u abortNodePatch = None)"

lemma servesD:
  assumes "serves L E W ns n task us"
  shows "api_GetUpdateTask E h ns n = Inr task" and "NewTaskHelper E h t = None"
    and "api_GetCluster E h a b = Inr (w_cluster W)"
    and "api_GetKubeadmControlPlane E h a b = Inr (w_controlPlane W)"
    and "api_ListMachines E h a ls = Inr (w_machines W)"
    and "api_ListUnstructured E h v k (Namespace task)
      [(ClusterUpdateTaskNameLabel, Name task)] = Inr us"
    and "\<exists>u. api_GetExternal E h r a = Inr u"
    and "\<exists>base. GenerateTemplate E h i = Inr base \<and>
      (\<forall>x \<in> set (w_machines W). \<exists>u. setFields L (nodeUpdateFields task x) base = Inr u)"
    and "api_CreateNode E h u = None"
    and "\<forall>h u. api_MergePatchNode E h u abortNodePatch = None"
  using assms by (simp_all add: serves_def)

text \<open>A world with distinct machines and a control plane that names its cluster.\<close>

definition goodWorld :: "lib \<Rightarrow> World \<Rightarrow> bool" where
  "goodWorld L W \<longleftrightarrow> distinct (map Name (w_machines W)) \<and>
     (\<forall>x \<in> set (w_machines W). ascii (Name x)) \<and>
     map_get (Labels (w_controlPlane W)) (ClusterNameLabel L) \<noteq> None"

text \<open>A task that can be reconciled.\<close>

definition goodTask :: "UpdateTask \<Rightarrow> bool" where
  "goodTask task \<longleftrightarrow> ClusterRef (Spec task) \<noteq> None \<and>
     (ControlPlaneRef (Spec task) \<noteq> None \<or> MachineDeploymentRef (Spec task) \<noteq> None)"

section \<open>The status map without duplicates\<close>

lemma recordStatus_fold_distinct:
  assumes "distinct (map nus_MachineName sts)"
    and "\<forall>st \<in> set sts. m (nus_MachineName st) = None"
  shows "foldl (\<lambda>m st. recordStatus L st m) m sts =
    m ++ map_of (map (\<lambda>st. (nus_MachineName st, st)) sts)"
  using assms
proof (induction sts arbitrary: m)
  case (Cons st sts)
  have "foldl (\<lambda>m st. recordStatus L st m) (recordStatus L st m) sts =
      recordStatus L st m ++ map_of (map (\<lambda>st. (nus_MachineName st, st)) sts)"
    using Cons.prems by (intro Cons.IH) (auto simp: recordStatus_at)
  moreover have "map_of (map (\<lambda>st. (nus_MachineName st, st)) sts) (nus_MachineName st) = None"
    using Cons.prems(1) by (force simp: map_of_eq_None_iff)
  ultimately show ?case
    using Cons.prems(2) by (auto simp: recordStatus_def fun_eq_iff map_add_def split: option.split)
qed simp

lemma stateOf_distinct:
  assumes "distinct (map nus_MachineName sts)"
  shows "stateOf (foldl (\<lambda>m st. recordStatus L st m) Map.empty sts) x =
    map_of (map (\<lambda>st. (nus_MachineName st, nus_State st)) sts) (Name x)"
proof -
  have "map_of (map (\<lambda>st. (nus_MachineName st, nus_State st)) sts) k =
      map_option nus_State (map_of (map (\<lambda>st. (nus_MachineName st, st)) sts) k)" for k
    by (induction sts) auto
  with recordStatus_fold_distinct [OF assms, of Map.empty L] show ?thesis by (simp add: stateOf_def)
qed


section \<open>Deeds\<close>

text \<open>The calls that start or abort a node update; the others read, mark machines or store the task.\<close>

definition is_deed :: "call \<Rightarrow> bool" where
  "is_deed c \<longleftrightarrow> is_create_node c \<or> is_abort_node c"

abbreviation deeds :: "history \<Rightarrow> history" where
  "deeds \<equiv> filter is_deed"

text \<open>The deeds that carry out a move.\<close>

definition carriesOut :: "lib \<Rightarrow> history \<Rightarrow> move \<Rightarrow> bool" where
  "carriesOut L cs mv = (case mv of
     Stay \<Rightarrow> cs = []
   | Update name \<Rightarrow> (\<exists>u. cs = [CreateNode u] \<and> machineOf L u = Some name)
   | AbortAll names \<Rightarrow> (\<exists>us. cs = map (\<lambda>u. MergePatchNode u abortNodePatch) us \<and>
       map (machineOf L) us = map Some names))"

lemma is_read_abort: "is_read c \<Longrightarrow> \<not> is_abort_node c"
  by (cases c) simp_all

lemma is_deed_simps [simp]:
  "is_deed (CreateNode u)" "is_deed (MergePatchNode u abortNodePatch)"
  "is_read c \<Longrightarrow> \<not> is_deed c" "is_patch_machine c \<Longrightarrow> \<not> is_deed c"
  "\<not> is_deed (GetUpdateTask a b)" "\<not> is_deed (PatchTask t t')" "\<not> is_deed (GetExternal r a)"
  using is_read_abort [of c] by (cases c; simp add: is_deed_def)+

text \<open>The state of the task after the status phase stays.\<close>

definition sameState :: "UpdateTask \<Rightarrow> UpdateTask \<Rightarrow> bool" where
  "sameState a b \<longleftrightarrow> State (Status a) = State (Status b)"

interpretation same_state: object_preorder sameState
  by unfold_locales (simp_all add: sameState_def)

lemma sameState_changes [simp]:
  "sameState t (onConditions f t)" "sameState t (shareLabels m t)"
  by (simp_all add: sameState_def)

lemma sameState_create: "keeps sameState (CreateNodeUpdateTask L E x)"
  unfolding keeps_def
proof
  fix s
  obtain r s' where run: "CreateNodeUpdateTask L E x s = (r, s')" by fastforce
  then show "sameState (obj s) (obj (snd (CreateNodeUpdateTask L E x s)))"
    by (rule create_cases) (simp_all add: run same_state.R_refl)
qed

lemma sameState_abort: "keeps sameState (reconcileAbort L E scope)"
  unfolding reconcileAbort_def abortNode_def
  by (intro same_state.keeps_intros same_state.keeps_frozen abort_frozen.obj_same sameState_changes)

lemma sameState_preflight: "keeps sameState (controlPlanePreflight L E)"
  unfolding controlPlanePreflight_def
  by (intro same_state.keeps_intros same_state.keeps_frozen preflight_frozen.obj_same sameState_changes)

lemma sameState_normal: "keeps sameState (reconcileNormal L E scope)"
  unfolding reconcileNormal_def scanNode_def updateMachine_def createForMachine_def
  by (intro same_state.keeps_intros sameState_preflight sameState_create sameState_changes)

section \<open>Each phase on a serving API\<close>

definition servedScope :: "lib \<Rightarrow> World \<Rightarrow> Unstructured list \<Rightarrow> UpdateTaskScope" where
  "servedScope L W us = \<lparr>ScopeCluster = w_cluster W,
     UpdateMachines = FromMachineList L (w_machines W), NodeUpdateTasks = us\<rparr>"

lemma servedScope_simps [simp]:
  "NodeUpdateTasks (servedScope L W us) = us"
  "UpdateMachines (servedScope L W us) = FromMachineList L (w_machines W)"
  by (simp_all add: servedScope_def)

lemma serves_scope:
  assumes "serves L E W ns n (obj s) us" and "goodTask (obj s)"
  obtains s' where "NewScope L E s = (Ret (Inr (servedScope L W us)), s')"
    and "obj s' = obj s" and "deeds (calls s') = deeds (calls s)"
proof -
  obtain cref where "ClusterRef (Spec (obj s)) = Some cref" using assms(2) by (auto simp: goodTask_def)
  moreover obtain ls where "machineLabels L (w_cluster W) (obj s) = Some ls"
    using assms(2) by (cases "ControlPlaneRef (Spec (obj s))") (auto simp: goodTask_def machineLabels_def)
  ultimately have "\<exists>s'. NewScope L E s = (Ret (Inr (servedScope L W us)), s')"
    using servesD [OF assms(1)] by (simp add: NewScope_def prog_simps Let_def servedScope_def)
  then obtain s' where s': "NewScope L E s = (Ret (Inr (servedScope L W us)), s')" by blast
  from scope_frozen.obj_kept [OF s'] scope_reads.makes_no_other [OF _ s', of is_deed] that [OF s']
  show thesis by simp
qed

lemma serves_preflight:
  assumes laws: "collections_laws L" "result_laws L" and W: "goodWorld L W"
    and E: "serves L E W ns n task us"
  shows "\<exists>r s'. controlPlanePreflight L E s = (Ret r, s') \<and> deeds (calls s') = deeds (calls s) \<and>
    (controlPlaneSteady L W (obj s) \<longleftrightarrow> r = Continue ())"
proof (cases "\<exists>ref. ControlPlaneRef (Spec (obj s)) = Some ref \<and> ref_Kind ref = ''KubeadmControlPlane''")
  case False
  then show ?thesis
    by (auto simp: controlPlanePreflight_def controlPlaneSteady_def prog_simps split: option.split)
next
  case True
  then obtain ref where ref: "ControlPlaneRef (Spec (obj s)) = Some ref"
      "ref_Kind ref = ''KubeadmControlPlane''" by blast
  let ?P = "PreflightCheckForKubeadmControlPlane L E (Namespace (obj s)) ref"
  let ?s = "s\<lparr>calls := calls s @ [GetKubeadmControlPlane (Namespace (obj s)) (ref_Name ref)]\<rparr>"
  obtain cn where cn: "map_get (Labels (w_controlPlane W)) (ClusterNameLabel L) = Some cn"
    using W by (auto simp: goodWorld_def)
  have "fst (?P s) = fst (preflightChecks L E (w_controlPlane W) [] ?s)"
    using servesD(4) [OF E] by (simp add: PreflightCheckForKubeadmControlPlane_def prog_simps)
  also have "\<dots> = Ret
    (if \<exists>x \<in> set (w_machines W). HasDeletionTimestamp L x then requeueAfter deleteRequeueAfter
     else if \<exists>x \<in> set (w_machines W). \<not> machine_healthy L (w_controlPlane W) x
     then requeueAfter preflightFailedRequeueAfter
     else zeroResult, None)"
    by (rule preflightChecks_answer [OF laws(1) _ cn]) (use W servesD(5) [OF E] in \<open>auto simp: goodWorld_def\<close>)
  finally have answer: "fst (?P s) = Ret
    (if \<exists>x \<in> set (w_machines W). HasDeletionTimestamp L x then requeueAfter deleteRequeueAfter
     else if \<exists>x \<in> set (w_machines W). \<not> machine_healthy L (w_controlPlane W) x
     then requeueAfter preflightFailedRequeueAfter
     else zeroResult, None)" .
  have "\<exists>result. fst (?P s) = Ret (result, None) \<and>
      (result = zeroResult \<longleftrightarrow> controlPlaneSteady L W (obj s))"
    unfolding answer using ref
    by (simp add: controlPlaneSteady_def deleteRequeueAfter_def preflightFailedRequeueAfter_def) blast
  then obtain result where result: "fst (?P s) = Ret (result, None)"
      "result = zeroResult \<longleftrightarrow> controlPlaneSteady L W (obj s)" by blast
  obtain s1 where p: "?P s = (Ret (result, None), s1)" using result(1) by (cases "?P s") simp
  have "deeds (calls s1) = deeds (calls s)"
    by (rule preflight_reads.makes_no_other [OF _ p]) simp
  with p ref result(2) laws(2) show ?thesis
    by (auto simp: controlPlanePreflight_def prog_simps result_laws_def)
qed

lemma nodeUpdateFields_same: "sameTask L a b \<Longrightarrow> nodeUpdateFields a x = nodeUpdateFields b x"
  by (simp add: nodeUpdateFields_def sameTask_fields(10) [of L a b])

lemma serves_create:
  assumes "nested_laws L" and "goodWorld L W" and E: "serves L E W ns n task us"
    and "sameTask L task (obj s)" and "ClusterRef (Spec (obj s)) \<noteq> None"
    and "x \<in> set (w_machines W)"
  shows "\<exists>u s'. CreateNodeUpdateTask L E x s = (Ret (Some u, None), s') \<and>
    deeds (calls s') = deeds (calls s) @ [CreateNode u] \<and> machineOf L u = Some (Name x)"
proof -
  let ?ref = "InfrastructureRef (NodeUpdateTemplate (Spec (obj s)))"
  obtain cref where cref: "ClusterRef (Spec (obj s)) = Some cref" using assms(5) by blast
  obtain template where t: "api_GetExternal E (calls s) ?ref (Namespace (obj s)) = Inr template"
    using servesD(7) [OF E] by blast
  obtain base u where u: "GenerateTemplate E (calls s @ [GetExternal ?ref (Namespace (obj s))])
      (templateInput L (obj s) (ref_Name cref) template) = Inr base"
      "setFields L (nodeUpdateFields task x) base = Inr u"
    using servesD(8) [OF E] assms(6) by meson
  then have "setFields L (nodeUpdateFields (obj s) x) base = Inr u"
    using nodeUpdateFields_same [OF assms(4)] by simp
  moreover from this have "machineOf L u = Some (Name x)"
    using nodeUpdateFields_machineName [OF assms(1)] nodeUpdateFields_phase [OF assms(1)] assms(2,6)
    by (fastforce simp: machineOf_def GetNodeUpdateTaskStatus_def goodWorld_def)
  ultimately show ?thesis
    using cref t u(1) servesD(9) [OF E] by (simp add: CreateNodeUpdateTask_def prog_simps)
qed


section \<open>Reconcile carries out the plan\<close>

lemma steady_normal: "steady hasCluster (reconcileNormal L E scope)"
  unfolding reconcileNormal_def scanNode_def controlPlanePreflight_def updateMachine_def
    createForMachine_def
  by (intro steady_intros) simp_all

lemma scanLoop_iff:
  assumes "map (GetNodeUpdateTaskStatus L) us = map Inr sts"
  shows "(\<exists>m. foreach (scanNode L) us Map.empty s = (Ret (Continue m), s)) \<longleftrightarrow>
    (\<forall>st \<in> set sts. IsTerminated (nus_State st) \<and> nus_State st \<noteq> UpdateTaskStateFailed)"
proof
  assume "\<exists>m. foreach (scanNode L) us Map.empty s = (Ret (Continue m), s)"
  then obtain m where "foreach (scanNode L) us Map.empty s = (Ret (Continue m), s)" by blast
  from scanLoop_continue [OF this] obtain sts' where
    sts': "map (GetNodeUpdateTaskStatus L) us = map Inr sts'"
      "\<forall>st \<in> set sts'. IsTerminated (nus_State st) \<and> nus_State st \<noteq> UpdateTaskStateFailed"
    by blast
  have "map Inr sts' = (map Inr sts :: (goerr + NodeUpdateTaskStatus) list)"
    using assms sts'(1) by simp
  then have "sts' = sts" by (simp add: inj_map_eq_map inj_def)
  with sts'(2) show "\<forall>st \<in> set sts. IsTerminated (nus_State st) \<and> nus_State st \<noteq> UpdateTaskStateFailed"
    by simp
next
  assume "\<forall>st \<in> set sts. IsTerminated (nus_State st) \<and> nus_State st \<noteq> UpdateTaskStateFailed"
  from scanLoop_statuses [OF assms this]
  show "\<exists>m. foreach (scanNode L) us Map.empty s = (Ret (Continue m), s)" by blast
qed

lemma nextMachine_viewOf:
  "nextMachine (viewOf L W task sts) =
     map_option Name (find (needsUpdate (Name task) sts) (orderedMachines L W))"
proof -
  have free: "map_of (map (\<lambda>st. (nus_MachineName st, nus_State st)) sts) k = None \<longleftrightarrow>
      (\<forall>st \<in> set sts. nus_MachineName st \<noteq> k)" for k
    by (induction sts) auto
  have "map_option fst (find (\<lambda>(name, inScope). inScope \<and>
        map_of (map (\<lambda>st. (nus_MachineName st, nus_State st)) sts) name = None)
      (map (\<lambda>x. (Name x, isMachineInUpdateScope x (Name task))) xs)) =
    map_option Name (find (needsUpdate (Name task) sts) xs)" for xs :: "Machine list"
    by (induction xs) (auto simp: needsUpdate_def free)
  then show ?thesis by (simp add: nextMachine_def viewOf_def)
qed

definition updatePlanned :: "View \<Rightarrow> move" where
  "updatePlanned v = (case nextMachine v of None \<Rightarrow> Stay | Some name \<Rightarrow> Update name)"

lemma plannedMove_updating:
  assumes "\<not> v_aborting v" and "v_updating v"
  shows "plannedMove v = (if v_steady v \<and>
      (\<forall>(_, st) \<in> set (v_reports v). IsTerminated st \<and> st \<noteq> UpdateTaskStateFailed)
    then updatePlanned v else Stay)"
  using assms by (simp add: plannedMove_def updatePlanned_def)

lemma orderedMachines_set:
  assumes "collections_laws L" and "goodWorld L W"
  shows "set (orderedMachines L W) = set (w_machines W)"
proof -
  have "distinct (map Name (w_machines W))" using assms(2) by (simp add: goodWorld_def)
  note all = collections_laws_list(1) [OF assms(1) this]
  have "set (SortedByCreationTimestamp L xs) = set (map snd xs)" for xs
    using assms(1) by (simp add: collections_laws_def)
  with all show ?thesis by (simp add: orderedMachines_def)
qed

lemma serves_normal:
  assumes laws: "nested_laws L" "collections_laws L" "result_laws L" and W: "goodWorld L W"
    and E: "serves L E W ns n task us" and task: "sameTask L task (obj s)" "goodTask task"
    and sts: "map (GetNodeUpdateTaskStatus L) us = map Inr sts"
    and phase: "\<not> taskAborting L task" "TargetPhase (Spec task) = UpdateTaskPhaseUpdate"
  shows "\<exists>r s' cs. reconcileNormal L E (servedScope L W us) s = (Ret r, s') \<and>
    deeds (calls s') = deeds (calls s) @ cs \<and> carriesOut L cs (plannedMove (viewOf L W task sts))"
proof -
  let ?v = "viewOf L W task sts"
  have plan: "plannedMove ?v = (if controlPlaneSteady L W task \<and>
      (\<forall>st \<in> set sts. IsTerminated (nus_State st) \<and> nus_State st \<noteq> UpdateTaskStateFailed)
    then updatePlanned ?v else Stay)"
    using phase by (subst plannedMove_updating) (auto simp: viewOf_def)
  have name: "Name (obj s) = Name task" and cref: "ClusterRef (Spec (obj s)) \<noteq> None"
    using sameTask_fields [OF task(1)] task(2) by (simp_all add: goodTask_def)
  have steady: "controlPlaneSteady L W (obj s) = controlPlaneSteady L W task"
    using sameTask_fields(9) [OF task(1)] by (simp add: controlPlaneSteady_def)
  obtain r1 s1 where scan: "foreach (scanNode L) us Map.empty s = (r1, s1)" by fastforce
  show ?thesis
  proof (cases "\<exists>m. r1 = Ret (Continue m)")
    case False
    obtain y t where y: "reconcileNormal L E (servedScope L W us) s = (Ret y, t)"
      using steadyD [OF steady_normal, of s L E "servedScope L W us"] cref by (auto simp: hasCluster_def)
    then have "t = s1"
      using scan False by (auto simp: reconcileNormal_def run_andThen run_return
          split: outcome.splits flow.splits)
    moreover have "\<not> (\<forall>st \<in> set sts. IsTerminated (nus_State st) \<and> nus_State st \<noteq> UpdateTaskStateFailed)"
      using scanLoop_iff [OF sts, of s] scan False by auto
    ultimately show ?thesis
      using y plan scanLoop_calls [OF scan] by (auto simp: carriesOut_def)
  next
    case True
    then obtain m where m: "foreach (scanNode L) us Map.empty s = (Ret (Continue m), s)"
      using scan scanLoop_continue by blast
    then have clean: "\<forall>st \<in> set sts. IsTerminated (nus_State st) \<and> nus_State st \<noteq> UpdateTaskStateFailed"
      using scanLoop_iff [OF sts] by blast
    obtain r2 s2 where pre: "controlPlanePreflight L E s = (Ret r2, s2)"
        "deeds (calls s2) = deeds (calls s)" "controlPlaneSteady L W task \<longleftrightarrow> r2 = Continue ()"
      using serves_preflight [OF laws(2,3) W E, of s] steady by auto
    show ?thesis
    proof (cases "r2 = Continue ()")
      case False
      then obtain r where "r2 = Break r" by (cases r2) auto
      with m pre plan False show ?thesis
        by (simp add: reconcileNormal_def run_andThen run_return carriesOut_def)
    next
      case ok: True
      note normal = reconcileNormal_picks [where scope = "servedScope L W us",
          unfolded servedScope_simps, OF sts clean pre(1) [unfolded ok], folded orderedMachines_def]
      have update: "plannedMove ?v = updatePlanned ?v" using plan clean pre(3) ok by simp
      show ?thesis
      proof (cases "find (needsUpdate (Name task) sts) (orderedMachines L W)")
        case None
        then show ?thesis
          using normal name update pre(2)
          by (simp add: updatePlanned_def nextMachine_viewOf carriesOut_def)
      next
        case (Some x)
        then have x: "x \<in> set (w_machines W)"
          using orderedMachines_set [OF laws(2) W] by (auto simp: find_Some_iff)
        have s2: "sameTask L task (obj s2)" "ClusterRef (Spec (obj s2)) \<noteq> None"
          using keepsD [OF kept_preflight pre(1)] task(1) cref controlPlanePreflight_run(2) [OF pre(1)]
          by (simp_all add: keptTask_def sameTask_def)
        obtain u s3 where "CreateNodeUpdateTask L E x s2 = (Ret (Some u, None), s3)"
            "deeds (calls s3) = deeds (calls s2) @ [CreateNode u]" "machineOf L u = Some (Name x)"
          using serves_create [OF laws(1) W E s2 x] by blast
        then show ?thesis
          using normal Some name update pre(2)
          by (simp add: updatePlanned_def nextMachine_viewOf carriesOut_def)
      qed
    qed
  qed
qed


lemma state_planned:
  assumes "distinct (map nus_MachineName sts)"
  shows "State (Status (trackTask L (census (Name task)
      (foldl (\<lambda>m st. recordStatus L st m) Map.empty sts) (orderedMachines L W)) task)) =
    plannedState (viewOf L W task sts)"
proof -
  let ?m = "foldl (\<lambda>m st. recordStatus L st m) Map.empty sts"
  let ?c = "census (Name task) ?m (orderedMachines L W)"
  note state = stateOf_distinct [OF assms, of L]
  have track: "tracked (Name task) ?m x \<longleftrightarrow> concerned (viewOf L W task sts)
      (Name x, isMachineInUpdateScope x (Name task))" for x
    using state [of x] by (auto simp: tracked_def concerned_def viewOf_def stateOf_def)
  have "n_updated ?c = n_total ?c \<longleftrightarrow> (\<forall>x \<in> set (orderedMachines L W).
      tracked (Name task) ?m x \<longrightarrow> stateOf ?m x = Some UpdateTaskStateUpdated)"
    unfolding census_machine
    by (rule length_filter_eq_iff) (auto simp: tracked_def stateOf_def)
  then have updated: "n_total ?c = n_updated ?c \<longleftrightarrow> (\<forall>x \<in> set (v_machines (viewOf L W task sts)).
      concerned (viewOf L W task sts) x \<longrightarrow>
      map_of (v_reports (viewOf L W task sts)) (fst x) = Some UpdateTaskStateUpdated)"
    unfolding track state by (simp add: viewOf_def eq_commute [of "n_total ?c"])
  have "n_inProgress ?c = 0 \<longleftrightarrow> (\<forall>x \<in> set (orderedMachines L W).
      stateOf ?m x \<noteq> Some UpdateTaskStateInProgress \<and> stateOf ?m x \<noteq> Some UpdateTaskStateUnknown)"
    by (simp add: census_machine filter_empty_conv)
  then have idle: "n_inProgress ?c = 0 \<longleftrightarrow> \<not> (\<exists>x \<in> set (v_machines (viewOf L W task sts)).
      map_of (v_reports (viewOf L W task sts)) (fst x) = Some UpdateTaskStateInProgress \<or>
      map_of (v_reports (viewOf L W task sts)) (fst x) = Some UpdateTaskStateUnknown)"
    unfolding state by (simp add: viewOf_def)
  have "v_aborting (viewOf L W task sts) = taskAborting L task" by (simp add: viewOf_def)
  then show ?thesis
    unfolding State_trackTask plannedState_def updated idle by simp
qed

lemma unfinished_names:
  assumes "map (GetNodeUpdateTaskStatus L) us = map Inr sts"
    and "\<forall>u \<in> set us. GetNodeUpdateTaskStatus L u = Inr (st u)"
  shows "map (machineOf L) (filter (\<lambda>u. \<not> IsTerminated (nus_State (st u))) us) =
    map Some (map fst (filter (\<lambda>(_, s). \<not> IsTerminated s)
      (map (\<lambda>st. (nus_MachineName st, nus_State st)) sts)))"
  using assms
proof (induction us arbitrary: sts)
  case (Cons u us)
  then show ?case by (cases sts) (auto simp: machineOf_def)
qed simp

lemma serves_abort:
  assumes E: "serves L E W ns n task us" and sts: "map (GetNodeUpdateTaskStatus L) us = map Inr sts"
    and abort: "taskAborting L task"
  shows "\<exists>s' cs. reconcileAbort L E (servedScope L W us) s = (Ret (zeroResult, None), s') \<and>
    deeds (calls s') = deeds (calls s) @ cs \<and> carriesOut L cs (plannedMove (viewOf L W task sts))"
proof -
  define st where "st u = (case GetNodeUpdateTaskStatus L u of Inr x \<Rightarrow> x)" for u
  have st: "\<forall>u \<in> set us. GetNodeUpdateTaskStatus L u = Inr (st u)"
  proof
    fix u assume "u \<in> set us"
    then have "GetNodeUpdateTaskStatus L u \<in> set (map Inr sts)" unfolding sts [symmetric] by simp
    then show "GetNodeUpdateTaskStatus L u = Inr (st u)" by (auto simp: st_def)
  qed
  let ?us = "filter (\<lambda>u. \<not> IsTerminated (nus_State (st u))) us"
  have "carriesOut L (map (\<lambda>u. MergePatchNode u abortNodePatch) ?us) (plannedMove (viewOf L W task sts))"
    using unfinished_names [OF sts st] abort
    by (auto simp: carriesOut_def plannedMove_def viewOf_def intro!: exI [of _ ?us])
  moreover have "deeds (map (\<lambda>u. MergePatchNode u abortNodePatch) vs) =
      map (\<lambda>u. MergePatchNode u abortNodePatch) vs" for vs
    by (induction vs) simp_all
  ultimately show ?thesis
    using abortLoop_done [OF st servesD(10) [OF E]]
    by (simp add: reconcileAbort_def prog_simps)
qed

lemma serves_phases:
  assumes laws: "nested_laws L" "collections_laws L" "result_laws L" and W: "goodWorld L W"
    and E: "serves L E W ns n (obj s) us" and task: "goodTask (obj s)"
    and sts: "map (GetNodeUpdateTaskStatus L) us = map Inr sts" "distinct (map nus_MachineName sts)"
  shows "\<exists>r s' cs. reconcilePhases L E s = (Ret r, s') \<and> deeds (calls s') = deeds (calls s) @ cs \<and>
    carriesOut L cs (plannedMove (viewOf L W (obj s) sts)) \<and>
    State (Status (obj s')) = plannedState (viewOf L W (obj s) sts)"
proof -
  let ?task = "obj s"
  let ?v = "viewOf L W ?task sts"
  obtain s1 where scope: "NewScope L E s = (Ret (Inr (servedScope L W us)), s1)"
      "obj s1 = ?task" "deeds (calls s1) = deeds (calls s)"
    using serves_scope [OF E task] .
  have collected: "collectStatuses L (NodeUpdateTasks (servedScope L W us)) Map.empty =
      Inr (foldl (\<lambda>m st. recordStatus L st m) Map.empty sts)"
    using collectStatuses_read [OF sts(1)] by simp
  obtain r2 s2 where run2: "reconcileStatus L E (servedScope L W us) s1 = (r2, s2)" by fastforce
  have status: "r2 = Ret (zeroResult, None)" "State (Status (obj s2)) = plannedState ?v"
    using reconcileStatus_obj [OF collected run2] scope(2) state_planned [OF sts(2), of L ?task W]
    by (simp_all add: orderedMachines_def)
  have same: "sameTask L ?task (obj s2)"
    using keepsD [OF kept_status run2] scope(2) by (simp add: keptTask_def)
  have quiet: "deeds (calls s2) = deeds (calls s)"
    using status_marks.makes_no_other [OF _ run2, of is_deed] scope(3) by simp
  note phases = reconcilePhases_def run_andThen run_return run_gets scope(1) run2 status(1)
    taskAborting_same [OF same, symmetric] sameTask_fields(7) [OF same, symmetric]
  show ?thesis
  proof (cases "taskAborting L ?task")
    case True
    obtain s3 cs where abort: "reconcileAbort L E (servedScope L W us) s2 = (Ret (zeroResult, None), s3)"
        "deeds (calls s3) = deeds (calls s2) @ cs" "carriesOut L cs (plannedMove ?v)"
      using serves_abort [OF E sts(1) True] by blast
    have "State (Status (obj s3)) = plannedState ?v"
      using keepsD [OF sameState_abort abort(1)] status(2) by (simp add: sameState_def)
    with True abort quiet show ?thesis by (simp add: phases)
  next
    case going: False
    show ?thesis
    proof (cases "TargetPhase (Spec ?task) = UpdateTaskPhaseUpdate")
      case True
      obtain r s3 cs where normal: "reconcileNormal L E (servedScope L W us) s2 = (Ret r, s3)"
          "deeds (calls s3) = deeds (calls s2) @ cs" "carriesOut L cs (plannedMove ?v)"
        using serves_normal [OF laws W E same task sts(1) going True] by blast
      have "State (Status (obj s3)) = plannedState ?v"
        using keepsD [OF sameState_normal normal(1)] status(2) by (simp add: sameState_def)
      with going True normal quiet show ?thesis by (simp add: phases split: prod.split)
    next
      case False
      then have "plannedMove ?v = Stay" using going by (simp add: plannedMove_def viewOf_def)
      with going False quiet status show ?thesis by (simp add: phases carriesOut_def)
    qed
  qed
qed

lemma sameTask_kept:
  assumes "sameTask L a b"
  shows "goodTask b = goodTask a" and "controlPlaneSteady L W b = controlPlaneSteady L W a"
proof -
  have "MachineDeploymentRef (Spec a) = MachineDeploymentRef (Spec b)"
    using assms by (cases a; cases b; simp add: sameTask_def core_def UpdateTaskSpec.splits UpdateTaskSpec.equality)
  with sameTask_fields [OF assms]
  show "goodTask b = goodTask a" "controlPlaneSteady L W b = controlPlaneSteady L W a"
    by (simp_all add: goodTask_def controlPlaneSteady_def)
qed

lemma Reconcile_plan:
  assumes laws: "nested_laws L" "collections_laws L" "result_laws L" "finalizer_laws L"
    and "goodWorld L W" and "goodTask task" and "UpdateTaskFinalizer \<in> set (Finalizers task)"
    and "serves L E W ns n task us"
    and "map (GetNodeUpdateTaskStatus L) us = map Inr sts" and "distinct (map nus_MachineName sts)"
  obtains h after cs where "snd (Reconcile L E ns n h0) = h @ [PatchTask task after]"
    and "State (Status after) = plannedState (viewOf L W task sts)"
    and "deeds h = deeds h0 @ cs" and "carriesOut L cs (plannedMove (viewOf L W task sts))"
    and "sameTask L task after"
    and "UpdateTaskFinalizer \<in> set (Finalizers after) \<longleftrightarrow> \<not> IsTerminated (State (Status after))"
proof -
  let ?s = "\<lparr>calls = h0 @ [GetUpdateTask ns n], obj = task\<rparr>"
  have served: "serves L E W ns n (obj ?s) us" "goodTask (obj ?s)" using assms(6,8) by simp_all
  obtain r s1 cs where run: "reconcilePhases L E ?s = (Ret r, s1)"
      "deeds (calls s1) = deeds (calls ?s) @ cs" "carriesOut L cs (plannedMove (viewOf L W task sts))"
      "State (Status (obj s1)) = plannedState (viewOf L W task sts)"
    using serves_phases [OF laws(1-3) assms(5) served assms(9,10)] by auto
  then have task: "reconcileTask L E ?s = (Ret r, s1)"
    using assms(4,7) by (simp add: reconcileTask_def prog_simps finalizer_lawsD)
  have "sameTask L task (finishTask L (obj s1))"
    using keepsD [OF same_reconcileTask task] by (simp add: sameTask_def)
  moreover have "UpdateTaskFinalizer \<in> set (Finalizers (finishTask L (obj s1))) \<longleftrightarrow>
      \<not> IsTerminated (State (Status (finishTask L (obj s1))))"
    using finalizers_reconcileTask [OF laws(4) task] by (simp add: finalizer_lawsD [OF laws(4)])
  ultimately show thesis
    using that [of "calls s1" "finishTask L (obj s1)" cs] run
      Reconcile_fetched [OF servesD(1,2) [OF assms(8)] task] by simp
qed

text \<open>
  C8. \<open>Reconcile\<close> refines the planner. For a task that holds its finalizer, on an API server that
  answers, with readable node updates of which no machine has two, one reconciliation ends by
  patching the task into the planned state, and the node updates it creates or aborts are exactly
  those of the planned move.
\<close>

theorem reconcile_refines_plan:
  assumes "nested_laws L" and "collections_laws L" and "result_laws L" and "finalizer_laws L"
    and "goodWorld L W" and "goodTask task" and "UpdateTaskFinalizer \<in> set (Finalizers task)"
    and "serves L E W ns n task us"
    and "map (GetNodeUpdateTaskStatus L) us = map Inr sts" and "distinct (map nus_MachineName sts)"
  shows "\<exists>h after cs. snd (Reconcile L E ns n h0) = h @ [PatchTask task after] \<and>
    State (Status after) = plannedState (viewOf L W task sts) \<and>
    deeds h = deeds h0 @ cs \<and> carriesOut L cs (plannedMove (viewOf L W task sts))"
  by (rule Reconcile_plan [OF assms, of h0]) blast

end
