(* ===== verification/Closed_Loop.thy ===== *)
theory Closed_Loop
  imports Planner
begin

text \<open>
  The controller and its surroundings in a loop: in each round \<open>Reconcile\<close> runs once, the API server
  stores the patched task and the node update tasks it was asked to create, and the controllers of
  the node updates bring every one of them to an end. An update then reaches Updated and an abort
  reaches Aborted after a known number of rounds.
\<close>

section \<open>Rounds\<close>

text \<open>The task the server holds after the calls: every patch is stored.\<close>

definition storedTask :: "UpdateTask \<Rightarrow> history \<Rightarrow> UpdateTask" where
  "storedTask t h = foldl (\<lambda>t c. case c of PatchTask _ after \<Rightarrow> after | _ \<Rightarrow> t) t h"

text \<open>
  \<open>S t us\<close> is the outside world while the server holds task \<open>t\<close> and node update tasks \<open>us\<close>;
  \<open>finish u\<close> is what the node update task \<open>u\<close> becomes before the next round.
\<close>

definition round ::
  "lib \<Rightarrow> (UpdateTask \<Rightarrow> Unstructured list \<Rightarrow> env) \<Rightarrow> (Unstructured \<Rightarrow> Unstructured) \<Rightarrow>
     string \<Rightarrow> string \<Rightarrow> UpdateTask \<times> Unstructured list \<Rightarrow> UpdateTask \<times> Unstructured list" where
  "round L S finish ns n = (\<lambda>(t, us).
     let h = snd (Reconcile L (S t us) ns n []) in
     (storedTask t h, map finish (us @ createdNodes h)))"

lemma storedTask_snoc [simp]: "storedTask t (h @ [PatchTask a b]) = b"
  by (simp add: storedTask_def)

lemma createdNodes_deeds: "createdNodes (deeds cs) = createdNodes cs"
  by (induction cs rule: createdNodes.induct) (simp_all add: is_deed_def)

lemma createdNodes_carried:
  "carriesOut L cs Stay \<Longrightarrow> createdNodes cs = []"
  "carriesOut L cs (AbortAll names) \<Longrightarrow> createdNodes cs = []"
  "carriesOut L cs (Update name) \<Longrightarrow> map (machineOf L) (createdNodes cs) = [Some name]"
proof -
  have "createdNodes (map (\<lambda>u. MergePatchNode u abortNodePatch) vs) = []" for vs
    by (induction vs) simp_all
  then show "carriesOut L cs (AbortAll names) \<Longrightarrow> createdNodes cs = []"
    by (auto simp: carriesOut_def)
qed (auto simp: carriesOut_def)

text \<open>A pass over a task without the finalizer only adds it.\<close>

lemma Reconcile_guard:
  assumes "finalizer_laws L" and "UpdateTaskFinalizer \<notin> set (Finalizers t)"
    and "serves L E W ns n t us"
  obtains after where "snd (Reconcile L E ns n h0) = h0 @ [GetUpdateTask ns n, PatchTask t after]"
    and "State (Status after) = State (Status t)" and "sameTask L t after"
    and "UpdateTaskFinalizer \<in> set (Finalizers after) \<longleftrightarrow> \<not> IsTerminated (State (Status after))"
proof -
  let ?t = "t\<lparr>Finalizers := AddFinalizer L (Finalizers t) UpdateTaskFinalizer\<rparr>"
  have "reconcileTask L E \<lparr>calls = h0 @ [GetUpdateTask ns n], obj = t\<rparr> =
      (Ret (requeueAfter changedRequeueAfter, None), \<lparr>calls = h0 @ [GetUpdateTask ns n], obj = ?t\<rparr>)"
    using assms(1,2) by (simp add: reconcileTask_def prog_simps finalizer_lawsD)
  from Reconcile_fetched [OF servesD(1,2) [OF assms(3)] this] that [of "finishTask L ?t"]
  show thesis by (simp add: sameTask_def finalizer_lawsD [OF assms(1)])
qed

section \<open>Node updates between two rounds\<close>

text \<open>
  Each node update of a kind \<open>K\<close> ends in one of the given states, as a node update of the same kind and
  machine.
\<close>

definition endsIn :: "lib \<Rightarrow> (Unstructured \<Rightarrow> bool) \<Rightarrow> UpdateTaskState set \<Rightarrow>
    (Unstructured \<Rightarrow> Unstructured) \<Rightarrow> bool" where
  "endsIn L K final finish \<longleftrightarrow> (\<forall>u st. K u \<longrightarrow> GetNodeUpdateTaskStatus L u = Inr st \<longrightarrow>
     K (finish u) \<and> (\<exists>st'. GetNodeUpdateTaskStatus L (finish u) = Inr st' \<and>
        nus_MachineName st' = nus_MachineName st \<and> nus_State st' \<in> final))"

text \<open>The node update tasks are readable, of the machines \<open>names\<close>, in states of \<open>final\<close>.\<close>

definition reported :: "lib \<Rightarrow> UpdateTaskState set \<Rightarrow> Unstructured list \<Rightarrow> string list \<Rightarrow> bool" where
  "reported L final us names \<longleftrightarrow> (\<exists>sts. map (GetNodeUpdateTaskStatus L) us = map Inr sts \<and>
     map nus_MachineName sts = names \<and> (\<forall>st \<in> set sts. nus_State st \<in> final))"

lemma reported_Nil [simp]: "reported L final [] names \<longleftrightarrow> names = []"
  by (auto simp: reported_def)

lemma machineOf_status: "machineOf L u = Some name \<longleftrightarrow>
    (\<exists>st. GetNodeUpdateTaskStatus L u = Inr st \<and> nus_MachineName st = name)"
  by (auto simp: machineOf_def split: sum.split)

lemma reported_finish:
  assumes "endsIn L K final finish" and "list_all K us" and "map (machineOf L) us = map Some names"
  shows "list_all K (map finish us) \<and> reported L final (map finish us) names"
  using assms(2,3)
proof (induction us arbitrary: names)
  case (Cons u us)
  then obtain name rest where names: "names = name # rest" "machineOf L u = Some name"
      "map (machineOf L) us = map Some rest" using Cons.prems(2) by (cases names) auto
  have kind: "K u" "list_all K us" using Cons.prems(1) by simp_all
  obtain st' where "K (finish u)" "GetNodeUpdateTaskStatus L (finish u) = Inr st'"
      "nus_MachineName st' = name" "nus_State st' \<in> final"
    using names(2) kind(1) assms(1) by (auto simp: machineOf_status endsIn_def)
  moreover obtain sts where "list_all K (map finish us)"
      "map (GetNodeUpdateTaskStatus L) (map finish us) = map Inr sts"
      "map nus_MachineName sts = rest" "\<forall>st \<in> set sts. nus_State st \<in> final"
    using Cons.IH [OF kind(2) names(3)] by (auto simp: reported_def)
  ultimately show ?case
    unfolding reported_def names(1) by (intro conjI exI [of _ "st' # sts"]) simp_all
qed simp

lemma reported_machines:
  assumes "reported L final us names"
  shows "map (machineOf L) us = map Some names"
proof -
  obtain sts where sts: "map (GetNodeUpdateTaskStatus L) us = map Inr sts" "map nus_MachineName sts = names"
    using assms by (auto simp: reported_def)
  have "map (machineOf L) us = map Some (map nus_MachineName sts)"
    using sts(1)
  proof (induction us arbitrary: sts)
    case (Cons u us)
    then show ?case by (cases sts) (auto simp: machineOf_def)
  qed simp
  with sts(2) show ?thesis by simp
qed


section \<open>One round\<close>

lemma round_plan:
  assumes laws: "nested_laws L" "collections_laws L" "result_laws L" "finalizer_laws L"
    and "goodWorld L W" and "goodTask t" and "UpdateTaskFinalizer \<in> set (Finalizers t)"
    and "serves L (S t us) W ns n t us"
    and "map (GetNodeUpdateTaskStatus L) us = map Inr sts" and "distinct (map nus_MachineName sts)"
  obtains t' created where "round L S finish ns n (t, us) = (t', map finish (us @ created))"
    and "created = createdNodes (snd (Reconcile L (S t us) ns n []))"
    and "State (Status t') = plannedState (viewOf L W t sts)" and "sameTask L t t'"
    and "UpdateTaskFinalizer \<in> set (Finalizers t') \<longleftrightarrow> \<not> IsTerminated (State (Status t'))"
    and "map (machineOf L) created =
      (case plannedMove (viewOf L W t sts) of Update name \<Rightarrow> [Some name] | _ \<Rightarrow> [])"
proof -
  obtain h after cs where run: "snd (Reconcile L (S t us) ns n []) = h @ [PatchTask t after]"
      "State (Status after) = plannedState (viewOf L W t sts)" "deeds h = deeds [] @ cs"
      "carriesOut L cs (plannedMove (viewOf L W t sts))" "sameTask L t after"
      "UpdateTaskFinalizer \<in> set (Finalizers after) \<longleftrightarrow> \<not> IsTerminated (State (Status after))"
    using Reconcile_plan [OF assms, of "[]"] by blast
  have "createdNodes h = createdNodes cs"
    using run(3) createdNodes_deeds [of h] by simp
  then have "map (machineOf L) (createdNodes h) =
      (case plannedMove (viewOf L W t sts) of Update name \<Rightarrow> [Some name] | _ \<Rightarrow> [])"
    using run(4) createdNodes_carried [of L cs] by (auto split: move.split)
  moreover have "createdNodes (snd (Reconcile L (S t us) ns n [])) = createdNodes h"
    unfolding run(1) by simp
  moreover have "round L S finish ns n (t, us) = (after, map finish (us @ createdNodes h))"
    unfolding round_def by (simp add: Let_def run(1))
  ultimately show thesis using that [of after "createdNodes h"] run(2,5,6) by metis
qed

lemma round_guard:
  assumes "finalizer_laws L" and "UpdateTaskFinalizer \<notin> set (Finalizers t)"
    and "serves L (S t us) W ns n t us"
  obtains t' where "round L S finish ns n (t, us) = (t', map finish us)"
    and "State (Status t') = State (Status t)" and "sameTask L t t'"
    and "UpdateTaskFinalizer \<in> set (Finalizers t') \<longleftrightarrow> \<not> IsTerminated (State (Status t'))"
proof -
  obtain after where run: "snd (Reconcile L (S t us) ns n []) =
        [] @ [GetUpdateTask ns n, PatchTask t after]"
      "State (Status after) = State (Status t)" "sameTask L t after"
      "UpdateTaskFinalizer \<in> set (Finalizers after) \<longleftrightarrow> \<not> IsTerminated (State (Status after))"
    using Reconcile_guard [OF assms(1,2,3), of "[]"] by blast
  have "storedTask t [GetUpdateTask ns n, PatchTask t after] = after" by (simp add: storedTask_def)
  with run that [of after] show thesis by (simp add: round_def Let_def)
qed

section \<open>An update\<close>

text \<open>The machines of the task that have no node update yet.\<close>

definition waitingMachines :: "lib \<Rightarrow> World \<Rightarrow> string \<Rightarrow> string list \<Rightarrow> Machine list" where
  "waitingMachines L W taskName names =
     filter (\<lambda>x. Name x \<notin> set names \<and> isMachineInUpdateScope x taskName) (orderedMachines L W)"

lemma nextMachine_waiting:
  "nextMachine (viewOf L W t sts) =
     (case waitingMachines L W (Name t) (map nus_MachineName sts) of [] \<Rightarrow> None | x # _ \<Rightarrow> Some (Name x))"
proof -
  have "needsUpdate (Name t) sts =
      (\<lambda>x. Name x \<notin> set (map nus_MachineName sts) \<and> isMachineInUpdateScope x (Name t))"
    by (force simp: needsUpdate_def fun_eq_iff)
  moreover have "find P xs = (case filter P xs of [] \<Rightarrow> None | x # _ \<Rightarrow> Some x)" for P and xs :: "Machine list"
    by (induction xs) auto
  ultimately show ?thesis
    by (auto simp: nextMachine_viewOf waitingMachines_def split: list.split)
qed

text \<open>With no node updates and a steady control plane, a pass creates one for the first waiting machine.\<close>

lemma waiting_created:
  assumes laws: "nested_laws L" "collections_laws L" "result_laws L" "finalizer_laws L" "goodWorld L W"
    and task: "goodTask t" "UpdateTaskFinalizer \<in> set (Finalizers t)"
    and server: "serves L E W ns n t []"
    and to_do: "\<not> taskAborting L t" "TargetPhase (Spec t) = UpdateTaskPhaseUpdate"
      "controlPlaneSteady L W t" "waitingMachines L W (Name t) [] = x # xs"
  shows "\<exists>u. createdNodes (snd (Reconcile L E ns n [])) = [u] \<and> machineOf L u = Some (Name x)"
proof -
  let ?v = "viewOf L W t []"
  have "nextMachine ?v = Some (Name x)"
    using nextMachine_waiting [of L W t "[]"] to_do(4) by simp
  then have "plannedMove ?v = Update (Name x)"
    using task to_do(1-3) by (simp add: plannedMove_def viewOf_def)
  then obtain hist after cs where run: "snd (Reconcile L E ns n []) = hist @ [PatchTask t after]"
      "deeds hist = deeds [] @ cs" "carriesOut L cs (Update (Name x))"
    using Reconcile_plan [OF laws task server, of "[]" "[]"] by force
  have "createdNodes (snd (Reconcile L E ns n [])) = createdNodes cs"
    unfolding run(1) using run(2) createdNodes_deeds [of hist] by simp
  with createdNodes_carried(3) [OF run(3)] show ?thesis by auto
qed

lemma reports_updated:
  assumes "\<forall>st \<in> set sts. nus_State st \<in> final"
  shows "map_of (v_reports (viewOf L W t sts)) name = Some s \<Longrightarrow> s \<in> final"
    and "map_of (v_reports (viewOf L W t sts)) name = None \<longleftrightarrow> name \<notin> set (map nus_MachineName sts)"
proof -
  show "map_of (v_reports (viewOf L W t sts)) name = Some s \<Longrightarrow> s \<in> final"
    using assms by (auto simp: viewOf_def dest!: map_of_SomeD)
  show "map_of (v_reports (viewOf L W t sts)) name = None \<longleftrightarrow> name \<notin> set (map nus_MachineName sts)"
    by (force simp: viewOf_def map_of_eq_None_iff)
qed

lemma planned_updated:
  assumes "\<forall>st \<in> set sts. nus_State st = UpdateTaskStateUpdated" and "\<not> taskAborting L t"
  shows "plannedState (viewOf L W t sts) =
    (if waitingMachines L W (Name t) (map nus_MachineName sts) = []
     then UpdateTaskStateUpdated else UpdateTaskStateInProgress)"
proof -
  let ?v = "viewOf L W t sts"
  have updated: "map_of (v_reports ?v) name = Some UpdateTaskStateUpdated \<longleftrightarrow>
      name \<in> set (map nus_MachineName sts)" for name
    using reports_updated [of sts "{UpdateTaskStateUpdated}" L W t name] assms(1)
    by (cases "map_of (v_reports ?v) name") auto
  have free: "map_of (v_reports ?v) name = None \<longleftrightarrow> name \<notin> set (map nus_MachineName sts)" for name
    using reports_updated(2) [of sts UNIV] by simp
  have "(\<forall>x \<in> set (v_machines ?v). concerned ?v x \<longrightarrow>
        map_of (v_reports ?v) (fst x) = Some UpdateTaskStateUpdated) \<longleftrightarrow>
      waitingMachines L W (Name t) (map nus_MachineName sts) = []"
    unfolding concerned_def updated free
    by (auto simp: viewOf_def waitingMachines_def filter_empty_conv)
  with assms(2) show ?thesis by (simp add: plannedState_def viewOf_def)
qed

text \<open>
  Between rounds: the finalizer is held, no final state is reached, all node updates so far have
  ended well and \<open>m\<close> machines wait.
\<close>

definition underWay :: "lib \<Rightarrow> (Unstructured \<Rightarrow> bool) \<Rightarrow> World \<Rightarrow> UpdateTask \<Rightarrow> nat \<Rightarrow> UpdateTask \<times> Unstructured list \<Rightarrow> bool" where
  "underWay L K W t0 m = (\<lambda>(t, us). sameTask L t0 t \<and>
     UpdateTaskFinalizer \<in> set (Finalizers t) \<and> \<not> IsTerminated (State (Status t)) \<and>
     list_all K us \<and> (\<exists>names. reported L {UpdateTaskStateUpdated} us names \<and> distinct names \<and>
        length (waitingMachines L W (Name t0) names) = m))"

definition completed :: "lib \<Rightarrow> (Unstructured \<Rightarrow> bool) \<Rightarrow> World \<Rightarrow> UpdateTask \<Rightarrow> UpdateTask \<times> Unstructured list \<Rightarrow> bool" where
  "completed L K W t0 = (\<lambda>(t, us). sameTask L t0 t \<and> State (Status t) = UpdateTaskStateUpdated \<and>
     UpdateTaskFinalizer \<notin> set (Finalizers t) \<and>
     list_all K us \<and> (\<exists>names. reported L {UpdateTaskStateUpdated} us names \<and> distinct names \<and>
        waitingMachines L W (Name t0) names = []))"

lemma waiting_snoc:
  assumes "distinct (map Name (orderedMachines L W))"
    and "waitingMachines L W taskName names = x # xs"
  shows "length (waitingMachines L W taskName (names @ [Name x])) = length xs"
proof -
  have "waitingMachines L W taskName (names @ [Name x]) =
      filter (\<lambda>y. Name y \<noteq> Name x) (waitingMachines L W taskName names)"
    unfolding waitingMachines_def by (simp add: conj_ac)
  also have "\<dots> = filter (\<lambda>y. Name y \<noteq> Name x) xs" unfolding assms(2) by simp
  also have "\<dots> = xs"
  proof -
    have "distinct (map Name (waitingMachines L W taskName names))"
      unfolding waitingMachines_def using assms(1) by (rule distinct_map_filter)
    then have "Name x \<notin> Name ` set xs" unfolding assms(2) by simp
    then have "\<forall>y \<in> set xs. Name y \<noteq> Name x" by (metis imageI)
    then show ?thesis by (simp add: filter_id_conv)
  qed
  finally show ?thesis by simp
qed


lemma distinct_orderedMachines:
  assumes "collections_laws L" and "goodWorld L W"
  shows "distinct (map Name (orderedMachines L W))"
proof -
  have "distinct (map Name (w_machines W))" using assms(2) by (simp add: goodWorld_def)
  note list = collections_laws_list(2,3) [OF assms(1) this]
  have "distinct (map fst xs) \<and> (\<forall>(k, m) \<in> set xs. k = Name m) \<Longrightarrow>
      distinct (map Name (SortedByCreationTimestamp L xs))" for xs
    using assms(1) by (simp add: collections_laws_def)
  with list show ?thesis by (simp add: orderedMachines_def)
qed

text \<open>
  What an update needs of its surroundings. \<open>K\<close> says what is known of the node update tasks that the
  template makes.
\<close>

definition updateSurroundings ::
  "lib \<Rightarrow> (Unstructured \<Rightarrow> bool) \<Rightarrow> World \<Rightarrow> (UpdateTask \<Rightarrow> Unstructured list \<Rightarrow> env) \<Rightarrow>
     (Unstructured \<Rightarrow> Unstructured) \<Rightarrow> string \<Rightarrow> string \<Rightarrow> UpdateTask \<Rightarrow> bool" where
  "updateSurroundings L K W S finish ns n t0 \<longleftrightarrow>
     nested_laws L \<and> collections_laws L \<and> result_laws L \<and> finalizer_laws L \<and>
     goodWorld L W \<and> controlPlaneSteady L W t0 \<and>
     (\<forall>t us. sameTask L t0 t \<longrightarrow> serves L (S t us) W ns n t us \<and>
       list_all K (createdNodes (snd (Reconcile L (S t us) ns n [])))) \<and>
     endsIn L K {UpdateTaskStateUpdated} finish"

text \<open>An update task that is to update, in such surroundings.\<close>

definition updateLoop :: "lib \<Rightarrow> (Unstructured \<Rightarrow> bool) \<Rightarrow> World \<Rightarrow> (UpdateTask \<Rightarrow> Unstructured list \<Rightarrow> env) \<Rightarrow>
    (Unstructured \<Rightarrow> Unstructured) \<Rightarrow> string \<Rightarrow> string \<Rightarrow> UpdateTask \<Rightarrow> bool" where
  "updateLoop L K W S finish ns n t0 \<longleftrightarrow> updateSurroundings L K W S finish ns n t0 \<and>
     goodTask t0 \<and> \<not> taskAborting L t0 \<and> TargetPhase (Spec t0) = UpdateTaskPhaseUpdate"

lemmas update_loop_defs = updateLoop_def updateSurroundings_def

lemma underWay_round:
  assumes loop: "updateLoop L K W S finish ns n t0" and "underWay L K W t0 m ts"
  shows "case m of
      0 \<Rightarrow> completed L K W t0 (round L S finish ns n ts)
    | Suc m' \<Rightarrow> underWay L K W t0 m' (round L S finish ns n ts)"
proof -
  obtain t us where ts: "ts = (t, us)" by fastforce
  obtain names where now: "sameTask L t0 t" "UpdateTaskFinalizer \<in> set (Finalizers t)"
      "reported L {UpdateTaskStateUpdated} us names" "distinct names" and kind: "list_all K us"
      and waiting: "length (waitingMachines L W (Name t0) names) = m"
    using assms(2) by (auto simp: underWay_def ts)
  obtain sts where sts: "map (GetNodeUpdateTaskStatus L) us = map Inr sts"
      "map nus_MachineName sts = names" "\<forall>st \<in> set sts. nus_State st = UpdateTaskStateUpdated"
    using now(3) by (auto simp: reported_def)
  note same = sameTask_fields(1,7) [OF now(1)] taskAborting_same [OF now(1)] sameTask_kept [OF now(1)]
  have laws: "nested_laws L" "collections_laws L" "result_laws L" "finalizer_laws L" "goodWorld L W"
    and t0: "goodTask t" "controlPlaneSteady L W t" "\<not> taskAborting L t"
      "TargetPhase (Spec t) = UpdateTaskPhaseUpdate"
    and served: "serves L (S t us) W ns n t us"
      "list_all K (createdNodes (snd (Reconcile L (S t us) ns n [])))" and ends: "endsIn L K {UpdateTaskStateUpdated} finish"
    using loop now(1) same by (simp_all add: update_loop_defs)
  obtain t' created where r: "round L S finish ns n (t, us) = (t', map finish (us @ created))"
      "created = createdNodes (snd (Reconcile L (S t us) ns n []))"
      "State (Status t') = plannedState (viewOf L W t sts)" "sameTask L t t'"
      "UpdateTaskFinalizer \<in> set (Finalizers t') \<longleftrightarrow> \<not> IsTerminated (State (Status t'))"
      "map (machineOf L) created =
        (case plannedMove (viewOf L W t sts) of Update name \<Rightarrow> [Some name] | _ \<Rightarrow> [])"
    using round_plan [where S = S and us = us and finish = finish,
        OF laws t0(1) now(2) served(1) sts(1)] now(4) sts(2) by metis
  have same0: "sameTask L t0 t'" using now(1) r(4) by (simp add: sameTask_def)
  have state: "State (Status t') = (if waitingMachines L W (Name t0) names = []
      then UpdateTaskStateUpdated else UpdateTaskStateInProgress)"
    using planned_updated [OF sts(3) t0(3)] r(3) sts(2) same(1) by simp
  have "plannedMove (viewOf L W t sts) = updatePlanned (viewOf L W t sts)"
    using t0 sts(3) by (subst plannedMove_updating) (auto simp: viewOf_def)
  then have created: "map (machineOf L) created =
      (case waitingMachines L W (Name t0) names of [] \<Rightarrow> [] | x # _ \<Rightarrow> [Some (Name x)])"
    using r(6) nextMachine_waiting [of L W t sts] sts(2) same(1)
    by (simp add: updatePlanned_def split: list.split)
  have old: "map (machineOf L) us = map Some names" by (rule reported_machines [OF now(3)])
  have kinds: "list_all K (us @ created)" using kind served(2) r(2) by simp
  show ?thesis
  proof (cases "waitingMachines L W (Name t0) names")
    case Nil
    then have "m = 0" "created = []" using waiting created by simp_all
    moreover have "list_all K (map finish us)"
        "reported L {UpdateTaskStateUpdated} (map finish us) names"
      using reported_finish [OF ends kind old] by simp_all
    ultimately show ?thesis
      using r(1,5) same0 state Nil now(4) by (auto simp: completed_def ts)
  next
    case (Cons x xs)
    then obtain m' where m': "m = Suc m'" "length xs = m'" using waiting by (cases m) simp_all
    have "map (machineOf L) (us @ created) = map Some (names @ [Name x])"
      using old created Cons by simp
    from reported_finish [OF ends kinds this]
    have "list_all K (map finish (us @ created))"
      "reported L {UpdateTaskStateUpdated} (map finish (us @ created)) (names @ [Name x])" by simp_all
    moreover have "Name x \<notin> set names"
    proof -
      have "x \<in> set (waitingMachines L W (Name t0) names)" using Cons by simp
      then show ?thesis by (simp add: waitingMachines_def)
    qed
    moreover have "length (waitingMachines L W (Name t0) (names @ [Name x])) = m'"
      using waiting_snoc [OF distinct_orderedMachines [OF laws(2,5)] Cons] m'(2) by simp
    ultimately have "underWay L K W t0 m' (t', map finish (us @ created))"
      unfolding underWay_def using same0 r(5) state Cons now(4)
      by (auto intro!: exI [of _ "names @ [Name x]"])
    with r(1) m'(1) show ?thesis by (simp add: ts)
  qed
qed

lemma completed_round:
  assumes loop: "updateLoop L K W S finish ns n t0" and "completed L K W t0 ts"
  shows "completed L K W t0 (round L S finish ns n ts)"
proof -
  obtain t us where ts: "ts = (t, us)" by fastforce
  obtain names where now: "sameTask L t0 t" "UpdateTaskFinalizer \<notin> set (Finalizers t)"
      "State (Status t) = UpdateTaskStateUpdated"
      "reported L {UpdateTaskStateUpdated} us names" "distinct names"
      "waitingMachines L W (Name t0) names = []" "list_all K us"
    using assms(2) by (auto simp: completed_def ts)
  have "finalizer_laws L" "serves L (S t us) W ns n t us" "endsIn L K {UpdateTaskStateUpdated} finish"
    using loop now(1) by (simp_all add: update_loop_defs)
  note facts = this
  obtain t' where r: "round L S finish ns n (t, us) = (t', map finish us)"
      "State (Status t') = State (Status t)" "sameTask L t t'"
      "UpdateTaskFinalizer \<in> set (Finalizers t') \<longleftrightarrow> \<not> IsTerminated (State (Status t'))"
    using round_guard [OF facts(1) now(2), where S = S and us = us, OF facts(2)] by metis
  have "list_all K (map finish us) \<and> reported L {UpdateTaskStateUpdated} (map finish us) names"
    by (rule reported_finish [OF facts(3) now(7) reported_machines [OF now(4)]])
  with r now show ?thesis by (auto simp: completed_def ts sameTask_def)
qed


lemma completed_rounds:
  assumes "updateLoop L K W S finish ns n t0" and "completed L K W t0 ts"
  shows "completed L K W t0 ((round L S finish ns n ^^ k) ts)"
  using assms(2) by (induction k) (simp_all add: completed_round [OF assms(1)])

lemma underWay_rounds:
  assumes "updateLoop L K W S finish ns n t0" and "underWay L K W t0 m ts" and "m < k"
  shows "completed L K W t0 ((round L S finish ns n ^^ k) ts)"
  using assms(2,3)
proof (induction m arbitrary: ts k)
  case 0
  then obtain k' where "k = Suc k'" by (cases k) auto
  with underWay_round [OF assms(1) 0(1)] completed_rounds [OF assms(1)] show ?case
    by (simp add: funpow_swap1)
next
  case (Suc m)
  then obtain k' where "k = Suc k'" "m < k'" by (cases k) auto
  with underWay_round [OF assms(1) Suc.prems(1)] Suc.IH show ?case
    by (simp add: funpow_swap1)
qed

lemma rollout_starts:
  assumes "updateLoop L K W S finish ns n t0" and "\<not> IsTerminated (State (Status t0))"
  shows "\<exists>i \<le> 1. underWay L K W t0 (length (waitingMachines L W (Name t0) []))
    ((round L S finish ns n ^^ i) (t0, []))"
proof (cases "UpdateTaskFinalizer \<in> set (Finalizers t0)")
  case True
  then show ?thesis
    using assms(2) by (intro exI [of _ 0]) (simp add: underWay_def sameTask_def)
next
  case False
  have "finalizer_laws L" "serves L (S t0 []) W ns n t0 []"
    using assms(1) by (simp_all add: update_loop_defs sameTask_def)
  then obtain t' where "round L S finish ns n (t0, []) = (t', map finish [])"
      "State (Status t') = State (Status t0)" "sameTask L t0 t'"
      "UpdateTaskFinalizer \<in> set (Finalizers t') \<longleftrightarrow> \<not> IsTerminated (State (Status t'))"
    using round_guard [OF _ False, where S = S and us = "[]"] by metis
  then show ?thesis
    using assms(2) by (intro exI [of _ 1]) (simp add: underWay_def)
qed

lemma rollout_completed:
  assumes "updateLoop L K W S finish ns n t0" and "\<not> IsTerminated (State (Status t0))"
    and "length (waitingMachines L W (Name t0) []) + 2 \<le> k"
    and "(round L S finish ns n ^^ k) (t0, []) = (t, us)"
  shows "completed L K W t0 (t, us)"
proof -
  obtain i where i: "i \<le> 1" "underWay L K W t0 (length (waitingMachines L W (Name t0) []))
      ((round L S finish ns n ^^ i) (t0, []))"
    using rollout_starts [OF assms(1,2)] by blast
  have "(round L S finish ns n ^^ k) (t0, []) =
      (round L S finish ns n ^^ (k - i)) ((round L S finish ns n ^^ i) (t0, []))"
    using i(1) assms(3) by (simp add: funpow_add [symmetric, THEN fun_cong, unfolded comp_def])
  then show ?thesis
    using underWay_rounds [OF assms(1) i(2), of "k - i"] assms(3,4) i(1) by simp
qed

lemma completed_nodes:
  assumes "completed L K W t0 (t, us)" and "collections_laws L" and "goodWorld L W"
    and x: "x \<in> set (w_machines W)" "isMachineInUpdateScope x (Name t0)"
  obtains u st where "u \<in> set us" and "K u" and "GetNodeUpdateTaskStatus L u = Inr st"
    and "nus_MachineName st = Name x" and "nus_State st = UpdateTaskStateUpdated"
proof -
  obtain names sts where names: "waitingMachines L W (Name t0) names = []"
      "map (GetNodeUpdateTaskStatus L) us = map Inr sts" "map nus_MachineName sts = names"
      "\<forall>st \<in> set sts. nus_State st = UpdateTaskStateUpdated" and kinds: "list_all K us"
    using assms(1) by (auto simp: completed_def reported_def)
  have "Name x \<in> set names"
    using x names(1) orderedMachines_set [OF assms(2,3)]
    by (auto simp: waitingMachines_def filter_empty_conv)
  then obtain st where st: "st \<in> set sts" "nus_MachineName st = Name x" using names(3) by auto
  have "Inr st \<in> set (map (GetNodeUpdateTaskStatus L) us)" unfolding names(2) using st(1) by simp
  then obtain u where "u \<in> set us" "GetNodeUpdateTaskStatus L u = Inr st" by auto
  with st names(4) kinds that show thesis by (auto simp: list_all_iff)
qed

text \<open>
  An update completes. When the API server answers, the control plane is steady, and every node
  update of the kind that the template makes is carried out between two rounds, the update task is
  Updated after at most as many rounds as there are machines to update plus two, it stays so, and
  every machine of the update then has a node update that ended Updated.
\<close>

theorem rollout_completes:
  assumes "updateLoop L K W S finish ns n t0" and "\<not> IsTerminated (State (Status t0))"
    and "length (waitingMachines L W (Name t0) []) + 2 \<le> k"
    and "(round L S finish ns n ^^ k) (t0, []) = (t, us)"
  shows "State (Status t) = UpdateTaskStateUpdated \<and>
    (\<forall>x \<in> set (w_machines W). isMachineInUpdateScope x (Name t0) \<longrightarrow>
      (\<exists>u \<in> set us. \<exists>st. GetNodeUpdateTaskStatus L u = Inr st \<and> nus_MachineName st = Name x \<and>
         nus_State st = UpdateTaskStateUpdated))"
proof -
  have c: "completed L K W t0 (t, us)" by (rule rollout_completed [OF assms])
  have laws: "collections_laws L" "goodWorld L W"
    using assms(1) by (simp_all add: update_loop_defs)
  have "\<exists>u \<in> set us. \<exists>st. GetNodeUpdateTaskStatus L u = Inr st \<and>
      nus_MachineName st = Name x \<and> nus_State st = UpdateTaskStateUpdated"
    if "x \<in> set (w_machines W)" "isMachineInUpdateScope x (Name t0)" for x
    using completed_nodes [OF c laws that] by blast
  with c show ?thesis by (simp add: completed_def)
qed

section \<open>An abort\<close>

definition abortLoop :: "lib \<Rightarrow> (Unstructured \<Rightarrow> bool) \<Rightarrow> World \<Rightarrow> (UpdateTask \<Rightarrow> Unstructured list \<Rightarrow> env) \<Rightarrow>
    (Unstructured \<Rightarrow> Unstructured) \<Rightarrow> string \<Rightarrow> string \<Rightarrow> UpdateTask \<Rightarrow> bool" where
  "abortLoop L K W S finish ns n t0 \<longleftrightarrow>
     nested_laws L \<and> collections_laws L \<and> result_laws L \<and> finalizer_laws L \<and>
     goodWorld L W \<and> goodTask t0 \<and>
     (\<forall>t us. sameTask L t0 t \<longrightarrow> serves L (S t us) W ns n t us) \<and>
     endsIn L K {st. IsTerminated st} finish"

definition abortUnderWay ::
  "lib \<Rightarrow> (Unstructured \<Rightarrow> bool) \<Rightarrow> UpdateTask \<Rightarrow> string list \<Rightarrow> UpdateTaskState set \<Rightarrow>
     UpdateTask \<times> Unstructured list \<Rightarrow> bool" where
  "abortUnderWay L K t0 names final = (\<lambda>(t, us). sameTask L t0 t \<and>
     UpdateTaskFinalizer \<in> set (Finalizers t) \<and> \<not> IsTerminated (State (Status t)) \<and>
     list_all K us \<and> reported L final us names)"

definition abortDone :: "lib \<Rightarrow> (Unstructured \<Rightarrow> bool) \<Rightarrow> UpdateTask \<Rightarrow> string list \<Rightarrow>
    UpdateTask \<times> Unstructured list \<Rightarrow> bool" where
  "abortDone L K t0 names = (\<lambda>(t, us). sameTask L t0 t \<and> State (Status t) = UpdateTaskStateAborted \<and>
     UpdateTaskFinalizer \<notin> set (Finalizers t) \<and> list_all K us \<and>
     map (machineOf L) us = map Some names)"

lemma planned_aborting:
  assumes "taskAborting L t"
  shows "plannedState (viewOf L W t sts) \<in> {UpdateTaskStateInProgress, UpdateTaskStateAborted}"
    and "\<forall>st \<in> set sts. IsTerminated (nus_State st) \<Longrightarrow>
      plannedState (viewOf L W t sts) = UpdateTaskStateAborted"
proof -
  let ?v = "viewOf L W t sts"
  have v: "v_aborting ?v" using assms by (simp add: viewOf_def)
  then show "plannedState ?v \<in> {UpdateTaskStateInProgress, UpdateTaskStateAborted}"
    by (simp add: plannedState_def)
  assume "\<forall>st \<in> set sts. IsTerminated (nus_State st)"
  then have "map_of (v_reports ?v) name = Some s \<Longrightarrow> IsTerminated s" for name s
    using reports_updated(1) [of sts "{s. IsTerminated s}"] by simp
  then have "map_of (v_reports ?v) name \<noteq> Some UpdateTaskStateInProgress \<and>
      map_of (v_reports ?v) name \<noteq> Some UpdateTaskStateUnknown" for name
    by fastforce
  with v show "plannedState ?v = UpdateTaskStateAborted" by (simp add: plannedState_def)
qed

lemma abort_round:
  assumes loop: "abortLoop L K W S finish ns n t0" and aborting: "taskAborting L t0"
    and "distinct names" and "abortUnderWay L K t0 names final ts"
  shows "abortDone L K t0 names (round L S finish ns n ts) \<or>
    final \<noteq> {st. IsTerminated st} \<and>
    abortUnderWay L K t0 names {st. IsTerminated st} (round L S finish ns n ts)"
proof -
  obtain t us where ts: "ts = (t, us)" by fastforce
  have now: "sameTask L t0 t" "UpdateTaskFinalizer \<in> set (Finalizers t)" "reported L final us names"
      "list_all K us"
    using assms(4) by (simp_all add: abortUnderWay_def ts)
  obtain sts where sts: "map (GetNodeUpdateTaskStatus L) us = map Inr sts"
      "map nus_MachineName sts = names" "\<forall>st \<in> set sts. nus_State st \<in> final"
    using now(3) by (auto simp: reported_def)
  have laws: "nested_laws L" "collections_laws L" "result_laws L" "finalizer_laws L" "goodWorld L W"
    and t: "goodTask t" "taskAborting L t" and served: "serves L (S t us) W ns n t us"
    and ends: "endsIn L K {st. IsTerminated st} finish"
    using loop aborting now(1) taskAborting_same [OF now(1)] sameTask_kept(1) [OF now(1)]
    by (simp_all add: abortLoop_def)
  obtain t' created where r: "round L S finish ns n (t, us) = (t', map finish (us @ created))"
      "created = createdNodes (snd (Reconcile L (S t us) ns n []))"
      "State (Status t') = plannedState (viewOf L W t sts)" "sameTask L t t'"
      "UpdateTaskFinalizer \<in> set (Finalizers t') \<longleftrightarrow> \<not> IsTerminated (State (Status t'))"
      "map (machineOf L) created =
        (case plannedMove (viewOf L W t sts) of Update name \<Rightarrow> [Some name] | _ \<Rightarrow> [])"
    using round_plan [where S = S and us = us and finish = finish,
        OF laws t(1) now(2) served sts(1)] assms(3) sts(2) by metis
  have "created = []" using r(6) t(2) by (simp add: plannedMove_def viewOf_def)
  moreover have nodes: "list_all K (map finish us)"
      "reported L {st. IsTerminated st} (map finish us) names"
    using reported_finish [OF ends now(4) reported_machines [OF now(3)]] by simp_all
  moreover have "sameTask L t0 t'" using now(1) r(4) by (simp add: sameTask_def)
  ultimately show ?thesis
    using r(1,3,5) planned_aborting [where W = W and sts = sts, OF t(2)] sts(3) reported_machines [OF nodes(2)]
    by (cases "State (Status t') = UpdateTaskStateAborted")
      (auto simp: abortDone_def abortUnderWay_def ts)
qed

lemma abort_guard_round:
  assumes loop: "abortLoop L K W S finish ns n t0" and "sameTask L t0 t"
    and "UpdateTaskFinalizer \<notin> set (Finalizers t)" and "list_all K us"
    and "map (machineOf L) us = map Some names"
  shows "State (Status t) = UpdateTaskStateAborted \<Longrightarrow>
      abortDone L K t0 names (round L S finish ns n (t, us))"
    and "\<not> IsTerminated (State (Status t)) \<Longrightarrow>
      abortUnderWay L K t0 names {st. IsTerminated st} (round L S finish ns n (t, us))"
proof -
  have "finalizer_laws L" "serves L (S t us) W ns n t us" "endsIn L K {st. IsTerminated st} finish"
    using loop assms(2) by (simp_all add: abortLoop_def)
  note facts = this
  obtain t' where r: "round L S finish ns n (t, us) = (t', map finish us)"
      "State (Status t') = State (Status t)" "sameTask L t t'"
      "UpdateTaskFinalizer \<in> set (Finalizers t') \<longleftrightarrow> \<not> IsTerminated (State (Status t'))"
    using round_guard [OF facts(1) assms(3), where S = S and us = us, OF facts(2)] by metis
  note nodes = reported_finish [OF facts(3) assms(4,5)]
  show "State (Status t) = UpdateTaskStateAborted \<Longrightarrow>
      abortDone L K t0 names (round L S finish ns n (t, us))"
    using r assms(2) nodes reported_machines [OF conjunct2 [OF nodes]] by (auto simp: abortDone_def sameTask_def)
  show "\<not> IsTerminated (State (Status t)) \<Longrightarrow>
      abortUnderWay L K t0 names {st. IsTerminated st} (round L S finish ns n (t, us))"
    using r assms(2) nodes by (auto simp: abortUnderWay_def sameTask_def)
qed


lemma abortDone_rounds:
  assumes "abortLoop L K W S finish ns n t0" and "abortDone L K t0 names ts"
  shows "abortDone L K t0 names ((round L S finish ns n ^^ k) ts)"
proof (induction k)
  case (Suc k)
  then show ?case
    using abort_guard_round(1) [OF assms(1)]
    by (cases "(round L S finish ns n ^^ k) ts") (auto simp: abortDone_def)
qed (simp add: assms(2))

lemma abort_rounds:
  assumes "abortLoop L K W S finish ns n t0" and "taskAborting L t0" and "distinct names"
    and "abortUnderWay L K t0 names final ts" and "2 \<le> k"
  shows "abortDone L K t0 names ((round L S finish ns n ^^ k) ts)"
proof -
  let ?r = "round L S finish ns n"
  have "abortDone L K t0 names (?r (?r ts))"
    using abort_round [OF assms(1,2,3,4)] abort_round [OF assms(1,2,3), of "{st. IsTerminated st}" "?r ts"]
      abortDone_rounds [OF assms(1), of names "?r ts" 1] by auto
  then have "abortDone L K t0 names ((?r ^^ (k - 2)) (?r (?r ts)))"
    by (rule abortDone_rounds [OF assms(1)])
  moreover have "(?r ^^ k) ts = (?r ^^ (k - 2)) (?r (?r ts))"
    using assms(5) by (metis (no_types, lifting) One_nat_def Suc_1 funpow.simps(2) funpow_swap1
        le_add_diff_inverse2 add_2_eq_Suc' comp_apply)
  ultimately show ?thesis by simp
qed

lemma abort_done:
  assumes "abortLoop L K W S finish ns n t0" and "taskAborting L t0"
    and "\<not> IsTerminated (State (Status t0))"
    and "list_all K us0" and "reported L UNIV us0 names" and "distinct names"
    and "3 \<le> k" and "(round L S finish ns n ^^ k) (t0, us0) = (t, us)"
  shows "State (Status t) = UpdateTaskStateAborted \<and> map (machineOf L) us = map Some names"
proof -
  let ?r = "round L S finish ns n"
  have "abortDone L K t0 names ((?r ^^ k) (t0, us0))"
  proof (cases "UpdateTaskFinalizer \<in> set (Finalizers t0)")
    case True
    then have "abortUnderWay L K t0 names UNIV (t0, us0)"
      using assms(3-5) by (simp add: abortUnderWay_def sameTask_def)
    then show ?thesis using assms(7) by (intro abort_rounds [OF assms(1,2,6)]) simp_all
  next
    case False
    have "abortUnderWay L K t0 names {st. IsTerminated st} (?r (t0, us0))"
      using abort_guard_round(2) [OF assms(1) _ False assms(4) reported_machines [OF assms(5)]] assms(3)
      by (simp add: sameTask_def)
    from abort_rounds [OF assms(1,2,6) this, of "k - 1"] assms(7)
    have "abortDone L K t0 names ((?r ^^ (k - 1)) (?r (t0, us0)))" by simp
    moreover have "Suc (k - 1) = k" using assms(7) by simp
    ultimately show ?thesis by (metis funpow_swap1 funpow.simps(2) comp_apply)
  qed
  with assms(8) show ?thesis by (simp add: abortDone_def)
qed

text \<open>
  An abort completes. When the API server answers and every node update comes to some end between
  two rounds, an update task that is to be aborted is Aborted after at most three rounds, whatever its
  node updates reported at the start, stays so, and no node update has been added.
\<close>

theorem abort_completes:
  assumes "abortLoop L K W S finish ns n t0" and "taskAborting L t0"
    and "\<not> IsTerminated (State (Status t0))"
    and "list_all K us0" and "reported L UNIV us0 names" and "distinct names"
    and "3 \<le> k" and "(round L S finish ns n ^^ k) (t0, us0) = (t, us)"
  shows "State (Status t) = UpdateTaskStateAborted \<and> map (machineOf L) us = map Some names"
  by (rule abort_done [OF assms])

end
