(* ===== verification/Concurrent_Edits.thy ===== *)
theory Concurrent_Edits
  imports Closed_Loop
begin

text \<open>
  Edits while a reconciliation runs. \<open>Reconcile\<close> works on the task it has read and ends with a patch;
  the patch helper of Cluster API sends the difference between the task as read and the task as it is
  then, so a field the reconciliation has not changed keeps the value it has on the server. Here:
  somebody sets the phase of the task to Abort after it was read.
\<close>

text \<open>
  Documented behaviour of the patch helper, for one field \<open>f\<close> and for the fields used here; \<open>P before
  after cur\<close> is what the server holds after the patch from \<open>before\<close> to \<open>after\<close> when it held \<open>cur\<close>.
\<close>

definition three_way ::
  "(UpdateTask \<Rightarrow> UpdateTask \<Rightarrow> UpdateTask \<Rightarrow> UpdateTask) \<Rightarrow> (UpdateTask \<Rightarrow> 'a) \<Rightarrow> bool" where
  "three_way P f \<longleftrightarrow> (\<forall>before after cur.
     f (P before after cur) = (if f after = f before then f cur else f after))"

definition patch_laws :: "(UpdateTask \<Rightarrow> UpdateTask \<Rightarrow> UpdateTask \<Rightarrow> UpdateTask) \<Rightarrow> bool" where
  "patch_laws P \<longleftrightarrow> three_way P (\<lambda>t. TargetPhase (Spec t)) \<and> three_way P (\<lambda>t. State (Status t))"

text \<open>Fields that a reconciliation never changes keep the value they have on the server.\<close>

lemma reconcile_keeps_edit:
  assumes "api_GetUpdateTask E h0 ns n = Inr task"
    and "NewTaskHelper E (h0 @ [GetUpdateTask ns n]) task = None"
    and "snd (Reconcile L E ns n h0) = h @ [PatchTask before after]"
    and "three_way P f" and "\<And>t. f (finishTask L t) = f t" and "\<And>t. sameTask L task t \<Longrightarrow> f t = f task"
  shows "f (P before after cur) = f cur" and "before = task"
proof -
  from assms(1,2) obtain s1 :: "UpdateTask mem" where
    "before = task" "after = finishTask L (obj s1)" "sameTask L task (obj s1)"
    by (rule Reconcile_run [where L = L]) (use assms(3) in \<open>auto simp flip: append_Cons append_assoc\<close>)
  then show "f (P before after cur) = f cur" "before = task"
    using assms(4-6) by (simp_all add: three_way_def)
qed

text \<open>
  C15. An abort is not lost to a reconciliation it overtakes: if the phase is set to Abort after the task was
  read, then, unless this reconciliation brings the task to its end, what the server holds after the
  patch is a task to abort, and it is Aborted after at most three more rounds, the node update that
  may just have been created included.
\<close>

theorem concurrent_abort_completes:
  assumes "patch_laws P"
    and "api_GetUpdateTask E h0 ns n = Inr task"
    and "NewTaskHelper E (h0 @ [GetUpdateTask ns n]) task = None"
    and "snd (Reconcile L E ns n h0) = h0 @ cs @ [PatchTask before after]"
    and "\<not> IsTerminated (State (Status after))"
    and "TargetPhase (Spec cur) = UpdateTaskPhaseAbort" and "State (Status cur) = State (Status task)"
    and "abortLoop L K W S finish ns n (P before after cur)"
    and "list_all K (us0 @ createdNodes cs)"
    and "reported L UNIV (us0 @ createdNodes cs) names" and "distinct names"
    and "3 \<le> k"
    and "(round L S finish ns n ^^ k) (P before after cur, us0 @ createdNodes cs) = (t, us)"
  shows "State (Status t) = UpdateTaskStateAborted \<and> map (machineOf L) us = map Some names"
proof -
  have run: "snd (Reconcile L E ns n h0) = (h0 @ cs) @ [PatchTask before after]"
    using assms(4) by simp
  have "TargetPhase (Spec (P before after cur)) = UpdateTaskPhaseAbort"
    using reconcile_keeps_edit(1) [OF assms(2,3) run, of P "\<lambda>t. TargetPhase (Spec t)" cur] assms(1,6)
      sameTask_fields(7) by (auto simp: patch_laws_def)
  then have "taskAborting L (P before after cur)" by (simp add: taskAborting_def)
  moreover have "before = task"
    using reconcile_keeps_edit(2) [OF assms(2,3) run, of P "\<lambda>t. TargetPhase (Spec t)"] assms(1)
      sameTask_fields(7) by (auto simp: patch_laws_def)
  then have "\<not> IsTerminated (State (Status (P before after cur)))"
    using assms(1,5,7) by (auto simp: patch_laws_def three_way_def)
  ultimately show ?thesis
    by (rule abort_done [OF assms(8) _ _ assms(9-13)])
qed

end
