(* ===== verification/Closed_Loop_Scenarios.thy ===== *)
theory Closed_Loop_Scenarios
  imports Concurrent_Edits Scenarios
begin

text \<open>
  The planner and the closed loop on the cluster of \<^theory_text>\<open>Scenarios\<close>: three machines of which two are
  to be updated. The API server is given the task and the node update tasks it stores.
\<close>

definition aWorld :: World where
  "aWorld = \<lparr>w_cluster = aCluster, w_controlPlane = aControlPlane, w_machines = [m1, m2, m3]\<rparr>"

text \<open>The controllers of the node updates bring each one to the same end.\<close>

definition finishNode :: "UpdateTaskState \<Rightarrow> Unstructured \<Rightarrow> Unstructured" where
  "finishNode state u = (case GetNodeUpdateTaskStatus refLib u of
     Inl _ \<Rightarrow> u
   | Inr st \<Rightarrow> aNode (nus_MachineName st) (nus_CreationTimestamp st) state)"

lemma finishNode_ends: "state \<in> final \<Longrightarrow> endsIn refLib (\<lambda>_. True) final (finishNode state)"
  by (simp add: endsIn_def finishNode_def)

lemma aWorld_good: "goodWorld refLib aWorld"
  by (simp add: goodWorld_def aWorld_def ascii_def aControlPlane_def refLib_def)

lemma calm_serves: "serves refLib (calm t us) aWorld ''ns'' ''up'' t us"
  by (simp add: serves_def server_defs aWorld_def nodeUpdateFields_def refLib_def)

lemma aTask_good: "goodTask (aTask fs phase state)"
  by (simp add: goodTask_def object_defs)

lemma aTask_steady: "controlPlaneSteady refLib aWorld (aTask fs phase state)"
  by (auto simp: controlPlaneSteady_def aWorld_def object_defs machine_healthy_def condition_good_def
      allMachineHealthConditions_def isEtcdManaged_def refLib_def trueCondition_def)

lemma aWorld_waiting:
  "waitingMachines refLib aWorld ''up'' [] = [m1, m2]"
proof -
  have "orderedMachines refLib aWorld = [m1, m2, m3]"
    by (simp add: orderedMachines_def aWorld_def refLib_def object_defs)
  then show ?thesis by (simp add: waitingMachines_def)
qed

text \<open>With the first machine updated the plan is to go on with the second.\<close>

abbreviation oneUpdated :: "Unstructured list" where
  "oneUpdated \<equiv> [aNode ''m1'' 1 UpdateTaskStateUpdated]"

abbreviation oneStatus :: "NodeUpdateTaskStatus list" where
  "oneStatus \<equiv> [aStatus ''m1'' 1 UpdateTaskStateUpdated]"

lemma oneUpdated_status: "map (GetNodeUpdateTaskStatus refLib) oneUpdated = map Inr oneStatus"
  by simp

lemma second_machine_plan:
  "plannedState (viewOf refLib aWorld updating oneStatus) = UpdateTaskStateInProgress"
  "plannedMove (viewOf refLib aWorld updating oneStatus) = Update ''m2''"
proof -
  let ?v = "viewOf refLib aWorld updating oneStatus"
  have "orderedMachines refLib aWorld = [m1, m2, m3]"
    by (simp add: orderedMachines_def aWorld_def refLib_def object_defs)
  then have "v_machines ?v = [(''m1'', True), (''m2'', True), (''m3'', False)]"
    by (simp add: viewOf_def)
  moreover have "v_reports ?v = [(''m1'', UpdateTaskStateUpdated)]" by (simp add: viewOf_def)
  moreover have "v_steady ?v" using aTask_steady by (simp add: viewOf_def updating_def)
  moreover have "\<not> v_aborting ?v" "v_updating ?v"
    by (simp_all add: viewOf_def taskAborting_def object_defs refLib_def)
  ultimately show "plannedState ?v = UpdateTaskStateInProgress" "plannedMove ?v = Update ''m2''"
    by (simp_all add: plannedState_def plannedMove_def concerned_def nextMachine_def)
qed

lemma updating_good: "goodTask updating" "UpdateTaskFinalizer \<in> set (Finalizers updating)"
  by (simp add: updating_def aTask_good) (simp add: updating_def aTask_def)

theorem reconcile_refines_plan_witness:
  "\<exists>h after u. snd (Reconcile refLib (calm updating oneUpdated) ''ns'' ''up'' []) =
     h @ [PatchTask updating after] \<and> State (Status after) = UpdateTaskStateInProgress \<and>
     deeds h = [CreateNode u] \<and> machineOf refLib u = Some ''m2''"
  using reconcile_refines_plan [OF refLib_nested refLib_collections refLib_result refLib_finalizer
      aWorld_good updating_good calm_serves oneUpdated_status, of "[]"]
  by (auto simp: second_machine_plan carriesOut_def)

theorem rollout_completes_witness:
  "\<exists>t us. (round refLib calm (finishNode UpdateTaskStateUpdated) ''ns'' ''up'' ^^ 4)
      (aTask [] UpdateTaskPhaseUpdate UpdateTaskStateUnknown, []) = (t, us) \<and>
    State (Status t) = UpdateTaskStateUpdated \<and> (\<exists>u \<in> set us. machineOf refLib u = Some ''m2'')"
proof -
  let ?t0 = "aTask [] UpdateTaskPhaseUpdate UpdateTaskStateUnknown"
  obtain t us where run: "(round refLib calm (finishNode UpdateTaskStateUpdated) ''ns'' ''up'' ^^ 4)
      (?t0, []) = (t, us)" by fastforce
  have "\<not> taskAborting refLib ?t0" "TargetPhase (Spec ?t0) = UpdateTaskPhaseUpdate"
    by (simp_all add: taskAborting_def object_defs refLib_def)
  then have loop: "updateLoop refLib (\<lambda>_. True) aWorld calm (finishNode UpdateTaskStateUpdated) ''ns'' ''up'' ?t0"
    by (simp add: update_loop_defs refLib_nested refLib_collections refLib_result refLib_finalizer
        aWorld_good aTask_good aTask_steady calm_serves finishNode_ends list_all_iff)
  have "Name ?t0 = ''up''" by (simp add: object_defs)
  then have few: "length (waitingMachines refLib aWorld (Name ?t0) []) + 2 \<le> 4"
    by (simp add: aWorld_waiting)
  have "\<not> IsTerminated (State (Status ?t0))" by (simp add: aTask_def)
  from rollout_completes [OF loop this few run] \<open>Name ?t0 = ''up''\<close> run
  show ?thesis by (auto simp: aWorld_def machineOf_status)
qed

theorem abort_completes_witness:
  "\<exists>t us. (round refLib calm (finishNode UpdateTaskStateAborted) ''ns'' ''up'' ^^ 3)
      (aborting, secondRuns) = (t, us) \<and> State (Status t) = UpdateTaskStateAborted \<and>
    map (machineOf refLib) us = [Some ''m1'', Some ''m2'']"
proof -
  obtain t us where run: "(round refLib calm (finishNode UpdateTaskStateAborted) ''ns'' ''up'' ^^ 3)
      (aborting, secondRuns) = (t, us)" by fastforce
  have loop: "abortLoop refLib (\<lambda>_. True) aWorld calm (finishNode UpdateTaskStateAborted) ''ns'' ''up'' aborting"
    by (simp add: abortLoop_def refLib_nested refLib_collections refLib_result refLib_finalizer
        aWorld_good calm_serves finishNode_ends aborting_def aTask_good)
  have "taskAborting refLib aborting"
    by (simp add: taskAborting_def aborting_def object_defs)
  have "reported refLib UNIV secondRuns [''m1'', ''m2'']"
    unfolding reported_def
    by (intro exI [of _ "[aStatus ''m1'' 1 UpdateTaskStateUpdated, aStatus ''m2'' 2 UpdateTaskStateInProgress]"])
      (simp add: secondRuns_def)
  moreover note \<open>taskAborting refLib aborting\<close>
  moreover have "\<not> IsTerminated (State (Status aborting))" by (simp add: aborting_def aTask_def)
  ultimately show ?thesis
    using abort_completes [OF loop _ _ _ _ _ _ run, of "[''m1'', ''m2'']"] run by (auto simp: list_all_iff)
qed


text \<open>The phase is set to Abort while the reconciliation creates the second node update.\<close>

definition patchFields :: "UpdateTask \<Rightarrow> UpdateTask \<Rightarrow> UpdateTask \<Rightarrow> UpdateTask" where
  "patchFields before after cur = after
     \<lparr>Spec := (Spec after)\<lparr>TargetPhase :=
        if TargetPhase (Spec after) = TargetPhase (Spec before) then TargetPhase (Spec cur)
        else TargetPhase (Spec after)\<rparr>,
      Status := (Status after)\<lparr>State :=
        if State (Status after) = State (Status before) then State (Status cur)
        else State (Status after)\<rparr>\<rparr>"

lemma patchFields_laws: "patch_laws patchFields"
  by (simp add: patch_laws_def three_way_def patchFields_def)

theorem concurrent_abort_completes_witness:
  "\<exists>cs after t us. snd (Reconcile refLib (calm updating oneUpdated) ''ns'' ''up'' []) =
      cs @ [PatchTask updating after] \<and> map (machineOf refLib) (createdNodes cs) = [Some ''m2''] \<and>
    (round refLib calm (finishNode UpdateTaskStateAborted) ''ns'' ''up'' ^^ 3)
      (patchFields updating after aborting, oneUpdated @ createdNodes cs) = (t, us) \<and>
    State (Status t) = UpdateTaskStateAborted \<and> map (machineOf refLib) us = [Some ''m1'', Some ''m2'']"
proof -
  let ?E = "calm updating oneUpdated" and ?f = "finishNode UpdateTaskStateAborted"
  obtain cs after ds where run: "snd (Reconcile refLib ?E ''ns'' ''up'' []) = cs @ [PatchTask updating after]"
      "State (Status after) = UpdateTaskStateInProgress" "deeds cs = ds" "carriesOut refLib ds (Update ''m2'')"
      "sameTask refLib updating after"
    by (rule Reconcile_plan [OF refLib_nested refLib_collections refLib_result refLib_finalizer
          aWorld_good updating_good calm_serves oneUpdated_status, of "[]"])
      (auto simp: second_machine_plan)
  have created: "map (machineOf refLib) (createdNodes cs) = [Some ''m2'']"
    using createdNodes_carried(3) [OF run(4)] run(3) createdNodes_deeds [of cs] by simp
  let ?t = "patchFields updating after aborting" and ?us = "oneUpdated @ createdNodes cs"
  obtain t us where rounds: "(round refLib calm ?f ''ns'' ''up'' ^^ 3) (?t, ?us) = (t, us)"
    by fastforce
  have "goodTask after" using sameTask_kept(1) [OF run(5)] updating_good(1) by simp
  then have "goodTask ?t" by (simp add: goodTask_def patchFields_def)
  then have loop: "abortLoop refLib (\<lambda>_. True) aWorld calm ?f ''ns'' ''up'' ?t"
    by (simp add: abortLoop_def refLib_nested refLib_collections refLib_result refLib_finalizer
        aWorld_good calm_serves finishNode_ends)
  have reported: "reported refLib UNIV ?us [''m1'', ''m2'']"
  proof -
    obtain u where u: "createdNodes cs = [u]" "machineOf refLib u = Some ''m2''"
      using created by auto
    then obtain st where "GetNodeUpdateTaskStatus refLib u = Inr st" "nus_MachineName st = ''m2''"
      by (auto simp: machineOf_status)
    with u(1) show ?thesis
      unfolding reported_def
      by (intro exI [of _ "oneStatus @ [st]"]) simp
  qed
  show ?thesis
    using concurrent_abort_completes [OF patchFields_laws _ _ _ _ _ _ loop _ reported _ _ rounds,
        of ?E "[]" updating] run(1,2) created rounds
    by (auto simp: server_defs list_all_iff object_defs)
qed

end
