(* ===== verification/Json_Library.thy ===== *)
theory Json_Library
  imports Json_Fields
begin

text \<open>
  What the JSON forms of the resources share: the library's encoding of metadata and conditions, fields
  that are left out when empty, and \<open>MachineSpec\<close> (\<open>src/api/v1beta1/capi\_stub.go\<close>). The objects encoded
  here are stored ones: their strings are text the API server has accepted, so the replacement of
  invalid UTF-8 by \<open>encoding/json\<close> does not come up, and a string stands for itself. A nil slice and an
  empty one are one value, as \<open>omitempty\<close> leaves out both; the heap model (\<open>Object_Memory\<close>) tells them apart.
\<close>

section \<open>The library\<close>

text \<open>The library's encoding of metadata and conditions.\<close>

record jsonlib =
  encodeMeta :: "ObjectMeta \<Rightarrow> json"
  decodeMeta :: "json option \<Rightarrow> ObjectMeta"
  encodeConditions :: "Conditions \<Rightarrow> json"
  decodeConditions :: "json option \<Rightarrow> Conditions"

definition metaOf :: "'a ObjectMeta_scheme \<Rightarrow> ObjectMeta" where
  "metaOf t = \<lparr>Name = Name t, Namespace = Namespace t, UID = UID t, Labels = Labels t,
     Annotations = Annotations t, Finalizers = Finalizers t,
     CreationTimestamp = CreationTimestamp t, DeletionTimestamp = DeletionTimestamp t\<rparr>"

section \<open>Fields\<close>

text \<open>A string field with \<open>omitempty\<close>: the empty string is left out.\<close>

definition omitEmpty :: "string \<Rightarrow> string \<Rightarrow> (string \<times> json) list" where
  "omitEmpty k v = (if v = '''' then [] else [(k, JString v)])"

definition encodeMachineSpec :: "MachineSpec \<Rightarrow> json" where
  "encodeMachineSpec m = JObject
     (omitEmpty ''version'' (ms_Version m) @ omitEmpty ''bootstrapConfig'' (ms_BootstrapConfig m) @
      omitEmpty ''infraMachine'' (ms_InfraMachine m))"

text \<open>
  Decoding: a missing string is the empty one, another kind of value at its place is an error, other
  fields are ignored.
\<close>

definition stringAt :: "json \<Rightarrow> string list \<Rightarrow> string option" where
  "stringAt j p = (case getPath j p of
     None \<Rightarrow> Some '''' | Some JNull \<Rightarrow> Some '''' | Some (JString v) \<Rightarrow> Some v | Some _ \<Rightarrow> None)"

lemma map_of_omitEmpty [simp]:
  "map_of (omitEmpty k v @ xs) k' =
     (if k' = k \<and> v \<noteq> '''' then Some (JString v) else map_of xs k')"
  "map_of (omitEmpty k v) k' = (if k' = k \<and> v \<noteq> '''' then Some (JString v) else None)"
  by (simp_all add: omitEmpty_def)

lemma stringAt_omit: "getPath j p = (if v = '''' then None else Some (JString v)) \<Longrightarrow> stringAt j p = Some v"
  by (simp add: stringAt_def)

end
