(* ===== verification/Docker_Resource.thy ===== *)
theory Docker_Resource
  imports Json_Library Docker_Node_Controller Rollout
begin

text \<open>
  Docker node update tasks as the API server stores them: the JSON form that the tags of
  \<open>src/api/v1beta1/dockernodeupdatetask\_types.go\<close> give them. The update task controller knows node
  update tasks as JSON with agreed fields only (\<open>Node_Update\<close>), the docker controller as this Go
  type; here the two are put together.
\<close>

section \<open>Encoding\<close>

text \<open>The library writes the metadata and the conditions of this task so that it can read them.\<close>

definition faithfulJson :: "jsonlib \<Rightarrow> DockerNodeUpdateTask \<Rightarrow> bool" where
  "faithfulJson J t \<longleftrightarrow> decodeMeta J (Some (encodeMeta J (metaOf t))) = metaOf t \<and>
     decodeConditions J (Some (encodeConditions J (dn_Conditions (DockerStatus t)))) =
       dn_Conditions (DockerStatus t) \<and>
     decodeConditions J None = []"

definition encodeDockerSpec :: "DockerNodeUpdateTaskSpec \<Rightarrow> json" where
  "encodeDockerSpec s = JObject
     (omitEmpty ''machineName'' (dn_MachineName s) @
      [(''newMachineSpec'', encodeMachineSpec (dn_NewMachineSpec s))] @
      omitEmpty ''phase'' (dn_Phase s))"

definition encodeDockerStatus :: "jsonlib \<Rightarrow> DockerNodeUpdateTaskStatus \<Rightarrow> json" where
  "encodeDockerStatus J s = JObject
     (omitEmpty ''state'' (dn_State s) @
      (if dn_Conditions s = [] then []
       else [(''conditions'', encodeConditions J (dn_Conditions s))]))"

definition encodeDocker :: "jsonlib \<Rightarrow> DockerNodeUpdateTask \<Rightarrow> json" where
  "encodeDocker J t = JObject
     (omitEmpty ''kind'' (Kind t) @ omitEmpty ''apiVersion'' (APIVersion t) @
      [(''metadata'', encodeMeta J (metaOf t)), (''spec'', encodeDockerSpec (DockerSpec t)),
       (''status'', encodeDockerStatus J (DockerStatus t))])"

definition decodeDocker :: "jsonlib \<Rightarrow> json \<Rightarrow> DockerNodeUpdateTask option" where
  "decodeDocker J j =
     Option.bind (stringAt j [''kind'']) (\<lambda>kind.
     Option.bind (stringAt j [''apiVersion'']) (\<lambda>apiVersion.
     Option.bind (stringAt j [''spec'', ''machineName'']) (\<lambda>machineName.
     Option.bind (stringAt j [''spec'', ''newMachineSpec'', ''version'']) (\<lambda>version.
     Option.bind (stringAt j [''spec'', ''newMachineSpec'', ''bootstrapConfig'']) (\<lambda>bootstrapConfig.
     Option.bind (stringAt j [''spec'', ''newMachineSpec'', ''infraMachine'']) (\<lambda>infraMachine.
     Option.bind (stringAt j [''spec'', ''phase'']) (\<lambda>phase.
     Option.bind (stringAt j [''status'', ''state'']) (\<lambda>state.
     let m = decodeMeta J (getPath j [''metadata'']) in
     Some \<lparr>Name = Name m, Namespace = Namespace m, UID = UID m, Labels = Labels m,
       Annotations = Annotations m, Finalizers = Finalizers m,
       CreationTimestamp = CreationTimestamp m, DeletionTimestamp = DeletionTimestamp m,
       Kind = kind, APIVersion = apiVersion,
       DockerSpec = \<lparr>dn_MachineName = machineName,
         dn_NewMachineSpec = \<lparr>ms_Version = version, ms_BootstrapConfig = bootstrapConfig,
           ms_InfraMachine = infraMachine\<rparr>,
         dn_Phase = phase\<rparr>,
       DockerStatus = \<lparr>dn_State = state,
         dn_Conditions = decodeConditions J (getPath j [''status'', ''conditions''])\<rparr>\<rparr>))))))))"

text \<open>The object of the docker task as the update task controller holds it.\<close>

definition dockerObject :: "jsonlib \<Rightarrow> DockerNodeUpdateTask \<Rightarrow> Unstructured" where
  "dockerObject J t = \<lparr>Object = encodeDocker J t\<rparr>"

section \<open>Encoding and decoding\<close>

lemmas docker_encoding = encodeDocker_def encodeDockerSpec_def encodeDockerStatus_def
  encodeMachineSpec_def

lemma encodeDocker_strings:
  "getPath (encodeDocker J t) [''kind''] = (if Kind t = '''' then None else Some (JString (Kind t)))"
  "getPath (encodeDocker J t) [''apiVersion''] =
     (if APIVersion t = '''' then None else Some (JString (APIVersion t)))"
  "getPath (encodeDocker J t) [''spec'', ''machineName''] =
     (if dn_MachineName (DockerSpec t) = '''' then None
      else Some (JString (dn_MachineName (DockerSpec t))))"
  "getPath (encodeDocker J t) [''spec'', ''newMachineSpec'', ''version''] =
     (if ms_Version (dn_NewMachineSpec (DockerSpec t)) = '''' then None
      else Some (JString (ms_Version (dn_NewMachineSpec (DockerSpec t)))))"
  "getPath (encodeDocker J t) [''spec'', ''newMachineSpec'', ''bootstrapConfig''] =
     (if ms_BootstrapConfig (dn_NewMachineSpec (DockerSpec t)) = '''' then None
      else Some (JString (ms_BootstrapConfig (dn_NewMachineSpec (DockerSpec t)))))"
  "getPath (encodeDocker J t) [''spec'', ''newMachineSpec'', ''infraMachine''] =
     (if ms_InfraMachine (dn_NewMachineSpec (DockerSpec t)) = '''' then None
      else Some (JString (ms_InfraMachine (dn_NewMachineSpec (DockerSpec t)))))"
  "getPath (encodeDocker J t) [''spec'', ''phase''] =
     (if dn_Phase (DockerSpec t) = '''' then None else Some (JString (dn_Phase (DockerSpec t))))"
  "getPath (encodeDocker J t) [''status'', ''state''] =
     (if dn_State (DockerStatus t) = '''' then None else Some (JString (dn_State (DockerStatus t))))"
  by (simp_all add: docker_encoding del: map_of_append)

lemma encodeDocker_others:
  "getPath (encodeDocker J t) [''metadata''] = Some (encodeMeta J (metaOf t))"
  "getPath (encodeDocker J t) [''status'', ''conditions''] =
     (if dn_Conditions (DockerStatus t) = [] then None
      else Some (encodeConditions J (dn_Conditions (DockerStatus t))))"
  by (simp_all add: docker_encoding del: map_of_append)

lemma decode_encode:
  assumes "faithfulJson J t"
  shows "decodeDocker J (encodeDocker J t) = Some t"
  unfolding decodeDocker_def
  using assms
  by (simp add: encodeDocker_strings [THEN stringAt_omit] encodeDocker_others faithfulJson_def metaOf_def)

section \<open>The field contract\<close>

lemma read_omitEmpty:
  assumes "field_laws L" and "getPath (Object u) p = (if v = '''' then None else Some (JString v))"
  shows "\<exists>e. UnmarshalString L u p = (if v = '''' then Inl e else Inr v)"
  using field_lawsD(1,2) [OF assms(1), of u p] assms(2) by auto

lemma docker_status:
  assumes "field_laws L"
  shows "(if dn_MachineName (DockerSpec t) = '''' \<or> dn_Phase (DockerSpec t) = ''''
    then \<exists>e. GetNodeUpdateTaskStatus L (dockerObject J t) = Inl e
    else \<exists>st. GetNodeUpdateTaskStatus L (dockerObject J t) = Inr st \<and>
      nus_MachineName st = dn_MachineName (DockerSpec t) \<and> nus_Phase st = dn_Phase (DockerSpec t) \<and>
      nus_State st = dn_State (DockerStatus t))"
proof -
  let ?u = "dockerObject J t"
  have u: "Object ?u = encodeDocker J t" by (simp add: dockerObject_def)
  note read = read_omitEmpty [OF assms, of ?u, unfolded u]
  obtain e1 where 1: "UnmarshalString L ?u [''spec'', ''machineName''] =
      (if dn_MachineName (DockerSpec t) = '''' then Inl e1 else Inr (dn_MachineName (DockerSpec t)))"
    using read [OF encodeDocker_strings(3)] by blast
  obtain e2 where 2: "UnmarshalString L ?u [''spec'', ''phase''] =
      (if dn_Phase (DockerSpec t) = '''' then Inl e2 else Inr (dn_Phase (DockerSpec t)))"
    using read [OF encodeDocker_strings(7)] by blast
  obtain e3 where 3: "UnmarshalString L ?u [''status'', ''state''] =
      (if dn_State (DockerStatus t) = '''' then Inl e3 else Inr (dn_State (DockerStatus t)))"
    using read [OF encodeDocker_strings(8)] by blast
  show ?thesis by (simp add: GetNodeUpdateTaskStatus_def UpdateTaskStateUnknown_def 1 2 3)
qed

text \<open>
  The docker kind follows the field contract of node update tasks, except for empty names: the
  update task controller reads machine, phase and state of a stored docker task as they are (no state
  as Unknown), but a task without a machine name or a phase, which \<open>omitempty\<close> leaves out of the JSON,
  is unreadable to it.
\<close>

theorem docker_field_contract:
  assumes "field_laws L"
  shows "(if dn_MachineName (DockerSpec t) = '''' \<or> dn_Phase (DockerSpec t) = ''''
    then \<exists>e. GetNodeUpdateTaskStatus L (dockerObject J t) = Inl e
    else \<exists>st. GetNodeUpdateTaskStatus L (dockerObject J t) = Inr st \<and>
      nus_MachineName st = dn_MachineName (DockerSpec t) \<and> nus_Phase st = dn_Phase (DockerSpec t) \<and>
      nus_State st = dn_State (DockerStatus t))"
  by (rule docker_status [OF assms])

section \<open>From creation to the docker controller\<close>

text \<open>The node update task that the template generates, before its fields are set, and after.\<close>

lemma nodeUpdateFields_decode:
  assumes "field_laws L" and u: "setFields L (nodeUpdateFields task x) base = Inr u"
    and base: "decodeDocker J (Object base) = Some t0"
  shows "decodeDocker J (Object u) = Some (t0\<lparr>DockerSpec :=
    \<lparr>dn_MachineName = Name x, dn_NewMachineSpec = NewMachineSpec (Spec task),
     dn_Phase = UpdateTaskPhaseUpdate\<rparr>\<rparr>)"
proof -
  note defs = nodeUpdateFields_def
  note written = setFields_written [OF assms(1) u]
  have phase: "getPath (Object u) [''spec'', ''phase''] = Some (JString UpdateTaskPhaseUpdate)"
    by (rule written [where fs = "[]" and gs = "tl (nodeUpdateFields task x)"]) (simp_all add: defs)
  have bootstrap: "getPath (Object u) [''spec'', ''newMachineSpec'', ''bootstrapConfig''] =
      Some (JString (ms_BootstrapConfig (NewMachineSpec (Spec task))))"
    by (rule written [where fs = "take 1 (nodeUpdateFields task x)"
          and gs = "drop 2 (nodeUpdateFields task x)"]) (simp_all add: defs)
  have infra: "getPath (Object u) [''spec'', ''newMachineSpec'', ''infraMachine''] =
      Some (JString (ms_InfraMachine (NewMachineSpec (Spec task))))"
    by (rule written [where fs = "take 2 (nodeUpdateFields task x)"
          and gs = "drop 3 (nodeUpdateFields task x)"]) (simp_all add: defs numeral_2_eq_2 numeral_3_eq_3)
  have version: "getPath (Object u) [''spec'', ''newMachineSpec'', ''version''] =
      Some (JString (ms_Version (NewMachineSpec (Spec task))))"
    by (rule written [where fs = "take 3 (nodeUpdateFields task x)"
          and gs = "drop 4 (nodeUpdateFields task x)"]) (simp_all add: defs numeral_3_eq_3)
  have name: "getPath (Object u) [''spec'', ''machineName''] = Some (JString (Name x))"
    by (rule written [where fs = "take 4 (nodeUpdateFields task x)" and gs = "[]"])
      (simp_all add: defs)
  have others: "getPath (Object u) q = getPath (Object base) q"
    if "q \<in> {[''kind''], [''apiVersion''], [''metadata''], [''status'', ''state''], [''status'', ''conditions'']}"
    for q
    using that by (intro setFields_untouched [OF assms(1) u]) (auto simp: defs)
  show ?thesis
    using base phase bootstrap infra version name others
    by (auto simp: decodeDocker_def stringAt_def Let_def bind_eq_Some_conv)
qed


text \<open>
  From the update task controller through the docker controller and back: the node update task
  created from a docker template is, for the docker controller, a due task for the machine with the
  machine spec of the update task; one pass of the docker controller runs a command on that machine
  and stores a task which the update task controller reads as an Updated node update of the machine.
\<close>

theorem created_docker_task_is_carried_out:
  assumes "field_laws L" and "CreateNodeUpdateTask L E x s = (Ret (Some u, e), s')"
    and "\<And>h i base. GenerateTemplate E h i = Inr base \<Longrightarrow>
      \<exists>t0. decodeDocker J (Object base) = Some t0 \<and> dn_State (DockerStatus t0) = UpdateTaskStateUnknown"
    and "Name x \<noteq> ''''" and "decodeDocker J (Object u) = Some t"
    and "api_GetDockerNodeUpdateTask D past ns n = Inr t"
    and "NewDockerHelper D (past @ [GetDockerNodeUpdateTask ns n]) t = None"
    and "api_GetMachine D (past @ [GetDockerNodeUpdateTask ns n]) ns (Name x) = Inr machine"
    and "\<forall>h. NewDockerClient D h = None"
  shows "dn_NewMachineSpec (DockerSpec t) = NewMachineSpec (Spec (obj s)) \<and>
    (\<exists>cs t' st. snd (DockerReconcile L D ns n past) = past @ cs @ [PatchDockerTask t t'] \<and>
      dockerCommand machine t \<in> set cs \<and>
      GetNodeUpdateTaskStatus L (dockerObject J t') = Inr st \<and>
      nus_MachineName st = Name x \<and> nus_State st = UpdateTaskStateUpdated)"
proof -
  obtain h i base where built: "GenerateTemplate E h i = Inr base"
      "setFields L (nodeUpdateFields (obj s) x) base = Inr u"
    using assms(2) by (rule create_cases) auto
  obtain t0 where "decodeDocker J (Object base) = Some t0"
      "dn_State (DockerStatus t0) = UpdateTaskStateUnknown"
    using assms(3) [OF built(1)] by blast
  with nodeUpdateFields_decode [OF assms(1) built(2)] assms(5)
  have t: "DockerSpec t = \<lparr>dn_MachineName = Name x, dn_NewMachineSpec = NewMachineSpec (Spec (obj s)),
      dn_Phase = UpdateTaskPhaseUpdate\<rparr>" "dn_State (DockerStatus t) = UpdateTaskStateUnknown"
    by auto
  let ?h = "past @ [GetDockerNodeUpdateTask ns n]" and ?t' = "setDockerState UpdateTaskStateUpdated t"
  have "dockerTarget D ?h ns t = Some machine"
    using assms(8,9) t by (simp add: dockerTarget_def dockerDue_def)
  then have run: "snd (DockerReconcile L D ns n past) = past @ [GetDockerNodeUpdateTask ns n,
      GetMachine ns (Name x), dockerCommand machine t, Sleep (10 * Second)] @ [PatchDockerTask t ?t']"
    using DockerReconcile_fetched [OF assms(6,7) refl, of L] t by auto
  have "\<exists>st. GetNodeUpdateTaskStatus L (dockerObject J ?t') = Inr st \<and>
      nus_MachineName st = Name x \<and> nus_State st = UpdateTaskStateUpdated"
    using docker_status [OF assms(1), of ?t' J] t(1) assms(4)
    by (auto simp: setDockerState_def phase_defs)
  then show ?thesis
    using t(1) unfolding run by (intro conjI exI [of _ "[GetDockerNodeUpdateTask ns n,
      GetMachine ns (Name x), dockerCommand machine t, Sleep (10 * Second)]"] exI [of _ ?t']) auto
qed

text \<open>What the API server stores when the abort request is applied to a docker task.\<close>

definition abortedDocker :: "jsonlib \<Rightarrow> DockerNodeUpdateTask \<Rightarrow> DockerNodeUpdateTask option" where
  "abortedDocker J t = decodeDocker J
     (mergePatch (encodeDocker J t) (fieldPatch [''spec'', ''phase''] UpdateTaskPhaseAbort))"

lemma abortedDocker:
  assumes "faithfulJson J t"
  shows "abortedDocker J t =
    Some (t\<lparr>DockerSpec := (DockerSpec t)\<lparr>dn_Phase := UpdateTaskPhaseAbort\<rparr>\<rparr>)"
proof -
  obtain j where j: "setPath (encodeDocker J t) [''spec'', ''phase''] UpdateTaskPhaseAbort = Some j"
    by (simp add: docker_encoding del: map_of_append)
  have others: "getPath j q = getPath (encodeDocker J t) q" if "apart [''spec'', ''phase''] q" for q
    by (rule getPath_apart [OF j that])
  have "stringAt j [''spec'', ''phase''] = Some UpdateTaskPhaseAbort"
    using getPath_setPath [OF j] by (simp add: stringAt_def)
  moreover have "stringAt j q = stringAt (encodeDocker J t) q" if "apart [''spec'', ''phase''] q" for q
    using others [OF that] by (simp add: stringAt_def)
  ultimately have "decodeDocker J j =
      Some (t\<lparr>DockerSpec := (DockerSpec t)\<lparr>dn_Phase := UpdateTaskPhaseAbort\<rparr>\<rparr>)"
    using assms others unfolding decodeDocker_def
    by (simp add: encodeDocker_strings [THEN stringAt_omit] encodeDocker_others faithfulJson_def metaOf_def)
  then show ?thesis unfolding abortedDocker_def mergePatch_field [OF j] .
qed

text \<open>
  C27. The abort request reaches the docker controller and ends there: it is the merge patch that sets
  the phase, so on a stored docker task it changes the phase to Abort and nothing else; a pass of the
  docker controller leaves that task as it is, and a node update that had not ended is still read as
  unfinished by the update task that waits for it.
\<close>

theorem aborted_docker_task_never_ends:
  assumes "field_laws L" and "faithfulJson J t" and "dn_MachineName (DockerSpec t) \<noteq> ''''"
    and "abortedDocker J t = Some t'"
    and "api_GetDockerNodeUpdateTask D past ns n = Inr t'"
    and "NewDockerHelper D (past @ [GetDockerNodeUpdateTask ns n]) t' = None"
  shows "abortNodePatch = fieldPatchText '' '' [''spec'', ''phase''] UpdateTaskPhaseAbort \<and>
    t' = t\<lparr>DockerSpec := (DockerSpec t)\<lparr>dn_Phase := UpdateTaskPhaseAbort\<rparr>\<rparr> \<and>
    snd (DockerReconcile L D ns n past) = past @ [GetDockerNodeUpdateTask ns n,
      GetMachine ns (dn_MachineName (DockerSpec t)), PatchDockerTask t' t'] \<and>
    (\<exists>st. GetNodeUpdateTaskStatus L (dockerObject J t') = Inr st \<and>
      nus_State st = dn_State (DockerStatus t))"
proof -
  have t': "t' = t\<lparr>DockerSpec := (DockerSpec t)\<lparr>dn_Phase := UpdateTaskPhaseAbort\<rparr>\<rparr>"
    using assms(4) abortedDocker [OF assms(2)] by simp
  then have "dockerTarget D (past @ [GetDockerNodeUpdateTask ns n]) ns t' = None"
    by (simp add: dockerTarget_def dockerDue_def split: sum.split)
  then have "snd (DockerReconcile L D ns n past) = past @ [GetDockerNodeUpdateTask ns n,
      GetMachine ns (dn_MachineName (DockerSpec t)), PatchDockerTask t' t']"
    using DockerReconcile_fetched [OF assms(5,6) refl, of L] t' by auto
  moreover have "\<exists>st. GetNodeUpdateTaskStatus L (dockerObject J t') = Inr st \<and>
      nus_State st = dn_State (DockerStatus t)"
    using docker_status [OF assms(1), of t' J] t' assms(3) by (auto simp: phase_defs)
  ultimately show ?thesis using t' abortNodePatch_text by blast
qed

end
