(* ===== verification/Docker_Rollout.thy ===== *)
theory Docker_Rollout
  imports Docker_Resource Closed_Loop
begin

text \<open>
  The two controllers in a loop: the update task controller creates docker node update tasks, the
  docker controller carries out those that are stored, and the update task controller reads what it
  reported. The rounds are those of \<^theory_text>\<open>Closed_Loop\<close>; what happens to a node update between two
  rounds is a pass of \<^const>\<open>DockerReconcile\<close>.
\<close>

section \<open>Passes of the docker controller\<close>

text \<open>The docker task the server holds after the calls.\<close>

definition storedDocker :: "DockerNodeUpdateTask \<Rightarrow> history \<Rightarrow> DockerNodeUpdateTask" where
  "storedDocker t h = foldl (\<lambda>t c. case c of PatchDockerTask _ after \<Rightarrow> after | _ \<Rightarrow> t) t h"

text \<open>\<open>D t\<close> is the outside of the docker controller while the server holds the docker task \<open>t\<close>.\<close>

definition dockerPass ::
  "lib \<Rightarrow> jsonlib \<Rightarrow> (DockerNodeUpdateTask \<Rightarrow> env) \<Rightarrow> Unstructured \<Rightarrow> Unstructured" where
  "dockerPass L J D u = (case decodeDocker J (Object u) of
     None \<Rightarrow> u
   | Some t \<Rightarrow> dockerObject J
       (storedDocker t (snd (DockerReconcile L (D t) (Namespace t) (Name t) []))))"

text \<open>A stored docker task for a machine of the world, told to update; if it has ended, then Updated.\<close>

definition dockerKind :: "jsonlib \<Rightarrow> World \<Rightarrow> Unstructured \<Rightarrow> bool" where
  "dockerKind J W u \<longleftrightarrow> (\<exists>t. decodeDocker J (Object u) = Some t \<and> faithfulJson J t \<and>
     dn_MachineName (DockerSpec t) \<in> Name ` set (w_machines W) \<and>
     dn_Phase (DockerSpec t) = UpdateTaskPhaseUpdate \<and>
     (IsTerminated (dn_State (DockerStatus t)) \<longrightarrow>
       dn_State (DockerStatus t) = UpdateTaskStateUpdated))"

text \<open>The server and the container runtime answer the docker controller.\<close>

definition dockerServes :: "(DockerNodeUpdateTask \<Rightarrow> env) \<Rightarrow> World \<Rightarrow> bool" where
  "dockerServes D W \<longleftrightarrow> (\<forall>t h. api_GetDockerNodeUpdateTask (D t) h (Namespace t) (Name t) = Inr t \<and>
     NewDockerHelper (D t) h t = None \<and> NewDockerClient (D t) h = None \<and>
     (\<forall>ns. \<forall>x \<in> set (w_machines W). \<exists>m. api_GetMachine (D t) h ns (Name x) = Inr m))"

text \<open>The node update template of the update task makes new docker tasks.\<close>

definition dockerTemplate :: "jsonlib \<Rightarrow> env \<Rightarrow> bool" where
  "dockerTemplate J E \<longleftrightarrow> (\<forall>h i base. GenerateTemplate E h i = Inr base \<longrightarrow>
     (\<exists>t0. decodeDocker J (Object base) = Some t0 \<and> faithfulJson J t0 \<and>
        dn_State (DockerStatus t0) = UpdateTaskStateUnknown))"

definition namedMachines :: "World \<Rightarrow> bool" where
  "namedMachines W \<longleftrightarrow> (\<forall>x \<in> set (w_machines W). Name x \<noteq> '''')"

lemma faithfulJson_same:
  "faithfulJson J t \<Longrightarrow> metaOf t' = metaOf t \<Longrightarrow>
     dn_Conditions (DockerStatus t') = dn_Conditions (DockerStatus t) \<Longrightarrow> faithfulJson J t'"
  by (simp add: faithfulJson_def)

lemma decoded_machine:
  assumes "field_laws L" and "GetNodeUpdateTaskStatus L u = Inr st"
    and "decodeDocker J (Object u) = Some t" and "dn_MachineName (DockerSpec t) \<noteq> ''''"
  shows "nus_MachineName st = dn_MachineName (DockerSpec t)"
proof -
  have "stringAt (Object u) [''spec'', ''machineName''] = Some (dn_MachineName (DockerSpec t))"
    using assms(3) by (auto simp: decodeDocker_def Let_def bind_eq_Some_conv)
  then have "getPath (Object u) [''spec'', ''machineName''] =
      Some (JString (dn_MachineName (DockerSpec t)))"
    using assms(4) by (auto simp: stringAt_def split: option.splits json.splits)
  then have "UnmarshalString L u [''spec'', ''machineName''] = Inr (dn_MachineName (DockerSpec t))"
    by (rule field_lawsD(1) [OF assms(1)])
  then show ?thesis
    using assms(2) by (auto simp: GetNodeUpdateTaskStatus_def split: sum.splits)
qed

lemma dockerServes_machine:
  assumes "dockerServes D W" and "name \<in> Name ` set (w_machines W)"
  shows "\<exists>m. api_GetMachine (D t) h ns name = Inr m"
  using assms by (auto simp: dockerServes_def)

text \<open>Whether the task is due or was Updated before, a pass leaves it Updated.\<close>

lemma dockerPass_run:
  assumes "dockerServes D W" and "dn_MachineName (DockerSpec t) \<in> Name ` set (w_machines W)"
    and "dn_Phase (DockerSpec t) = UpdateTaskPhaseUpdate"
    and "IsTerminated (dn_State (DockerStatus t)) \<longrightarrow>
      dn_State (DockerStatus t) = UpdateTaskStateUpdated"
  shows "storedDocker t (snd (DockerReconcile L (D t) (Namespace t) (Name t) [])) =
    setDockerState UpdateTaskStateUpdated t"
proof -
  let ?h = "[] @ [GetDockerNodeUpdateTask (Namespace t) (Name t)]"
  have serve: "api_GetDockerNodeUpdateTask (D t) [] (Namespace t) (Name t) = Inr t"
      "NewDockerHelper (D t) ?h t = None" "NewDockerClient (D t) h = None" for h
    using assms(1) by (simp_all add: dockerServes_def)
  obtain m where "api_GetMachine (D t) ?h (Namespace t) (dn_MachineName (DockerSpec t)) = Inr m"
    using dockerServes_machine [OF assms(1,2)] by blast
  then have target: "dockerTarget (D t) ?h (Namespace t) t = (if dockerDue t then Some m else None)"
    using serve(3) by (simp add: dockerTarget_def)
  have run: "snd (DockerReconcile L (D t) (Namespace t) (Name t) []) = ?h @
      GetMachine (Namespace t) (dn_MachineName (DockerSpec t)) #
      (if dockerDue t then [dockerCommand m t, Sleep (10 * Second),
         PatchDockerTask t (setDockerState UpdateTaskStateUpdated t)]
       else [PatchDockerTask t t])"
    using DockerReconcile_fetched [OF serve(1,2) refl, of L] unfolding target by auto
  have "\<not> dockerDue t \<Longrightarrow> setDockerState UpdateTaskStateUpdated t = t"
    using assms(3,4) by (simp add: dockerDue_def setDockerState_def)
  then show ?thesis unfolding run by (simp add: storedDocker_def dockerCommand_def)
qed

lemma dockerPass_ends:
  assumes "field_laws L" and "dockerServes D W" and "namedMachines W"
  shows "endsIn L (dockerKind J W) {UpdateTaskStateUpdated} (dockerPass L J D)"
  unfolding endsIn_def
proof (intro allI impI)
  fix u st
  assume "dockerKind J W u" and st: "GetNodeUpdateTaskStatus L u = Inr st"
  then obtain t where t: "decodeDocker J (Object u) = Some t" "faithfulJson J t"
      "dn_MachineName (DockerSpec t) \<in> Name ` set (w_machines W)"
      "dn_Phase (DockerSpec t) = UpdateTaskPhaseUpdate"
      "IsTerminated (dn_State (DockerStatus t)) \<longrightarrow>
        dn_State (DockerStatus t) = UpdateTaskStateUpdated"
    by (auto simp: dockerKind_def)
  let ?t = "setDockerState UpdateTaskStateUpdated t"
  have pass: "dockerPass L J D u = dockerObject J ?t"
    using t(1) dockerPass_run [OF assms(2) t(3-5)] by (simp add: dockerPass_def)
  have named: "dn_MachineName (DockerSpec t) \<noteq> ''''"
    using t(3) assms(3) by (auto simp: namedMachines_def)
  have "faithfulJson J ?t"
    by (rule faithfulJson_same [OF t(2)]) (simp_all add: setDockerState_def metaOf_def)
  then have "dockerKind J W (dockerPass L J D u)"
    unfolding dockerKind_def pass using t(3,4)
    by (intro exI [of _ ?t]) (simp add: dockerObject_def decode_encode setDockerState_def)
  moreover have "\<exists>st'. GetNodeUpdateTaskStatus L (dockerObject J ?t) = Inr st' \<and>
      nus_MachineName st' = nus_MachineName st \<and> nus_State st' = UpdateTaskStateUpdated"
    using docker_status [OF assms(1), of ?t J] named t(4) decoded_machine [OF assms(1) st t(1) named]
    by (auto simp: setDockerState_def phase_defs)
  ultimately show "dockerKind J W (dockerPass L J D u) \<and>
      (\<exists>st'. GetNodeUpdateTaskStatus L (dockerPass L J D u) = Inr st' \<and>
        nus_MachineName st' = nus_MachineName st \<and> nus_State st' \<in> {UpdateTaskStateUpdated})"
    by (simp add: pass)
qed

section \<open>What the update task controller creates\<close>

lemma createdNodes_mem: "u \<in> set (createdNodes cs) \<longleftrightarrow> CreateNode u \<in> set (filter is_create_node cs)"
  by (induction cs rule: createdNodes.induct) auto

lemma created_docker_kind:
  assumes "field_laws L" and "collections_laws L" and "goodWorld L W" and "goodTask task"
    and served: "serves L E W ns n task us" and "dockerTemplate J E"
  shows "list_all (dockerKind J W) (createdNodes (snd (Reconcile L E ns n [])))"
  unfolding list_all_iff
proof
  fix u
  assume "u \<in> set (createdNodes (snd (Reconcile L E ns n [])))"
  then obtain scope s1 s2 where made:
      "NewScope L E \<lparr>calls = [] @ [GetUpdateTask ns n], obj = task\<rparr> = (Ret (Inr scope), s1)"
      "creation_justified L E scope s2 u"
    using Reconcile_creates [OF servesD(1,2) [OF served], of L "[]"]
    unfolding createdNodes_mem by fastforce
  have "scope = servedScope L W us"
    using serves_scope [where s = "\<lparr>calls = [] @ [GetUpdateTask ns n], obj = task\<rparr>"]
      made(1) assms(4) served by (metis mem.select_convs(2) outcome.inject(1) prod.inject sum.inject(2))
  then obtain x base h i where x: "x \<in> set (orderedMachines L W)"
      "GenerateTemplate E h i = Inr base" "setFields L (nodeUpdateFields (obj s2) x) base = Inr u"
    using made(2) by (auto simp: creation_justified_def servedScope_def orderedMachines_def)
  obtain t0 where t0: "decodeDocker J (Object base) = Some t0" "faithfulJson J t0"
      "dn_State (DockerStatus t0) = UpdateTaskStateUnknown"
    using x(2) assms(6) unfolding dockerTemplate_def by blast
  from nodeUpdateFields_decode [OF assms(1) x(3) t0(1)] show "dockerKind J W u"
    unfolding dockerKind_def
    using t0(2,3) x(1) orderedMachines_set [OF assms(2,3)]
    by (auto simp: faithfulJson_def metaOf_def phase_defs IsTerminated_def)
qed

section \<open>The whole update\<close>

definition dockerLoop ::
  "lib \<Rightarrow> jsonlib \<Rightarrow> World \<Rightarrow> (UpdateTask \<Rightarrow> Unstructured list \<Rightarrow> env) \<Rightarrow>
     (DockerNodeUpdateTask \<Rightarrow> env) \<Rightarrow> string \<Rightarrow> string \<Rightarrow> UpdateTask \<Rightarrow> bool" where
  "dockerLoop L J W S D ns n t0 \<longleftrightarrow>
     nested_laws L \<and> field_laws L \<and> collections_laws L \<and> result_laws L \<and> finalizer_laws L \<and>
     goodWorld L W \<and> namedMachines W \<and> goodTask t0 \<and> controlPlaneSteady L W t0 \<and>
     \<not> taskAborting L t0 \<and> TargetPhase (Spec t0) = UpdateTaskPhaseUpdate \<and>
     (\<forall>t us. sameTask L t0 t \<longrightarrow> serves L (S t us) W ns n t us \<and> dockerTemplate J (S t us)) \<and>
     dockerServes D W"

lemma dockerLoop_update:
  assumes "dockerLoop L J W S D ns n t0"
  shows "updateLoop L (dockerKind J W) W S (dockerPass L J D) ns n t0"
proof -
  have facts: "field_laws L" "collections_laws L" "goodWorld L W" "namedMachines W" "dockerServes D W"
      "goodTask t0"
    using assms by (simp_all add: dockerLoop_def)
  have served: "serves L (S t us) W ns n t us" "dockerTemplate J (S t us)"
    if "sameTask L t0 t" for t us
    using assms that by (simp_all add: dockerLoop_def)
  have "list_all (dockerKind J W) (createdNodes (snd (Reconcile L (S t us) ns n [])))"
    if "sameTask L t0 t" for t us
    using created_docker_kind [OF facts(1,2,3) _ served [OF that]] sameTask_kept(1) [OF that]
      facts(6) by blast
  moreover note dockerPass_ends [OF facts(1,5,4)]
  ultimately show ?thesis using assms by (simp add: update_loop_defs dockerLoop_def)
qed

text \<open>
  C4. An in-place update of docker machines completes, through both controllers: when the servers
  answer, the control plane is steady and the template makes docker tasks, the update task is Updated
  after at most as many rounds as there are machines to update plus two (in each round every stored
  docker task gets one pass of the docker controller), it stays so, and every machine of the update
  has a docker task that the update task controller reads as Updated.
\<close>

theorem docker_rollout_completes:
  assumes "dockerLoop L J W S D ns n t0" and "\<not> IsTerminated (State (Status t0))"
    and "length (waitingMachines L W (Name t0) []) + 2 \<le> k"
    and "(round L S (dockerPass L J D) ns n ^^ k) (t0, []) = (t, us)"
  shows "State (Status t) = UpdateTaskStateUpdated \<and>
    (\<forall>x \<in> set (w_machines W). isMachineInUpdateScope x (Name t0) \<longrightarrow>
      (\<exists>u \<in> set us. \<exists>d st. decodeDocker J (Object u) = Some d \<and>
         dn_MachineName (DockerSpec d) = Name x \<and>
         GetNodeUpdateTaskStatus L u = Inr st \<and> nus_State st = UpdateTaskStateUpdated))"
proof -
  have c: "completed L (dockerKind J W) W t0 (t, us)"
    by (rule rollout_completed [OF dockerLoop_update [OF assms(1)] assms(2-4)])
  have laws: "field_laws L" "collections_laws L" "goodWorld L W" "namedMachines W"
    using assms(1) by (simp_all add: dockerLoop_def)
  have "\<exists>u \<in> set us. \<exists>d st. decodeDocker J (Object u) = Some d \<and>
      dn_MachineName (DockerSpec d) = Name x \<and>
      GetNodeUpdateTaskStatus L u = Inr st \<and> nus_State st = UpdateTaskStateUpdated"
    if x: "x \<in> set (w_machines W)" "isMachineInUpdateScope x (Name t0)" for x
  proof -
    obtain u st where u: "u \<in> set us" "dockerKind J W u" "GetNodeUpdateTaskStatus L u = Inr st"
        "nus_MachineName st = Name x" "nus_State st = UpdateTaskStateUpdated"
      using completed_nodes [OF c laws(2,3) x] by blast
    then obtain d where d: "decodeDocker J (Object u) = Some d"
        "dn_MachineName (DockerSpec d) \<in> Name ` set (w_machines W)"
      by (auto simp: dockerKind_def)
    then have "dn_MachineName (DockerSpec d) \<noteq> ''''"
      using laws(4) by (auto simp: namedMachines_def)
    with decoded_machine [OF laws(1) u(3) d(1)] u d(1) show ?thesis by metis
  qed
  with c show ?thesis by (simp add: completed_def)
qed

end
