(* ===== verification/Docker_Scenarios.thy ===== *)
theory Docker_Scenarios
  imports Docker_Rollout Closed_Loop_Scenarios
begin

text \<open>
  The docker resource on the reference platform: a library encoding that keeps name and namespace, a
  node update task created from a docker template, and a docker task that is told to abort, and the
  whole update of the two machines.
\<close>

definition refJson :: jsonlib where
  "refJson = \<lparr>
     encodeMeta = (\<lambda>t. JObject [(''name'', JString (Name t)), (''namespace'', JString (Namespace t))]),
     decodeMeta = (\<lambda>j. let at = (\<lambda>k. case j of
          Some (JObject kvs) \<Rightarrow> (case map_of kvs k of Some (JString v) \<Rightarrow> v | _ \<Rightarrow> '''') | _ \<Rightarrow> '''') in
        \<lparr>Name = at ''name'', Namespace = at ''namespace'', UID = '''', Labels = None,
         Annotations = None, Finalizers = [], CreationTimestamp = 0, DeletionTimestamp = None\<rparr>),
     encodeConditions = (\<lambda>_. JArray []),
     decodeConditions = (\<lambda>_. [])\<rparr>"

lemma aDockerTask_faithful: "faithfulJson refJson (aDockerTask phase)"
  by (simp add: faithfulJson_def refJson_def metaOf_def aDockerTask_def Let_def)

theorem docker_field_contract_witness:
  "(\<exists>st. GetNodeUpdateTaskStatus refLib (dockerObject refJson (aDockerTask UpdateTaskPhaseUpdate)) =
      Inr st \<and> nus_MachineName st = ''m1'') \<and>
   (\<exists>e. GetNodeUpdateTaskStatus refLib (dockerObject refJson (aDockerTask '''')) = Inl e)"
  using docker_field_contract [OF refLib_fields, of "aDockerTask UpdateTaskPhaseUpdate" refJson]
    docker_field_contract [OF refLib_fields, of "aDockerTask ''''" refJson]
  by (auto simp: aDockerTask_def phase_defs)

lemma created_docker:
  obtains u e s' where "CreateNodeUpdateTask refLib (calm updating []) m1 (memOf updating) =
      (Ret (Some u, e), s')" and "setFields refLib (nodeUpdateFields updating m1) \<lparr>Object = JObject []\<rparr> = Inr u"
  by (simp add: CreateNodeUpdateTask_def prog_simps server_defs object_defs nodeUpdateFields_def
      refLib_def)

text \<open>The reference server, as the docker controller sees it.\<close>

lemma m1_name: "Name m1 = ''m1''"
  by (simp add: object_defs)

lemma docker_server:
  "api_GetDockerNodeUpdateTask (server task d [m1, m2, m3] []) h ns n = Inr d"
  "NewDockerHelper (server task d [m1, m2, m3] []) h d = None"
  "NewDockerClient (server task d [m1, m2, m3] []) h = None"
  "api_GetMachine (server task d [m1, m2, m3] []) h ns ''m1'' = Inr m1"
  by (simp_all add: server_defs object_defs)

lemma empty_docker: "\<exists>t0. decodeDocker refJson (JObject []) = Some t0 \<and>
    dn_State (DockerStatus t0) = UpdateTaskStateUnknown"
  by (simp add: decodeDocker_def stringAt_def Let_def UpdateTaskStateUnknown_def)

theorem created_docker_task_is_carried_out_witness:
  "\<exists>u e s' t E. CreateNodeUpdateTask refLib (calm updating []) m1 (memOf updating) = (Ret (Some u, e), s') \<and>
     decodeDocker refJson (Object u) = Some t \<and>
     (\<exists>cs t' st. snd (DockerReconcile refLib E ''ns'' ''d'' []) = cs @ [PatchDockerTask t t'] \<and>
        GetNodeUpdateTaskStatus refLib (dockerObject refJson t') = Inr st \<and>
        nus_MachineName st = ''m1'' \<and> nus_State st = UpdateTaskStateUpdated)"
proof -
  obtain u e s' where run: "CreateNodeUpdateTask refLib (calm updating []) m1 (memOf updating) =
      (Ret (Some u, e), s')"
    and u: "setFields refLib (nodeUpdateFields updating m1) \<lparr>Object = JObject []\<rparr> = Inr u"
    using created_docker .
  obtain t0 where "decodeDocker refJson (JObject []) = Some t0" using empty_docker by blast
  then obtain t where t: "decodeDocker refJson (Object u) = Some t"
    using nodeUpdateFields_decode [OF refLib_fields u, of refJson] by simp
  have template: "GenerateTemplate (calm updating []) h i = Inr base \<Longrightarrow>
      \<exists>t0. decodeDocker refJson (Object base) = Some t0 \<and>
        dn_State (DockerStatus t0) = UpdateTaskStateUnknown" for h i base
    using empty_docker by (auto simp: server_defs)
  let ?E = "server updating t [m1, m2, m3] []"
  have "\<exists>cs t' st. snd (DockerReconcile refLib ?E ''ns'' ''d'' []) = [] @ cs @ [PatchDockerTask t t'] \<and>
      dockerCommand m1 t \<in> set cs \<and>
      GetNodeUpdateTaskStatus refLib (dockerObject refJson t') = Inr st \<and>
      nus_MachineName st = Name m1 \<and> nus_State st = UpdateTaskStateUpdated"
    using created_docker_task_is_carried_out [OF refLib_fields run template _ t,
        where D = ?E and past = "[]" and ns = "''ns''" and n = "''d''" and machine = m1]
    by (simp add: docker_server m1_name)
  then show ?thesis using run t m1_name by auto
qed

theorem aborted_docker_task_never_ends_witness:
  "\<exists>t' E. abortedDocker refJson (aDockerTask UpdateTaskPhaseUpdate) = Some t' \<and>
     snd (DockerReconcile refLib E ''ns'' ''d'' []) =
       [GetDockerNodeUpdateTask ''ns'' ''d'', GetMachine ''ns'' ''m1'', PatchDockerTask t' t']"
proof -
  obtain t' where t': "abortedDocker refJson (aDockerTask UpdateTaskPhaseUpdate) = Some t'"
    using abortedDocker [OF aDockerTask_faithful] by blast
  let ?E = "server updating t' [m1, m2, m3] []"
  have name: "dn_MachineName (DockerSpec (aDockerTask UpdateTaskPhaseUpdate)) = ''m1''"
    by (simp add: aDockerTask_def)
  have "snd (DockerReconcile refLib ?E ''ns'' ''d'' []) =
      [GetDockerNodeUpdateTask ''ns'' ''d'', GetMachine ''ns'' ''m1'', PatchDockerTask t' t']"
    using aborted_docker_task_never_ends [OF refLib_fields aDockerTask_faithful _ t',
        where D = ?E and past = "[]" and ns = "''ns''" and n = "''d''"]
    by (auto simp: docker_server name)
  then show ?thesis using t' by blast
qed

text \<open>The two machines of the update, through both controllers.\<close>

definition dockerWorld :: "DockerNodeUpdateTask \<Rightarrow> env" where
  "dockerWorld t = server updating t [m1, m2, m3] []"

lemma dockerWorld_serves: "dockerServes dockerWorld aWorld"
  by (simp add: dockerServes_def dockerWorld_def aWorld_def server_defs object_defs)

lemma calm_template: "dockerTemplate refJson (calm t us)"
  by (auto simp: dockerTemplate_def server_defs decodeDocker_def stringAt_def Let_def
      UpdateTaskStateUnknown_def faithfulJson_def metaOf_def refJson_def)

theorem docker_rollout_completes_witness:
  "\<exists>t us. (round refLib calm (dockerPass refLib refJson dockerWorld) ''ns'' ''up'' ^^ 4)
      (aTask [] UpdateTaskPhaseUpdate UpdateTaskStateUnknown, []) = (t, us) \<and>
    State (Status t) = UpdateTaskStateUpdated \<and>
    (\<exists>u \<in> set us. \<exists>d. decodeDocker refJson (Object u) = Some d \<and>
       dn_MachineName (DockerSpec d) = ''m2'')"
proof -
  let ?t0 = "aTask [] UpdateTaskPhaseUpdate UpdateTaskStateUnknown"
  obtain t us where run: "(round refLib calm (dockerPass refLib refJson dockerWorld) ''ns'' ''up'' ^^ 4)
      (?t0, []) = (t, us)" by fastforce
  have "\<not> taskAborting refLib ?t0" "TargetPhase (Spec ?t0) = UpdateTaskPhaseUpdate"
      "namedMachines aWorld"
    by (simp_all add: taskAborting_def namedMachines_def aWorld_def object_defs refLib_def)
  then have loop: "dockerLoop refLib refJson aWorld calm dockerWorld ''ns'' ''up'' ?t0"
    by (simp add: dockerLoop_def refLib_nested refLib_fields refLib_collections refLib_result
        refLib_finalizer aWorld_good aTask_good aTask_steady calm_serves calm_template
        dockerWorld_serves)
  have "Name ?t0 = ''up''" by (simp add: object_defs)
  then have few: "length (waitingMachines refLib aWorld (Name ?t0) []) + 2 \<le> 4"
    by (simp add: aWorld_waiting)
  have "\<not> IsTerminated (State (Status ?t0))" by (simp add: aTask_def)
  from docker_rollout_completes [OF loop this few run] \<open>Name ?t0 = ''up''\<close> run
  show ?thesis by (auto simp: aWorld_def)
qed

end
