(* ===== verification/Access_Control.thy ===== *)
theory Access_Control
  imports Task_Reconcile Docker_Node_Controller Lifecycle_Handlers
begin

text \<open>
  What the process is allowed to do on the API server: the access rules that the
  \<open>kubebuilder:rbac\<close> markers of the source declare (the manager's role is generated from them), the
  requests each call makes, and whether the rules grant them.
\<close>

section \<open>The rules\<close>

record PolicyRule =
  rule_Group :: string
  rule_Resources :: "string list"
  rule_Verbs :: "string list"

definition rule :: "string \<Rightarrow> string list \<Rightarrow> string list \<Rightarrow> PolicyRule" where
  "rule g rs vs = \<lparr>rule_Group = g, rule_Resources = rs, rule_Verbs = vs\<rparr>"

definition updateGroup :: string where
  "updateGroup = ''update.extension.cluster.x-k8s.io''"

definition readVerbs :: "string list" where
  "readVerbs = [''get'', ''list'', ''watch'']"

definition allVerbs :: "string list" where
  "allVerbs = [''get'', ''list'', ''watch'', ''create'', ''update'', ''patch'', ''delete'']"

definition updateTaskRules :: "PolicyRule list" where
  "updateTaskRules =
     [rule ''controlplane.cluster.x-k8s.io'' [''kubeadmcontrolplanes'', ''kubeadmcontrolplanes/status'']
        readVerbs,
      rule ''cluster.x-k8s.io'' [''clusters'', ''clusters/status''] readVerbs,
      rule ''cluster.x-k8s.io'' [''machines'', ''machines/status''] allVerbs,
      rule updateGroup [''dockernodeupdatetasktemplates''] readVerbs,
      rule updateGroup [''updatetasks''] allVerbs,
      rule updateGroup [''updatetasks/status''] [''get'', ''update'', ''patch''],
      rule updateGroup [''updatetasks/finalizers''] [''update''],
      rule ''core'' [''configmaps''] [''create'', ''get'', ''list'', ''watch'', ''patch'']]"

definition dockerRules :: "PolicyRule list" where
  "dockerRules =
     [rule updateGroup [''dockernodeupdatetasks''] allVerbs,
      rule updateGroup [''dockernodeupdatetasks/status''] [''get'', ''update'', ''patch''],
      rule updateGroup [''dockernodeupdatetasks/finalizers''] [''update'']]"

definition diagnosticsRules :: "PolicyRule list" where
  "diagnosticsRules =
     [rule ''authentication.k8s.io'' [''tokenreviews''] [''create''],
      rule ''authorization.k8s.io'' [''subjectaccessreviews''] [''create'']]"

definition managerRole :: "PolicyRule list" where
  "managerRole = updateTaskRules @ dockerRules @ diagnosticsRules"

text \<open>A request names a group, a resource and a verb; one rule has to have all three.\<close>

type_synonym request = "string \<times> string \<times> string"

definition granted :: "request \<Rightarrow> bool" where
  "granted r \<longleftrightarrow> (case r of (g, res, v) \<Rightarrow> list_ex (\<lambda>x. rule_Group x = g \<and>
     res \<in> set (rule_Resources x) \<and> v \<in> set (rule_Verbs x)) managerRole)"

section \<open>The requests of a call\<close>

text \<open>
  For unstructured objects the server's discovery says which group and resource a reference, a kind
  or an object stands for.
\<close>

record restmapping =
  refResource :: "ObjectReference \<Rightarrow> string \<times> string"
  listResource :: "string \<Rightarrow> string \<Rightarrow> string \<times> string"
  objectResource :: "Unstructured \<Rightarrow> string \<times> string"

text \<open>
  The manager's client reads typed objects through a cache that lists and watches them; a patch helper
  patches the object and its status.
\<close>

definition cached :: "string \<Rightarrow> string \<Rightarrow> request list" where
  "cached g res = map (\<lambda>v. (g, res, v)) readVerbs"

definition patchBoth :: "string \<Rightarrow> string \<Rightarrow> request list" where
  "patchBoth g res = [(g, res, ''patch''), (g, res @ ''/status'', ''patch'')]"

definition unstructured :: "string \<times> string \<Rightarrow> string \<Rightarrow> request list" where
  "unstructured gr v = [(fst gr, snd gr, v)]"

fun requests :: "restmapping \<Rightarrow> call \<Rightarrow> request list" where
  "requests M (GetUpdateTask _ _) = cached updateGroup ''updatetasks''"
| "requests M (GetCluster _ _) = cached ''cluster.x-k8s.io'' ''clusters''"
| "requests M (GetKubeadmControlPlane _ _) =
     cached ''controlplane.cluster.x-k8s.io'' ''kubeadmcontrolplanes''"
| "requests M (GetMachine _ _) = cached ''cluster.x-k8s.io'' ''machines''"
| "requests M (GetDockerNodeUpdateTask _ _) = cached updateGroup ''dockernodeupdatetasks''"
| "requests M (GetExternal ref _) = unstructured (refResource M ref) ''get''"
| "requests M (ListMachines _ _) = cached ''cluster.x-k8s.io'' ''machines''"
| "requests M (ListUpdateTasks _ _) = cached updateGroup ''updatetasks''"
| "requests M (ListUpdatePolicies _) = cached updateGroup ''updatepolicies''"
| "requests M (ListUnstructured version kind _ _) = unstructured (listResource M version kind) ''list''"
| "requests M (CreateNode u) = unstructured (objectResource M u) ''create''"
| "requests M (CreateTask _) = [(updateGroup, ''updatetasks'', ''create'')]"
| "requests M (MergePatchNode u _) = unstructured (objectResource M u) ''patch''"
| "requests M (MergePatchTask _ _) = [(updateGroup, ''updatetasks'', ''patch'')]"
| "requests M (PatchTask _ _) = patchBoth updateGroup ''updatetasks''"
| "requests M (PatchMachine _ _) = patchBoth ''cluster.x-k8s.io'' ''machines''"
| "requests M (PatchDockerTask _ _) = patchBoth updateGroup ''dockernodeupdatetasks''"
| "requests M (ExecContainer _ _ _) = []"
| "requests M (Sleep _) = []"

definition permitted :: "restmapping \<Rightarrow> call \<Rightarrow> bool" where
  "permitted M c \<longleftrightarrow> list_all granted (requests M c)"

text \<open>The call stays with the docker kinds of node updates and templates.\<close>

fun onDocker :: "restmapping \<Rightarrow> call \<Rightarrow> bool" where
  "onDocker M (GetExternal ref _) \<longleftrightarrow> refResource M ref = (updateGroup, ''dockernodeupdatetasktemplates'')"
| "onDocker M (ListUnstructured version kind _ _) \<longleftrightarrow>
     listResource M version kind = (updateGroup, ''dockernodeupdatetasks'')"
| "onDocker M (CreateNode u) \<longleftrightarrow> objectResource M u = (updateGroup, ''dockernodeupdatetasks'')"
| "onDocker M (MergePatchNode u _) \<longleftrightarrow> objectResource M u = (updateGroup, ''dockernodeupdatetasks'')"
| "onDocker M _ \<longleftrightarrow> True"

lemmas role_defs = managerRole_def updateTaskRules_def dockerRules_def diagnosticsRules_def rule_def
  readVerbs_def allVerbs_def cached_def patchBoth_def unstructured_def

fun is_policy_list :: "call \<Rightarrow> bool" where
  "is_policy_list (ListUpdatePolicies _) = True"
| "is_policy_list _ = False"

lemma permitted_docker:
  assumes "onDocker M c"
  shows "permitted M c \<longleftrightarrow> \<not> is_policy_list c"
  using assms by (cases c) (simp_all add: permitted_def granted_def role_defs updateGroup_def)

section \<open>Calls of the reconcilers and of the hook\<close>

text \<open>The calls that only the hook makes.\<close>

fun is_hook_call :: "call \<Rightarrow> bool" where
  "is_hook_call (ListUpdatePolicies _) = True"
| "is_hook_call (ListUpdateTasks _ _) = True"
| "is_hook_call (MergePatchTask _ _) = True"
| "is_hook_call (CreateTask _) = True"
| "is_hook_call _ = False"

lemma is_hook_call_simps [simp]:
  "is_policy_list c \<Longrightarrow> is_hook_call c"
  "is_patch_machine c \<Longrightarrow> \<not> is_hook_call c"
  "is_abort_node c \<Longrightarrow> \<not> is_hook_call c"
  "is_node_creation c \<Longrightarrow> \<not> is_hook_call c"
  by (cases c; simp)+

lemma emits_no_hook_call:
  "emits (\<lambda>c. \<not> is_hook_call c) (NewScope L E)"
  "emits (\<lambda>c. \<not> is_hook_call c) (PreflightCheckForKubeadmControlPlane L E ns ref)"
  by (auto simp: NewScope_def PreflightCheckForKubeadmControlPlane_def preflightChecks_def
      intro!: emits_intros)

lemma phases_no_hook_call: "emits (\<lambda>c. \<not> is_hook_call c) (reconcilePhases L E)"
  unfolding reconcilePhases_def reconcileNormal_def scanNode_def controlPlanePreflight_def
    updateMachine_def createForMachine_def
  by (intro emits_intros emits_no_hook_call status_marks.emits_weaker abort_phase.emits_weaker
      create_call.emits_weaker) simp_all

interpretation task_no_hook: calling "\<lambda>_ :: unit. reconcileTask L E" "\<lambda>c. \<not> is_hook_call c" for L E
  by unfold_locales (auto simp: reconcileTask_def intro!: emits_intros phases_no_hook_call)

lemma Reconcile_no_hook_call:
  "\<exists>cs. snd (Reconcile L E ns n h) = h @ cs \<and> list_all (\<lambda>c. \<not> is_hook_call c) cs"
proof (cases "api_GetUpdateTask E h ns n")
  case (Inl err)
  then show ?thesis by (simp add: Reconcile_def Let_def)
next
  case (Inr task)
  show ?thesis
  proof (cases "NewTaskHelper E (h @ [GetUpdateTask ns n]) task")
    case (Some err)
    with Inr show ?thesis by (simp add: Reconcile_def)
  next
    case None
    obtain r s1 where run: "reconcileTask L E \<lparr>calls = h @ [GetUpdateTask ns n], obj = task\<rparr> = (r, s1)"
      by fastforce
    obtain cs where "calls s1 = (h @ [GetUpdateTask ns n]) @ cs" "list_all (\<lambda>c. \<not> is_hook_call c) cs"
      using task_no_hook.history_grows [OF run] by auto
    with Reconcile_fetched [OF Inr None run] show ?thesis by simp
  qed
qed

lemma DockerReconcile_no_hook_call:
  "\<exists>cs. snd (DockerReconcile L E ns n h) = h @ cs \<and>
    list_all (\<lambda>c. \<not> is_hook_call c \<and> (\<forall>M. onDocker M c)) cs"
proof (cases "api_GetDockerNodeUpdateTask E h ns n")
  case (Inl err)
  then show ?thesis by (simp add: DockerReconcile_def Let_def)
next
  case (Inr task)
  show ?thesis
  proof (cases "NewDockerHelper E (h @ [GetDockerNodeUpdateTask ns n]) task")
    case (Some err)
    with Inr show ?thesis by (simp add: DockerReconcile_def)
  next
    case None
    from DockerReconcile_fetched [OF Inr None refl, of L] show ?thesis
      by (auto simp: dockerCommand_def split: option.split)
  qed
qed

text \<open>
  C25. The manager's role suffices for both reconcilers: a pass of the update task controller makes
  only calls that the rules grant, as far as its node updates are docker ones, and so does a pass of
  the docker controller.
\<close>

theorem role_covers_reconcilers:
  "(\<exists>cs. snd (Reconcile L E ns n h) = h @ cs \<and> (\<forall>c \<in> set cs. onDocker M c \<longrightarrow> permitted M c)) \<and>
   (\<exists>cs. snd (DockerReconcile L E ns n h) = h @ cs \<and> list_all (permitted M) cs)"
  using Reconcile_no_hook_call [of L E ns n h] DockerReconcile_no_hook_call [of L E ns n h]
  by (fastforce simp: list_all_iff permitted_docker)

text \<open>The server enforces the role for update policies.\<close>

definition refusesPolicies :: "restmapping \<Rightarrow> env \<Rightarrow> bool" where
  "refusesPolicies M E \<longleftrightarrow> (\<forall>h ns. \<not> permitted M (ListUpdatePolicies ns) \<longrightarrow>
     (\<exists>err. api_ListUpdatePolicies E h ns = Inl err))"

fun is_create_task :: "call \<Rightarrow> bool" where
  "is_create_task (CreateTask _) = True"
| "is_create_task _ = False"

lemma hook_creates_nothing:
  assumes "\<And>h ns. \<exists>err. api_ListUpdatePolicies E h ns = Inl err"
  shows "emits (\<lambda>c. \<not> is_create_task c) (createUpdateTask L E c p nm n :: ('o mem, goerr option) prog)"
  unfolding emits_def
proof
  fix s :: "'o mem"
  obtain err where "api_ListUpdatePolicies E (calls s) (ref_Namespace c) = Inl err"
    using assms by blast
  then show "\<exists>cs. calls (snd (createUpdateTask L E c p nm n s)) = calls s @ cs \<and>
      list_all (\<lambda>c. \<not> is_create_task c) cs"
    by (simp add: createUpdateTask_def prog_simps)
qed

text \<open>
  C26. The manager's role does not suffice for the hook: no rule grants reading update policies. On a
  server that enforces the role the handler of external updates never creates an update task,
  whatever else succeeds.
\<close>

theorem role_stops_hook:
  assumes "refusesPolicies M E"
  shows "\<exists>cs. calls (snd (DoControlPlaneExternalUpdate L E request response s)) = calls s @ cs \<and>
    list_all (\<lambda>c. \<not> is_create_task c) cs"
proof -
  have "\<exists>err. api_ListUpdatePolicies E h ns = Inl err" for h ns
    using assms permitted_docker [of M "ListUpdatePolicies ns"] by (simp add: refusesPolicies_def)
  note create = hook_creates_nothing [OF this]
  have "emits (\<lambda>c. \<not> is_create_task c) (DoControlPlaneExternalUpdate L E request response)"
    unfolding DoControlPlaneExternalUpdate_def doControlPlaneExternalUpdateImpl_def abortTasks_def
      claimMachines_def abortExisting_def claimStep_def Let_def
    by (intro emits_intros create) simp_all
  then show ?thesis by (rule emitsD)
qed

end
