(* ===== verification/Process.thy ===== *)
theory Process
  imports Access_Control Manager_Setup
begin

text \<open>
  The running process: once the manager is started it serves the hooks that were added to the webhook
  server and runs the reconcilers that were set up, in any order and on behalf of any client. Its
  state is the history of its calls; the outside may change from one event to the next.
\<close>

section \<open>Setting up the reconcilers\<close>

text \<open>What \<open>SetupWithManager\<close> builds: a controller for one kind of objects, with its reconciler.\<close>

record controller =
  ctl_For :: string
  ctl_Reconciler :: string

definition UpdateTaskReconciler_SetupWithManager :: controller where
  "UpdateTaskReconciler_SetupWithManager =
     \<lparr>ctl_For = ''UpdateTask'', ctl_Reconciler = ''UpdateTaskReconciler''\<rparr>"

definition DockerNodeUpdateTaskReconciler_SetupWithManager :: controller where
  "DockerNodeUpdateTaskReconciler_SetupWithManager =
     \<lparr>ctl_For = ''DockerNodeUpdateTask'', ctl_Reconciler = ''DockerNodeUpdateTaskReconciler''\<rparr>"

definition controllersOf :: "boot list \<Rightarrow> controller list" where
  "controllersOf boot = filter (\<lambda>c. SetupController (ctl_Reconciler c) \<in> set boot)
     [UpdateTaskReconciler_SetupWithManager, DockerNodeUpdateTaskReconciler_SetupWithManager]"

definition runReconciler ::
  "lib \<Rightarrow> env \<Rightarrow> string \<Rightarrow> string \<Rightarrow> string \<Rightarrow> history \<Rightarrow> history" where
  "runReconciler L E reconciler ns n h =
     (if reconciler = ''UpdateTaskReconciler'' then snd (Reconcile L E ns n h)
      else if reconciler = ''DockerNodeUpdateTaskReconciler'' then snd (DockerReconcile L E ns n h)
      else h)"

section \<open>Serving hooks\<close>

text \<open>
  The handler functions by name. Only the external update reads its request; the others get the same
  arguments here and ignore them.
\<close>

definition runHandler ::
  "lib \<Rightarrow> env \<Rightarrow> string \<Rightarrow> ControlPlaneExternalUpdateRequest \<Rightarrow> ExternalUpdateResponse \<Rightarrow>
     (unit mem, ExternalUpdateResponse) prog" where
  "runHandler L E handler request response =
     (if handler = ''DoControlPlaneExternalUpdate'' then DoControlPlaneExternalUpdate L E request response
      else if handler = ''DoBeforeClusterCreate'' then DoBeforeClusterCreate request response
      else if handler = ''DoBeforeClusterUpgrade'' then DoBeforeClusterUpgrade request response
      else if handler = ''DoAfterControlPlaneUpgrade'' then DoAfterControlPlaneUpgrade request response
      else if handler = ''DoAfterClusterUpgrade'' then DoAfterClusterUpgrade request response
      else panic ''no such handler'')"

definition serveHook ::
  "lib \<Rightarrow> env \<Rightarrow> string \<Rightarrow> ControlPlaneExternalUpdateRequest \<Rightarrow> ExternalUpdateResponse \<Rightarrow>
     history \<Rightarrow> history" where
  "serveHook L E handler request response h =
     calls (snd (runHandler L E handler request response \<lparr>calls = h, obj = ()\<rparr>))"

section \<open>Events\<close>

inductive processStep :: "lib \<Rightarrow> boot list \<Rightarrow> history \<Rightarrow> history \<Rightarrow> bool" for L boot where
  hook: "StartManager \<in> set boot \<Longrightarrow> AddExtensionHandler hook name handler \<in> set boot \<Longrightarrow>
    processStep L boot h (serveHook L E handler request response h)"
| reconcile: "StartManager \<in> set boot \<Longrightarrow> c \<in> set (controllersOf boot) \<Longrightarrow>
    processStep L boot h (runReconciler L E (ctl_Reconciler c) ns n h)"

text \<open>The handlers that are added, whatever fails.\<close>

lemma added_handlers:
  assumes "AddExtensionHandler hook name handler \<in> set (snd (startProcess B parse))"
  shows "handler \<in> {''DoBeforeClusterCreate'', ''DoBeforeClusterUpgrade'',
     ''DoAfterControlPlaneUpgrade'', ''DoAfterClusterUpgrade''}"
  using assms by (rule added_extension_handlers)

lemma served_nothing:
  assumes "AddExtensionHandler hook name handler \<in> set (snd (startProcess B parse))"
  shows "serveHook L E handler request response h = h"
  using added_handlers [OF assms]
  by (auto simp: serveHook_def runHandler_def run_return DoBeforeClusterCreate_def
      DoBeforeClusterUpgrade_def DoAfterControlPlaneUpgrade_def DoAfterClusterUpgrade_def)

lemma runReconciler_no_hook_call:
  "\<exists>cs. runReconciler L E reconciler ns n h = h @ cs \<and> list_all (\<lambda>c. \<not> is_hook_call c) cs"
proof -
  obtain cs where "snd (DockerReconcile L E ns n h) = h @ cs" "list_all (\<lambda>c. \<not> is_hook_call c) cs"
    using DockerReconcile_no_hook_call [of L E ns n h] by (auto simp: list_all_iff)
  with Reconcile_no_hook_call [of L E ns n h] show ?thesis by (auto simp: runReconciler_def)
qed

text \<open>
  C24. The process never starts or aborts an update: in whatever order hooks are served and objects are
  reconciled, it never creates an update task, never patches the phase of one and never reads update
  policies. All the code that does so is the hook that is not registered.
\<close>

theorem process_starts_no_update:
  assumes "(processStep L (snd (startProcess B parse)))\<^sup>*\<^sup>* [] h"
  shows "list_all (\<lambda>c. \<not> is_hook_call c) h"
  using assms
proof induction
  case (step h h')
  from step.hyps(2) show ?case
  proof cases
    case (hook hook name handler E request response)
    with served_nothing step.IH show ?thesis by simp
  next
    case (reconcile c E ns n)
    with runReconciler_no_hook_call [of L E "ctl_Reconciler c" ns n h] step.IH show ?thesis by auto
  qed
qed simp

end
