(* ===== verification/Process_Scenarios.thy ===== *)
theory Process_Scenarios
  imports Process Scenarios
begin

text \<open>
  The access rules and the process on the cluster of \<^theory_text>\<open>Scenarios\<close>, with docker as the only kind of
  node updates.
\<close>

definition dockerMapping :: restmapping where
  "dockerMapping = \<lparr>refResource = (\<lambda>_. (updateGroup, ''dockernodeupdatetasktemplates'')),
     listResource = (\<lambda>_ _. (updateGroup, ''dockernodeupdatetasks'')),
     objectResource = (\<lambda>_. (updateGroup, ''dockernodeupdatetasks''))\<rparr>"

lemma onDocker_dockerMapping: "onDocker dockerMapping c"
  by (cases c) (simp_all add: dockerMapping_def)

theorem role_covers_reconcilers_witness:
  "\<exists>cs. snd (Reconcile refLib (calm updating []) ''ns'' ''up'' []) = cs \<and>
    (\<forall>c \<in> set cs. permitted dockerMapping c)"
  using role_covers_reconcilers [of refLib "calm updating []" "''ns''" "''up''" "[]" dockerMapping]
  by (auto simp: onDocker_dockerMapping)

text \<open>The server with the role enforced.\<close>

definition strict :: env where
  "strict = (calm updating []) \<lparr>api_ListUpdatePolicies := (\<lambda>_ _. Inl (GoErr ''forbidden''))\<rparr>"

theorem role_stops_hook_witness:
  "\<exists>cs. calls (snd (DoControlPlaneExternalUpdate refLib strict aRequest noResponse (memOf updating))) = cs \<and>
    list_all (\<lambda>c. \<not> is_create_task c) cs"
proof -
  have "refusesPolicies dockerMapping strict" by (simp add: refusesPolicies_def strict_def)
  from role_stops_hook [OF this, of refLib aRequest noResponse "memOf updating"] show ?thesis
    by (simp add: memOf_def)
qed

theorem process_starts_no_update_witness:
  "\<exists>h. (processStep refLib (snd (startProcess (\<lambda>_ _. None) id)))\<^sup>*\<^sup>* [] h \<and>
    GetUpdateTask ''ns'' ''up'' \<in> set h \<and> list_all (\<lambda>c. \<not> is_hook_call c) h"
proof -
  let ?boot = "snd (startProcess (\<lambda>_ _. None) id)"
  let ?h = "snd (Reconcile refLib (calm updating []) ''ns'' ''up'' [])"
  have "StartManager \<in> set ?boot" "SetupController ''UpdateTaskReconciler'' \<in> set ?boot"
    by (simp_all add: startProcess_def bootSequence_def mainSteps_def initSteps_def flagSteps_def
        setupLifecycleHookHandlers_def setupChecks_def setupReconcilers_def InitFlags_def)
  then have "processStep refLib ?boot [] (runReconciler refLib (calm updating [])
      (ctl_Reconciler UpdateTaskReconciler_SetupWithManager) ''ns'' ''up'' [])"
    by (intro processStep.reconcile)
      (simp_all add: controllersOf_def UpdateTaskReconciler_SetupWithManager_def)
  then have steps: "(processStep refLib ?boot)\<^sup>*\<^sup>* [] ?h"
    by (simp add: runReconciler_def UpdateTaskReconciler_SetupWithManager_def)
  have "api_GetUpdateTask (calm updating []) [] ''ns'' ''up'' = Inr updating"
      "NewTaskHelper (calm updating []) ([] @ [GetUpdateTask ''ns'' ''up'']) updating = None"
    by (simp_all add: server_defs)
  from Reconcile_run [OF this, of refLib] have "GetUpdateTask ''ns'' ''up'' \<in> set ?h" by force
  with steps process_starts_no_update [OF steps] show ?thesis by blast
qed

end
