(* ===== verification/Task_Resource.thy ===== *)
theory Task_Resource
  imports Json_Library Lifecycle_Handlers
begin

text \<open>
  Update tasks as the API server stores them: the JSON form that the tags of
  \<open>src/api/v1beta1/updatetask\_types.go\<close> give them. The hook aborts a running update task by a merge
  patch on that form; here it meets the field the update task controller looks at.
\<close>

section \<open>Encoding\<close>

text \<open>The library's encoding of references is added to that of metadata and conditions.\<close>

record tasklib = jsonlib +
  encodeRef :: "ObjectReference \<Rightarrow> json"
  decodeRef :: "json option \<Rightarrow> ObjectReference"

definition omitRef :: "tasklib \<Rightarrow> string \<Rightarrow> ObjectReference option \<Rightarrow> (string \<times> json) list" where
  "omitRef J k r = (case r of None \<Rightarrow> [] | Some r \<Rightarrow> [(k, encodeRef J r)])"

definition omitRefs :: "tasklib \<Rightarrow> string \<Rightarrow> ObjectReference list \<Rightarrow> (string \<times> json) list" where
  "omitRefs J k rs = (if rs = [] then [] else [(k, JArray (map (encodeRef J) rs))])"

definition encodeTemplate :: "tasklib \<Rightarrow> NodeUpdateTaskTemplateSpec \<Rightarrow> json" where
  "encodeTemplate J t = JObject
     [(''metadata'', encodeMeta J (metaOf t)), (''infrastructureRef'', encodeRef J (InfrastructureRef t))]"

definition encodeTaskSpec :: "tasklib \<Rightarrow> UpdateTaskSpec \<Rightarrow> json" where
  "encodeTaskSpec J s = JObject
     (omitRef J ''clusterRef'' (ClusterRef s) @ omitRef J ''controlPlaneRef'' (ControlPlaneRef s) @
      omitRef J ''machineDeploymentRef'' (MachineDeploymentRef s) @
      omitRefs J ''machinesRequireUpdate'' (MachinesRequireUpdate s) @
      [(''newMachineSpec'', encodeMachineSpec (NewMachineSpec s)),
       (''template'', encodeTemplate J (NodeUpdateTemplate s))] @
      omitEmpty ''phase'' (TargetPhase s))"

definition encodeTaskStatus :: "tasklib \<Rightarrow> UpdateTaskStatus \<Rightarrow> json" where
  "encodeTaskStatus J s = JObject
     (omitEmpty ''state'' (State s) @
      (if StatusConditions s = [] then []
       else [(''conditions'', encodeConditions J (StatusConditions s))]))"

definition encodeTask :: "tasklib \<Rightarrow> UpdateTask \<Rightarrow> json" where
  "encodeTask J t = JObject
     (omitEmpty ''kind'' (Kind t) @ omitEmpty ''apiVersion'' (APIVersion t) @
      [(''metadata'', encodeMeta J (metaOf t)), (''spec'', encodeTaskSpec J (Spec t)),
       (''status'', encodeTaskStatus J (Status t))])"

section \<open>Decoding\<close>

text \<open>A missing pointer is nil, a missing list is empty.\<close>

definition refAt :: "tasklib \<Rightarrow> json \<Rightarrow> string list \<Rightarrow> ObjectReference option" where
  "refAt J j p = (case getPath j p of
     None \<Rightarrow> None | Some JNull \<Rightarrow> None | Some r \<Rightarrow> Some (decodeRef J (Some r)))"

definition refsAt :: "tasklib \<Rightarrow> json \<Rightarrow> string list \<Rightarrow> ObjectReference list option" where
  "refsAt J j p = (case getPath j p of
     None \<Rightarrow> Some [] | Some JNull \<Rightarrow> Some []
   | Some (JArray js) \<Rightarrow> Some (map (\<lambda>r. decodeRef J (Some r)) js) | Some _ \<Rightarrow> None)"

definition machineSpecAt :: "json \<Rightarrow> string list \<Rightarrow> MachineSpec option" where
  "machineSpecAt j p =
     Option.bind (stringAt j (p @ [''version''])) (\<lambda>version.
     Option.bind (stringAt j (p @ [''bootstrapConfig''])) (\<lambda>bootstrapConfig.
     Option.bind (stringAt j (p @ [''infraMachine''])) (\<lambda>infraMachine.
     Some \<lparr>ms_Version = version, ms_BootstrapConfig = bootstrapConfig,
       ms_InfraMachine = infraMachine\<rparr>)))"

definition decodeTask :: "tasklib \<Rightarrow> json \<Rightarrow> UpdateTask option" where
  "decodeTask J j =
     Option.bind (stringAt j [''kind'']) (\<lambda>kind.
     Option.bind (stringAt j [''apiVersion'']) (\<lambda>apiVersion.
     Option.bind (refsAt J j [''spec'', ''machinesRequireUpdate'']) (\<lambda>machines.
     Option.bind (machineSpecAt j [''spec'', ''newMachineSpec'']) (\<lambda>newMachine.
     Option.bind (stringAt j [''spec'', ''phase'']) (\<lambda>phase.
     Option.bind (stringAt j [''status'', ''state'']) (\<lambda>state.
     let m = decodeMeta J (getPath j [''metadata'']);
         tm = decodeMeta J (getPath j [''spec'', ''template'', ''metadata'']) in
     Some \<lparr>Name = Name m, Namespace = Namespace m, UID = UID m, Labels = Labels m,
       Annotations = Annotations m, Finalizers = Finalizers m,
       CreationTimestamp = CreationTimestamp m, DeletionTimestamp = DeletionTimestamp m,
       Kind = kind, APIVersion = apiVersion,
       Spec = \<lparr>ClusterRef = refAt J j [''spec'', ''clusterRef''],
         ControlPlaneRef = refAt J j [''spec'', ''controlPlaneRef''],
         MachineDeploymentRef = refAt J j [''spec'', ''machineDeploymentRef''],
         MachinesRequireUpdate = machines, NewMachineSpec = newMachine,
         NodeUpdateTemplate = \<lparr>Name = Name tm, Namespace = Namespace tm, UID = UID tm,
           Labels = Labels tm, Annotations = Annotations tm, Finalizers = Finalizers tm,
           CreationTimestamp = CreationTimestamp tm, DeletionTimestamp = DeletionTimestamp tm,
           InfrastructureRef =
             decodeRef J (getPath j [''spec'', ''template'', ''infrastructureRef''])\<rparr>,
         TargetPhase = phase\<rparr>,
       Status = \<lparr>State = state,
         StatusConditions = decodeConditions J (getPath j [''status'', ''conditions''])\<rparr>\<rparr>))))))"

text \<open>The library can read what it writes for this task.\<close>

definition faithfulRef :: "tasklib \<Rightarrow> ObjectReference \<Rightarrow> bool" where
  "faithfulRef J r \<longleftrightarrow> decodeRef J (Some (encodeRef J r)) = r \<and> encodeRef J r \<noteq> JNull"

definition faithfulTask :: "tasklib \<Rightarrow> UpdateTask \<Rightarrow> bool" where
  "faithfulTask J t \<longleftrightarrow>
     decodeMeta J (Some (encodeMeta J (metaOf t))) = metaOf t \<and>
     decodeMeta J (Some (encodeMeta J (metaOf (NodeUpdateTemplate (Spec t))))) =
       metaOf (NodeUpdateTemplate (Spec t)) \<and>
     (\<forall>r \<in> set_option (ClusterRef (Spec t)) \<union> set_option (ControlPlaneRef (Spec t)) \<union>
        set_option (MachineDeploymentRef (Spec t)) \<union> set (MachinesRequireUpdate (Spec t)) \<union>
        {InfrastructureRef (NodeUpdateTemplate (Spec t))}. faithfulRef J r) \<and>
     decodeConditions J (Some (encodeConditions J (StatusConditions (Status t)))) =
       StatusConditions (Status t) \<and>
     decodeConditions J None = []"

section \<open>Decoding what was encoded\<close>

lemma map_of_omitRef [simp]:
  "map_of (omitRef J k r @ xs) k' =
     (if k' = k \<and> r \<noteq> None then map_option (encodeRef J) r else map_of xs k')"
  "map_of (omitRefs J k rs @ xs) k' =
     (if k' = k \<and> rs \<noteq> [] then Some (JArray (map (encodeRef J) rs)) else map_of xs k')"
  by (auto simp: omitRef_def omitRefs_def split: option.split)

lemmas task_encoding = encodeTask_def encodeTaskSpec_def encodeTaskStatus_def encodeTemplate_def
  encodeMachineSpec_def

lemma encodeTask_strings:
  "getPath (encodeTask J t) [''kind''] = (if Kind t = '''' then None else Some (JString (Kind t)))"
  "getPath (encodeTask J t) [''apiVersion''] =
     (if APIVersion t = '''' then None else Some (JString (APIVersion t)))"
  "getPath (encodeTask J t) [''spec'', ''newMachineSpec'', ''version''] =
     (if ms_Version (NewMachineSpec (Spec t)) = '''' then None
      else Some (JString (ms_Version (NewMachineSpec (Spec t)))))"
  "getPath (encodeTask J t) [''spec'', ''newMachineSpec'', ''bootstrapConfig''] =
     (if ms_BootstrapConfig (NewMachineSpec (Spec t)) = '''' then None
      else Some (JString (ms_BootstrapConfig (NewMachineSpec (Spec t)))))"
  "getPath (encodeTask J t) [''spec'', ''newMachineSpec'', ''infraMachine''] =
     (if ms_InfraMachine (NewMachineSpec (Spec t)) = '''' then None
      else Some (JString (ms_InfraMachine (NewMachineSpec (Spec t)))))"
  "getPath (encodeTask J t) [''spec'', ''phase''] =
     (if TargetPhase (Spec t) = '''' then None else Some (JString (TargetPhase (Spec t))))"
  "getPath (encodeTask J t) [''status'', ''state''] =
     (if State (Status t) = '''' then None else Some (JString (State (Status t))))"
  by (simp_all add: task_encoding del: map_of_append)

lemma encodeTask_others:
  "getPath (encodeTask J t) [''metadata''] = Some (encodeMeta J (metaOf t))"
  "getPath (encodeTask J t) [''spec'', ''clusterRef''] = map_option (encodeRef J) (ClusterRef (Spec t))"
  "getPath (encodeTask J t) [''spec'', ''controlPlaneRef''] =
     map_option (encodeRef J) (ControlPlaneRef (Spec t))"
  "getPath (encodeTask J t) [''spec'', ''machineDeploymentRef''] =
     map_option (encodeRef J) (MachineDeploymentRef (Spec t))"
  "getPath (encodeTask J t) [''spec'', ''machinesRequireUpdate''] =
     (if MachinesRequireUpdate (Spec t) = [] then None
      else Some (JArray (map (encodeRef J) (MachinesRequireUpdate (Spec t)))))"
  "getPath (encodeTask J t) [''spec'', ''template'', ''metadata''] =
     Some (encodeMeta J (metaOf (NodeUpdateTemplate (Spec t))))"
  "getPath (encodeTask J t) [''spec'', ''template'', ''infrastructureRef''] =
     Some (encodeRef J (InfrastructureRef (NodeUpdateTemplate (Spec t))))"
  "getPath (encodeTask J t) [''status'', ''conditions''] =
     (if StatusConditions (Status t) = [] then None
      else Some (encodeConditions J (StatusConditions (Status t))))"
  by (auto simp: task_encoding simp del: map_of_append)

lemma refAt_omit:
  assumes "getPath j p = map_option (encodeRef J) r" and "\<forall>x \<in> set_option r. faithfulRef J x"
  shows "refAt J j p = r"
  using assms by (cases r) (auto simp: refAt_def faithfulRef_def split: json.split)

lemma refsAt_omit:
  assumes "getPath j p = (if rs = [] then None else Some (JArray (map (encodeRef J) rs)))"
    and "\<forall>x \<in> set rs. faithfulRef J x"
  shows "refsAt J j p = Some rs"
  using assms by (auto simp: refsAt_def faithfulRef_def intro!: map_idI)

lemma faithfulTaskD:
  assumes "faithfulTask J t"
  shows "decodeMeta J (Some (encodeMeta J (metaOf t))) = metaOf t"
    and "decodeMeta J (Some (encodeMeta J (metaOf (NodeUpdateTemplate (Spec t))))) =
      metaOf (NodeUpdateTemplate (Spec t))"
    and "refAt J (encodeTask J t) [''spec'', ''clusterRef''] = ClusterRef (Spec t)"
    and "refAt J (encodeTask J t) [''spec'', ''controlPlaneRef''] = ControlPlaneRef (Spec t)"
    and "refAt J (encodeTask J t) [''spec'', ''machineDeploymentRef''] = MachineDeploymentRef (Spec t)"
    and "refsAt J (encodeTask J t) [''spec'', ''machinesRequireUpdate''] =
      Some (MachinesRequireUpdate (Spec t))"
    and "decodeRef J (Some (encodeRef J (InfrastructureRef (NodeUpdateTemplate (Spec t))))) =
      InfrastructureRef (NodeUpdateTemplate (Spec t))"
    and "decodeConditions J (getPath (encodeTask J t) [''status'', ''conditions'']) =
      StatusConditions (Status t)"
proof -
  note facts = assms [unfolded faithfulTask_def]
  show "decodeMeta J (Some (encodeMeta J (metaOf t))) = metaOf t"
    "decodeMeta J (Some (encodeMeta J (metaOf (NodeUpdateTemplate (Spec t))))) =
      metaOf (NodeUpdateTemplate (Spec t))"
    "decodeRef J (Some (encodeRef J (InfrastructureRef (NodeUpdateTemplate (Spec t))))) =
      InfrastructureRef (NodeUpdateTemplate (Spec t))"
    using facts by (simp_all add: faithfulRef_def)
  show "refAt J (encodeTask J t) [''spec'', ''clusterRef''] = ClusterRef (Spec t)"
    "refAt J (encodeTask J t) [''spec'', ''controlPlaneRef''] = ControlPlaneRef (Spec t)"
    "refAt J (encodeTask J t) [''spec'', ''machineDeploymentRef''] = MachineDeploymentRef (Spec t)"
    using facts by (intro refAt_omit encodeTask_others; simp)+
  show "refsAt J (encodeTask J t) [''spec'', ''machinesRequireUpdate''] =
      Some (MachinesRequireUpdate (Spec t))"
    using facts by (intro refsAt_omit encodeTask_others) simp
  show "decodeConditions J (getPath (encodeTask J t) [''status'', ''conditions'']) =
      StatusConditions (Status t)"
    using facts by (simp add: encodeTask_others)
qed

lemma decode_encode_task:
  assumes "faithfulTask J t"
  shows "decodeTask J (encodeTask J t) = Some t"
  unfolding decodeTask_def machineSpecAt_def
  by (simp add: encodeTask_strings [THEN stringAt_omit] encodeTask_others(1,6,7) faithfulTaskD [OF assms])
    (simp add: metaOf_def)

section \<open>The abort request of the hook\<close>

lemma abortTaskPatch_text:
  "abortTaskPatch = fieldPatchText '''' [''spec'', ''phase''] UpdateTaskPhaseAbort"
  by (simp add: abortTaskPatch_def UpdateTaskPhaseAbort_def)

text \<open>What the API server stores when the hook's patch is applied to an update task.\<close>

definition abortedTask :: "tasklib \<Rightarrow> UpdateTask \<Rightarrow> UpdateTask option" where
  "abortedTask J t = decodeTask J
     (mergePatch (encodeTask J t) (fieldPatch [''spec'', ''phase''] UpdateTaskPhaseAbort))"

lemma abortedTask:
  assumes "faithfulTask J t"
  shows "abortedTask J t = Some (t\<lparr>Spec := (Spec t)\<lparr>TargetPhase := UpdateTaskPhaseAbort\<rparr>\<rparr>)"
proof -
  obtain j where j: "setPath (encodeTask J t) [''spec'', ''phase''] UpdateTaskPhaseAbort = Some j"
    by (simp add: task_encoding del: map_of_append)
  have others: "getPath j q = getPath (encodeTask J t) q" if "apart [''spec'', ''phase''] q" for q
    by (rule getPath_apart [OF j that])
  have at: "stringAt j q = stringAt (encodeTask J t) q" "refAt J j q = refAt J (encodeTask J t) q"
    "refsAt J j q = refsAt J (encodeTask J t) q" if "apart [''spec'', ''phase''] q" for q
    using others [OF that] by (simp_all add: stringAt_def refAt_def refsAt_def)
  have "stringAt j [''spec'', ''phase''] = Some UpdateTaskPhaseAbort"
    using getPath_setPath [OF j] by (simp add: stringAt_def)
  then have "decodeTask J j = Some (t\<lparr>Spec := (Spec t)\<lparr>TargetPhase := UpdateTaskPhaseAbort\<rparr>\<rparr>)"
    unfolding decodeTask_def machineSpecAt_def
    by (simp add: at others encodeTask_strings [THEN stringAt_omit] encodeTask_others(1,6,7)
        faithfulTaskD [OF assms])
      (simp add: metaOf_def)
  then show ?thesis unfolding abortedTask_def mergePatch_field [OF j] .
qed

text \<open>The hook patches only update tasks in progress, always with that patch.\<close>

fun is_other_abort :: "call \<Rightarrow> bool" where
  "is_other_abort (MergePatchTask t p) \<longleftrightarrow>
     \<not> (p = abortTaskPatch \<and> State (Status t) = UpdateTaskStateInProgress)"
| "is_other_abort _ \<longleftrightarrow> False"

lemma abortExisting_in_progress:
  "emits (\<lambda>c. \<not> is_other_abort c) (abortExisting L E c p t u)"
  by (cases "State (Status t) = UpdateTaskStateInProgress";
      simp add: abortExisting_def split: option.split; intro emits_intros impI conjI allI; simp)

lemma hook_aborts_in_progress:
  "emits (\<lambda>c. \<not> is_other_abort c) (DoControlPlaneExternalUpdate L E request response)"
  unfolding DoControlPlaneExternalUpdate_def doControlPlaneExternalUpdateImpl_def abortTasks_def
    claimMachines_def claimStep_def createUpdateTask_def Let_def
  by (intro emits_intros abortExisting_in_progress) simp_all

end
