(* ===== verification/Handover.thy ===== *)
theory Handover
  imports Task_Resource Closed_Loop
begin

text \<open>
  From one update to the next. An external update that is accepted tells the running update tasks of
  the control plane to abort and creates a new one; here the abort is followed to its end, and the new
  task to its first node update and to the end of the update. A task that has no state yet is overtaken
  without an abort.
\<close>

section \<open>The old update task\<close>

lemma hook_abort_call:
  assumes "calls (snd (DoControlPlaneExternalUpdate L E request response s)) = calls s @ cs"
    and "MergePatchTask t p \<in> set cs"
  shows "p = abortTaskPatch" and "State (Status t) = UpdateTaskStateInProgress"
proof -
  have "list_all (\<lambda>c. \<not> is_other_abort c) cs"
    using emitsD [OF hook_aborts_in_progress, of L E request response s] assms(1) by auto
  then have "\<not> is_other_abort (MergePatchTask t p)" using assms(2) by (auto simp: list_all_iff)
  then show "p = abortTaskPatch" "State (Status t) = UpdateTaskStateInProgress" by simp_all
qed

text \<open>
  C16. An abort by the hook completes. The patch the hook sends for a running update task is the merge
  patch that sets its phase; what the server then stores is that task in phase Abort, unchanged
  otherwise, and, as far as its node updates come to an end, it is Aborted after at most three rounds
  of its controller.
\<close>

theorem hook_abort_completes:
  assumes "calls (snd (DoControlPlaneExternalUpdate L E request response s)) = calls s @ cs"
    and "MergePatchTask t p \<in> set cs" and "faithfulTask J t" and "abortedTask J t = Some t'"
    and "abortLoop L K W S finish ns n t'"
    and "list_all K us0" and "reported L UNIV us0 names" and "distinct names"
    and "3 \<le> k" and "(round L S finish ns n ^^ k) (t', us0) = (t'', us)"
  shows "p = fieldPatchText '''' [''spec'', ''phase''] UpdateTaskPhaseAbort \<and>
    t' = t\<lparr>Spec := (Spec t)\<lparr>TargetPhase := UpdateTaskPhaseAbort\<rparr>\<rparr> \<and>
    State (Status t'') = UpdateTaskStateAborted \<and> map (machineOf L) us = map Some names"
proof -
  have t': "t' = t\<lparr>Spec := (Spec t)\<lparr>TargetPhase := UpdateTaskPhaseAbort\<rparr>\<rparr>"
    using assms(4) abortedTask [OF assms(3)] by simp
  then have "taskAborting L t'" by (simp add: taskAborting_def)
  moreover have "\<not> IsTerminated (State (Status t'))"
    using t' hook_abort_call(2) [OF assms(1,2)] by simp
  ultimately have "State (Status t'') = UpdateTaskStateAborted \<and> map (machineOf L) us = map Some names"
    using abort_done [OF assms(5) _ _ assms(6-10)] by simp
  with t' hook_abort_call(1) [OF assms(1,2)] show ?thesis by (simp add: abortTaskPatch_text)
qed

section \<open>The new update task\<close>

text \<open>What the hook creates is a task that can be reconciled and is to update.\<close>

lemma accepted_task:
  assumes "acceptedTrace L E request h (h' @ [CreateTask task])"
  shows "goodTask task" and "TargetPhase (Spec task) = UpdateTaskPhaseUpdate"
    and "State (Status task) = UpdateTaskStateUnknown" and "DeletionTimestamp task = None"
  using assms by (auto simp: acceptedTrace_def newUpdateTask_def goodTask_def)

lemma accepted_claims:
  assumes "acceptedTrace L E request h (h @ cs @ [CreateTask task])"
    and "PatchMachine before after \<in> set cs"
  shows "isMachineInUpdateScope after (Name task)"
  using assms
  by (auto simp: acceptedTrace_def newUpdateTask_def claimCall_def claimMachine_def
      isMachineInUpdateScope_def)

lemma accepted_loop:
  assumes "acceptedTrace L E request h (h' @ [CreateTask task])" and "TimeIsZero L None"
    and "updateSurroundings L K W S finish ns n task"
  shows "updateLoop L K W S finish ns n task" and "\<not> IsTerminated (State (Status task))"
  using accepted_task [OF assms(1)] assms(2,3)
  by (simp_all add: updateLoop_def taskAborting_def)

text \<open>The same server, with any node update tasks for other update tasks.\<close>

definition withOthers ::
  "env \<Rightarrow> UpdateTask \<Rightarrow>
     (history \<Rightarrow> string \<Rightarrow> string \<Rightarrow> string \<Rightarrow> labels \<Rightarrow> goerr + Unstructured list) \<Rightarrow> env" where
  "withOthers E task others = E\<lparr>api_ListUnstructured := (\<lambda>h v k a ls.
     if ls = [(ClusterUpdateTaskNameLabel, Name task)] then api_ListUnstructured E h v k a ls
     else others h v k a ls)\<rparr>"

lemma serves_withOthers:
  "serves L E W ns n task us \<Longrightarrow> serves L (withOthers E task others) W ns n task us"
  by (simp add: serves_def withOthers_def)

text \<open>
  C17. The new update task does not wait for the old ones. Once it holds its finalizer, its next
  reconciliation creates a node update for the first claimed machine, whatever node update tasks there
  are for other update tasks: a machine whose node update was only told to abort can get a second one
  while the first still runs.
\<close>

theorem successor_does_not_wait:
  assumes "nested_laws L" and "collections_laws L" and "result_laws L" and "finalizer_laws L"
    and "TimeIsZero L None"
    and "acceptedTrace L E request h (h' @ [CreateTask task0])"
    and "sameTask L task0 task" and "UpdateTaskFinalizer \<in> set (Finalizers task)"
    and "goodWorld L W" and "controlPlaneSteady L W task" and "serves L E' W ns n task []"
    and "waitingMachines L W (Name task) [] = x # xs"
  shows "\<exists>u. createdNodes (snd (Reconcile L (withOthers E' task others) ns n [])) = [u] \<and>
    machineOf L u = Some (Name x)"
proof -
  note new = accepted_task [OF assms(6)]
  have task: "goodTask task" "\<not> taskAborting L task" "TargetPhase (Spec task) = UpdateTaskPhaseUpdate"
    using new assms(5) sameTask_kept(1) [OF assms(7)] taskAborting_same [OF assms(7)]
      sameTask_fields(7) [OF assms(7)]
    by (simp_all add: taskAborting_def)
  show ?thesis
    by (rule waiting_created [OF assms(1-4,9) task(1) assms(8) serves_withOthers [OF assms(11)]
          task(2,3) assms(10,12)])
qed

section \<open>A task that is overtaken\<close>

lemma accepted_scope:
  assumes "acceptedTrace L E request h (h @ cs @ [CreateTask new])"
    and "PatchMachine before x \<in> set cs" and "isMachineInUpdateScope x n"
  shows "n = Name new"
  using accepted_claims [OF assms(1,2)] assms(3)
  by (auto simp: isMachineInUpdateScope_def split: option.splits)

lemma accepted_spares:
  assumes "acceptedTrace L E request h (h @ cs @ [CreateTask new])" and "MergePatchTask t p \<in> set cs"
  shows "State (Status t) = UpdateTaskStateInProgress"
  using assms by (auto simp: acceptedTrace_def toAbort_def claimCall_def)

text \<open>
  C18. An update task that is overtaken before it has a state is neither aborted nor carried out, but
  reported as done: the hook that accepts the next request does not ask it to abort, and once that
  request has claimed all machines, the task's reconciliation creates nothing and sets it Updated.
\<close>

theorem overtaken_task_is_updated:
  assumes "nested_laws L" and "collections_laws L" and "result_laws L" and "finalizer_laws L"
    and "acceptedTrace L E request h (h @ cs @ [CreateTask new])"
    and "State (Status old) = UpdateTaskStateUnknown" and "Name old \<noteq> Name new"
    and "goodTask old" and "\<not> taskAborting L old" and "UpdateTaskFinalizer \<in> set (Finalizers old)"
    and "goodWorld L W" and "\<forall>x \<in> set (w_machines W). \<exists>before. PatchMachine before x \<in> set cs"
    and "serves L E' W ns n old []"
  shows "(\<forall>p. MergePatchTask old p \<notin> set cs) \<and>
    (\<exists>hist after. snd (Reconcile L E' ns n []) = hist @ [PatchTask old after] \<and>
       createdNodes hist = [] \<and> State (Status after) = UpdateTaskStateUpdated)"
proof (intro conjI allI notI)
  show False if "MergePatchTask old p \<in> set cs" for p
    using accepted_spares [OF assms(5) that] assms(6) by simp
  let ?v = "viewOf L W old []"
  have none: "\<not> isMachineInUpdateScope x (Name old)" if "x \<in> set (orderedMachines L W)" for x
    using that orderedMachines_set [OF assms(2,11)] assms(7,12) accepted_scope [OF assms(5)] by metis
  then have "plannedState ?v = UpdateTaskStateUpdated"
    using assms(9) by (auto simp: plannedState_def concerned_def viewOf_def)
  moreover have "plannedMove ?v = Stay"
  proof -
    have "nextMachine ?v = None"
      using none by (auto simp: nextMachine_def viewOf_def find_None_iff)
    moreover have "\<not> v_aborting ?v" using assms(9) by (simp add: viewOf_def)
    ultimately show ?thesis by (simp add: plannedMove_def)
  qed
  ultimately obtain hist after ds where run: "snd (Reconcile L E' ns n []) = hist @ [PatchTask old after]"
      "State (Status after) = UpdateTaskStateUpdated" "deeds hist = deeds [] @ ds" "carriesOut L ds Stay"
    by (metis (no_types) Reconcile_plan [OF assms(1-4,11,8,10,13), of "[]" "[]"] list.map distinct.simps(1))
  have "createdNodes hist = []"
    using createdNodes_carried(1) [OF run(4)] run(3) createdNodes_deeds [of hist] by simp
  with run(1,2) show "\<exists>hist after. snd (Reconcile L E' ns n []) = hist @ [PatchTask old after] \<and>
      createdNodes hist = [] \<and> State (Status after) = UpdateTaskStateUpdated" by blast
qed

end
