(* ===== verification/Handover_Scenarios.thy ===== *)
theory Handover_Scenarios
  imports Handover Docker_Scenarios
begin

text \<open>
  The hook on the cluster of \<^theory_text>\<open>Scenarios\<close>: it aborts the running update task and creates a new one,
  which claims all three machines.
\<close>

definition refTaskJson :: tasklib where
  "refTaskJson = \<lparr>encodeMeta = encodeMeta refJson, decodeMeta = decodeMeta refJson,
     encodeConditions = encodeConditions refJson, decodeConditions = decodeConditions refJson,
     encodeRef = (\<lambda>r. JObject [(''kind'', JString (ref_Kind r)), (''namespace'', JString (ref_Namespace r)),
       (''name'', JString (ref_Name r)), (''uid'', JString (ref_UID r)),
       (''apiVersion'', JString (ref_APIVersion r))]),
     decodeRef = (\<lambda>j. let at = (\<lambda>k. case j of
          Some (JObject kvs) \<Rightarrow> (case map_of kvs k of Some (JString v) \<Rightarrow> v | _ \<Rightarrow> '''') | _ \<Rightarrow> '''') in
        \<lparr>ref_Kind = at ''kind'', ref_Namespace = at ''namespace'', ref_Name = at ''name'',
         ref_UID = at ''uid'', ref_APIVersion = at ''apiVersion''\<rparr>)\<rparr>"

text \<open>The running update task, without the metadata that the small encoding drops.\<close>

definition running :: UpdateTask where
  "running = updating\<lparr>UID := '''', Finalizers := []\<rparr>"

lemma running_faithful: "faithfulTask refTaskJson running"
  by (simp add: faithfulTask_def faithfulRef_def refTaskJson_def refJson_def metaOf_def running_def
      object_defs Let_def)

lemma running_aborted:
  "\<exists>cs. calls (snd (DoControlPlaneExternalUpdate refLib (calm running []) aRequest noResponse
       (memOf running))) = calls (memOf running) @ cs \<and> MergePatchTask running abortTaskPatch \<in> set cs"
  by (simp add: DoControlPlaneExternalUpdate_def doControlPlaneExternalUpdateImpl_def
      abortTasks_def abortExisting_def claimMachines_def claimStep_def createUpdateTask_def
      prog_simps Let_def server_def calm_def aCluster_def aPolicy_def m1_def m2_def m3_def
      aMachine_def running_def updating_def aTask_def aSpec_def aRef_def memOf_def aRequest_def
      split: if_split)

theorem hook_abort_completes_witness:
  "\<exists>t' t us. abortedTask refTaskJson running = Some t' \<and>
    (round refLib calm (finishNode UpdateTaskStateAborted) ''ns'' ''up'' ^^ 3) (t', secondRuns) = (t, us) \<and>
    State (Status t) = UpdateTaskStateAborted"
proof -
  obtain cs where hook: "calls (snd (DoControlPlaneExternalUpdate refLib (calm running []) aRequest
        noResponse (memOf running))) = calls (memOf running) @ cs"
      "MergePatchTask running abortTaskPatch \<in> set cs"
    using running_aborted by blast
  obtain t' where t': "abortedTask refTaskJson running = Some t'"
    using abortedTask [OF running_faithful] by blast
  obtain t us where run: "(round refLib calm (finishNode UpdateTaskStateAborted) ''ns'' ''up'' ^^ 3)
      (t', secondRuns) = (t, us)" by fastforce
  have "t' = running\<lparr>Spec := (Spec running)\<lparr>TargetPhase := UpdateTaskPhaseAbort\<rparr>\<rparr>"
    using t' abortedTask [OF running_faithful] by simp
  then have "goodTask t'" by (simp add: goodTask_def running_def object_defs)
  then have loop: "abortLoop refLib (\<lambda>_. True) aWorld calm (finishNode UpdateTaskStateAborted) ''ns'' ''up'' t'"
    by (simp add: abortLoop_def refLib_nested refLib_collections refLib_result refLib_finalizer
        aWorld_good calm_serves finishNode_ends)
  have "reported refLib UNIV secondRuns [''m1'', ''m2'']"
    unfolding reported_def
    by (intro exI [of _ "[aStatus ''m1'' 1 UpdateTaskStateUpdated, aStatus ''m2'' 2 UpdateTaskStateInProgress]"])
      (simp add: secondRuns_def)
  from hook_abort_completes [OF hook running_faithful t' loop _ this _ _ run] t' run show ?thesis
    by (simp add: list_all_iff)
qed

text \<open>The new task, on a server that holds the claimed machines.\<close>

definition newTask :: UpdateTask where
  "newTask = newUpdateTask refLib (aRef ''Cluster'' ''c'') (aRef ''KubeadmControlPlane'' ''kcp'')
     (cp_NewMachine aRequest) ''c-update-abcdef'' (aRef ''DockerNodeUpdateTaskTemplate'' ''tpl'')"

definition claimed :: "Machine \<Rightarrow> Machine" where
  "claimed m = claimMachine refLib ''c-update-abcdef'' (the (Annotations m)) m"

lemma hook_accepts:
  "acceptedTrace refLib (calm updating []) aRequest []
     [GetCluster ''ns'' ''c'', ListUpdateTasks ''ns'' [(ClusterNameLabel refLib, ''c'')],
      MergePatchTask updating abortTaskPatch,
      ListMachines ''ns'' [(ClusterNameLabel refLib, ''c''), (MachineControlPlaneLabel refLib, '''')],
      PatchMachine m1 (claimed m1), PatchMachine m2 (claimed m2), PatchMachine m3 (claimed m3),
      ListUpdatePolicies ''ns'', CreateTask newTask]"
  unfolding acceptedTrace_def
  by (simp add: server_defs aRequest_def aRef_def aCluster_def aPolicy_def toAbort_def updating_def
      aTask_def aSpec_def claimCall_def claimed_def newTask_def)

definition claimedWorld :: World where
  "claimedWorld = \<lparr>w_cluster = aCluster, w_controlPlane = aControlPlane,
     w_machines = [claimed m1, claimed m2, claimed m3]\<rparr>"

definition later :: "UpdateTask \<Rightarrow> Unstructured list \<Rightarrow> env" where
  "later t nodes = (server t (aDockerTask UpdateTaskPhaseUpdate) [claimed m1, claimed m2, claimed m3] nodes)
     \<lparr>api_GetUpdateTask := (\<lambda>h ns n. Inr t)\<rparr>"

lemma claimed_fields [simp]:
  "Name (claimed m) = Name m" "CreationTimestamp (claimed m) = CreationTimestamp m"
  "DeletionTimestamp (claimed m) = DeletionTimestamp m" "NodeRef (claimed m) = NodeRef m"
  "MachineConditions (claimed m) =
     filter (\<lambda>c. cond_Type c \<noteq> MachineUpToDate) (MachineConditions m)"
  "isMachineInUpdateScope (claimed m) ''c-update-abcdef''"
  by (simp_all add: claimed_def claimMachine_def isMachineInUpdateScope_def refLib_def)

lemma later_serves: "serves refLib (later t us) claimedWorld ns n t us"
  by (simp add: serves_def later_def server_def claimedWorld_def nodeUpdateFields_def refLib_def)

lemma claimedWorld_good: "goodWorld refLib claimedWorld"
  by (simp add: goodWorld_def claimedWorld_def ascii_def object_defs refLib_def)

lemma claimedWorld_steady:
  "ControlPlaneRef (Spec t) = Some (aRef ''KubeadmControlPlane'' ''kcp'') \<Longrightarrow>
     controlPlaneSteady refLib claimedWorld t"
  by (auto simp: controlPlaneSteady_def claimedWorld_def object_defs machine_healthy_def
      condition_good_def allMachineHealthConditions_def isEtcdManaged_def refLib_def
      trueCondition_def MachineUpToDate_def)

lemma claimedWorld_waiting:
  "waitingMachines refLib claimedWorld ''c-update-abcdef'' [] = [claimed m1, claimed m2, claimed m3]"
proof -
  have "orderedMachines refLib claimedWorld = [claimed m1, claimed m2, claimed m3]"
    by (simp add: orderedMachines_def claimedWorld_def refLib_def object_defs)
  then show ?thesis by (simp add: waitingMachines_def)
qed

lemma newTask_fields:
  "Name newTask = ''c-update-abcdef''"
  "ControlPlaneRef (Spec newTask) = Some (aRef ''KubeadmControlPlane'' ''kcp'')"
  by (simp_all add: newTask_def newUpdateTask_def)

lemma refLib_zero: "TimeIsZero refLib None"
  by (simp add: refLib_def)

theorem successor_does_not_wait_witness:
  "\<exists>t u. sameTask refLib newTask t \<and>
    createdNodes (snd (Reconcile refLib (withOthers (later t []) t
      (\<lambda>_ _ _ _ _. Inr [aNode ''m1'' 1 UpdateTaskStateInProgress])) ''ns'' ''c-update-abcdef'' [])) = [u] \<and>
    machineOf refLib u = Some ''m1''"
proof -
  let ?t = "newTask\<lparr>Finalizers := [UpdateTaskFinalizer]\<rparr>"
  have same: "sameTask refLib newTask ?t" by (simp add: sameTask_def core_def)
  have "acceptedTrace refLib (calm updating []) aRequest [] ([GetCluster ''ns'' ''c'',
      ListUpdateTasks ''ns'' [(ClusterNameLabel refLib, ''c'')], MergePatchTask updating abortTaskPatch,
      ListMachines ''ns'' [(ClusterNameLabel refLib, ''c''), (MachineControlPlaneLabel refLib, '''')],
      PatchMachine m1 (claimed m1), PatchMachine m2 (claimed m2), PatchMachine m3 (claimed m3),
      ListUpdatePolicies ''ns''] @ [CreateTask newTask])"
    using hook_accepts by simp
  note step = successor_does_not_wait [OF refLib_nested refLib_collections refLib_result refLib_finalizer
      refLib_zero this same _ claimedWorld_good claimedWorld_steady later_serves]
  have "waitingMachines refLib claimedWorld (Name ?t) [] = claimed m1 # [claimed m2, claimed m3]"
    by (simp add: newTask_fields claimedWorld_waiting)
  from step [OF _ _ this] same show ?thesis
    by (intro exI [of _ ?t]) (simp add: newTask_fields m1_name)
qed

text \<open>A second request before the first task has a state.\<close>

definition untracked :: UpdateTask where
  "untracked = aTask [UpdateTaskFinalizer] UpdateTaskPhaseUpdate UpdateTaskStateUnknown"

definition overtaking :: history where
  "overtaking = [GetCluster ''ns'' ''c'', ListUpdateTasks ''ns'' [(ClusterNameLabel refLib, ''c'')],
     ListMachines ''ns'' [(ClusterNameLabel refLib, ''c''), (MachineControlPlaneLabel refLib, '''')],
     PatchMachine m1 (claimed m1), PatchMachine m2 (claimed m2), PatchMachine m3 (claimed m3),
     ListUpdatePolicies ''ns'']"

lemma hook_overtakes:
  "acceptedTrace refLib (calm untracked []) aRequest [] ([] @ overtaking @ [CreateTask newTask])"
  unfolding acceptedTrace_def
  by (simp add: server_defs aRequest_def aRef_def aCluster_def aPolicy_def toAbort_def untracked_def
      aTask_def aSpec_def claimCall_def claimed_def newTask_def overtaking_def phase_defs)

theorem overtaken_task_is_updated_witness:
  "\<exists>hist after. snd (Reconcile refLib (later untracked []) ''ns'' ''up'' []) =
     hist @ [PatchTask untracked after] \<and> createdNodes hist = [] \<and>
     State (Status after) = UpdateTaskStateUpdated"
proof -
  have old: "State (Status untracked) = UpdateTaskStateUnknown" "goodTask untracked"
    "\<not> taskAborting refLib untracked" "UpdateTaskFinalizer \<in> set (Finalizers untracked)"
    "Name untracked \<noteq> Name newTask"
    by (simp_all add: untracked_def goodTask_def taskAborting_def newTask_fields object_defs phase_defs
        refLib_def)
  have "\<forall>x \<in> set (w_machines claimedWorld). \<exists>before. PatchMachine before x \<in> set overtaking"
    by (auto simp: claimedWorld_def overtaking_def)
  from overtaken_task_is_updated [OF refLib_nested refLib_collections refLib_result refLib_finalizer
      hook_overtakes old(1,5,2-4) claimedWorld_good this later_serves]
  show ?thesis by blast
qed

end
