(* ===== verification/Fleet.thy ===== *)
theory Fleet
  imports Rollout Json_Fields
begin

text \<open>
  Several update tasks over one store. The API server holds the node update tasks of all of them, of
  one kind and in any number of namespaces; a reconciliation of a task sees those its label selector
  picks. Each step of the store is a step of one task's rollout (theory \<open>Rollout\<close>) or none, so the
  invariants of single rollouts hold side by side; and when machines are claimed with care, they
  exclude each other on the machines, too.
\<close>

section \<open>The store\<close>

text \<open>The update task a stored node update belongs to: its namespace and the value of its label.\<close>

definition nodeKey :: "Unstructured \<Rightarrow> (string \<times> string) option" where
  "nodeKey u =
     (case (getPath (Object u) [''metadata'', ''namespace''],
            getPath (Object u) [''metadata'', ''labels'', ClusterUpdateTaskNameLabel]) of
        (Some (JString ns), Some (JString n)) \<Rightarrow> Some (ns, n)
      | _ \<Rightarrow> None)"

definition nodesOf :: "string \<times> string \<Rightarrow> Unstructured list \<Rightarrow> Unstructured list" where
  "nodesOf k us = filter (\<lambda>u. nodeKey u = Some k) us"

lemma nodesOf_simps [simp]:
  "nodesOf k [] = []" "nodesOf k (us @ vs) = nodesOf k us @ nodesOf k vs"
  "nodesOf k (u # us) = (if nodeKey u = Some k then u # nodesOf k us else nodesOf k us)"
  by (simp_all add: nodesOf_def)

text \<open>Which update task claims a machine: the machine's annotation, by namespace and name.\<close>

record Fleet =
  fl_nodes :: "Unstructured list"
  fl_claims :: "string \<Rightarrow> string \<Rightarrow> string option"

text \<open>
  The outside of a reconciliation. The server lists by namespace and label; the machines it returns
  carry the current claims; an object generated from a template is in the namespace and has the label
  it was asked to have.
\<close>

definition listsNodes :: "env \<Rightarrow> Unstructured list \<Rightarrow> bool" where
  "listsNodes E us \<longleftrightarrow> (\<forall>h v k ns n.
     api_ListUnstructured E h v k ns [(ClusterUpdateTaskNameLabel, n)] = Inr (nodesOf (ns, n) us))"

definition listsClaims :: "env \<Rightarrow> (string \<Rightarrow> string \<Rightarrow> string option) \<Rightarrow> bool" where
  "listsClaims E C \<longleftrightarrow> (\<forall>h ns ls ms. api_ListMachines E h ns ls = Inr ms \<longrightarrow>
     (\<forall>x \<in> set ms. ascii (Name x) \<and> (\<forall>n. isMachineInUpdateScope x n \<longrightarrow> C ns (Name x) = Some n)))"

definition labelsTemplates :: "env \<Rightarrow> bool" where
  "labelsTemplates E \<longleftrightarrow> (\<forall>h i base labels n.
     GenerateTemplate E h i = Inr base \<longrightarrow> gt_Labels i = Some labels \<longrightarrow>
     labels ClusterUpdateTaskNameLabel = Some n \<longrightarrow> nodeKey base = Some (gt_Namespace i, n))"

inductive fleetStep :: "lib \<Rightarrow> Fleet \<Rightarrow> Fleet \<Rightarrow> bool" for L where
  reconciled: "api_GetUpdateTask E h0 ns n = Inr task \<Longrightarrow>
    NewTaskHelper E (h0 @ [GetUpdateTask ns n]) task = None \<Longrightarrow>
    listsNodes E (fl_nodes F) \<Longrightarrow> listsClaims E (fl_claims F) \<Longrightarrow> labelsTemplates E \<Longrightarrow>
    snd (Reconcile L E ns n h0) = h0 @ cs \<Longrightarrow>
    created = [] \<or> created = createdNodes cs \<Longrightarrow>
    fleetStep L F (F\<lparr>fl_nodes := fl_nodes F @ created\<rparr>)"
| reported: "fl_nodes F = us @ u # vs \<Longrightarrow> (ended L u \<longrightarrow> ended L u') \<Longrightarrow>
    machineOf L u' = machineOf L u \<Longrightarrow> nodeKey u' = nodeKey u \<Longrightarrow>
    fleetStep L F (F\<lparr>fl_nodes := us @ u' # vs\<rparr>)"
| deleted: "fl_nodes F = us @ u # vs \<Longrightarrow> fleetStep L F (F\<lparr>fl_nodes := us @ vs\<rparr>)"
| claimed: "fleetStep L F (F\<lparr>fl_claims := C\<rparr>)"

section \<open>Created node updates belong to their task\<close>

lemma nodeKey_setFields:
  assumes "field_laws L" and "setFields L (nodeUpdateFields task x) base = Inr u"
  shows "nodeKey u = nodeKey base"
proof -
  have "getPath (Object u) (''metadata'' # p) = getPath (Object base) (''metadata'' # p)" for p
    by (rule setFields_untouched [OF assms]) (auto simp: nodeUpdateFields_def)
  then show ?thesis by (simp add: nodeKey_def)
qed

text \<open>The key, the machine and the claim of a node update that a reconciliation creates.\<close>

lemma justified_key:
  assumes "nested_laws L" and "field_laws L" and "membership_laws L"
    and "labelsTemplates E" and "listsClaims E C" and "creation_justified L E scope s v"
    and "UpdateMachines scope = FromMachineList L ms" and "api_ListMachines E h (Namespace (obj s)) ls = Inr ms"
  shows "nodeKey v = Some (Namespace (obj s), Name (obj s))"
    and "\<exists>m. machineOf L v = Some m \<and> C (Namespace (obj s)) m = Some (Name (obj s))"
proof -
  obtain x base h' i labels where
    x: "x \<in> set (SortedByCreationTimestamp L (UpdateMachines scope))"
      "isMachineInUpdateScope x (Name (obj s))"
    and v: "setFields L (nodeUpdateFields (obj s) x) base = Inr v"
    and made: "GenerateTemplate E h' i = Inr base" "gt_Namespace i = Namespace (obj s)"
      "gt_Labels i = Some labels" "labels ClusterUpdateTaskNameLabel = Some (Name (obj s))"
    using assms(6) unfolding creation_justified_def by blast
  show "nodeKey v = Some (Namespace (obj s), Name (obj s))"
    using nodeKey_setFields [OF assms(2) v] assms(4) made by (simp add: labelsTemplates_def)
  have "ascii (Name x)" "C (Namespace (obj s)) (Name x) = Some (Name (obj s))"
    using scope_machines [OF assms(3,7)] x assms(5,8) unfolding listsClaims_def by blast+
  moreover from this have "machineOf L v = Some (Name x)"
    using nodeUpdateFields_machineName [OF assms(1) v] nodeUpdateFields_phase [OF assms(1) v]
    by (simp add: machineOf_def GetNodeUpdateTaskStatus_def)
  ultimately show "\<exists>m. machineOf L v = Some m \<and> C (Namespace (obj s)) m = Some (Name (obj s))"
    by blast
qed

definition fleetLaws :: "lib \<Rightarrow> bool" where
  "fleetLaws L \<longleftrightarrow> nested_laws L \<and> field_laws L \<and> membership_laws L"

lemma reconciled_keys:
  assumes "fleetLaws L"
    and get: "api_GetUpdateTask E h0 ns n = Inr task"
      "NewTaskHelper E (h0 @ [GetUpdateTask ns n]) task = None"
    and world: "listsNodes E us" "listsClaims E C" "labelsTemplates E"
    and cs: "snd (Reconcile L E ns n h0) = h0 @ cs" and "v \<in> set (createdNodes cs)"
  shows "nodeKey v = Some (Namespace task, Name task)"
    and "\<exists>m. machineOf L v = Some m \<and> C (Namespace task) m = Some (Name task)"
proof -
  have list: "\<forall>h v k. api_ListUnstructured E h v k (Namespace task)
      [(ClusterUpdateTaskNameLabel, Name task)] = Inr (nodesOf (Namespace task, Name task) us)"
    using world(1) by (simp add: listsNodes_def)
  from get list cs have "nodeKey v = Some (Namespace task, Name task) \<and>
      (\<exists>m. machineOf L v = Some m \<and> C (Namespace task) m = Some (Name task))"
  proof (cases rule: reconcile_creation)
    case nothing
    with assms(8) show ?thesis by simp
  next
    case (new w s scope h ls ms)
    have "api_ListMachines E h (Namespace (obj s)) ls = Inr ms" by (simp add: new(5,7))
    from justified_key [OF _ _ _ world(3,2) new(2,6) this] assms(1,8) show ?thesis
      by (simp add: fleetLaws_def new(1,4,5))
  qed
  then show "nodeKey v = Some (Namespace task, Name task)"
    and "\<exists>m. machineOf L v = Some m \<and> C (Namespace task) m = Some (Name task)"
    by simp_all
qed

lemma nodesOf_all:
  "\<forall>u \<in> set us. nodeKey u = Some k \<Longrightarrow> nodesOf k' us = (if k' = k then us else [])"
  by (induction us) auto

section \<open>Refinement of single rollouts\<close>

text \<open>Seen from one update task, a step of the store is a step of its rollout or nothing happens.\<close>

lemma fleet_projects:
  assumes "fleetLaws L" and "fleetStep L F F'"
  shows "(rolloutStep L)\<^sup>=\<^sup>= (nodesOf k (fl_nodes F)) (nodesOf k (fl_nodes F'))"
  using assms(2)
proof cases
  case (reconciled E h0 ns n task cs created)
  let ?k = "(Namespace task, Name task)"
  have keys: "\<forall>v \<in> set created. nodeKey v = Some ?k"
    using reconciled_keys(1) [OF assms(1) reconciled(2-7)] reconciled(8) by auto
  have "rolloutStep L (nodesOf ?k (fl_nodes F)) (nodesOf ?k (fl_nodes F) @ created)"
    by (rule rolloutStep.reconciled [OF reconciled(2,3) _ _ reconciled(7,8)])
      (use reconciled(4,5) in \<open>simp_all add: listsNodes_def listsClaims_def\<close>)
  then show ?thesis
    by (cases "k = ?k") (simp_all add: reconciled(1) nodesOf_all [OF keys])
next
  case (reported us u vs u')
  then show ?thesis
    using rolloutStep.reported [OF reported(3,4), of "nodesOf k us" "nodesOf k vs"] by simp
next
  case (deleted us u vs)
  then show ?thesis
    using rolloutStep.deleted [of L "nodesOf k us" u "nodesOf k vs"] by simp
next
  case (claimed C)
  then show ?thesis by simp
qed

lemma fleet_rollouts:
  assumes "fleetLaws L" and "(fleetStep L)\<^sup>*\<^sup>* F F'"
  shows "(rolloutStep L)\<^sup>*\<^sup>* (nodesOf k (fl_nodes F)) (nodesOf k (fl_nodes F'))"
  using assms(2)
proof (induction rule: rtranclp_induct)
  case (step G H)
  from fleet_projects [OF assms(1) step.hyps(2), of k] step.IH show ?case
    by (metis (no_types) rtranclp_reflclp rtranclp.rtrancl_into_rtrancl reflclp_idemp
        sup2E)
qed simp

text \<open>
  C6. Many rollouts over one store: whatever the reconciliations, reports, deletions and new claims and
  whatever their order, what happens to the node updates of one update task is a run of its own
  rollout, undisturbed by the others.
\<close>

theorem fleet_refines_rollouts:
  assumes "fleetLaws L" and "(fleetStep L)\<^sup>*\<^sup>* F F'"
  shows "(rolloutStep L)\<^sup>*\<^sup>* (nodesOf k (fl_nodes F)) (nodesOf k (fl_nodes F'))"
  by (rule fleet_rollouts [OF assms])

section \<open>How much goes on at the same time\<close>

text \<open>Every stored node update belongs to a task, and every task's node updates go one at a time.\<close>

definition orderly :: "lib \<Rightarrow> Fleet \<Rightarrow> bool" where
  "orderly L F \<longleftrightarrow> (\<forall>u \<in> set (fl_nodes F). nodeKey u \<noteq> None) \<and>
     (\<forall>k. oneAtATime L (nodesOf k (fl_nodes F)))"

lemma orderly_step:
  assumes "fleetLaws L" and "fleetStep L F F'" and "orderly L F"
  shows "orderly L F'"
proof -
  have "oneAtATime L (nodesOf k (fl_nodes F))" for k
    using assms(3) unfolding orderly_def by blast
  then have "oneAtATime L (nodesOf k (fl_nodes F'))" for k
    using fleet_projects [OF assms(1,2), of k] assms(1) rolloutStep_oneAtATime [of L]
    by (metis fleetLaws_def sup2E)
  moreover from assms(2) have "\<forall>u \<in> set (fl_nodes F'). nodeKey u \<noteq> None"
  proof cases
    case (reconciled E h0 ns n task cs created)
    then show ?thesis
      using reconciled_keys(1) [OF assms(1) reconciled(2-7)] assms(3) by (auto simp: orderly_def)
  qed (use assms(3) in \<open>auto simp: orderly_def\<close>)
  ultimately show ?thesis by (simp add: orderly_def)
qed

definition unfinished :: "lib \<Rightarrow> Unstructured list \<Rightarrow> Unstructured list" where
  "unfinished L us = filter (\<lambda>u. \<not> ended L u) us"

lemma distinct_by_classes:
  assumes "\<And>k. length (filter (\<lambda>x. f x = k) xs) \<le> 1"
  shows "distinct (map f xs)"
  using assms
proof (induction xs)
  case (Cons x xs)
  have "length (filter (\<lambda>y. f y = k) xs) \<le> 1" for k
    using Cons.prems [of k] by (auto split: if_splits)
  moreover have "filter (\<lambda>y. f y = f x) xs = []"
    using Cons.prems [of "f x"] by simp
  ultimately show ?case
    using Cons.IH by (auto simp: filter_empty_conv)
qed simp

lemma orderly_distinct:
  assumes "orderly L F"
  shows "distinct (map nodeKey (unfinished L (fl_nodes F)))"
proof (rule distinct_by_classes)
  fix k
  show "length (filter (\<lambda>u. nodeKey u = k) (unfinished L (fl_nodes F))) \<le> 1"
  proof (cases k)
    case None
    then have "filter (\<lambda>u. nodeKey u = k) (unfinished L (fl_nodes F)) = []"
      using assms by (auto simp: orderly_def unfinished_def filter_empty_conv)
    then show ?thesis by (simp only: list.size)
  next
    case (Some key)
    have "filter (\<lambda>u. nodeKey u = k) (unfinished L (fl_nodes F)) =
        filter (\<lambda>u. \<not> ended L u) (nodesOf key (fl_nodes F))"
      by (simp add: unfinished_def nodesOf_def Some conj_commute)
    moreover have "oneAtATime L (nodesOf key (fl_nodes F))"
      using assms unfolding orderly_def by blast
    ultimately show ?thesis by (simp add: oneAtATime_def)
  qed
qed

lemma fleet_orderly:
  assumes "fleetLaws L" and "(fleetStep L)\<^sup>*\<^sup>* F F'" and "fl_nodes F = []"
  shows "orderly L F'"
  using assms(2)
proof (induction rule: rtranclp_induct)
  case base
  then show ?case by (simp add: orderly_def assms(3))
next
  case (step G H)
  then show ?case by (blast intro: orderly_step [OF assms(1)])
qed

text \<open>
  From an empty store, the node updates that have not ended belong to different update tasks: there
  are never more of them than update tasks, however many machines and reconciliations there are.
\<close>

theorem fleet_parallelism:
  assumes "fleetLaws L" and "(fleetStep L)\<^sup>*\<^sup>* F F'" and "fl_nodes F = []"
  shows "distinct (map nodeKey (unfinished L (fl_nodes F'))) \<and>
    length (unfinished L (fl_nodes F')) = card (nodeKey ` set (unfinished L (fl_nodes F')))"
  using orderly_distinct [OF fleet_orderly [OF assms]] distinct_card [of "map nodeKey _"] by fastforce

section \<open>Careful claims\<close>

text \<open>A machine is busy while a node update for it has not ended; careful claims leave it alone.\<close>

definition busy :: "lib \<Rightarrow> Fleet \<Rightarrow> string \<Rightarrow> string \<Rightarrow> bool" where
  "busy L F ns m \<longleftrightarrow> (\<exists>u \<in> set (unfinished L (fl_nodes F)).
     map_option fst (nodeKey u) = Some ns \<and> machineOf L u = Some m)"

definition carefulStep :: "lib \<Rightarrow> Fleet \<Rightarrow> Fleet \<Rightarrow> bool" where
  "carefulStep L F F' \<longleftrightarrow> fleetStep L F F' \<and>
     (\<forall>ns m. busy L F ns m \<longrightarrow> fl_claims F' ns m = fl_claims F ns m)"

lemma careful_run: "(carefulStep L)\<^sup>*\<^sup>* F F' \<Longrightarrow> (fleetStep L)\<^sup>*\<^sup>* F F'"
  by (erule mono_rtranclp [rule_format, rotated]) (simp add: carefulStep_def)

text \<open>The machine of an unfinished node update is claimed by the task it belongs to.\<close>

definition claimedFor :: "lib \<Rightarrow> (string \<Rightarrow> string \<Rightarrow> string option) \<Rightarrow> Unstructured \<Rightarrow> bool" where
  "claimedFor L C u \<longleftrightarrow> (\<exists>ns n m. nodeKey u = Some (ns, n) \<and> machineOf L u = Some m \<and> C ns m = Some n)"

lemma claimed_step:
  assumes "fleetLaws L" and step: "carefulStep L F F'"
    and inv: "\<forall>u \<in> set (unfinished L (fl_nodes F)). claimedFor L (fl_claims F) u"
  shows "\<forall>u \<in> set (unfinished L (fl_nodes F')). claimedFor L (fl_claims F') u"
proof -
  have "fleetStep L F F'" using step by (simp add: carefulStep_def)
  then show ?thesis
  proof cases
    case (reconciled E h0 ns n task cs created)
    have "claimedFor L (fl_claims F) v" if "v \<in> set created" for v
      using reconciled_keys [OF assms(1) reconciled(2-7), of v] that reconciled(8)
      by (auto simp: claimedFor_def)
    with inv show ?thesis by (auto simp: reconciled(1) unfinished_def)
  next
    case (reported us u vs u')
    have "claimedFor L (fl_claims F) u'" if "\<not> ended L u'"
      using inv reported(2-5) that by (simp add: unfinished_def claimedFor_def)
    with inv show ?thesis by (auto simp: reported(1,2) unfinished_def)
  next
    case (deleted us u vs)
    with inv show ?thesis by (auto simp: unfinished_def)
  next
    case (claimed C)
    have "claimedFor L C u" if u: "u \<in> set (unfinished L (fl_nodes F))" for u
    proof -
      obtain ns n m where key: "nodeKey u = Some (ns, n)" "machineOf L u = Some m"
          "fl_claims F ns m = Some n"
        using inv u by (auto simp: claimedFor_def)
      have "busy L F ns m" using u key by (auto simp: busy_def)
      with step key show ?thesis by (simp add: carefulStep_def claimedFor_def claimed)
    qed
    then show ?thesis by (simp add: claimed)
  qed
qed

text \<open>
  C7. With careful claims the rollouts exclude each other on the machines: as long as no machine changes
  hands while a node update for it runs, no machine ever has two node updates that have not ended,
  whichever update tasks they belong to.
\<close>

theorem careful_claims_exclude:
  assumes "fleetLaws L" and "(carefulStep L)\<^sup>*\<^sup>* F F'" and "fl_nodes F = []"
  shows "distinct (map (\<lambda>u. (map_option fst (nodeKey u), machineOf L u)) (unfinished L (fl_nodes F')))"
proof -
  note keys = orderly_distinct [OF fleet_orderly [OF assms(1) careful_run [OF assms(2)] assms(3)]]
  have "\<forall>u \<in> set (unfinished L (fl_nodes F')). claimedFor L (fl_claims F') u"
    using assms(2)
  proof (induction rule: rtranclp_induct)
    case base
    then show ?case by (simp add: assms(3) unfinished_def)
  next
    case (step G H)
    then show ?case by (blast dest: claimed_step [OF assms(1)])
  qed
  then have claims: "claimedFor L (fl_claims F') u"
    if "u \<in> set (unfinished L (fl_nodes F'))" for u
    using that by blast
  have "nodeKey u = nodeKey v"
    if "u \<in> set (unfinished L (fl_nodes F'))" "v \<in> set (unfinished L (fl_nodes F'))"
      "map_option fst (nodeKey u) = map_option fst (nodeKey v)" "machineOf L u = machineOf L v" for u v
    using claims [OF that(1)] claims [OF that(2)] that(3,4) by (auto simp: claimedFor_def)
  then have "inj_on (\<lambda>u. (map_option fst (nodeKey u), machineOf L u)) (set (unfinished L (fl_nodes F')))"
    using keys unfolding distinct_map inj_on_def by blast
  with keys show ?thesis by (simp add: distinct_map)
qed

end
