(* ===== verification/Fleet_Scenarios.thy ===== *)
theory Fleet_Scenarios
  imports Fleet Closed_Loop_Scenarios
begin

text \<open>
  Two update tasks over one store: each reconciliation creates a node update for a machine of its own,
  and both run at the same time.
\<close>

definition labelled :: "string \<Rightarrow> string \<Rightarrow> Unstructured" where
  "labelled ns n = \<lparr>Object = JObject [(''metadata'', JObject [(''namespace'', JString ns),
     (''labels'', JObject [(ClusterUpdateTaskNameLabel, JString n)])])]\<rparr>"

text \<open>The server of \<^theory_text>\<open>Scenarios\<close>, listing by namespace and label.\<close>

definition shared :: "UpdateTask \<Rightarrow> Unstructured list \<Rightarrow> env" where
  "shared t us = (calm t [])\<lparr>
     api_GetUpdateTask := (\<lambda>h ns n. Inr t),
     api_ListMachines := (\<lambda>h ns ls. Inr [m1, m2, m3]),
     api_ListUnstructured := (\<lambda>h v k ns ls. Inr (nodesOf (ns, snd (hd ls)) us)),
     GenerateTemplate := (\<lambda>h i. Inr (labelled (gt_Namespace i)
       (the (the (gt_Labels i) ClusterUpdateTaskNameLabel))))\<rparr>"

definition inNamespace :: "string \<Rightarrow> UpdateTask" where
  "inNamespace ns = updating\<lparr>Namespace := ns\<rparr>"

definition allForUp :: "string \<Rightarrow> string \<Rightarrow> string option" where
  "allForUp ns m = Some ''up''"

lemma refLib_fleet: "fleetLaws refLib"
  by (simp add: fleetLaws_def refLib_nested refLib_fields refLib_membership)

lemma shared_world:
  "listsNodes (shared t us) us" "listsClaims (shared t us) allForUp" "labelsTemplates (shared t us)"
proof -
  show "listsClaims (shared t us) allForUp"
    by (auto simp: listsClaims_def shared_def allForUp_def ascii_def isMachineInUpdateScope_def
        object_defs)
  show "labelsTemplates (shared t us)"
    by (simp add: labelsTemplates_def shared_def labelled_def nodeKey_def)
qed (simp add: listsNodes_def shared_def)

lemma shared_serves:
  "nodesOf (ns, ''up'') us = [] \<Longrightarrow>
     serves refLib (shared (inNamespace ns) us) aWorld ns ''up'' (inNamespace ns) []"
  by (auto simp: serves_def shared_def server_defs aWorld_def nodeUpdateFields_def refLib_def
      labelled_def inNamespace_def object_defs)

lemma shared_creates:
  assumes "nodesOf (ns, ''up'') us = []"
  shows "\<exists>u. createdNodes (snd (Reconcile refLib (shared (inNamespace ns) us) ns ''up'' [])) = [u] \<and>
    machineOf refLib u = Some ''m1''"
proof -
  let ?t = "inNamespace ns"
  have "goodTask ?t" "UpdateTaskFinalizer \<in> set (Finalizers ?t)" "\<not> taskAborting refLib ?t"
    "TargetPhase (Spec ?t) = UpdateTaskPhaseUpdate"
    using aTask_good [of "[UpdateTaskFinalizer]" UpdateTaskPhaseUpdate UpdateTaskStateInProgress]
    by (simp_all add: inNamespace_def updating_def aTask_def aSpec_def goodTask_def taskAborting_def
        refLib_def phase_defs)
  moreover have "controlPlaneSteady refLib aWorld ?t"
    using aTask_steady [of "[UpdateTaskFinalizer]" UpdateTaskPhaseUpdate UpdateTaskStateInProgress]
    by (simp add: controlPlaneSteady_def inNamespace_def updating_def)
  moreover have "waitingMachines refLib aWorld (Name ?t) [] = m1 # [m2]"
    by (simp add: inNamespace_def updating_def aTask_def aWorld_waiting)
  ultimately show ?thesis
    using waiting_created [OF refLib_nested refLib_collections refLib_result refLib_finalizer
        aWorld_good _ _ shared_serves [OF assms]] by (simp add: object_defs)
qed


text \<open>What it creates is its own, has not ended, and nobody's claim changes.\<close>

lemma shared_step:
  assumes "nodesOf (ns, ''up'') (fl_nodes F) = []" and "fl_claims F = allForUp"
  shows "\<exists>u. carefulStep refLib F (F\<lparr>fl_nodes := fl_nodes F @ [u]\<rparr>) \<and>
    nodeKey u = Some (ns, ''up'') \<and> machineOf refLib u = Some ''m1'' \<and> \<not> ended refLib u"
proof -
  let ?t = "inNamespace ns" and ?us = "fl_nodes F"
  let ?E = "shared ?t ?us"
  obtain u where u: "createdNodes (snd (Reconcile refLib ?E ns ''up'' [])) = [u]"
      "machineOf refLib u = Some ''m1''"
    using shared_creates [OF assms(1)] by blast
  have names: "Namespace ?t = ns" "Name ?t = ''up''"
    by (simp_all add: inNamespace_def object_defs)
  have get: "api_GetUpdateTask ?E [] ns ''up'' = Inr ?t"
      "NewTaskHelper ?E ([] @ [GetUpdateTask ns ''up'']) ?t = None"
    by (simp_all add: shared_def server_defs)
  have list: "\<forall>h v k. api_ListUnstructured ?E h v k (Namespace ?t)
      [(ClusterUpdateTaskNameLabel, Name ?t)] = Inr (nodesOf (Namespace ?t, Name ?t) ?us)"
    by (simp add: shared_def)
  have run: "snd (Reconcile refLib ?E ns ''up'' []) = [] @ snd (Reconcile refLib ?E ns ''up'' [])"
    by simp
  have key: "nodeKey u = Some (ns, ''up'')"
    using reconciled_keys(1) [OF refLib_fleet get shared_world run, of u] u(1) names by simp
  from get list run have "\<not> ended refLib u"
  proof (cases rule: reconcile_creation)
    case nothing
    with u(1) show ?thesis by simp
  next
    case (new v s scope h ls ms)
    obtain h' i x b where made: "GenerateTemplate ?E h' i = Inr b"
        "setFields refLib (nodeUpdateFields (obj s) x) b = Inr v"
      using new(2) unfolding creation_justified_def by blast
    then have base: "setFields refLib (nodeUpdateFields (obj s) x)
        (labelled (gt_Namespace i) (the (the (gt_Labels i) ClusterUpdateTaskNameLabel))) = Inr u"
      using u(1) new(1) by (simp add: shared_def)
    have "getPath (Object u) [''status'', ''state''] = None"
      by (simp add: setFields_untouched [OF refLib_fields base] nodeUpdateFields_def labelled_def)
    then obtain e where "UnmarshalString refLib u [''status'', ''state''] = Inl e"
      using field_lawsD(2) [OF refLib_fields] by blast
    then show ?thesis
      by (auto simp: ended_def GetNodeUpdateTaskStatus_def phase_defs split: sum.split)
  qed
  moreover have "fleetStep refLib F (F\<lparr>fl_nodes := ?us @ [u]\<rparr>)"
    by (rule fleetStep.reconciled [OF get shared_world(1) _ shared_world(3) run])
      (simp_all add: u(1) assms(2) shared_world(2))
  ultimately show ?thesis
    using key u(2) by (intro exI [of _ u]) (simp add: carefulStep_def)
qed

lemma two_rollouts:
  "\<exists>u v. (carefulStep refLib)\<^sup>*\<^sup>* \<lparr>fl_nodes = [], fl_claims = allForUp\<rparr>
      \<lparr>fl_nodes = [u, v], fl_claims = allForUp\<rparr> \<and>
    nodeKey u = Some (''ns'', ''up'') \<and> nodeKey v = Some (''ns2'', ''up'') \<and>
    machineOf refLib u = Some ''m1'' \<and> unfinished refLib [u, v] = [u, v]"
proof -
  obtain u where u: "carefulStep refLib \<lparr>fl_nodes = [], fl_claims = allForUp\<rparr>
      \<lparr>fl_nodes = [u], fl_claims = allForUp\<rparr>" "nodeKey u = Some (''ns'', ''up'')"
      "machineOf refLib u = Some ''m1''" "\<not> ended refLib u"
    using shared_step [of "''ns''" "\<lparr>fl_nodes = [], fl_claims = allForUp\<rparr>"] by auto
  obtain v where v: "carefulStep refLib \<lparr>fl_nodes = [u], fl_claims = allForUp\<rparr>
      \<lparr>fl_nodes = [u, v], fl_claims = allForUp\<rparr>" "nodeKey v = Some (''ns2'', ''up'')"
      "\<not> ended refLib v"
    using shared_step [of "''ns2''" "\<lparr>fl_nodes = [u], fl_claims = allForUp\<rparr>"] u(2) by auto
  from u v show ?thesis
    by (intro exI [of _ u] exI [of _ v]) (auto simp: unfinished_def)
qed

theorem fleet_refines_rollouts_witness:
  "\<exists>u. (rolloutStep refLib)\<^sup>*\<^sup>* [] [u] \<and> machineOf refLib u = Some ''m1''"
proof -
  obtain u v where run: "(carefulStep refLib)\<^sup>*\<^sup>* \<lparr>fl_nodes = [], fl_claims = allForUp\<rparr>
      \<lparr>fl_nodes = [u, v], fl_claims = allForUp\<rparr>" "nodeKey u = Some (''ns'', ''up'')"
      "nodeKey v = Some (''ns2'', ''up'')" "machineOf refLib u = Some ''m1''"
    using two_rollouts by blast
  from fleet_refines_rollouts [OF refLib_fleet careful_run [OF run(1)], of "(''ns'', ''up'')"] run(2-4)
  show ?thesis by auto
qed

theorem fleet_parallelism_witness:
  "\<exists>us. length (unfinished refLib us) = 2 \<and> distinct (map nodeKey (unfinished refLib us))"
proof -
  obtain u v where run: "(carefulStep refLib)\<^sup>*\<^sup>* \<lparr>fl_nodes = [], fl_claims = allForUp\<rparr>
      \<lparr>fl_nodes = [u, v], fl_claims = allForUp\<rparr>" "unfinished refLib [u, v] = [u, v]"
    using two_rollouts by blast
  have "distinct (map nodeKey (unfinished refLib [u, v]))"
    using fleet_parallelism [OF refLib_fleet careful_run [OF run(1)]] by fastforce
  then show ?thesis by (intro exI [of _ "[u, v]"]) (simp only: run(2) list.size One_nat_def, simp)
qed

theorem careful_claims_exclude_witness:
  "\<exists>us. length (unfinished refLib us) = 2 \<and>
    distinct (map (\<lambda>u. (map_option fst (nodeKey u), machineOf refLib u)) (unfinished refLib us))"
proof -
  obtain u v where run: "(carefulStep refLib)\<^sup>*\<^sup>* \<lparr>fl_nodes = [], fl_claims = allForUp\<rparr>
      \<lparr>fl_nodes = [u, v], fl_claims = allForUp\<rparr>" "unfinished refLib [u, v] = [u, v]"
    using two_rollouts by blast
  have "distinct (map (\<lambda>u. (map_option fst (nodeKey u), machineOf refLib u)) (unfinished refLib [u, v]))"
    using careful_claims_exclude [OF refLib_fleet run(1)] by fastforce
  then show ?thesis by (intro exI [of _ "[u, v]"]) (simp only: run(2) list.size One_nat_def, simp)
qed

end
