(* ===== verification/Name_Limits.thy ===== *)
theory Name_Limits
  imports Handover
begin

text \<open>
  Names and their limits. The hook names the new update task after the cluster, and the task's name is
  also the value of a label: of every node update task, and of the selector by which they are listed.
  The API server limits label values to 63 characters.
\<close>

definition labelValueLimit :: nat where
  "labelValueLimit = 63"

text \<open>Documented behaviour: \<open>RandomString\<close> has the length asked for; a longer label value is refused.\<close>

definition randomLengths :: "env \<Rightarrow> bool" where
  "randomLengths E \<longleftrightarrow> (\<forall>h k. length (RandomString E h k) = k)"

definition limitsLabels :: "env \<Rightarrow> bool" where
  "limitsLabels E \<longleftrightarrow> (\<forall>h v k ns n. labelValueLimit < length n \<longrightarrow>
     (\<exists>err. api_ListUnstructured E h v k ns [(ClusterUpdateTaskNameLabel, n)] = Inl err))"

lemma accepted_name:
  assumes "acceptedTrace L E request h (h' @ [CreateTask task])" and "randomLengths E"
    and "cp_ClusterRef request = Some c"
  shows "length (Name task) = length (ref_Name c) + 14"
  using assms by (auto simp: acceptedTrace_def newUpdateTask_def randomLengths_def)

section \<open>A task whose name is too long\<close>

lemma unlisted_scope:
  assumes "\<forall>h v k. \<exists>err. api_ListUnstructured E h v k (Namespace (obj s))
    [(ClusterUpdateTaskNameLabel, Name (obj s))] = Inl err"
  shows "fst (NewScope L E s) \<noteq> Ret (Inr sc)"
proof
  assume "fst (NewScope L E s) = Ret (Inr sc)"
  then obtain s' where "NewScope L E s = (Ret (Inr sc), s')" by (metis prod.collapse)
  then show False
    by (rule scope_built) (use assms in \<open>metis sum.distinct(1)\<close>)
qed

text \<open>Without a scope a reconciliation only reads, and keeps the task but for its finalizer.\<close>

lemma unlisted_reconcile:
  assumes "finalizer_laws L"
    and get: "api_GetUpdateTask E h0 ns n = Inr task"
      "NewTaskHelper E (h0 @ [GetUpdateTask ns n]) task = None"
    and unlisted: "\<forall>h v k. \<exists>err. api_ListUnstructured E h v k (Namespace task)
      [(ClusterUpdateTaskNameLabel, Name task)] = Inl err"
  obtains cs t where "snd (Reconcile L E ns n h0) = h0 @ cs @ [PatchTask task (finishTask L t)]"
    and "deeds cs = []" and "State (Status t) = State (Status task)"
    and "UpdateTaskFinalizer \<in> set (Finalizers t)"
proof -
  let ?s = "\<lparr>calls = h0 @ [GetUpdateTask ns n], obj = task\<rparr>"
  obtain r s1 where run: "reconcileTask L E ?s = (r, s1)" by fastforce
  have trace: "snd (Reconcile L E ns n h0) = calls s1 @ [PatchTask task (finishTask L (obj s1))]"
    by (simp add: Reconcile_fetched [OF get run])
  show thesis
  proof (cases "ContainsFinalizer L (Finalizers task) UpdateTaskFinalizer")
    case False
    with run assms(1) have "calls s1 = h0 @ [GetUpdateTask ns n]"
        "State (Status (obj s1)) = State (Status task)"
        "UpdateTaskFinalizer \<in> set (Finalizers (obj s1))"
      by (auto simp: reconcileTask_def prog_simps finalizer_laws_def)
    with trace show thesis by (intro that [of "[GetUpdateTask ns n]" "obj s1"]) simp_all
  next
    case True
    obtain r2 s2 where scope: "NewScope L E ?s = (r2, s2)" by fastforce
    have "\<nexists>sc. r2 = Ret (Inr sc)"
      using unlisted_scope [of E ?s L] unlisted scope by auto
    with run True scope have same: "s1 = s2"
      by (auto simp: reconcileTask_def reconcilePhases_def prog_simps
          split: outcome.splits sum.splits)
    obtain cs where cs: "calls s2 = calls ?s @ cs" "list_all is_read cs"
      using scope_reads.history_grows [OF scope] by blast
    then have "deeds cs = []" by (auto simp: list_all_iff filter_empty_conv)
    moreover have "obj s2 = task" using scope_frozen.obj_kept [OF scope] by simp
    moreover have "UpdateTaskFinalizer \<in> set (Finalizers task)"
      using True assms(1) by (simp add: finalizer_laws_def)
    ultimately show thesis
      using trace cs(1) same by (intro that [of "GetUpdateTask ns n # cs" "obj s2"]) simp_all
  qed
qed

text \<open>
  C37. The name of a new update task is a label value only for clusters whose name has at most 49
  characters. For longer ones the hook still succeeds, but on a server that keeps the limit no
  reconciliation of the task ever creates or aborts a node update or changes its state, and, unless it
  had ended before, each leaves the task with its finalizer: it makes no progress and cannot be removed.
\<close>

theorem long_names_stall:
  assumes "finalizer_laws L" and "acceptedTrace L E0 request h (h' @ [CreateTask task0])"
    and "randomLengths E0" and "cp_ClusterRef request = Some c"
    and "limitsLabels E" and "Name task = Name task0"
    and "api_GetUpdateTask E h0 ns n = Inr task"
    and "NewTaskHelper E (h0 @ [GetUpdateTask ns n]) task = None"
    and "\<not> IsTerminated (State (Status task))"
  shows "(length (Name task0) \<le> labelValueLimit \<longleftrightarrow> length (ref_Name c) \<le> 49) \<and>
    (49 < length (ref_Name c) \<longrightarrow> (\<exists>cs after. snd (Reconcile L E ns n h0) = h0 @ cs @ [PatchTask task after] \<and> deeds cs = [] \<and>
       State (Status after) = State (Status task) \<and>
       UpdateTaskFinalizer \<in> set (Finalizers after)))"
proof (intro conjI impI)
  show fits: "length (Name task0) \<le> labelValueLimit \<longleftrightarrow> length (ref_Name c) \<le> 49"
    using accepted_name [OF assms(2-4)] by (simp add: labelValueLimit_def)
  assume "49 < length (ref_Name c)"
  with fits have "\<forall>h v k. \<exists>err. api_ListUnstructured E h v k (Namespace task)
      [(ClusterUpdateTaskNameLabel, Name task)] = Inl err"
    using assms(5,6) by (simp add: limitsLabels_def)
  from unlisted_reconcile [OF assms(1,7,8) this] obtain cs t where
    run: "snd (Reconcile L E ns n h0) = h0 @ cs @ [PatchTask task (finishTask L t)]"
      "deeds cs = []" "State (Status t) = State (Status task)"
      "UpdateTaskFinalizer \<in> set (Finalizers t)" .
  then show "\<exists>cs after. snd (Reconcile L E ns n h0) = h0 @ cs @ [PatchTask task after] \<and>
      deeds cs = [] \<and> State (Status after) = State (Status task) \<and>
      UpdateTaskFinalizer \<in> set (Finalizers after)"
    using assms(9)
    by (intro conjI exI [of _ cs] exI [of _ "finishTask L t"]) (simp_all add: finishTask_def)
qed

end
