(* ===== verification/Name_Scenarios.thy ===== *)
theory Name_Scenarios
  imports Name_Limits Handover_Scenarios
begin

text \<open>The hook for a cluster with a name of 50 characters.\<close>

definition longName :: string where
  "longName = replicate 50 CHR ''c''"

definition longRequest :: ControlPlaneExternalUpdateRequest where
  "longRequest = aRequest\<lparr>cp_ClusterRef := Some (aRef ''Cluster'' longName)\<rparr>"

definition quietServer :: env where
  "quietServer = (calm updating [])\<lparr>api_ListUpdateTasks := (\<lambda>h ns ls. Inr []),
     RandomString := (\<lambda>h k. replicate k CHR ''x'')\<rparr>"

definition longTask :: UpdateTask where
  "longTask = newUpdateTask refLib (aRef ''Cluster'' longName) (aRef ''KubeadmControlPlane'' ''kcp'')
     (cp_NewMachine aRequest) (longName @ ''-update-xxxxxx'') (aRef ''DockerNodeUpdateTaskTemplate'' ''tpl'')"

definition strictServer :: "UpdateTask \<Rightarrow> env" where
  "strictServer t = (calm t [])\<lparr>api_GetUpdateTask := (\<lambda>h ns n. Inr t),
     api_ListUnstructured := (\<lambda>h v k ns ls.
       if labelValueLimit < length (snd (hd ls)) then Inl (GoErr ''invalid label value'') else Inr [])\<rparr>"

lemma longName_length: "length longName = 50"
  by (simp add: longName_def)

lemma long_accepted:
  "\<exists>h'. acceptedTrace refLib quietServer longRequest [] (h' @ [CreateTask longTask])"
proof -
  let ?n = "longName @ ''-update-xxxxxx''"
  have "acceptedTrace refLib quietServer longRequest []
      ([GetCluster ''ns'' longName, ListUpdateTasks ''ns'' [(ClusterNameLabel refLib, longName)],
       ListMachines ''ns'' [(ClusterNameLabel refLib, longName), (MachineControlPlaneLabel refLib, '''')],
       claimCall refLib ?n m1, claimCall refLib ?n m2, claimCall refLib ?n m3,
       ListUpdatePolicies ''ns''] @ [CreateTask longTask])"
    unfolding acceptedTrace_def
    by (simp add: quietServer_def server_defs longRequest_def aRequest_def aRef_def aCluster_def
        aPolicy_def longTask_def numeral_eq_Suc m1_def m2_def m3_def aMachine_def)
  then show ?thesis by blast
qed

theorem long_names_stall_witness:
  "\<exists>cs after. snd (Reconcile refLib (strictServer longTask) ''ns'' (Name longTask) []) =
      cs @ [PatchTask longTask after] \<and> deeds cs = [] \<and>
    State (Status after) = UpdateTaskStateUnknown \<and> UpdateTaskFinalizer \<in> set (Finalizers after)"
proof -
  obtain h' where accepted: "acceptedTrace refLib quietServer longRequest [] (h' @ [CreateTask longTask])"
    using long_accepted by blast
  have env: "randomLengths quietServer" "limitsLabels (strictServer longTask)"
    "api_GetUpdateTask (strictServer longTask) [] ''ns'' (Name longTask) = Inr longTask"
    "NewTaskHelper (strictServer longTask) ([] @ [GetUpdateTask ''ns'' (Name longTask)]) longTask = None"
    by (simp_all add: randomLengths_def quietServer_def limitsLabels_def strictServer_def server_defs)
  have ref: "cp_ClusterRef longRequest = Some (aRef ''Cluster'' longName)"
    by (simp add: longRequest_def)
  have "State (Status longTask) = UpdateTaskStateUnknown" by (simp add: longTask_def newUpdateTask_def)
  with long_names_stall [OF refLib_finalizer accepted env(1) ref env(2) refl env(3,4)]
  show ?thesis by (simp add: aRef_def longName_length phase_defs)
qed

end
