(* ===== verification/Unreliable_Rounds.thy ===== *)
theory Unreliable_Rounds
  imports Closed_Loop
begin

text \<open>
  A rollout on an unreliable API server. In a round any call may fail, a created node update or the
  patched task may be stored or lost, and the node updates may go on or not; what the server does
  answer is true. In a good round everything works. As long as no node update ends Failed or Aborted,
  an update task is Updated after a known number of good rounds, whatever happens between them.
\<close>

section \<open>Passes on a server that may fail\<close>

text \<open>Every answer may be an error; an answer about the task, its machines or its node updates is true.\<close>

definition truthful ::
  "env \<Rightarrow> World \<Rightarrow> string \<Rightarrow> string \<Rightarrow> UpdateTask \<Rightarrow> Unstructured list \<Rightarrow> bool" where
  "truthful E W ns n task us \<longleftrightarrow>
     (\<forall>h t. api_GetUpdateTask E h ns n = Inr t \<longrightarrow> t = task) \<and>
     (\<forall>h a ls ms. api_ListMachines E h a ls = Inr ms \<longrightarrow> ms = w_machines W) \<and>
     (\<forall>h v k us'. api_ListUnstructured E h v k (Namespace task)
        [(ClusterUpdateTaskNameLabel, Name task)] = Inr us' \<longrightarrow> us' = us)"

lemma serves_truthful: "serves L E W ns n task us \<Longrightarrow> truthful E W ns n task us"
  by (simp add: serves_def truthful_def)

lemma truthful_scope:
  assumes "NewScope L E s = (Ret (Inr scope), s')" and "truthful E W ns n (obj s) us"
  shows "NodeUpdateTasks scope = us \<and> UpdateMachines scope = FromMachineList L (w_machines W)"
  using assms(1)
proof (rule scope_built)
  fix ls h ms
  assume "api_ListMachines E h (Namespace (obj s)) ls = Inr ms"
    and "UpdateMachines scope = FromMachineList L ms"
    and "api_ListUnstructured E (h @ [ListMachines (Namespace (obj s)) ls])
       (ref_APIVersion (InfrastructureRef (NodeUpdateTemplate (Spec (obj s)))))
       (TrimSuffix (ref_Kind (InfrastructureRef (NodeUpdateTemplate (Spec (obj s))))) ''Template'')
       (Namespace (obj s)) [(ClusterUpdateTaskNameLabel, Name (obj s))] = Inr (NodeUpdateTasks scope)"
  moreover from this have "ms = w_machines W" "NodeUpdateTasks scope = us"
    using assms(2) unfolding truthful_def by blast+
  ultimately show ?thesis by simp
qed

text \<open>The state the phases leave is the old one or the one the status phase gives.\<close>

lemma truthful_tracks:
  assumes run: "reconcilePhases L E s = (r, s')" and E: "truthful E W ns n (obj s) us"
  shows "State (Status (obj s')) = State (Status (obj s)) \<or>
    (\<exists>m. collectStatuses L us Map.empty = Inr m \<and> State (Status (obj s')) =
       State (Status (trackTask L (census (Name (obj s)) m (orderedMachines L W)) (obj s))))"
    (is "?state (obj s')")
proof -
  have k2: "?state (obj s2)" if scope: "NewScope L E s = (Ret (Inr scope), s1)"
    and status: "reconcileStatus L E scope s1 = (r2, s2)" for scope s1 r2 s2
  proof (cases "collectStatuses L us Map.empty")
    case (Inl err)
    with status truthful_scope [OF scope E] scope_frozen.obj_kept [OF scope] show ?thesis
      by (simp add: reconcileStatus_error)
  next
    case (Inr m)
    with reconcileStatus_obj(2) [OF _ status] truthful_scope [OF scope E]
      scope_frozen.obj_kept [OF scope] show ?thesis
      by (simp add: orderedMachines_def)
  qed
  from run show ?thesis
  proof (cases rule: phases_split)
    case (noScope r1)
    then show ?thesis using scope_frozen.obj_kept by metis
  next
    case (status scope s1 r2)
    then show ?thesis using k2 by blast
  next
    case (abort scope s1 r2 s2 r3)
    then show ?thesis
      using k2 [OF abort(1,2)] keepsD [OF sameState_abort abort(5)] by (simp add: sameState_def)
  next
    case (normal scope s1 r2 s2 r3)
    then show ?thesis
      using k2 [OF normal(1,2)] keepsD [OF sameState_normal normal(6)] by (simp add: sameState_def)
  qed
qed

lemma truthful_state:
  assumes run: "reconcilePhases L E s = (r, s')" and E: "truthful E W ns n (obj s) us"
    and sts: "map (GetNodeUpdateTaskStatus L) us = map Inr sts" "distinct (map nus_MachineName sts)"
  shows "State (Status (obj s')) \<in>
    {State (Status (obj s)), plannedState (viewOf L W (obj s) sts)}"
  using truthful_tracks [OF run E] collectStatuses_read [OF sts(1)]
    state_planned [OF sts(2), of L "obj s" W] by auto

text \<open>A node update they create is for a waiting machine, and no other one is unfinished.\<close>

definition freshNode :: "lib \<Rightarrow> World \<Rightarrow> UpdateTask \<Rightarrow> Unstructured list \<Rightarrow> Unstructured \<Rightarrow> bool" where
  "freshNode L W task us v \<longleftrightarrow> (\<exists>x \<in> set (orderedMachines L W).
     isMachineInUpdateScope x (Name task) \<and> machineOf L v = Some (Name x) \<and>
     (\<forall>u \<in> set us. ended L u \<and> machineOf L u \<noteq> Some (Name x)))"

lemma justified_fresh:
  assumes "nested_laws L" and "collections_laws L" and "goodWorld L W"
    and "creation_justified L E scope s v" and "NodeUpdateTasks scope = us"
    and "UpdateMachines scope = FromMachineList L (w_machines W)" and "Name (obj s) = Name task"
  shows "freshNode L W task us v"
proof -
  have machines: "SortedByCreationTimestamp L (UpdateMachines scope) = orderedMachines L W"
    by (simp add: assms(6) orderedMachines_def)
  have names: "\<forall>x \<in> set (orderedMachines L W). ascii (Name x)"
    using orderedMachines_set [OF assms(2,3)] assms(3) by (simp add: goodWorld_def)
  obtain x base where x: "x \<in> set (orderedMachines L W)" "isMachineInUpdateScope x (Name task)"
    and v: "setFields L (nodeUpdateFields (obj s) x) base = Inr v"
    using assms(4,7) unfolding creation_justified_def machines by metis
  have "machineOf L v = Some (Name x)"
    using nodeUpdateFields_machineName [OF assms(1) v] nodeUpdateFields_phase [OF assms(1) v]
      names x(1) by (simp add: machineOf_def GetNodeUpdateTaskStatus_def)
  with x justified_create [OF assms(1,4), unfolded machines, OF names] assms(5) show ?thesis
    by (auto simp: freshNode_def)
qed

lemma truthful_creates:
  assumes "nested_laws L" and "collections_laws L" and "goodWorld L W"
    and run: "reconcilePhases L E s = (r, s')" and E: "truthful E W ns n (obj s) us"
  shows "createdNodes (calls s') = createdNodes (calls s) \<or>
    (\<exists>v. createdNodes (calls s') = createdNodes (calls s) @ [v] \<and> freshNode L W (obj s) us v)"
  using phases_creates [OF run]
proof (elim disjE exE conjE)
  assume "filter is_create_node (calls s') = filter is_create_node (calls s)"
  then show ?thesis by (metis createdNodes_filter)
next
  fix scope s1 s2 v
  assume scope: "NewScope L E s = (Ret (Inr scope), s1)" and same: "sameTask L (obj s) (obj s2)"
    and new: "filter is_create_node (calls s') = filter is_create_node (calls s) @ [CreateNode v]"
    and just: "creation_justified L E scope s2 v"
  have "createdNodes (calls s') = createdNodes (calls s) @ [v]"
    using arg_cong [OF new, of createdNodes] by (simp add: createdNodes_filter)
  moreover have "freshNode L W (obj s) us v"
    using justified_fresh [OF assms(1-3) just] truthful_scope [OF scope E] sameTask_fields(1) [OF same]
    by simp
  ultimately show ?thesis by blast
qed

lemma truthful_unfetched:
  assumes "truthful E W ns n t us"
    and "\<not> (api_GetUpdateTask E [] ns n = Inr t \<and> NewTaskHelper E [GetUpdateTask ns n] t = None)"
  shows "snd (Reconcile L E ns n []) = [GetUpdateTask ns n]"
proof -
  have "api_GetUpdateTask E [] ns n = Inr t' \<Longrightarrow> t' = t" for t'
    using assms(1) by (simp add: truthful_def)
  with assms(2) have "(\<exists>err. api_GetUpdateTask E [] ns n = Inl err) \<or>
      (\<exists>err. api_GetUpdateTask E [] ns n = Inr t \<and> NewTaskHelper E [GetUpdateTask ns n] t = Some err)"
    by (cases "api_GetUpdateTask E [] ns n") auto
  then show ?thesis by (elim disjE exE conjE) (simp_all add: Reconcile_def)
qed

text \<open>One pass: what is stored when its patch arrives, and what it asks to create.\<close>

lemma truthful_pass:
  assumes laws: "nested_laws L" "collections_laws L" "finalizer_laws L" and W: "goodWorld L W"
    and E: "truthful E W ns n t us"
    and sts: "map (GetNodeUpdateTaskStatus L) us = map Inr sts" "distinct (map nus_MachineName sts)"
    and cs: "cs = snd (Reconcile L E ns n [])"
  shows "sameTask L t (storedTask t cs) \<and>
    State (Status (storedTask t cs)) \<in> {State (Status t), plannedState (viewOf L W t sts)} \<and>
    (storedTask t cs = t \<or> (UpdateTaskFinalizer \<in> set (Finalizers (storedTask t cs)) \<longleftrightarrow>
       \<not> IsTerminated (State (Status (storedTask t cs))))) \<and>
    (createdNodes cs = [] \<or> (\<exists>v. createdNodes cs = [v] \<and> freshNode L W t us v)) \<and>
    (UpdateTaskFinalizer \<notin> set (Finalizers t) \<longrightarrow>
       State (Status (storedTask t cs)) = State (Status t) \<and> createdNodes cs = [])"
proof (cases "api_GetUpdateTask E [] ns n = Inr t \<and> NewTaskHelper E ([] @ [GetUpdateTask ns n]) t = None")
  case False
  then have "cs = [GetUpdateTask ns n]"
    unfolding cs using truthful_unfetched [OF E] by simp
  then have "storedTask t cs = t" "createdNodes cs = []" by (simp_all add: storedTask_def)
  then show ?thesis by (simp add: sameTask_def)
next
  case True
  then have get: "api_GetUpdateTask E [] ns n = Inr t"
    "NewTaskHelper E ([] @ [GetUpdateTask ns n]) t = None" by simp_all
  let ?s = "\<lparr>calls = [] @ [GetUpdateTask ns n], obj = t\<rparr>"
  obtain r s1 where run: "reconcileTask L E ?s = (r, s1)" by fastforce
  have trace: "cs = calls s1 @ [PatchTask t (finishTask L (obj s1))]"
    unfolding cs by (simp add: Reconcile_fetched [OF get run])
  then have stored: "storedTask t cs = finishTask L (obj s1)" "createdNodes cs = createdNodes (calls s1)"
    by simp_all
  have same: "sameTask L t (finishTask L (obj s1))"
    using keepsD [OF same_reconcileTask run] by (simp add: sameTask_def)
  have fin: "UpdateTaskFinalizer \<in> set (Finalizers (finishTask L (obj s1))) \<longleftrightarrow>
      \<not> IsTerminated (State (Status (finishTask L (obj s1))))"
    using finalizers_reconcileTask [OF laws(3) run] by (simp add: finalizer_lawsD [OF laws(3)])
  show ?thesis
  proof (cases "ContainsFinalizer L (Finalizers t) UpdateTaskFinalizer")
    case False
    with run have "calls s1 = [GetUpdateTask ns n]" "State (Status (obj s1)) = State (Status t)"
      by (auto simp: reconcileTask_def prog_simps)
    with same fin show ?thesis unfolding stored by simp
  next
    case held: True
    with run have phases: "reconcilePhases L E ?s = (r, s1)" by (simp add: reconcileTask_def prog_simps)
    have E': "truthful E W ns n (obj ?s) us" using E by simp
    have "State (Status (obj s1)) \<in> {State (Status t), plannedState (viewOf L W t sts)}"
      using truthful_state [OF phases E' sts] by simp
    moreover have "createdNodes (calls s1) = [] \<or>
        (\<exists>v. createdNodes (calls s1) = [v] \<and> freshNode L W t us v)"
      using truthful_creates [OF laws(1,2) W phases E'] by simp
    ultimately show ?thesis
      unfolding stored using same fin held by (simp add: finalizer_lawsD [OF laws(3)])
  qed
qed

section \<open>Rounds\<close>

text \<open>
  Between two passes every node update stays one of its machine. It may report anything but an end
  other than Updated, and once Updated it stays so.
\<close>

definition goingWell :: "UpdateTaskState \<Rightarrow> bool" where
  "goingWell st \<longleftrightarrow> \<not> IsTerminated st \<or> st = UpdateTaskStateUpdated"

definition updatedNode :: "lib \<Rightarrow> Unstructured \<Rightarrow> bool" where
  "updatedNode L u \<longleftrightarrow> (\<exists>st. GetNodeUpdateTaskStatus L u = Inr st \<and>
     nus_State st = UpdateTaskStateUpdated)"

definition goesOn :: "lib \<Rightarrow> Unstructured \<Rightarrow> Unstructured \<Rightarrow> bool" where
  "goesOn L u u' \<longleftrightarrow> machineOf L u' = machineOf L u \<and>
     (\<forall>st. GetNodeUpdateTaskStatus L u' = Inr st \<longrightarrow> goingWell (nus_State st)) \<and>
     (updatedNode L u \<longrightarrow> updatedNode L u')"

text \<open>In any round a creation or the patch may get lost; in a good one the server carries out everything.\<close>

definition anyRound :: "lib \<Rightarrow> World \<Rightarrow> string \<Rightarrow> string \<Rightarrow>
    UpdateTask \<times> Unstructured list \<Rightarrow> UpdateTask \<times> Unstructured list \<Rightarrow> bool" where
  "anyRound L W ns n s s' \<longleftrightarrow> (\<exists>E cs. truthful E W ns n (fst s) (snd s) \<and>
     cs = snd (Reconcile L E ns n []) \<and> fst s' \<in> {fst s, storedTask (fst s) cs} \<and>
     (list_all2 (goesOn L) (snd s) (snd s') \<or> list_all2 (goesOn L) (snd s @ createdNodes cs) (snd s')))"

definition goodRound :: "lib \<Rightarrow> World \<Rightarrow> string \<Rightarrow> string \<Rightarrow>
    UpdateTask \<times> Unstructured list \<Rightarrow> UpdateTask \<times> Unstructured list \<Rightarrow> bool" where
  "goodRound L W ns n s s' \<longleftrightarrow> (\<exists>E cs. serves L E W ns n (fst s) (snd s) \<and>
     cs = snd (Reconcile L E ns n []) \<and> fst s' = storedTask (fst s) cs \<and>
     list_all2 (goesOn L) (snd s @ createdNodes cs) (snd s') \<and> list_all (updatedNode L) (snd s'))"

lemma goodRound_anyRound: "goodRound L W ns n s s' \<Longrightarrow> anyRound L W ns n s s'"
  using serves_truthful unfolding goodRound_def anyRound_def by blast

text \<open>Runs with a number of good rounds among any others.\<close>

inductive rounds :: "lib \<Rightarrow> World \<Rightarrow> string \<Rightarrow> string \<Rightarrow> nat \<Rightarrow>
    UpdateTask \<times> Unstructured list \<Rightarrow> UpdateTask \<times> Unstructured list \<Rightarrow> bool"
  for L W ns n where
  start: "rounds L W ns n 0 s s"
| any: "rounds L W ns n k s s' \<Longrightarrow> anyRound L W ns n s' s'' \<Longrightarrow> rounds L W ns n k s s''"
| good: "rounds L W ns n k s s' \<Longrightarrow> goodRound L W ns n s' s'' \<Longrightarrow> rounds L W ns n (Suc k) s s''"

section \<open>The invariant\<close>

text \<open>The machines of the task whose update is done.\<close>

definition doneFor :: "lib \<Rightarrow> World \<Rightarrow> UpdateTask \<Rightarrow> Unstructured list \<Rightarrow> bool" where
  "doneFor L W task us \<longleftrightarrow> (\<forall>x \<in> set (w_machines W). isMachineInUpdateScope x (Name task) \<longrightarrow>
     (\<exists>u \<in> set us. machineOf L u = Some (Name x) \<and> updatedNode L u))"

definition tidy :: "lib \<Rightarrow> Unstructured list \<Rightarrow> bool" where
  "tidy L us \<longleftrightarrow> (\<exists>sts. map (GetNodeUpdateTaskStatus L) us = map Inr sts \<and>
     distinct (map nus_MachineName sts) \<and> (\<forall>st \<in> set sts. goingWell (nus_State st)))"

definition inOrder :: "lib \<Rightarrow> World \<Rightarrow> UpdateTask \<Rightarrow> UpdateTask \<times> Unstructured list \<Rightarrow> bool" where
  "inOrder L W t0 = (\<lambda>(t, us). sameTask L t0 t \<and> tidy L us \<and> goingWell (State (Status t)) \<and>
     (State (Status t) = UpdateTaskStateUpdated \<longrightarrow>
        doneFor L W t0 us \<and> UpdateTaskFinalizer \<notin> set (Finalizers t)))"

definition rolloutSetting :: "lib \<Rightarrow> World \<Rightarrow> UpdateTask \<Rightarrow> bool" where
  "rolloutSetting L W t0 \<longleftrightarrow>
     nested_laws L \<and> collections_laws L \<and> result_laws L \<and> finalizer_laws L \<and> goodWorld L W \<and>
     goodTask t0 \<and> \<not> taskAborting L t0 \<and> TargetPhase (Spec t0) = UpdateTaskPhaseUpdate"

lemma machineOf_readable: "machineOf L u \<noteq> None \<longleftrightarrow> (\<exists>st. GetNodeUpdateTaskStatus L u = Inr st)"
  by (simp add: machineOf_def split: sum.split)

text \<open>\<open>tidy\<close> in terms of the single node updates.\<close>

lemma tidy_iff: "tidy L us \<longleftrightarrow> None \<notin> machineOf L ` set us \<and> distinct (map (machineOf L) us) \<and>
    (\<forall>u \<in> set us. \<forall>st. GetNodeUpdateTaskStatus L u = Inr st \<longrightarrow> goingWell (nus_State st))"
proof
  assume "tidy L us"
  then obtain sts where sts: "map (GetNodeUpdateTaskStatus L) us = map Inr sts"
      "distinct (map nus_MachineName sts)" "\<forall>st \<in> set sts. goingWell (nus_State st)"
    by (auto simp: tidy_def)
  have machines: "map (machineOf L) us = map Some (map nus_MachineName sts)"
    by (rule reported_machines [of L UNIV]) (use sts(1) in \<open>auto simp: reported_def\<close>)
  have "GetNodeUpdateTaskStatus L u \<in> set (map Inr sts)" if "u \<in> set us" for u
    unfolding sts(1) [symmetric] using that by simp
  then have "\<forall>u \<in> set us. \<forall>st. GetNodeUpdateTaskStatus L u = Inr st \<longrightarrow> goingWell (nus_State st)"
    using sts(3) by fastforce
  moreover have "None \<notin> set (map (machineOf L) us)" unfolding machines by auto
  moreover have "distinct (map (machineOf L) us)"
    unfolding machines using sts(2) by (simp add: distinct_map inj_on_def)
  ultimately show "None \<notin> machineOf L ` set us \<and> distinct (map (machineOf L) us) \<and>
      (\<forall>u \<in> set us. \<forall>st. GetNodeUpdateTaskStatus L u = Inr st \<longrightarrow> goingWell (nus_State st))" by simp
next
  assume us: "None \<notin> machineOf L ` set us \<and> distinct (map (machineOf L) us) \<and>
    (\<forall>u \<in> set us. \<forall>st. GetNodeUpdateTaskStatus L u = Inr st \<longrightarrow> goingWell (nus_State st))"
  define status where "status u = (case GetNodeUpdateTaskStatus L u of Inr st \<Rightarrow> st)" for u
  have read: "GetNodeUpdateTaskStatus L u = Inr (status u)" if "u \<in> set us" for u
    using us that by (force simp: status_def machineOf_def split: sum.splits)
  then have "map (GetNodeUpdateTaskStatus L) us = map Inr (map status us)" by simp
  moreover have "machineOf L u = Some (nus_MachineName (status u))" if "u \<in> set us" for u
    using read [OF that] by (simp add: machineOf_def)
  then have "map (machineOf L) us = map Some (map nus_MachineName (map status us))" by simp
  then have "distinct (map Some (map nus_MachineName (map status us)))" using us by metis
  then have "distinct (map nus_MachineName (map status us))" unfolding distinct_map [of Some] by blast
  moreover have "\<forall>st \<in> set (map status us). goingWell (nus_State st)"
    using us read by auto
  ultimately show "tidy L us" unfolding tidy_def by blast
qed

section \<open>What a round does to the node updates\<close>

lemma goesOn_mem: "list_all2 (goesOn L) us us' \<Longrightarrow> u \<in> set us \<Longrightarrow> \<exists>u' \<in> set us'. goesOn L u u'"
  by (induction us us' rule: list_all2_induct) auto

lemma goesOn_machines: "list_all2 (goesOn L) us us' \<Longrightarrow> map (machineOf L) us' = map (machineOf L) us"
  by (induction us us' rule: list_all2_induct) (auto simp: goesOn_def)

lemma goesOn_updated:
  "list_all2 (goesOn L) us us' \<Longrightarrow> list_all (updatedNode L) us \<Longrightarrow> list_all (updatedNode L) us'"
  by (induction us us' rule: list_all2_induct) (auto simp: goesOn_def)

lemma goesOn_tidy:
  assumes "list_all2 (goesOn L) us us'" and "None \<notin> machineOf L ` set us"
    and "distinct (map (machineOf L) us)"
  shows "tidy L us'"
proof -
  have "machineOf L ` set us' = machineOf L ` set us"
    using arg_cong [OF goesOn_machines [OF assms(1)], of set] by simp
  moreover have "\<forall>u \<in> set us'. \<forall>st. GetNodeUpdateTaskStatus L u = Inr st \<longrightarrow> goingWell (nus_State st)"
    using assms(1) by (induction us us' rule: list_all2_induct) (auto simp: goesOn_def)
  ultimately show ?thesis
    using assms(2,3) goesOn_machines [OF assms(1)] by (simp add: tidy_iff)
qed

lemma goesOn_done:
  assumes "doneFor L W t us" and "set us \<subseteq> set vs" and "list_all2 (goesOn L) vs us'"
  shows "doneFor L W t us'"
  using assms(1,2) goesOn_mem [OF assms(3)] unfolding doneFor_def
  by (metis goesOn_def subsetD)

text \<open>The machines without a node update, and how far a run still has to go.\<close>

definition todo :: "lib \<Rightarrow> World \<Rightarrow> UpdateTask \<Rightarrow> Unstructured list \<Rightarrow> Machine list" where
  "todo L W task us = filter (\<lambda>x. isMachineInUpdateScope x (Name task) \<and>
     Some (Name x) \<notin> machineOf L ` set us) (orderedMachines L W)"

definition rank :: "lib \<Rightarrow> World \<Rightarrow> UpdateTask \<Rightarrow> UpdateTask \<times> Unstructured list \<Rightarrow> nat" where
  "rank L W t0 = (\<lambda>(t, us).
     if State (Status t) = UpdateTaskStateUpdated then 0
     else 1 + (if UpdateTaskFinalizer \<in> set (Finalizers t) then 0 else 1) +
       2 * length (todo L W t0 us) + (if list_all (updatedNode L) us then 0 else 1))"

lemma todo_machines: "machineOf L ` set us' = machineOf L ` set us \<Longrightarrow> todo L W t us' = todo L W t us"
  by (simp add: todo_def)

lemma goesOn_todo: "list_all2 (goesOn L) us us' \<Longrightarrow> todo L W t us' = todo L W t us"
  by (rule todo_machines) (use arg_cong [OF goesOn_machines, of L us us' set] in simp)

lemma todo_fresh:
  assumes "freshNode L W t us v"
  shows "length (todo L W t (us @ [v])) < length (todo L W t us)"
proof -
  obtain x where x: "x \<in> set (orderedMachines L W)" "isMachineInUpdateScope x (Name t)"
      "machineOf L v = Some (Name x)" "Some (Name x) \<notin> machineOf L ` set us"
    using assms by (force simp: freshNode_def)
  have "todo L W t (us @ [v]) = filter (\<lambda>y. Name y \<noteq> Name x) (todo L W t us)"
    using x(3) by (auto simp: todo_def intro!: filter_cong)
  moreover have "x \<in> set (todo L W t us)" using x by (simp add: todo_def)
  ultimately show ?thesis by (simp add: length_filter_less)
qed

lemma fresh_tidy:
  assumes "freshNode L W t us v" and "tidy L us"
  shows "None \<notin> machineOf L ` set (us @ [v]) \<and> distinct (map (machineOf L) (us @ [v]))"
  using assms by (auto simp: freshNode_def tidy_iff)

lemma fresh_updated:
  assumes "freshNode L W t us v" and "tidy L us"
  shows "list_all (updatedNode L) us"
  unfolding list_all_iff
proof
  fix u assume u: "u \<in> set us"
  then have "ended L u" using assms(1) by (auto simp: freshNode_def)
  then obtain st where "GetNodeUpdateTaskStatus L u = Inr st" "IsTerminated (nus_State st)"
    by (auto simp: ended_def split: sum.splits)
  with u assms(2) show "updatedNode L u" by (auto simp: tidy_iff updatedNode_def goingWell_def)
qed

lemma planned_done:
  assumes "plannedState (viewOf L W t sts) = UpdateTaskStateUpdated" and "\<not> taskAborting L t"
    and "collections_laws L" and "goodWorld L W"
    and sts: "map (GetNodeUpdateTaskStatus L) us = map Inr sts"
  shows "doneFor L W t us"
  unfolding doneFor_def
proof (intro ballI impI)
  fix x assume x: "x \<in> set (w_machines W)" "isMachineInUpdateScope x (Name t)"
  let ?v = "viewOf L W t sts"
  have "\<not> v_aborting ?v" using assms(2) by (simp add: viewOf_def)
  then have "\<forall>y \<in> set (v_machines ?v). concerned ?v y \<longrightarrow>
      map_of (v_reports ?v) (fst y) = Some UpdateTaskStateUpdated"
    using assms(1) by (simp add: plannedState_def split: if_splits)
  moreover have "x \<in> set (orderedMachines L W)" using x(1) orderedMachines_set [OF assms(3,4)] by simp
  then have "(Name x, True) \<in> set (v_machines ?v)" using x(2) by (force simp: viewOf_def)
  ultimately have "map_of (v_reports ?v) (Name x) = Some UpdateTaskStateUpdated"
    by (fastforce simp: concerned_def)
  from map_of_SomeD [OF this]
  have "(Name x, UpdateTaskStateUpdated) \<in> set (map (\<lambda>st. (nus_MachineName st, nus_State st)) sts)"
    by (simp add: viewOf_def)
  then obtain st where st: "st \<in> set sts" "nus_MachineName st = Name x"
      "nus_State st = UpdateTaskStateUpdated" by auto
  have "Inr st \<in> set (map (GetNodeUpdateTaskStatus L) us)" unfolding sts using st(1) by simp
  then obtain u where "u \<in> set us" "GetNodeUpdateTaskStatus L u = Inr st" by auto
  with st show "\<exists>u \<in> set us. machineOf L u = Some (Name x) \<and> updatedNode L u"
    by (intro bexI [of _ u]) (auto simp: machineOf_def updatedNode_def)
qed

lemma planned_going:
  "\<not> taskAborting L t \<Longrightarrow> plannedState (viewOf L W t sts) \<in> {UpdateTaskStateUpdated, UpdateTaskStateInProgress}"
  by (simp add: plannedState_def viewOf_def)

section \<open>One round\<close>

text \<open>The node updates a round starts from: the stored ones and perhaps a fresh one.\<close>

lemma round_nodes:
  assumes "created = [] \<or> (\<exists>v. created = [v] \<and> freshNode L W t us v)" and "tidy L us"
    and "list_all2 (goesOn L) (us @ created) us'"
  shows "tidy L us'" and "doneFor L W t us \<Longrightarrow> doneFor L W t us'"
    and "2 * length (todo L W t us') + (if list_all (updatedNode L) us' then 0 else 1) \<le>
      2 * length (todo L W t us) + (if list_all (updatedNode L) us then 0 else 1)"
    and "created \<noteq> [] \<Longrightarrow> list_all (updatedNode L) us \<and> length (todo L W t us') < length (todo L W t us)"
proof -
  show "doneFor L W t us \<Longrightarrow> doneFor L W t us'"
    by (rule goesOn_done [OF _ _ assms(3)]) auto
  have "None \<notin> machineOf L ` set (us @ created) \<and> distinct (map (machineOf L) (us @ created))"
  proof (cases "created = []")
    case True
    then show ?thesis using assms(2) by (simp add: tidy_iff)
  next
    case False
    then show ?thesis using assms(1) fresh_tidy [OF _ assms(2)] by metis
  qed
  then show "tidy L us'" by (intro goesOn_tidy [OF assms(3)]) simp_all
  have todo: "todo L W t us' = todo L W t (us @ created)" by (rule goesOn_todo [OF assms(3)])
  show new: "list_all (updatedNode L) us \<and> length (todo L W t us') < length (todo L W t us)"
    if "created \<noteq> []"
    using assms(1) that todo fresh_updated [OF _ assms(2)] todo_fresh by metis
  show "2 * length (todo L W t us') + (if list_all (updatedNode L) us' then 0 else 1) \<le>
      2 * length (todo L W t us) + (if list_all (updatedNode L) us then 0 else 1)"
  proof (cases "created = []")
    case True
    then show ?thesis using todo goesOn_updated [OF assms(3)] by simp
  next
    case False
    then show ?thesis using new by simp
  qed
qed

lemma anyRound_step:
  assumes setting: "rolloutSetting L W t0" and inv: "inOrder L W t0 (t, us)"
    and round: "anyRound L W ns n (t, us) (t', us')"
  shows "inOrder L W t0 (t', us') \<and> rank L W t0 (t', us') \<le> rank L W t0 (t, us)"
proof -
  have laws: "nested_laws L" "collections_laws L" "finalizer_laws L" "goodWorld L W"
    using setting by (simp_all add: rolloutSetting_def)
  have now: "sameTask L t0 t" "tidy L us" "goingWell (State (Status t))"
      "State (Status t) = UpdateTaskStateUpdated \<Longrightarrow>
        doneFor L W t0 us \<and> UpdateTaskFinalizer \<notin> set (Finalizers t)"
    using inv by (auto simp: inOrder_def)
  have name: "Name t = Name t0" and going: "\<not> taskAborting L t"
    using sameTask_fields(1) [OF now(1)] taskAborting_same [OF now(1)] setting
    by (simp_all add: rolloutSetting_def)
  have done_same: "doneFor L W t vs = doneFor L W t0 vs" and todo_same: "todo L W t vs = todo L W t0 vs"
    for vs using name by (simp_all add: doneFor_def todo_def)
  obtain sts where sts: "map (GetNodeUpdateTaskStatus L) us = map Inr sts"
      "distinct (map nus_MachineName sts)" using now(2) by (auto simp: tidy_def)
  obtain E cs created where E: "truthful E W ns n t us" "cs = snd (Reconcile L E ns n [])"
    and t': "t' = t \<or> t' = storedTask t cs"
    and us': "created = [] \<or> created = createdNodes cs" "list_all2 (goesOn L) (us @ created) us'"
    using round unfolding anyRound_def by (metis append_Nil2 fst_conv insertE singletonD snd_conv)
  from truthful_pass [OF laws E(1) sts E(2)]
  have pass: "sameTask L t (storedTask t cs)"
      "State (Status (storedTask t cs)) = State (Status t) \<or>
        State (Status (storedTask t cs)) = plannedState (viewOf L W t sts)"
      "storedTask t cs = t \<or> (UpdateTaskFinalizer \<in> set (Finalizers (storedTask t cs)) \<longleftrightarrow>
        \<not> IsTerminated (State (Status (storedTask t cs))))"
      "createdNodes cs = [] \<or> (\<exists>v. createdNodes cs = [v] \<and> freshNode L W t us v)"
      "UpdateTaskFinalizer \<notin> set (Finalizers t) \<Longrightarrow>
        State (Status (storedTask t cs)) = State (Status t)"
    by simp_all
  have fresh: "created = [] \<or> (\<exists>v. created = [v] \<and> freshNode L W t us v)"
    using pass(4) us'(1) by metis
  note nodes = round_nodes [OF fresh now(2) us'(2)]
  have same: "sameTask L t0 t'" using t' pass(1) now(1) by (auto simp: sameTask_def)
  have state: "State (Status t') = State (Status t) \<or>
      State (Status t') = plannedState (viewOf L W t sts)" using t' pass(2) by metis
  then have well: "goingWell (State (Status t'))"
    using now(3) planned_going [OF going, of W sts] by (auto simp: goingWell_def)
  have fin: "t' = t \<or> (UpdateTaskFinalizer \<in> set (Finalizers t') \<longleftrightarrow> \<not> IsTerminated (State (Status t')))"
    using t' pass(3) by metis
  have ended: "State (Status t') = UpdateTaskStateUpdated"
    if "State (Status t) = UpdateTaskStateUpdated"
    using now(4) [OF that] t' pass(5) that by metis
  have done': "doneFor L W t0 us'" if updated: "State (Status t') = UpdateTaskStateUpdated"
  proof -
    have "doneFor L W t us"
    proof (cases "State (Status t) = UpdateTaskStateUpdated")
      case True
      then show ?thesis using now(4) done_same by simp
    next
      case False
      then have "plannedState (viewOf L W t sts) = UpdateTaskStateUpdated" using state updated by metis
      then show ?thesis by (rule planned_done [OF _ going laws(2,4) sts(1)])
    qed
    then show ?thesis using nodes(2) done_same by simp
  qed
  have "inOrder L W t0 (t', us')"
    using same nodes(1) well done' fin now(4) unfolding inOrder_def by auto
  moreover have "rank L W t0 (t', us') \<le> rank L W t0 (t, us)"
  proof (cases "State (Status t') = UpdateTaskStateUpdated")
    case True
    then show ?thesis by (simp add: rank_def)
  next
    case False
    then have "UpdateTaskFinalizer \<in> set (Finalizers t) \<longrightarrow> UpdateTaskFinalizer \<in> set (Finalizers t')"
      using fin well by (auto simp: goingWell_def)
    with False ended nodes(3) show ?thesis by (auto simp: rank_def todo_same)
  qed
  ultimately show ?thesis by simp
qed

lemma all_updated_sts:
  assumes "map (GetNodeUpdateTaskStatus L) us = map Inr sts" and "list_all (updatedNode L) us"
  shows "\<forall>st \<in> set sts. nus_State st = UpdateTaskStateUpdated"
  using assms
proof (induction us arbitrary: sts)
  case (Cons u us)
  then show ?case by (cases sts) (auto simp: updatedNode_def)
qed simp

lemma todo_waiting:
  assumes "map (GetNodeUpdateTaskStatus L) us = map Inr sts"
  shows "waitingMachines L W (Name t) (map nus_MachineName sts) = todo L W t us"
proof -
  have "map (machineOf L) us = map Some (map nus_MachineName sts)"
    by (rule reported_machines [of L UNIV]) (use assms in \<open>auto simp: reported_def\<close>)
  from arg_cong [OF this, of set]
  have "Some k \<in> machineOf L ` set us \<longleftrightarrow> k \<in> set (map nus_MachineName sts)" for k by auto
  then show ?thesis by (simp add: waitingMachines_def todo_def conj_commute)
qed

lemma goodRound_step:
  assumes setting: "rolloutSetting L W t0" "controlPlaneSteady L W t0" and inv: "inOrder L W t0 (t, us)"
    and round: "goodRound L W ns n (t, us) (t', us')" and going: "State (Status t) \<noteq> UpdateTaskStateUpdated"
  shows "rank L W t0 (t', us') < rank L W t0 (t, us)"
proof (cases "State (Status t') = UpdateTaskStateUpdated")
  case True
  then show ?thesis using going by (simp add: rank_def)
next
  case going': False
  have laws: "nested_laws L" "collections_laws L" "result_laws L" "finalizer_laws L" "goodWorld L W"
    using setting(1) by (simp_all add: rolloutSetting_def)
  have now: "sameTask L t0 t" "tidy L us" "goingWell (State (Status t))"
    using inv by (auto simp: inOrder_def)
  note same = sameTask_fields(1,7) [OF now(1)] taskAborting_same [OF now(1)] sameTask_kept [OF now(1)]
  have t: "goodTask t" "\<not> taskAborting L t" "TargetPhase (Spec t) = UpdateTaskPhaseUpdate"
      "controlPlaneSteady L W t"
    using setting same by (simp_all add: rolloutSetting_def)
  have todo_same: "todo L W t vs = todo L W t0 vs" for vs using same(1) by (simp add: todo_def)
  obtain sts where sts: "map (GetNodeUpdateTaskStatus L) us = map Inr sts"
      "distinct (map nus_MachineName sts)" using now(2) by (auto simp: tidy_def)
  obtain E cs where E: "serves L E W ns n t us" "cs = snd (Reconcile L E ns n [])"
    and t': "t' = storedTask t cs" and us': "list_all2 (goesOn L) (us @ createdNodes cs) us'"
      "list_all (updatedNode L) us'"
    using round by (auto simp: goodRound_def)
  have fresh: "createdNodes cs = [] \<or> (\<exists>v. createdNodes cs = [v] \<and> freshNode L W t us v)"
    using truthful_pass [OF laws(1,2,4,5) serves_truthful [OF E(1)] sts E(2)] by simp
  note nodes = round_nodes [OF fresh now(2) us'(1)]
  show ?thesis
  proof (cases "UpdateTaskFinalizer \<in> set (Finalizers t)")
    case False
    obtain after where run: "snd (Reconcile L E ns n []) = [] @ [GetUpdateTask ns n, PatchTask t after]"
        "State (Status after) = State (Status t)"
        "UpdateTaskFinalizer \<in> set (Finalizers after) \<longleftrightarrow> \<not> IsTerminated (State (Status after))"
      using Reconcile_guard [OF laws(4) False E(1), of "[]"] by blast
    have "t' = after" unfolding t' E(2) run(1) by (simp add: storedTask_def)
    then have "UpdateTaskFinalizer \<in> set (Finalizers t')"
      using run(2,3) now(3) going by (simp add: goingWell_def)
    with False going going' nodes(3) show ?thesis by (simp add: rank_def todo_same)
  next
    case held: True
    obtain h after ds where run: "snd (Reconcile L E ns n []) = h @ [PatchTask t after]"
        "State (Status after) = plannedState (viewOf L W t sts)" "deeds h = deeds [] @ ds"
        "carriesOut L ds (plannedMove (viewOf L W t sts))"
        "UpdateTaskFinalizer \<in> set (Finalizers after) \<longleftrightarrow> \<not> IsTerminated (State (Status after))"
      using Reconcile_plan [OF laws t(1) held E(1) sts, of "[]"] by blast
    have after: "t' = after" unfolding t' E(2) run(1) by simp
    then have planned: "plannedState (viewOf L W t sts) = UpdateTaskStateInProgress"
      using run(2) going' planned_going [OF t(2), of W sts] by auto
    then have held': "UpdateTaskFinalizer \<in> set (Finalizers t')"
      using run(2,5) after by simp
    show ?thesis
    proof (cases "list_all (updatedNode L) us")
      case False
      then have "createdNodes cs = []" using nodes(4) by blast
      then have "todo L W t us' = todo L W t us" using goesOn_todo us'(1) by simp
      with False us'(2) going going' held held' show ?thesis by (simp add: rank_def todo_same)
    next
      case True
      note updated = all_updated_sts [OF sts(1) True]
      have "todo L W t us \<noteq> []"
        using planned_updated [OF updated t(2), of W] planned todo_waiting [OF sts(1), of W t]
        by (auto split: if_splits)
      then obtain x xs where "waitingMachines L W (Name t) (map nus_MachineName sts) = x # xs"
        using todo_waiting [OF sts(1), of W t] by (cases "todo L W t us") auto
      then have next_machine: "nextMachine (viewOf L W t sts) = Some (Name x)"
        using nextMachine_waiting [of L W t sts] by simp
      have "plannedMove (viewOf L W t sts) = updatePlanned (viewOf L W t sts)"
        using t updated by (subst plannedMove_updating) (auto simp: viewOf_def)
      then have "carriesOut L ds (Update (Name x))"
        using run(4) next_machine by (simp add: updatePlanned_def)
      from createdNodes_carried(3) [OF this] have "createdNodes ds \<noteq> []" by auto
      moreover have "createdNodes cs = createdNodes ds"
        unfolding E(2) run(1) using run(3) createdNodes_deeds [of h] by simp
      ultimately have "length (todo L W t us') < length (todo L W t us)" using nodes(4) by simp
      with us'(2) going going' held held' True show ?thesis by (simp add: rank_def todo_same)
    qed
  qed
qed

section \<open>Whole runs\<close>

lemma rounds_step:
  assumes "rolloutSetting L W t0" and "rounds L W ns n k s s'" and "inOrder L W t0 s"
  shows "inOrder L W t0 s' \<and>
    (controlPlaneSteady L W t0 \<longrightarrow> rank L W t0 s' = 0 \<or> rank L W t0 s' + k \<le> rank L W t0 s)"
  using assms(2,3)
proof (induction rule: rounds.induct)
  case (any k s s' s'')
  then show ?case
    using anyRound_step [OF assms(1), of "fst s'" "snd s'" ns n "fst s''" "snd s''"] by simp linarith
next
  case (good k s s' s'')
  have step: "inOrder L W t0 s'' \<and> rank L W t0 s'' \<le> rank L W t0 s'"
    using anyRound_step [OF assms(1), of "fst s'" "snd s'" ns n "fst s''" "snd s''"]
      goodRound_anyRound good by simp
  moreover have "rank L W t0 s'' < rank L W t0 s'"
    if "controlPlaneSteady L W t0" "rank L W t0 s' \<noteq> 0"
    using goodRound_step [OF assms(1) that(1), of "fst s'" "snd s'" ns n "fst s''" "snd s''"] good that
    by (auto simp: rank_def split: prod.splits if_splits)
  ultimately show ?case using good by fastforce
qed simp

lemma rounds_done:
  assumes "rolloutSetting L W t0" and "controlPlaneSteady L W t0"
    and "\<not> IsTerminated (State (Status t0))" and "rounds L W ns n k (t0, []) (t, us)"
    and "2 * length (waitingMachines L W (Name t0) []) + 2 \<le> k"
  shows "State (Status t) = UpdateTaskStateUpdated \<and>
    (\<forall>x \<in> set (w_machines W). isMachineInUpdateScope x (Name t0) \<longrightarrow>
      (\<exists>u \<in> set us. machineOf L u = Some (Name x) \<and> updatedNode L u))"
proof -
  have start: "inOrder L W t0 (t0, [])"
    using assms(3) by (auto simp: inOrder_def sameTask_def tidy_def goingWell_def)
  have "rank L W t0 (t0, []) \<le> 2 + 2 * length (todo L W t0 [])"
    by (simp add: rank_def)
  moreover have "todo L W t0 [] = waitingMachines L W (Name t0) []"
    by (simp add: todo_def waitingMachines_def)
  ultimately have first: "rank L W t0 (t0, []) \<le> k" using assms(5) by simp
  note run = rounds_step [OF assms(1,4) start]
  have "rank L W t0 (t, us) = 0"
    using run assms(2) first by fastforce
  then have "State (Status t) = UpdateTaskStateUpdated"
    by (simp add: rank_def split: if_splits)
  with run show ?thesis by (simp add: inOrder_def doneFor_def)
qed

text \<open>
  C3. A rollout survives failures. When the control plane is steady, an update task is Updated, with an
  Updated node update for every machine, once twice as many rounds as it has machines plus two went
  well, however many rounds failed, and how, before, between and after them.
\<close>

theorem rollout_survives_failures:
  assumes "rolloutSetting L W t0" and "controlPlaneSteady L W t0"
    and "\<not> IsTerminated (State (Status t0))" and "rounds L W ns n k (t0, []) (t, us)"
    and "2 * length (waitingMachines L W (Name t0) []) + 2 \<le> k"
  shows "State (Status t) = UpdateTaskStateUpdated \<and>
    (\<forall>x \<in> set (w_machines W). isMachineInUpdateScope x (Name t0) \<longrightarrow>
      (\<exists>u \<in> set us. machineOf L u = Some (Name x) \<and> updatedNode L u))"
  by (rule rounds_done [OF assms])

end
