(* ===== verification/Early_Success.thy ===== *)
theory Early_Success
  imports Unreliable_Rounds
begin

text \<open>
  When an update task may be believed. Any calls may fail, node updates may report anything (also end
  Failed or Aborted, become unreadable, vanish, or be replaced), the spec of the task may be edited
  and passes may come in any number and order. Still the task is Updated only when every machine of
  the update has a node update that ended Updated.
\<close>

section \<open>Steps\<close>

text \<open>The one thing expected of the node updates: one that ended Updated is not lost.\<close>

definition keepsUpdated :: "lib \<Rightarrow> Unstructured list \<Rightarrow> Unstructured list \<Rightarrow> bool" where
  "keepsUpdated L us us' \<longleftrightarrow> (\<forall>u \<in> set us. updatedNode L u \<longrightarrow>
     (\<exists>u' \<in> set us'. updatedNode L u' \<and> machineOf L u' = machineOf L u))"

text \<open>An edit of the task by anyone else leaves its identity and its state alone.\<close>

definition editOf :: "UpdateTask \<Rightarrow> UpdateTask \<Rightarrow> bool" where
  "editOf t t' \<longleftrightarrow> Name t' = Name t \<and> State (Status t') = State (Status t)"

text \<open>A pass may lose its patch or the node updates it created.\<close>

inductive wildStep :: "lib \<Rightarrow> World \<Rightarrow> string \<Rightarrow> string \<Rightarrow>
    UpdateTask \<times> Unstructured list \<Rightarrow> UpdateTask \<times> Unstructured list \<Rightarrow> bool"
  for L W ns n where
  pass: "truthful E W ns n t us \<Longrightarrow> cs = snd (Reconcile L E ns n []) \<Longrightarrow>
     t' = t \<or> t' = storedTask t cs \<Longrightarrow> us' = us \<or> us' = us @ createdNodes cs \<Longrightarrow>
     wildStep L W ns n (t, us) (t', us')"
| reports: "keepsUpdated L us us' \<Longrightarrow> wildStep L W ns n (t, us) (t, us')"
| edited: "editOf t t' \<Longrightarrow> wildStep L W ns n (t, us) (t', us)"

section \<open>One pass\<close>

lemma collectStatuses_entry:
  assumes "collectStatuses L us m0 = Inr m" and "m k = Some st"
  shows "m0 k = Some st \<or>
    (\<exists>u \<in> set us. GetNodeUpdateTaskStatus L u = Inr st \<and> nus_MachineName st = k)"
  using assms(1)
proof (induction us arbitrary: m0)
  case Nil
  with assms(2) show ?case by simp
next
  case (Cons u us)
  then obtain st' where st': "GetNodeUpdateTaskStatus L u = Inr st'"
    and rest: "collectStatuses L us (recordStatus L st' m0) = Inr m"
    by (auto split: sum.splits)
  from Cons.IH [OF rest] have "recordStatus L st' m0 k = Some st \<or>
      (\<exists>u \<in> set us. GetNodeUpdateTaskStatus L u = Inr st \<and> nus_MachineName st = k)" .
  moreover have "recordStatus L st' m0 k = Some st \<Longrightarrow> m0 k = Some st \<or> st = st' \<and> nus_MachineName st' = k"
    by (auto simp: recordStatus_at split: if_splits option.splits)
  ultimately show ?case using st' by auto
qed

text \<open>The status phase gives Updated only when every machine in scope has a node update that says so.\<close>

lemma tracked_done:
  assumes laws: "collections_laws L" "goodWorld L W" and m: "collectStatuses L us Map.empty = Inr m"
    and updated: "State (Status (trackTask L (census (Name t) m (orderedMachines L W)) t)) =
      UpdateTaskStateUpdated"
  shows "doneFor L W t us"
  unfolding doneFor_def
proof (intro ballI impI)
  fix x
  assume x: "x \<in> set (w_machines W)" "isMachineInUpdateScope x (Name t)"
  let ?xs = "orderedMachines L W"
  have "\<not> taskAborting L t \<and> n_total (census (Name t) m ?xs) = n_updated (census (Name t) m ?xs)"
    using updated by (auto simp: State_trackTask split: if_splits)
  then have "\<forall>x \<in> set ?xs. tracked (Name t) m x \<longrightarrow> stateOf m x = Some UpdateTaskStateUpdated"
    by (simp add: census_all_updated)
  with x obtain st where st: "m (Name x) = Some st" "nus_State st = UpdateTaskStateUpdated"
    by (auto simp: orderedMachines_set [OF laws] tracked_def stateOf_def)
  from collectStatuses_entry [OF m st(1)]
  obtain u where "u \<in> set us" "GetNodeUpdateTaskStatus L u = Inr st" "nus_MachineName st = Name x"
    by auto
  with st(2) show "\<exists>u \<in> set us. machineOf L u = Some (Name x) \<and> updatedNode L u"
    by (intro bexI [of _ u]) (simp_all add: machineOf_def updatedNode_def)
qed

lemma pass_done:
  assumes laws: "collections_laws L" "goodWorld L W" and E: "truthful E W ns n t us"
    and updated: "State (Status (storedTask t (snd (Reconcile L E ns n [])))) = UpdateTaskStateUpdated"
  shows "State (Status t) = UpdateTaskStateUpdated \<or> doneFor L W t us"
proof (cases "api_GetUpdateTask E [] ns n = Inr t \<and> NewTaskHelper E [GetUpdateTask ns n] t = None")
  case False
  have "storedTask t (snd (Reconcile L E ns n [])) = t"
    using truthful_unfetched [OF E False] by (simp add: storedTask_def)
  with updated show ?thesis by simp
next
  case True
  let ?s = "\<lparr>calls = [] @ [GetUpdateTask ns n], obj = t\<rparr>"
  obtain r s1 where run: "reconcileTask L E ?s = (r, s1)" by fastforce
  have "storedTask t (snd (Reconcile L E ns n [])) = finishTask L (obj s1)"
    using True by (simp add: Reconcile_fetched [OF _ _ run])
  with updated have state: "State (Status (obj s1)) = UpdateTaskStateUpdated" by simp
  show ?thesis
  proof (cases "ContainsFinalizer L (Finalizers t) UpdateTaskFinalizer")
    case False
    with run state show ?thesis by (auto simp: reconcileTask_def prog_simps)
  next
    case True
    with run have "reconcilePhases L E ?s = (r, s1)" by (simp add: reconcileTask_def prog_simps)
    from truthful_tracks [OF this, of W ns n us, unfolded state] E
    have "State (Status t) = UpdateTaskStateUpdated \<or> (\<exists>m. collectStatuses L us Map.empty = Inr m \<and>
        State (Status (trackTask L (census (Name t) m (orderedMachines L W)) t)) = UpdateTaskStateUpdated)"
      by (simp add: eq_commute [of UpdateTaskStateUpdated])
    then show ?thesis using tracked_done [OF laws] by blast
  qed
qed

lemma pass_name:
  assumes "truthful E W ns n t us"
  shows "Name (storedTask t (snd (Reconcile L E ns n []))) = Name t"
proof (cases "api_GetUpdateTask E [] ns n = Inr t \<and> NewTaskHelper E [GetUpdateTask ns n] t = None")
  case False
  with truthful_unfetched [OF assms] show ?thesis by (simp add: storedTask_def)
next
  case True
  then have get: "api_GetUpdateTask E [] ns n = Inr t"
    "NewTaskHelper E ([] @ [GetUpdateTask ns n]) t = None" by simp_all
  show ?thesis
  proof (rule Reconcile_run [OF get, where L = L])
    fix s1 cs
    assume "sameTask L t (obj s1)" and "snd (Reconcile L E ns n []) =
      [] @ GetUpdateTask ns n # cs @ [PatchTask t (finishTask L (obj s1))]"
    then show ?thesis
      using storedTask_snoc [of t "GetUpdateTask ns n # cs"] sameTask_fields(1)
      by (simp add: finishTask_def onConditions_def SetConditions_def)
  qed
qed

section \<open>Whole runs\<close>

lemma keepsUpdated_done:
  "keepsUpdated L us us' \<Longrightarrow> doneFor L W t us \<Longrightarrow> doneFor L W t us'"
  unfolding keepsUpdated_def doneFor_def by metis

lemma doneFor_mono: "doneFor L W t us \<Longrightarrow> set us \<subseteq> set us' \<Longrightarrow> doneFor L W t us'"
  unfolding doneFor_def by blast

lemma wildStep_done:
  assumes laws: "collections_laws L" "goodWorld L W" and step: "wildStep L W ns n s s'"
    and now: "State (Status (fst s)) = UpdateTaskStateUpdated \<longrightarrow> doneFor L W (fst s) (snd s)"
  shows "Name (fst s') = Name (fst s) \<and>
    (State (Status (fst s')) = UpdateTaskStateUpdated \<longrightarrow> doneFor L W (fst s') (snd s'))"
  using step
proof cases
  case (pass E t us cs t' us')
  have name: "Name t' = Name t"
    using pass(5) pass_name [OF pass(3)] pass(3,4) by auto
  have "doneFor L W t us" if "State (Status t') = UpdateTaskStateUpdated"
    using pass_done [OF laws pass(3)] pass(1,4,5) now that by auto
  then have "doneFor L W t us'" if "State (Status t') = UpdateTaskStateUpdated"
    using that pass(6) doneFor_mono [of L W t us us'] by auto
  with name pass(1,2) show ?thesis by (simp add: doneFor_def)
next
  case (reports us us' t)
  with now show ?thesis using keepsUpdated_done by auto
next
  case (edited t t' us)
  with now show ?thesis by (auto simp: editOf_def doneFor_def)
qed

lemma wildSteps_done:
  assumes laws: "collections_laws L" "goodWorld L W"
    and "(wildStep L W ns n)\<^sup>*\<^sup>* s s'"
    and "State (Status (fst s)) = UpdateTaskStateUpdated \<longrightarrow> doneFor L W (fst s) (snd s)"
  shows "Name (fst s') = Name (fst s) \<and>
    (State (Status (fst s')) = UpdateTaskStateUpdated \<longrightarrow> doneFor L W (fst s') (snd s'))"
  using assms(3)
proof (induction rule: rtranclp_induct)
  case base
  with assms(4) show ?case by simp
next
  case (step s1 s2)
  then show ?case using wildStep_done [OF laws step.hyps(2)] by simp
qed

text \<open>
  C5. No early success: from a task that is not Updated, in every run of passes in which any call may
  fail, of reports that may say anything (Failed, Aborted and unreadable ones included) but do not lose
  an Updated one, and of edits of the task, the task is Updated only when every machine of the update
  has a node update that ended Updated.
\<close>

theorem no_early_success:
  assumes "collections_laws L" and "goodWorld L W"
    and "State (Status t0) \<noteq> UpdateTaskStateUpdated"
    and "(wildStep L W ns n)\<^sup>*\<^sup>* (t0, us0) (t, us)" and "State (Status t) = UpdateTaskStateUpdated"
    and "x \<in> set (w_machines W)" and "isMachineInUpdateScope x (Name t0)"
  shows "\<exists>u \<in> set us. machineOf L u = Some (Name x) \<and> updatedNode L u"
  using wildSteps_done [OF assms(1,2,4)] assms(3,5-7) by (auto simp: doneFor_def)

end
