(* ===== verification/Finished_Tasks.thy ===== *)
theory Finished_Tasks
  imports Closed_Loop
begin

text \<open>
  What becomes of an update task that has ended: the controller reconciles it over and over. The
  sequence of passes is \<open>polls\<close>: each one meets the task as the one before has stored it.
\<close>

fun polls :: "lib \<Rightarrow> (nat \<Rightarrow> UpdateTask \<Rightarrow> env) \<Rightarrow> string \<Rightarrow> string \<Rightarrow> UpdateTask \<Rightarrow> nat \<Rightarrow> UpdateTask" where
  "polls L S ns n t 0 = t"
| "polls L S ns n t (Suc k) =
     (let u = polls L S ns n t k in storedTask u (snd (Reconcile L (S k u) ns n [])))"

text \<open>
  Documented behaviour of \<open>controllerutil\<close> and \<open>conditions\<close>: a finalizer is added at the end and
  removed from where it is, and a summary is computed from the conditions it names, so computing
  it again changes nothing.
\<close>

definition polling_laws :: "lib \<Rightarrow> bool" where
  "polling_laws L \<longleftrightarrow>
     (\<forall>fs f. f \<notin> set fs \<longrightarrow> RemoveFinalizer L (AddFinalizer L fs f) f = fs) \<and>
     (\<forall>cs. SetSummary L summaryConditions (SetSummary L summaryConditions cs) =
        SetSummary L summaryConditions cs)"

text \<open>The task with its summary condition up to date.\<close>

definition summarised :: "lib \<Rightarrow> UpdateTask \<Rightarrow> UpdateTask" where
  "summarised L t = onConditions (SetSummary L summaryConditions) t"

lemma summarised_fields [simp]:
  "Finalizers (summarised L t) = Finalizers t"
  "State (Status (summarised L t)) = State (Status t)"
  by (simp_all add: summarised_def onConditions_def SetConditions_def)

lemma summarised_again: "polling_laws L \<Longrightarrow> summarised L (summarised L t) = summarised L t"
  by (simp add: summarised_def polling_laws_def onConditions_def SetConditions_def GetConditions_def)

text \<open>What the deferred call makes of an ended task that has just got its finalizer back.\<close>

lemma finish_added:
  assumes "polling_laws L" and "IsTerminated (State (Status t))"
    and "UpdateTaskFinalizer \<notin> set (Finalizers t)"
  shows "finishTask L (t\<lparr>Finalizers := AddFinalizer L (Finalizers t) UpdateTaskFinalizer\<rparr>) =
    summarised L t"
  using assms by (simp add: finishTask_def summarised_def polling_laws_def)

definition ended_without_finalizer :: "UpdateTask \<Rightarrow> bool" where
  "ended_without_finalizer t \<longleftrightarrow>
     IsTerminated (State (Status t)) \<and> UpdateTaskFinalizer \<notin> set (Finalizers t)"

text \<open>The surroundings answer: pass \<open>k\<close> reads the task as it is stored, and its patch arrives.\<close>

definition answering :: "(nat \<Rightarrow> UpdateTask \<Rightarrow> env) \<Rightarrow> string \<Rightarrow> string \<Rightarrow> bool" where
  "answering S ns n \<longleftrightarrow> (\<forall>k u h. api_GetUpdateTask (S k u) h ns n = Inr u) \<and>
     (\<forall>k u h x. NewTaskHelper (S k u) h x = None) \<and> (\<forall>k u h a b. api_PatchTask (S k u) h a b = None)"

lemma poll:
  assumes "finalizer_laws L" and "result_laws L" and "polling_laws L" and "answering S ns n"
    and "ended_without_finalizer u"
  shows "Reconcile L (S k u) ns n [] =
    (Ret (requeueAfter changedRequeueAfter, None), [GetUpdateTask ns n, PatchTask u (summarised L u)])"
  using Reconcile_unguarded [OF assms(1,2), where E = "S k u" and ?h0.0 = "[]" and ns = ns and n = n
      and task = u, OF _ _ _ finish_added [symmetric, OF assms(3)]] assms(4,5)
  by (simp add: answering_def ended_without_finalizer_def)

lemma polls_Suc:
  assumes "finalizer_laws L" and "result_laws L" and "polling_laws L" and "answering S ns n"
    and "ended_without_finalizer t"
  shows "polls L S ns n t (Suc k) = summarised L t"
proof (induction k)
  case 0
  show ?case using poll [OF assms] by (simp add: storedTask_def)
next
  case (Suc k)
  have "ended_without_finalizer (summarised L t)"
    using assms(5) by (simp add: ended_without_finalizer_def)
  from poll [OF assms(1-4) this] Suc summarised_again [OF assms(3)] show ?case
    by (simp add: Let_def storedTask_def)
qed

text \<open>
  C32. A task in a final state whose finalizer is gone is never left alone and never changes again:
  every pass of an endless sequence adds the finalizer, takes it off again, patches the task and asks to
  be called again in 100 milliseconds. The first patch brings the summary condition up to date; every
  later one patches the task with itself.
\<close>

theorem finished_task_polls:
  assumes "finalizer_laws L" and "result_laws L" and "polling_laws L" and "answering S ns n"
    and "IsTerminated (State (Status t))" and "UpdateTaskFinalizer \<notin> set (Finalizers t)"
  shows "Reconcile L (S 0 t) ns n [] =
      (Ret (requeueAfter changedRequeueAfter, None), [GetUpdateTask ns n, PatchTask t (summarised L t)]) \<and>
    polls L S ns n t (Suc k) = summarised L t \<and>
    Reconcile L (S (Suc k) (polls L S ns n t (Suc k))) ns n [] =
      (Ret (requeueAfter changedRequeueAfter, None),
       [GetUpdateTask ns n, PatchTask (summarised L t) (summarised L t)])"
proof -
  have t: "ended_without_finalizer t" "ended_without_finalizer (summarised L t)"
    using assms(5,6) by (simp_all add: ended_without_finalizer_def)
  show ?thesis
    using poll [OF assms(1-4) t(1)] polls_Suc [OF assms(1-4) t(1)] poll [OF assms(1-4) t(2)]
      summarised_again [OF assms(3)] by (simp del: polls.simps)
qed

end
