(* ===== verification/Call_Order.thy ===== *)
theory Call_Order
  imports Task_Reconcile Lifecycle_Handlers
begin

text \<open>
  The order in which the hook handler and a reconciliation make their calls, in every run: also one
  that is refused, stops at an error or panics. Every call has a stage; the stages of a run go up,
  only the stages of a loop occur more than once, and a reconciliation takes one branch. The order decides what a run that
  stops half way leaves behind: the last theorem shows it for a request without an update policy.
\<close>

section \<open>Traces in stages\<close>

text \<open>Calls of stage \<open>None\<close> are not looked at.\<close>

fun stagesOf :: "(call \<Rightarrow> nat option) \<Rightarrow> history \<Rightarrow> nat list" where
  "stagesOf f [] = []"
| "stagesOf f (c # cs) = (case f c of None \<Rightarrow> stagesOf f cs | Some k \<Rightarrow> k # stagesOf f cs)"

lemma stagesOf_append [simp]: "stagesOf f (cs @ ds) = stagesOf f cs @ stagesOf f ds"
  by (induction cs) (auto split: option.split)

text \<open>The stages go up from \<open>lo\<close> to \<open>hi\<close>; only those that \<open>repeats\<close> allows occur more than once.\<close>

definition inStages :: "(call \<Rightarrow> nat option) \<Rightarrow> (nat \<Rightarrow> bool) \<Rightarrow> nat \<Rightarrow> nat \<Rightarrow> history \<Rightarrow> bool" where
  "inStages f repeats lo hi cs \<longleftrightarrow>
     sorted_wrt (\<lambda>j k. j < k \<or> j = k \<and> repeats k) (stagesOf f cs) \<and>
     list_all (\<lambda>k. lo \<le> k \<and> k \<le> hi) (stagesOf f cs)"

lemma inStages_Nil [simp]: "inStages f repeats lo hi []"
  by (simp add: inStages_def)

lemma inStages_weaken:
  "inStages f repeats lo hi cs \<Longrightarrow> lo' \<le> lo \<Longrightarrow> hi \<le> hi' \<Longrightarrow> inStages f repeats lo' hi' cs"
  by (auto simp: inStages_def list_all_iff)

lemma inStages_append:
  assumes "inStages f repeats lo a cs" and "inStages f repeats b hi ds"
    and "lo \<le> b" and "a < b" and "a \<le> hi"
  shows "inStages f repeats lo hi (cs @ ds)"
  using assms by (fastforce simp: inStages_def sorted_wrt_append list_all_iff)

lemma inStages_each:
  assumes "list_all (\<lambda>c. f c = None \<or> f c = Some k) cs" and "repeats k"
  shows "inStages f repeats k k cs"
  using assms by (induction cs) (auto simp: inStages_def list_all_iff split: option.split)

section \<open>Programs in stages\<close>

definition staged ::
  "(call \<Rightarrow> nat option) \<Rightarrow> (nat \<Rightarrow> bool) \<Rightarrow> nat \<Rightarrow> nat \<Rightarrow> ('o mem, 'r) prog \<Rightarrow> bool" where
  "staged f repeats lo hi m \<longleftrightarrow>
     (\<forall>s. \<exists>cs. calls (snd (m s)) = calls s @ cs \<and> inStages f repeats lo hi cs)"

lemma stagedE:
  assumes "staged f repeats lo hi m" and "m s = (r, s')"
  obtains cs where "calls s' = calls s @ cs" and "inStages f repeats lo hi cs"
  using assms unfolding staged_def by (metis snd_conv)

named_theorems staged_intros \<open>introduction rules for staged that follow the shape of a program\<close>

lemma staged_weaken:
  "staged f repeats lo hi m \<Longrightarrow> lo' \<le> lo \<Longrightarrow> hi \<le> hi' \<Longrightarrow> staged f repeats lo' hi' m"
  unfolding staged_def by (meson inStages_weaken)

lemma staged_silent: "(\<And>s. calls (snd (m s)) = calls s) \<Longrightarrow> staged f repeats lo hi m"
  by (simp add: staged_def)

lemma staged_return [staged_intros]: "staged f repeats lo hi (return x)"
  and staged_panic [staged_intros]: "staged f repeats lo hi (panic e)"
  and staged_gets [staged_intros]: "staged f repeats lo hi (gets g)"
  and staged_consult [staged_intros]: "staged f repeats lo hi (consult h)"
  and staged_change [staged_intros]: "staged f repeats lo hi (change g')"
  by (rule staged_silent, simp add: prog_simps)+

lemma staged_invoke:
  "f c = Some k \<Longrightarrow> staged f repeats k k (invoke c g)"
  by (simp add: staged_def inStages_def prog_simps)

text \<open>Two parts of a program with the stages of the second after those of the first.\<close>

lemma staged_andThen:
  assumes m: "staged f repeats lo a m" and k: "\<And>x. staged f repeats b hi (k x)"
    and "lo \<le> b" and "a < b" and "a \<le> hi"
  shows "staged f repeats lo hi (andThen m k)"
  unfolding staged_def
proof
  fix s
  obtain r s' where r: "m s = (r, s')" by fastforce
  obtain cs where cs: "calls s' = calls s @ cs" "inStages f repeats lo a cs"
    using stagedE [OF m r] .
  show "\<exists>cs. calls (snd (andThen m k s)) = calls s @ cs \<and> inStages f repeats lo hi cs"
  proof (cases r)
    case (Ret x)
    obtain ds where "calls (snd (k x s')) = calls s' @ ds" "inStages f repeats b hi ds"
      using k [of x] unfolding staged_def by blast
    with cs r Ret inStages_append [OF cs(2) _ assms(3-5)] show ?thesis
      by (auto simp: andThen_def)
  next
    case (Panic e)
    with cs r inStages_weaken [OF cs(2) order.refl assms(5)] show ?thesis
      by (auto simp: andThen_def)
  qed
qed

text \<open>A part that makes no calls.\<close>

lemma staged_silently:
  assumes silent: "\<And>s. calls (snd (m s)) = calls s" and k: "\<And>x. staged f repeats lo hi (k x)"
  shows "staged f repeats lo hi (andThen m k)"
  unfolding staged_def
proof
  fix s
  obtain r s' where r: "m s = (r, s')" by fastforce
  with silent [of s] have same: "calls s' = calls s" by simp
  show "\<exists>cs. calls (snd (andThen m k s)) = calls s @ cs \<and> inStages f repeats lo hi cs"
  proof (cases r)
    case (Ret x)
    obtain ds where "calls (snd (k x s')) = calls s' @ ds" "inStages f repeats lo hi ds"
      using k [of x] unfolding staged_def by blast
    with r Ret same show ?thesis by (simp add: andThen_def)
  next
    case (Panic e)
    with r same show ?thesis by (simp add: andThen_def)
  qed
qed

lemma staged_quietly [staged_intros]:
  "(\<And>x. staged f repeats lo hi (j x)) \<Longrightarrow> staged f repeats lo hi (andThen (gets g) j)"
  "(\<And>x. staged f repeats lo hi (k x)) \<Longrightarrow> staged f repeats lo hi (andThen (consult h) k)"
  "(\<And>x. staged f repeats lo hi (l x)) \<Longrightarrow> staged f repeats lo hi (andThen (change g') l)"
  by (rule staged_silently, simp add: prog_simps, assumption)+

text \<open>A call before the rest.\<close>

lemma staged_call:
  assumes "f c = Some k" and "\<And>x. staged f repeats b hi (rest x)"
    and "k < b" and "k \<le> hi"
  shows "staged f repeats k hi (andThen (invoke c g) rest)"
  by (rule staged_andThen [OF staged_invoke assms(2)]) (use assms in auto)

lemma staged_skip_call:
  assumes "f c = None" and "\<And>x. staged f repeats lo hi (k x)"
  shows "staged f repeats lo hi (andThen (invoke c g) k)"
  unfolding staged_def
proof
  fix s
  obtain ds where "calls (snd (k (g (calls s)) (s\<lparr>calls := calls s @ [c]\<rparr>))) = (calls s @ [c]) @ ds"
    and "inStages f repeats lo hi ds"
    using assms(2) unfolding staged_def by (metis mem.simps(1) mem.simps(3) mem.surjective mem.update_convs(1))
  with assms(1) show "\<exists>cs. calls (snd (andThen (invoke c g) k s)) = calls s @ cs \<and>
      inStages f repeats lo hi cs"
    by (intro exI [of _ "c # ds"]) (simp add: prog_simps inStages_def)
qed

lemma staged_last_call:
  "f c = Some k \<Longrightarrow> staged f repeats k k (andThen (invoke c g) (\<lambda>x. return (h x)))"
  by (simp add: staged_def inStages_def prog_simps)

lemma staged_withDefer:
  assumes m: "staged f repeats lo a m" and d: "\<And>r. staged f repeats b hi (d r)"
    and "lo \<le> b" and "a < b" and "a \<le> hi"
  shows "staged f repeats lo hi (withDefer m z d)"
  unfolding staged_def
proof
  fix s
  obtain r s' where r: "m s = (r, s')" by fastforce
  obtain cs where cs: "calls s' = calls s @ cs" "inStages f repeats lo a cs"
    using stagedE [OF m r] .
  let ?d = "d (case r of Ret x \<Rightarrow> x | Panic e \<Rightarrow> z)"
  obtain ds where "calls (snd (?d s')) = calls s' @ ds" "inStages f repeats b hi ds"
    using d unfolding staged_def by blast
  with cs r inStages_append [OF cs(2) _ assms(3-5)]
  show "\<exists>cs. calls (snd (withDefer m z d s)) = calls s @ cs \<and> inStages f repeats lo hi cs"
    by (auto simp: withDefer_def split: outcome.splits prod.splits)
qed

lemma staged_if [staged_intros]:
  "staged f repeats lo hi m \<Longrightarrow> staged f repeats lo hi n \<Longrightarrow>
   staged f repeats lo hi (if b then m else n)"
  by simp

lemma staged_case_option [staged_intros]:
  "staged f repeats lo hi m \<Longrightarrow> (\<And>x. staged f repeats lo hi (k x)) \<Longrightarrow>
   staged f repeats lo hi (case v of None \<Rightarrow> m | Some x \<Rightarrow> k x)"
  by (cases v) simp_all

lemma staged_case_sum [staged_intros]:
  "(\<And>x. staged f repeats lo hi (j x)) \<Longrightarrow> (\<And>x. staged f repeats lo hi (k x)) \<Longrightarrow>
   staged f repeats lo hi (case v of Inl x \<Rightarrow> j x | Inr x \<Rightarrow> k x)"
  by (cases v) simp_all

lemma staged_case_flow [staged_intros]:
  "(\<And>x. staged f repeats lo hi (j x)) \<Longrightarrow> (\<And>x. staged f repeats lo hi (k x)) \<Longrightarrow>
   staged f repeats lo hi (case v of Continue x \<Rightarrow> j x | Break x \<Rightarrow> k x)"
  by (cases v) simp_all

lemma staged_case_prod [staged_intros]:
  "(\<And>x y. staged f repeats lo hi (k x y)) \<Longrightarrow>
   staged f repeats lo hi (case v of (x, y) \<Rightarrow> k x y)"
  by (cases v) simp

lemma staged_case_list [staged_intros]:
  "staged f repeats lo hi m \<Longrightarrow> (\<And>x xs. staged f repeats lo hi (k x xs)) \<Longrightarrow>
   staged f repeats lo hi (case v of [] \<Rightarrow> m | x # xs \<Rightarrow> k x xs)"
  by (cases v) simp_all

text \<open>A loop: one stage over and over.\<close>

lemma staged_emits:
  assumes "emits P m" and "\<And>c. P c \<Longrightarrow> f c = None \<or> f c = Some k" and "repeats k"
  shows "staged f repeats k k m"
  unfolding staged_def
proof
  fix s
  obtain cs where "calls (snd (m s)) = calls s @ cs" "list_all P cs"
    using emitsD [OF assms(1)] by blast
  moreover have "list_all (\<lambda>c. f c = None \<or> f c = Some k) cs"
    using \<open>list_all P cs\<close> assms(2) by (auto simp: list_all_iff)
  ultimately show "\<exists>cs. calls (snd (m s)) = calls s @ cs \<and> inStages f repeats k k cs"
    using inStages_each [of f k cs repeats] assms(3) by auto
qed

section \<open>The hook handler\<close>

fun hookStage :: "call \<Rightarrow> nat option" where
  "hookStage (GetCluster _ _) = Some 0"
| "hookStage (ListUpdateTasks _ _) = Some 1"
| "hookStage (MergePatchTask _ _) = Some 2"
| "hookStage (ListMachines _ _) = Some 3"
| "hookStage (PatchMachine _ _) = Some 4"
| "hookStage (ListUpdatePolicies _) = Some 5"
| "hookStage (CreateTask _) = Some 6"
| "hookStage _ = Some 7"

text \<open>Aborts and claims are made once for every task and machine.\<close>

definition hookLoops :: "nat \<Rightarrow> bool" where
  "hookLoops k \<longleftrightarrow> k = 2 \<or> k = 4"

lemma emits_abortLoop: "emits (\<lambda>c. hookStage c = Some 2) (foreach (abortExisting L E cn pn) ts ())"
  by (intro emits_foreach) (auto simp: abortExisting_def intro!: emits_intros)

lemma emits_claimLoop: "emits (\<lambda>c. hookStage c = Some 4) (foreach (claimStep L E n) ms ())"
  by (intro emits_foreach) (auto simp: claimStep_def Let_def intro!: emits_intros)

lemma staged_abortTasks: "staged hookStage hookLoops 1 2 (abortTasks L E c p)"
  unfolding abortTasks_def Let_def
  by (intro staged_call [where b = 2] staged_intros staged_emits [OF emits_abortLoop])
    (simp_all add: hookLoops_def)

lemma staged_claimMachines: "staged hookStage hookLoops 3 4 (claimMachines L E c n)"
  unfolding claimMachines_def Let_def
  by (intro staged_call [where b = 4] staged_intros staged_emits [OF emits_claimLoop])
    (simp_all add: hookLoops_def)

lemma staged_createUpdateTask: "staged hookStage hookLoops 5 6 (createUpdateTask L E c p nm n)"
  unfolding createUpdateTask_def Let_def
  by (intro staged_last_call staged_call [where b = 6] staged_intros) simp_all

lemma staged_hook: "staged hookStage hookLoops 0 6 (doControlPlaneExternalUpdateImpl L E request)"
  unfolding doControlPlaneExternalUpdateImpl_def
  by (intro staged_call [where b = 1] staged_intros staged_andThen [OF staged_abortTasks, where b = 3]
      staged_andThen [OF staged_claimMachines, where b = 5] staged_createUpdateTask) simp_all

section \<open>A reconciliation\<close>

text \<open>The control plane's machines are listed twice, by the scope and by the preflight check.\<close>

fun passStage :: "call \<Rightarrow> nat option" where
  "passStage (GetUpdateTask _ _) = Some 0"
| "passStage (GetCluster _ _) = Some 1"
| "passStage (ListMachines _ _) = None"
| "passStage (ListUnstructured _ _ _ _) = Some 2"
| "passStage (PatchMachine _ _) = Some 3"
| "passStage (MergePatchNode _ _) = Some 4"
| "passStage (GetKubeadmControlPlane _ _) = Some 5"
| "passStage (GetExternal _ _) = Some 6"
| "passStage (CreateNode _) = Some 7"
| "passStage (PatchTask _ _) = Some 8"
| "passStage _ = Some 9"

text \<open>Conditions are set once for every machine, aborts asked for once for every node update.\<close>

definition passLoops :: "nat \<Rightarrow> bool" where
  "passLoops k \<longleftrightarrow> k = 3 \<or> k = 4"

lemma staged_NewScope: "staged passStage passLoops 1 2 (NewScope L E)"
  unfolding NewScope_def Let_def
  by (intro staged_intros staged_call [where k = 1 and b = 2] staged_call [where k = 2 and b = 3]
      staged_skip_call) simp_all

lemma staged_reconcileStatus: "staged passStage passLoops 3 3 (reconcileStatus L E scope)"
  by (rule staged_emits [OF status_marks.emits_kind])
    (auto simp: passLoops_def elim: is_patch_machine.elims)

lemma staged_reconcileAbort: "staged passStage passLoops 4 4 (reconcileAbort L E scope)"
  by (rule staged_emits [OF abort_phase.emits_kind])
    (auto simp: passLoops_def elim: is_abort_node.elims)

lemma staged_CreateNodeUpdateTask: "staged passStage passLoops 6 7 (CreateNodeUpdateTask L E x)"
  unfolding CreateNodeUpdateTask_def
  by (intro staged_intros staged_call [where b = 7] staged_last_call) simp_all

lemma staged_createForMachine: "staged passStage passLoops 6 7 (createForMachine L E x)"
  unfolding createForMachine_def
  by (intro staged_intros staged_andThen [OF staged_CreateNodeUpdateTask, where b = 8]) simp_all

lemma staged_updateLoop:
  "staged passStage passLoops 6 7 (foreach (updateMachine L E m) xs ())"
proof -
  have "\<exists>cs. calls (snd (createForMachine L E x s)) = calls s @ cs \<and> inStages passStage passLoops 6 7 cs"
    for x s
    using staged_createForMachine unfolding staged_def by blast
  then show ?thesis
    by (simp add: staged_def updateLoop_picks split: option.split)
qed

lemma scan_silent: "calls (snd (foreach (scanNode L) us m s)) = calls s"
proof -
  have "emits (\<lambda>_. False) (foreach (scanNode L) us m)"
    by (intro emits_foreach) (auto simp: scanNode_def Let_def intro!: emits_intros)
  then show ?thesis by (auto simp: emits_def list_all_iff dest: spec [of _ s])
qed

lemma staged_preflight: "staged passStage passLoops 5 5 (PreflightCheckForKubeadmControlPlane L E ns ref)"
  unfolding PreflightCheckForKubeadmControlPlane_def preflightChecks_def Let_def
  by (intro staged_intros staged_skip_call staged_call [where k = 5 and b = 6]) simp_all

lemma staged_controlPlanePreflight: "staged passStage passLoops 5 5 (controlPlanePreflight L E)"
  unfolding controlPlanePreflight_def
  by (intro staged_intros staged_andThen [OF staged_preflight, where b = 6]) simp_all

lemma staged_reconcileNormal: "staged passStage passLoops 5 7 (reconcileNormal L E scope)"
  unfolding reconcileNormal_def
  by (intro staged_silently [OF scan_silent] staged_intros
      staged_andThen [OF staged_controlPlanePreflight, where b = 6]
      staged_andThen [OF staged_updateLoop, where b = 8]) simp_all

lemma staged_reconcilePhases: "staged passStage passLoops 1 7 (reconcilePhases L E)"
  unfolding reconcilePhases_def
  by (intro staged_intros staged_andThen [OF staged_NewScope, where b = 3]
      staged_andThen [OF staged_reconcileStatus, where b = 4]
      staged_andThen [OF staged_weaken [OF staged_reconcileAbort, of 4 7], where b = 8]
      staged_andThen [OF staged_weaken [OF staged_reconcileNormal, of 4 7], where b = 8]) simp_all

lemma staged_reconcileTask: "staged passStage passLoops 1 7 (reconcileTask L E)"
  unfolding reconcileTask_def by (intro staged_intros staged_reconcilePhases)

lemma staged_deferredPatch: "staged passStage passLoops 8 8 (deferredPatch L E before r)"
  unfolding deferredPatch_def by (intro staged_intros staged_call [where k = 8 and b = 9]) simp_all

lemma staged_pass: "staged passStage passLoops 1 8
    (withDefer (reconcileTask L E) (zeroResult, None) (deferredPatch L E task))"
  by (intro staged_withDefer [OF staged_reconcileTask, where b = 8] staged_deferredPatch) simp_all

text \<open>
  Which stages a pass may reach, by the task it has read: none after a failed read; aborts only when
  the task is aborting; the check of the control plane and a creation only in phase Update.
\<close>

definition passKinds :: "lib \<Rightarrow> goerr + UpdateTask \<Rightarrow> nat set" where
  "passKinds L r = (case r of
     Inl _ \<Rightarrow> {0}
   | Inr task \<Rightarrow>
       if taskAborting L task then {0, 1, 2, 3, 4, 8}
       else if TargetPhase (Spec task) = UpdateTaskPhaseUpdate then {0, 1, 2, 3, 5, 6, 7, 8}
       else {0, 1, 2, 3, 8})"

definition ofKinds :: "nat set \<Rightarrow> call \<Rightarrow> bool" where
  "ofKinds A c \<longleftrightarrow> (case passStage c of None \<Rightarrow> True | Some k \<Rightarrow> k \<in> A)"

lemma ofKinds_stages: "list_all (ofKinds A) cs \<longleftrightarrow> set (stagesOf passStage cs) \<subseteq> A"
  by (induction cs) (auto simp: ofKinds_def split: option.split)

lemma kinds_NewScope: "emits (ofKinds {1, 2}) (NewScope L E)"
  unfolding NewScope_def Let_def by (intro emits_intros) (simp_all add: ofKinds_def)

lemma kinds_status: "emits (ofKinds {3}) (reconcileStatus L E scope)"
  by (rule status_marks.emits_weaker) (auto simp: ofKinds_def elim: is_patch_machine.elims)

lemma kinds_abort: "emits (ofKinds {4}) (reconcileAbort L E scope)"
  by (rule abort_phase.emits_weaker) (auto simp: ofKinds_def elim: is_abort_node.elims)

lemma kinds_create: "emits (ofKinds {5, 6, 7}) (CreateNodeUpdateTask L E x)"
  by (rule create_call.emits_weaker) (auto simp: ofKinds_def elim: is_node_creation.elims)

lemma kinds_preflight: "emits (ofKinds {5, 6, 7}) (PreflightCheckForKubeadmControlPlane L E ns ref)"
  unfolding PreflightCheckForKubeadmControlPlane_def preflightChecks_def Let_def
  by (intro emits_intros) (simp_all add: ofKinds_def)

lemma kinds_normal: "emits (ofKinds {5, 6, 7}) (reconcileNormal L E scope)"
  unfolding reconcileNormal_def scanNode_def controlPlanePreflight_def updateMachine_def
    createForMachine_def Let_def
  by (intro emits_intros kinds_preflight kinds_create)

lemma kinds_deferredPatch: "emits (ofKinds {8}) (deferredPatch L E before r)"
  unfolding deferredPatch_def by (intro emits_intros) (simp_all add: ofKinds_def)

lemma ofKinds_mono: "list_all (ofKinds A) cs \<Longrightarrow> A \<subseteq> B \<Longrightarrow> list_all (ofKinds B) cs"
  by (auto simp: ofKinds_stages)

text \<open>The branch is taken on the task as it was read: the status phase leaves its phase alone.\<close>

lemma kinds_grow:
  assumes "emits (ofKinds A) m" and "m s = (r, s')" and "A \<subseteq> B"
    and "\<exists>cs. calls s = h @ cs \<and> list_all (ofKinds B) cs"
  shows "\<exists>cs. calls s' = h @ cs \<and> list_all (ofKinds B) cs"
proof -
  obtain ds where ds: "calls s' = calls s @ ds" "list_all (ofKinds A) ds"
    using emitsE [OF assms(1,2)] .
  from assms(4) obtain cs where "calls s = h @ cs" "list_all (ofKinds B) cs" by blast
  with ds ofKinds_mono [OF ds(2) assms(3)] show ?thesis by (intro exI [of _ "cs @ ds"]) simp
qed

lemma kinds_phases:
  assumes run: "reconcilePhases L E s = (r, s')"
  shows "\<exists>cs. calls s' = calls s @ cs \<and> list_all (ofKinds (passKinds L (Inr (obj s)))) cs"
    (is "?ok s'")
proof -
  have k1: "?ok s1" if "NewScope L E s = (r1, s1)" for r1 s1
    by (rule kinds_grow [OF kinds_NewScope that]) (simp_all add: passKinds_def)
  have k2: "?ok s2" if "NewScope L E s = (r1, s1)" "reconcileStatus L E scope s1 = (r2, s2)"
    for r1 s1 scope r2 s2
    by (rule kinds_grow [OF kinds_status that(2) _ k1 [OF that(1)]]) (simp add: passKinds_def)
  from run show ?thesis
  proof (cases rule: phases_split)
    case (abort scope s1 r2 s2 r3)
    then show ?thesis
      by (intro kinds_grow [OF kinds_abort abort(5) _ k2 [OF abort(1,2)]]) (simp add: passKinds_def)
  next
    case (normal scope s1 r2 s2 r3)
    then show ?thesis
      by (intro kinds_grow [OF kinds_normal normal(6) _ k2 [OF normal(1,2)]]) (simp add: passKinds_def)
  qed (use k1 k2 in blast)+
qed

lemma kinds_pass:
  "\<exists>cs. calls (snd (withDefer (reconcileTask L E) (zeroResult, None)
      (deferredPatch L E task) \<lparr>calls = h, obj = task\<rparr>)) = h @ cs \<and>
    list_all (ofKinds (passKinds L (Inr task))) cs"
proof -
  let ?A = "passKinds L (Inr task)" and ?s = "\<lparr>calls = h, obj = task\<rparr>"
  obtain r s1 where run: "reconcileTask L E ?s = (r, s1)" by fastforce
  have body: "\<exists>cs. calls s1 = h @ cs \<and> list_all (ofKinds ?A) cs"
  proof (cases "ContainsFinalizer L (Finalizers task) UpdateTaskFinalizer")
    case True
    with run have "reconcilePhases L E ?s = (r, s1)" by (simp add: reconcileTask_def prog_simps)
    from kinds_phases [OF this] show ?thesis by simp
  next
    case False
    with run show ?thesis by (auto simp: reconcileTask_def prog_simps)
  qed
  obtain r2 s2 where deferred: "deferredPatch L E task
      (case r of Ret x \<Rightarrow> x | Panic e \<Rightarrow> (zeroResult, None)) s1 = (r2, s2)" by fastforce
  have "\<exists>cs. calls s2 = h @ cs \<and> list_all (ofKinds ?A) cs"
    by (rule kinds_grow [OF kinds_deferredPatch deferred _ body]) (simp add: passKinds_def)
  moreover have "calls (snd (withDefer (reconcileTask L E) (zeroResult, None)
      (deferredPatch L E task) ?s)) = calls s2"
    using run deferred by (cases r) (auto simp: withDefer_def split: prod.splits outcome.splits)
  ultimately show ?thesis by simp
qed

section \<open>Properties\<close>

text \<open>
  C12. The order of the hook handler's calls, in every run, also one that is refused or panics: the
  cluster is read, then the update tasks, then running ones are told to abort, then the machines are
  listed, then claimed, then the policies are listed and last a task is created. Outside the two
  loops no call is made twice, and no other call is made.
\<close>

theorem hook_order:
  "\<exists>cs. calls (snd (DoControlPlaneExternalUpdate L E request response s)) = calls s @ cs \<and>
     inStages hookStage hookLoops 0 6 cs"
proof -
  have "staged hookStage hookLoops 0 6 (DoControlPlaneExternalUpdate L E request response)"
    unfolding DoControlPlaneExternalUpdate_def
    by (intro staged_andThen [OF staged_hook, where b = 7] staged_intros) simp_all
  then show ?thesis unfolding staged_def by blast
qed

text \<open>
  C11. The order of a reconciliation's calls, in every run, also one that fails or panics: the task, the
  cluster and the node updates are read, then the machines' conditions are patched, then comes one of
  two branches, and last the task is patched. A task that is aborting only has its node updates
  aborted, a task in phase Update only has the control plane checked, a template read and a node
  update created, any other task neither. Outside the two loops no call is made twice, and no other
  call is made but lists of machines.
\<close>

theorem pass_order:
  "\<exists>cs. snd (Reconcile L E namespace name h) = h @ cs \<and> inStages passStage passLoops 0 8 cs \<and>
     set (stagesOf passStage cs) \<subseteq> passKinds L (api_GetUpdateTask E h namespace name)"
proof (cases "api_GetUpdateTask E h namespace name")
  case (Inl err)
  then show ?thesis by (simp add: Reconcile_def passKinds_def inStages_def)
next
  case (Inr task)
  let ?h = "h @ [GetUpdateTask namespace name]"
  let ?run = "withDefer (reconcileTask L E) (zeroResult, None) (deferredPatch L E task)
    \<lparr>calls = ?h, obj = task\<rparr>"
  have get: "inStages passStage passLoops 0 0 [GetUpdateTask namespace name]"
    by (simp add: inStages_def)
  show ?thesis
  proof (cases "NewTaskHelper E ?h task")
    case (Some err)
    with Inr show ?thesis by (simp add: Reconcile_def passKinds_def inStages_def)
  next
    case None
    with Inr have trace: "snd (Reconcile L E namespace name h) = calls (snd ?run)"
      by (simp add: Reconcile_def split: prod.split)
    obtain cs where cs: "calls (snd ?run) = ?h @ cs" "list_all (ofKinds (passKinds L (Inr task))) cs"
      using kinds_pass by blast
    have "inStages passStage passLoops 1 8 cs"
      using staged_pass [unfolded staged_def, rule_format, of L E task "\<lparr>calls = ?h, obj = task\<rparr>"] cs(1)
      by auto
    from inStages_append [OF get this]
    have "inStages passStage passLoops 0 8 (GetUpdateTask namespace name # cs)" by simp
    moreover have "0 \<in> passKinds L (Inr task)" by (simp add: passKinds_def)
    ultimately show ?thesis
      using trace cs Inr by (intro exI [of _ "GetUpdateTask namespace name # cs"]) (simp add: ofKinds_stages)
  qed
qed

text \<open>
  C35. A request without an update policy is refused only after the damage is done: although every
  call is answered, the running update tasks of the control plane have been told to abort and every
  control plane machine has been claimed for a task that is not created.
\<close>

theorem rejected_request_strands_machines:
  assumes "cp_ClusterRef request = Some c" and "cp_ControlPlaneRef request = Some p"
    and "\<forall>h. api_GetCluster E h (ref_Namespace c) (ref_Name c) = Inr cluster" and "DeletionTimestamp cluster = None"
    and "\<forall>h ns ls. api_ListUpdateTasks E h ns ls = Inr ts"
    and "\<forall>t \<in> set ts. ClusterRef (Spec t) \<noteq> None \<and> ControlPlaneRef (Spec t) \<noteq> None"
    and "\<forall>h ns ls. api_ListMachines E h ns ls = Inr ms" and "\<forall>m \<in> set ms. Annotations m \<noteq> None"
    and "\<forall>h t p. api_MergePatchTask E h t p = None" and "\<forall>h m. NewMachineHelper E h m = None"
    and "\<forall>h m m'. api_PatchMachine E h m m' = None" and "\<forall>h ns. api_ListUpdatePolicies E h ns = Inr []"
  shows "\<exists>n. DoControlPlaneExternalUpdate L E request response s =
    (Ret (response\<lparr>resp_Status := ResponseStatusFailure,
        resp_Message := ErrorText L (errors_New L ''no policy found'')\<rparr>),
     s\<lparr>calls := calls s @
       [GetCluster (ref_Namespace c) (ref_Name c),
        ListUpdateTasks (ref_Namespace c) [(ClusterNameLabel L, ref_Name c)]] @
       map (\<lambda>t. MergePatchTask t abortTaskPatch) (filter (toAbort (ref_Name c) (ref_Name p)) ts) @
       [ListMachines (ref_Namespace c) [(ClusterNameLabel L, ref_Name c), (MachineControlPlaneLabel L, '''')]] @
       map (claimCall L n) ms @
       [ListUpdatePolicies (ref_Namespace c)]\<rparr>)"
  using assms
  by (simp add: DoControlPlaneExternalUpdate_def doControlPlaneExternalUpdateImpl_def abortTasks_def
      claimMachines_def createUpdateTask_def abortLoop_runs claimLoop_runs prog_simps Let_def del: foreach.simps)
    (rule exI, rule refl)

end
