(* ===== verification/Failure_Scenarios.thy ===== *)
theory Failure_Scenarios
  imports Early_Success Finished_Tasks Call_Order Closed_Loop_Scenarios
begin

text \<open>
  A run on the cluster of \<^theory_text>\<open>Scenarios\<close>: a first round whose patch is lost, then good rounds;
  an ended task; and a request to the hook on a cluster without an update policy.
\<close>

definition newcomer :: UpdateTask where
  "newcomer = aTask [] UpdateTaskPhaseUpdate UpdateTaskStateUnknown"

lemma newcomer_setting:
  "rolloutSetting refLib aWorld newcomer" "controlPlaneSteady refLib aWorld newcomer"
  "\<not> IsTerminated (State (Status newcomer))"
proof -
  have "\<not> taskAborting refLib newcomer" "TargetPhase (Spec newcomer) = UpdateTaskPhaseUpdate"
    by (simp_all add: newcomer_def taskAborting_def object_defs refLib_def)
  then show "rolloutSetting refLib aWorld newcomer" "controlPlaneSteady refLib aWorld newcomer"
    by (simp_all add: rolloutSetting_def newcomer_def refLib_nested refLib_collections refLib_result
        refLib_finalizer aWorld_good aTask_good aTask_steady)
  show "\<not> IsTerminated (State (Status newcomer))" by (simp add: newcomer_def aTask_def)
qed

lemma newcomer_start: "inOrder refLib aWorld newcomer (newcomer, [])"
  using newcomer_setting(3) by (auto simp: inOrder_def sameTask_def tidy_def goingWell_def)

lemma finishNode_goesOn:
  assumes "machineOf refLib u \<noteq> None"
  shows "goesOn refLib u (finishNode UpdateTaskStateUpdated u)"
    and "updatedNode refLib (finishNode UpdateTaskStateUpdated u)"
proof -
  obtain st where st: "GetNodeUpdateTaskStatus refLib u = Inr st"
    using machineOf_readable [THEN iffD1, OF assms] by blast
  then obtain st' where "GetNodeUpdateTaskStatus refLib (finishNode UpdateTaskStateUpdated u) = Inr st'"
      "nus_MachineName st' = nus_MachineName st" "nus_State st' = UpdateTaskStateUpdated"
    using finishNode_ends [of UpdateTaskStateUpdated "{UpdateTaskStateUpdated}"] by (auto simp: endsIn_def)
  with st show "goesOn refLib u (finishNode UpdateTaskStateUpdated u)"
    and "updatedNode refLib (finishNode UpdateTaskStateUpdated u)"
    by (simp_all add: goesOn_def machineOf_def updatedNode_def goingWell_def)
qed

lemma finishNodes_goOn:
  "\<forall>u \<in> set us. machineOf refLib u \<noteq> None \<Longrightarrow>
     list_all2 (goesOn refLib) us (map (finishNode UpdateTaskStateUpdated) us) \<and>
     list_all (updatedNode refLib) (map (finishNode UpdateTaskStateUpdated) us)"
  by (induction us) (auto simp: finishNode_goesOn)

text \<open>The server of \<^theory_text>\<open>Scenarios\<close> gives a good round from wherever the run is.\<close>

lemma calm_round:
  assumes "inOrder refLib aWorld newcomer (t, us)"
  shows "\<exists>s'. goodRound refLib aWorld ''ns'' ''up'' (t, us) s'"
proof -
  let ?f = "finishNode UpdateTaskStateUpdated"
  let ?cs = "snd (Reconcile refLib (calm t us) ''ns'' ''up'' [])"
  obtain sts where sts: "map (GetNodeUpdateTaskStatus refLib) us = map Inr sts"
      "distinct (map nus_MachineName sts)" and tidy: "tidy refLib us"
    using assms by (auto simp: inOrder_def tidy_def)
  have "createdNodes ?cs = [] \<or> (\<exists>v. createdNodes ?cs = [v] \<and> freshNode refLib aWorld t us v)"
    using truthful_pass [OF refLib_nested refLib_collections refLib_finalizer aWorld_good
        serves_truthful [OF calm_serves] sts refl] by simp
  then have "\<forall>u \<in> set (us @ createdNodes ?cs). machineOf refLib u \<noteq> None"
    using tidy unfolding tidy_iff freshNode_def by (force simp del: not_None_eq)
  then have "list_all2 (goesOn refLib) (us @ createdNodes ?cs) (map ?f (us @ createdNodes ?cs))"
    "list_all (updatedNode refLib) (map ?f (us @ createdNodes ?cs))"
    using finishNodes_goOn by blast+
  then show ?thesis
    unfolding goodRound_def using calm_serves [of t us]
    by (intro exI [of _ "(storedTask t ?cs, map ?f (us @ createdNodes ?cs))"] exI [of _ "calm t us"]
        exI [of _ ?cs]) simp
qed

lemma calm_rounds: "\<exists>t us. rounds refLib aWorld ''ns'' ''up'' k (newcomer, []) (t, us)"
proof (induction k)
  case 0
  have "anyRound refLib aWorld ''ns'' ''up'' (newcomer, []) (newcomer, [])"
    unfolding anyRound_def
    using serves_truthful [OF calm_serves [of newcomer "[]"]] by (intro exI [of _ "calm newcomer []"]) simp
  then show ?case using rounds.any [OF rounds.start] by blast
next
  case (Suc k)
  then obtain t us where run: "rounds refLib aWorld ''ns'' ''up'' k (newcomer, []) (t, us)" by blast
  have "inOrder refLib aWorld newcomer (t, us)"
    using rounds_step [OF newcomer_setting(1) run newcomer_start] by simp
  from calm_round [OF this] rounds.good [OF run] show ?case by (metis prod.collapse)
qed

lemma newcomer_waiting: "2 * length (waitingMachines refLib aWorld (Name newcomer) []) + 2 \<le> 6"
  by (simp add: newcomer_def aTask_def aWorld_waiting)

lemma newcomer_machines:
  "m2 \<in> set (w_machines aWorld)" "isMachineInUpdateScope m2 (Name newcomer)" "Name m2 = ''m2''"
  by (simp_all add: aWorld_def newcomer_def isMachineInUpdateScope_def object_defs)

theorem rollout_survives_failures_witness:
  "\<exists>t us. rounds refLib aWorld ''ns'' ''up'' 6 (newcomer, []) (t, us) \<and>
    State (Status t) = UpdateTaskStateUpdated \<and>
    (\<exists>u \<in> set us. machineOf refLib u = Some ''m2'' \<and> updatedNode refLib u)"
proof -
  obtain t us where run: "rounds refLib aWorld ''ns'' ''up'' 6 (newcomer, []) (t, us)"
    using calm_rounds by blast
  from rollout_survives_failures [OF newcomer_setting run newcomer_waiting] newcomer_machines run
  show ?thesis by metis
qed

text \<open>Such a run is also one of the wilder kind, and node updates that failed before may be in it.\<close>

lemma goesOn_keepsUpdated: "list_all2 (goesOn L) us us' \<Longrightarrow> keepsUpdated L us us'"
proof (induction rule: list_all2_induct)
  case (Cons u us u' us')
  then show ?case unfolding keepsUpdated_def goesOn_def by (metis list.set_intros set_ConsD)
qed (simp add: keepsUpdated_def)

lemma anyRound_wild:
  assumes "anyRound L W ns n s s'"
  shows "(wildStep L W ns n)\<^sup>*\<^sup>* s s'"
proof -
  obtain E cs where E: "truthful E W ns n (fst s) (snd s)" and cs: "cs = snd (Reconcile L E ns n [])"
    and t': "fst s' = fst s \<or> fst s' = storedTask (fst s) cs"
    and us': "list_all2 (goesOn L) (snd s) (snd s') \<or>
      list_all2 (goesOn L) (snd s @ createdNodes cs) (snd s')"
    using assms unfolding anyRound_def by auto
  then obtain us where us: "us = snd s \<or> us = snd s @ createdNodes cs"
    and on: "list_all2 (goesOn L) us (snd s')" by blast
  have "wildStep L W ns n (fst s, snd s) (fst s', us)"
    by (rule wildStep.pass [OF E cs t' us])
  moreover have "wildStep L W ns n (fst s', us) (fst s', snd s')"
    by (rule wildStep.reports [OF goesOn_keepsUpdated [OF on]])
  ultimately show ?thesis by simp
qed

lemma rounds_wild: "rounds L W ns n k s s' \<Longrightarrow> (wildStep L W ns n)\<^sup>*\<^sup>* s s'"
proof (induction rule: rounds.induct)
  case (any k s s' s'')
  from rtranclp_trans [OF any.IH anyRound_wild [OF any.hyps(2)]] show ?case .
next
  case (good k s s' s'')
  from rtranclp_trans [OF good.IH anyRound_wild [OF goodRound_anyRound [OF good.hyps(2)]]] show ?case .
qed simp

text \<open>The run starts with a node update that failed and is deleted then.\<close>

theorem no_early_success_witness:
  "\<exists>t us. (wildStep refLib aWorld ''ns'' ''up'')\<^sup>*\<^sup>*
       (newcomer, [aNode ''m1'' 1 UpdateTaskStateFailed]) (t, us) \<and>
    State (Status t) = UpdateTaskStateUpdated \<and>
    (\<exists>u \<in> set us. machineOf refLib u = Some ''m2'' \<and> updatedNode refLib u)"
proof -
  obtain t us where run: "rounds refLib aWorld ''ns'' ''up'' 6 (newcomer, []) (t, us)"
    using calm_rounds by blast
  have updated: "State (Status t) = UpdateTaskStateUpdated"
    using rounds_done [OF newcomer_setting run newcomer_waiting] by simp
  let ?u = "aNode ''m1'' 1 UpdateTaskStateFailed"
  have "\<not> updatedNode refLib ?u"
    by (simp add: updatedNode_def aStatus_def)
  then have "wildStep refLib aWorld ''ns'' ''up'' (newcomer, [?u]) (newcomer, [])"
    by (intro wildStep.reports) (simp add: keepsUpdated_def)
  with rounds_wild [OF run]
  have wild: "(wildStep refLib aWorld ''ns'' ''up'')\<^sup>*\<^sup>* (newcomer, [?u]) (t, us)"
    by (rule converse_rtranclp_into_rtranclp [rotated])
  have "State (Status newcomer) \<noteq> UpdateTaskStateUpdated" by (simp add: newcomer_def aTask_def)
  from no_early_success [OF refLib_collections aWorld_good this wild updated newcomer_machines(1,2)]
    wild updated show ?thesis unfolding newcomer_machines(3) by blast
qed

section \<open>An ended task\<close>

lemma putCondition_again [simp]: "putCondition c (putCondition c cs) = putCondition c cs"
  by (induction cs) simp_all

lemma putCondition_others:
  "cond_Type c \<notin> set ts \<Longrightarrow>
   list_all (\<lambda>c. cond_Type c \<in> set ts \<longrightarrow> cond_Status c = ConditionTrue) (putCondition c cs) \<longleftrightarrow>
   list_all (\<lambda>c. cond_Type c \<in> set ts \<longrightarrow> cond_Status c = ConditionTrue) cs"
  by (induction cs) auto

lemma refLib_polling: "polling_laws refLib"
proof -
  have ready: "''Ready'' \<notin> set summaryConditions"
    by (simp add: summaryConditions_def UpdateOperationCondition_def AbortOperationCondition_def
        TrackOperationCondition_def)
  let ?good = "list_all (\<lambda>c. cond_Type c \<in> set summaryConditions \<longrightarrow> cond_Status c = ConditionTrue)"
  let ?T = "trueCondition ''Ready''" and ?F = "falseCondition ''Ready'' '''' ConditionSeverityInfo ''''"
  have types: "cond_Type ?T \<notin> set summaryConditions" "cond_Type ?F \<notin> set summaryConditions"
    using ready by (simp_all add: trueCondition_def falseCondition_def)
  have summary: "SetSummary refLib summaryConditions cs =
      (if ?good cs then putCondition ?T cs else putCondition ?F cs)" for cs
    by (simp add: refLib_def)
  have "SetSummary refLib summaryConditions (SetSummary refLib summaryConditions cs) =
      SetSummary refLib summaryConditions cs" for cs
    unfolding summary
    by (cases "?good cs") (simp_all only: putCondition_others [OF types(1)]
        putCondition_others [OF types(2)] putCondition_again if_True if_False)
  moreover have "f \<notin> set fs \<Longrightarrow> RemoveFinalizer refLib (AddFinalizer refLib fs f) f = fs" for fs f
    by (simp add: refLib_def) (intro filter_True, blast)
  ultimately show ?thesis by (simp add: polling_laws_def)
qed

definition endedTask :: UpdateTask where
  "endedTask = aTask [] UpdateTaskPhaseUpdate UpdateTaskStateUpdated"

text \<open>The server of \<^theory_text>\<open>Scenarios\<close> with the task it holds at each pass.\<close>

definition holding :: "nat \<Rightarrow> UpdateTask \<Rightarrow> env" where
  "holding k u = calm u []"

theorem finished_task_polls_witness:
  "Reconcile refLib (holding 0 endedTask) ''ns'' ''up'' [] = (Ret (requeueAfter changedRequeueAfter, None),
     [GetUpdateTask ''ns'' ''up'', PatchTask endedTask (summarised refLib endedTask)]) \<and>
   polls refLib holding ''ns'' ''up'' endedTask 1000 = summarised refLib endedTask"
proof -
  have answers: "answering holding ''ns'' ''up''"
    by (simp add: answering_def holding_def server_defs)
  have ended: "IsTerminated (State (Status endedTask))"
    "UpdateTaskFinalizer \<notin> set (Finalizers endedTask)"
    by (simp_all add: endedTask_def aTask_def IsTerminated_def)
  have "(1000 :: nat) = Suc 999" by simp
  with finished_task_polls [OF refLib_finalizer refLib_result refLib_polling answers ended, of 999]
  show ?thesis by metis
qed

section \<open>A request without a policy\<close>

definition withoutPolicy :: env where
  "withoutPolicy = (calm updating [])\<lparr>api_ListUpdatePolicies := (\<lambda>h ns. Inr [])\<rparr>"

theorem rejected_request_strands_machines_witness:
  "\<exists>response' s' n. DoControlPlaneExternalUpdate refLib withoutPolicy aRequest noResponse (memOf updating) =
     (Ret response', s') \<and> resp_Status response' = ResponseStatusFailure \<and>
   MergePatchTask updating abortTaskPatch \<in> set (calls s') \<and>
   {claimCall refLib n m1, claimCall refLib n m2, claimCall refLib n m3} \<subseteq> set (calls s') \<and>
   (\<forall>t. CreateTask t \<notin> set (calls s'))"
proof -
  have toAbort: "toAbort ''c'' ''kcp'' updating"
    by (simp add: toAbort_def object_defs)
  from rejected_request_strands_machines [of aRequest "aRef ''Cluster'' ''c''"
      "aRef ''KubeadmControlPlane'' ''kcp''" withoutPolicy aCluster "[updating]" "[m1, m2, m3]"
      refLib noResponse "memOf updating"]
  obtain n where "DoControlPlaneExternalUpdate refLib withoutPolicy aRequest noResponse (memOf updating) =
    (Ret (noResponse\<lparr>resp_Status := ResponseStatusFailure,
        resp_Message := ErrorText refLib (errors_New refLib ''no policy found'')\<rparr>),
     (memOf updating)\<lparr>calls :=
       [GetCluster ''ns'' ''c'', ListUpdateTasks ''ns'' [(ClusterNameLabel refLib, ''c'')],
        MergePatchTask updating abortTaskPatch,
        ListMachines ''ns'' [(ClusterNameLabel refLib, ''c''), (MachineControlPlaneLabel refLib, '''')],
        claimCall refLib n m1, claimCall refLib n m2, claimCall refLib n m3, ListUpdatePolicies ''ns'']\<rparr>)"
    using toAbort
    by (auto simp: withoutPolicy_def server_defs updating_def aTask_def aSpec_def aRef_def aCluster_def
        memOf_def)
  then show ?thesis by (intro exI conjI) (assumption | auto simp: claimCall_def)+
qed

end
