(* ===== verification/Spec2Isabelle.thy ===== *)
theory Spec2Isabelle
  imports Scenarios Manager_Setup Memory_Scenarios Api_Group Closed_Loop_Scenarios Docker_Scenarios Process_Scenarios
    Handover_Scenarios Fleet_Scenarios Name_Scenarios Failure_Scenarios
begin

text \<open>
  Verification of the in-place updater for Cluster API (\<open>cluster-api-inplace-updater\<close>).

  \<^bold>\<open>The program.\<close> A runtime extension and controller manager that updates the machines of a cluster
  one after the other without replacing them. A hook handler
  (\<open>src/internal/handlers/lifecycle/handlers.go\<close>) accepts an external update of a control plane: it
  tells running update tasks to abort, claims the control plane's machines with an annotation and
  creates an UpdateTask. The update task controller
  (\<open>src/internal/controller/updatetask\_controller.go\<close>) reconciles UpdateTasks: it collects a scope
  (\<open>src/pkg/scopes\<close>), computes the task's state from the node update tasks (\<open>src/pkg/nodes\<close>), and
  either aborts them or, when the kubeadm control plane is stable
  (\<open>src/internal/controller/controlplanes/kubeadm.go\<close>), creates the next one. A node update task is
  any kind of object that follows a field contract; the docker one is carried out by
  \<open>src/internal/controller/dockernodeupdatetask\_controller.go\<close>. \<open>src/cmd/main.go\<close> starts it all.

  \<^bold>\<open>How it is modelled.\<close> A Go function that works on shared objects is a function from a state to an
  outcome (a value or a panic) and a new state (theory \<open>Prelude\<close>); \<open>defer\<close> is \<open>withDefer\<close>, a loop
  with early returns is \<open>foreach\<close>. The state (theory \<open>Platform\<close>) is the object held in memory and the
  history of calls to the API server and the container runtime. Pointers are options, errors are
  values. What is not in the repository is a parameter: \<open>lib\<close> holds the library functions
  (conditions, collections, finalizers, unstructured fields), \<open>env\<close> answers each call as a function
  of the history before it, so that a theorem quantifies over every behaviour of the outside, other
  clients and failures included. Where a theorem needs documented behaviour of a library it names
  it (\<open>polling_laws\<close>, \<open>nested_laws\<close>, \<open>field_laws\<close>, \<open>collections_laws\<close>, \<open>membership_laws\<close>, \<open>time_laws\<close>,
  \<open>finalizer_laws\<close>, \<open>result_laws\<close>, \<open>wrap_laws\<close>); \<open>Reference_Platform\<close> has library functions that
  satisfy them. The laws of the other libraries are \<open>copylib_laws\<close> (deep copies of library types,
  satisfied by \<open>refCopies\<close>), \<open>faithfulJson\<close> (the JSON of metadata and conditions, by \<open>refJson\<close>) and
  \<open>scheme_laws\<close> (by \<open>listScheme\<close>).
  The update logic works on values; where pointers matter, the objects are also modelled on a heap
  (\<open>Go_Heap\<close>), and \<open>Memory_Sharing\<close> relates the two.
  Logging has no effect and is left out. Every loop runs over a list, so every definition is total
  and no fuel is used. Counters are Go \<open>int\<close>s bounded by the number of machines and are naturals;
  durations and times are integers in nanoseconds.

  \<^bold>\<open>The theories.\<close>
  \<^item> \<open>Kube_Types\<close>, \<open>Api_Types\<close>: the objects (\<open>src/api/v1beta1\<close>), states and phases, conditions.
  \<^item> \<open>Trace\<close>: which calls a program can make (\<open>emits\<close>, locales \<open>calling\<close> and \<open>reading\<close>), how it may
    change the object in memory (\<open>keeps\<close>, locales \<open>object_preorder\<close> and \<open>frozen\<close>), and that it
    returns (\<open>steady\<close>). Every component interprets the locales that describe it; its callers use
    the facts of the interpretation.
  \<^item> \<open>Node_Update\<close>: \<open>GetNodeUpdateTaskStatus\<close>, \<open>AbortNodeUpdateTask\<close>, \<open>CreateNodeUpdateTask\<close>.
    The code writes into the label map of the task's template; \<open>shareLabels\<close> models that aliasing.
  \<^item> \<open>Task_Scope\<close>: \<open>scopes.New\<close> (\<open>NewScope\<close>).
  \<^item> \<open>Kubeadm_Preflight\<close>: the preflight check against a specification of a healthy machine.
  \<^item> \<open>Task_Status\<close>: \<open>reconcileStatus\<close>; \<open>census\<close> is the specification of its counters.
  \<^item> \<open>Task_Controller\<close>: \<open>reconcileAbort\<close>, \<open>reconcileNormal\<close>, \<open>Reconcile\<close> (the body after the deferred
    call is set up is \<open>reconcileTask\<close>, its phases \<open>reconcilePhases\<close>; the deferred call \<open>deferredPatch\<close>).
  \<^item> \<open>Task_Reconcile\<close>: one reconciliation from the outside: its single patch, the finalizer, what it
    creates, when it comes back, when it panics.
  \<^item> \<open>Task_Lifecycle\<close>: an update task over many reconciliations and edits (\<open>taskStep\<close>).
  \<^item> \<open>Rollout\<close>: the node update tasks of one update task over time (\<open>rolloutStep\<close>) and the invariant
    that at most one is running and no machine has two.
  \<^item> \<open>Planner\<close>: an abstract planner (the state and the one move that a view of the cluster calls
    for) which \<open>Reconcile\<close> refines; \<open>Closed_Loop\<close>: rounds of the controller and its surroundings,
    after a known number of which an update is Updated and an abort is Aborted.
    \<open>Concurrent_Edits\<close>: an abort that arrives while a reconciliation runs. \<open>Unreliable_Rounds\<close>:
    rounds in which any call may fail and any node update may stand still (\<open>rounds\<close>): an update completes
    once enough rounds went well, whatever failed between them. \<open>Early_Success\<close>: runs in which node
    updates may also fail, abort or vanish (\<open>wildStep\<close>) never report an update early.
    \<open>Finished_Tasks\<close>: the endless passes over a task that has ended (\<open>polls\<close>).
  \<^item> \<open>Fleet\<close>: several update tasks over one store of node updates (\<open>fleetStep\<close>). The label selector
    keeps their rollouts apart, so each is a run of \<open>rolloutStep\<close>; with claims that leave busy
    machines alone (\<open>carefulStep\<close>) they exclude each other on the machines.
  \<^item> \<open>Docker_Node_Controller\<close>: \<open>DockerReconcile\<close>. \<open>Json_Fields\<close>: JSON paths, fields and merge
    patches. \<open>Json_Library\<close>: the JSON of shared types. \<open>Docker_Resource\<close>, \<open>Task_Resource\<close>: the docker
    task and the update task as JSON, by the tags of their Go types; the field contract between the
    two controllers and the abort patch of the hook. \<open>Docker_Rollout\<close>: both controllers in one loop.
  \<^item> \<open>Lifecycle_Handlers\<close>: the hooks. \<open>Handover\<close>: from an accepted request to the end of the old
    task and the first step of the new one; what becomes of a task that is overtaken. \<open>Name_Limits\<close>: which cluster names give a task that
    can be reconciled. \<open>Call_Order\<close>: the order of the calls of the hook and of a reconciliation in
    every run (\<open>inStages\<close>), the branch a reconciliation takes (\<open>passKinds\<close>), and what a request that is refused late leaves behind. \<open>Manager_Setup\<close>: flags and start-up sequence.
    \<open>Access_Control\<close>: the access rules of the \<open>kubebuilder:rbac\<close> markers against the calls the
    program makes. \<open>Process\<close>: the running process as a step relation over served hooks and
    reconciliations.
  \<^item> \<open>Go_Heap\<close>: cells, allocation, and the contract of a deep copy (locale \<open>deep_copying\<close>).
    \<open>Object_Memory\<close>: the Go types with their pointers, slices and maps (\<open>_mem\<close>). \<open>Deep_Copies\<close>: every
    function of \<open>src/api/v1beta1/zz\_generated.deepcopy.go\<close>. \<open>Deep_Copy_Laws\<close>, \<open>Deep_Copy_Objects\<close>:
    each meets the contract, as do the twelve implementations of \<open>DeepCopyObject\<close> (locale
    \<open>object_kind\<close>). \<open>Memory_Sharing\<close>: copies are isolated, and the label map that
    \<open>CreateNodeUpdateTask\<close> writes to stays inside the controller's copy. \<open>Api_Group\<close>: registration.
  \<^item> \<open>Reference_Platform\<close>, \<open>Scenarios\<close>, \<open>Closed_Loop_Scenarios\<close>, \<open>Docker_Scenarios\<close>,
    \<open>Handover_Scenarios\<close>, \<open>Fleet_Scenarios\<close>, \<open>Name_Scenarios\<close>, \<open>Process_Scenarios\<close>,
    \<open>Memory_Scenarios\<close>, \<open>Failure_Scenarios\<close>: a concrete outside world and runs on it, which show that
    the hypotheses of the theorems can hold.

  \<^bold>\<open>What is not modelled.\<close> The informers and queues of controller-runtime: a reconciliation is one
  call of \<open>Reconcile\<close>; \<open>taskStep\<close>, \<open>rolloutStep\<close>, \<open>fleetStep\<close>, \<open>round\<close> and \<open>processStep\<close> put calls in
  sequence. They assume that a reconciliation lists the current node update tasks: the manager's
  client reads unstructured objects from the server, not from a cache. Tasks and machines come from
  a cache; \<open>taskStep\<close> and \<open>Closed_Loop\<close> assume that the task read is the stored one, \<open>Fleet\<close> that the
  machines show the current claims, while \<open>rolloutStep\<close> allows any task of the name and any machines.
  What logging, TLS and diagnostics options do, since they belong to libraries; the JSON form of
  policies, of the fake kinds and of the hook messages, which the client and the hook server decode:
  the code itself writes JSON only in its merge patches of update tasks and node updates, whose
  resources are modelled; manifests and tests, which hold no program logic. Not explored: a machine
  read from a stale cache that still shows an older claim.
\<close>

section \<open>From the hook to the rollout\<close>

text \<open>
  The hook and the controller agree on the machines of an update: an accepted request ends with
  the creation of a task in phase Update without a state, every machine the request patched is in
  the scope of that task, and the labels the controller selects the task's machines by are those of
  the list of machines the hook claimed.
\<close>

theorem hook_and_controller_agree:
  assumes "acceptedTrace L E request h h'"
  shows "\<exists>cs task. h' = h @ cs @ [CreateTask task] \<and>
    State (Status task) = UpdateTaskStateUnknown \<and>
    TargetPhase (Spec task) = UpdateTaskPhaseUpdate \<and>
    (\<forall>before after. PatchMachine before after \<in> set cs \<longrightarrow>
      isMachineInUpdateScope after (Name task)) \<and>
    (\<forall>cluster. map_option ref_Name (ClusterRef (Spec task)) = Some (Name cluster) \<longrightarrow>
      (\<exists>ls. machineLabels L cluster task = Some ls \<and> ListMachines (Namespace task) ls \<in> set cs))"
  using assms unfolding acceptedTrace_def
  by (elim exE conjE)
    (force simp: newUpdateTask_def claimCall_def claimMachine_def isMachineInUpdateScope_def
      machineLabels_def)

theorem hook_and_controller_agree_witness:
  "\<exists>h cs task. calls (snd (DoControlPlaneExternalUpdate refLib (calm updating []) aRequest noResponse
       (memOf updating))) = h \<and> h = cs @ [CreateTask task] \<and>
     TargetPhase (Spec task) = UpdateTaskPhaseUpdate"
proof -
  obtain response' s' where run: "DoControlPlaneExternalUpdate refLib (calm updating []) aRequest
      noResponse (memOf updating) = (Ret response', s')" "resp_Status response' = ResponseStatusSuccess"
    using calm_accepts by blast
  obtain e where "doControlPlaneExternalUpdateImpl refLib (calm updating []) aRequest (memOf updating) =
      (Ret e, s')" "e = None"
    using run by (auto simp: DoControlPlaneExternalUpdate_def prog_simps
        split: prod.splits outcome.splits option.splits)
  then have "acceptedTrace refLib (calm updating []) aRequest [] (calls s')"
    using accepted_cases [of refLib "calm updating []" aRequest "memOf updating" s']
    by (auto simp: server_defs)
  from hook_and_controller_agree [OF this] run(1) show ?thesis by auto
qed

text \<open>
  C2. An external update, from the hook to the last machine. When the hook has accepted a request and
  the surroundings serve the task it created (the API server answers, the control plane is steady,
  node updates are carried out between rounds), that task is Updated after at most as many rounds of its
  controller as it has machines plus two, and every machine the hook claimed has a node update that
  ended Updated.
\<close>

theorem accepted_update_completes:
  assumes "acceptedTrace L E request h (h @ cs @ [CreateTask task])" and "TimeIsZero L None"
    and "updateSurroundings L K W S finish ns n task"
    and "length (waitingMachines L W (Name task) []) + 2 \<le> k"
    and "(round L S finish ns n ^^ k) (task, []) = (t, us)"
  shows "State (Status t) = UpdateTaskStateUpdated \<and>
    (\<forall>before after. PatchMachine before after \<in> set cs \<longrightarrow> after \<in> set (w_machines W) \<longrightarrow>
      (\<exists>u \<in> set us. \<exists>st. GetNodeUpdateTaskStatus L u = Inr st \<and>
         nus_MachineName st = Name after \<and> nus_State st = UpdateTaskStateUpdated))"
proof -
  have accepted: "acceptedTrace L E request h ((h @ cs) @ [CreateTask task])" using assms(1) by simp
  have c: "completed L K W task (t, us)"
    by (rule rollout_completed [OF accepted_loop [OF accepted assms(2,3)] assms(4,5)])
  have laws: "collections_laws L" "goodWorld L W" using assms(3) by (simp_all add: updateSurroundings_def)
  have "\<exists>u \<in> set us. \<exists>st. GetNodeUpdateTaskStatus L u = Inr st \<and>
      nus_MachineName st = Name after \<and> nus_State st = UpdateTaskStateUpdated"
    if "PatchMachine before after \<in> set cs" "after \<in> set (w_machines W)" for before after
    using completed_nodes [OF c laws that(2) accepted_claims [OF assms(1) that(1)]] by blast
  with c show ?thesis by (simp add: completed_def)
qed

theorem accepted_update_completes_witness:
  "\<exists>t us. (round refLib later (finishNode UpdateTaskStateUpdated) ''ns'' ''c-update-abcdef'' ^^ 5)
      (newTask, []) = (t, us) \<and> State (Status t) = UpdateTaskStateUpdated \<and>
    (\<exists>u \<in> set us. machineOf refLib u = Some ''m3'')"
proof -
  obtain t us where run: "(round refLib later (finishNode UpdateTaskStateUpdated) ''ns''
      ''c-update-abcdef'' ^^ 5) (newTask, []) = (t, us)" by fastforce
  have steady: "controlPlaneSteady refLib claimedWorld newTask"
    by (rule claimedWorld_steady [OF newTask_fields(2)])
  then have around: "updateSurroundings refLib (\<lambda>_. True) claimedWorld later
      (finishNode UpdateTaskStateUpdated) ''ns'' ''c-update-abcdef'' newTask"
    by (simp add: updateSurroundings_def refLib_nested refLib_collections refLib_result
        refLib_finalizer claimedWorld_good later_serves finishNode_ends list_all_iff)
  have few: "length (waitingMachines refLib claimedWorld (Name newTask) []) + 2 \<le> 5"
    by (simp add: newTask_fields claimedWorld_waiting)
  let ?cs = "[GetCluster ''ns'' ''c'', ListUpdateTasks ''ns'' [(ClusterNameLabel refLib, ''c'')],
      MergePatchTask updating abortTaskPatch,
      ListMachines ''ns'' [(ClusterNameLabel refLib, ''c''), (MachineControlPlaneLabel refLib, '''')],
      PatchMachine m1 (claimed m1), PatchMachine m2 (claimed m2), PatchMachine m3 (claimed m3),
      ListUpdatePolicies ''ns'']"
  have "acceptedTrace refLib (calm updating []) aRequest [] ([] @ ?cs @ [CreateTask newTask])"
    using hook_accepts by simp
  note done_update = accepted_update_completes [OF this refLib_zero around few run]
  have "PatchMachine m3 (claimed m3) \<in> set ?cs" "claimed m3 \<in> set (w_machines claimedWorld)"
    by (simp_all add: claimedWorld_def)
  with done_update have "State (Status t) = UpdateTaskStateUpdated"
      "\<exists>u \<in> set us. \<exists>st. GetNodeUpdateTaskStatus refLib u = Inr st \<and> nus_MachineName st = Name (claimed m3)"
    by blast+
  then show ?thesis using run by (auto simp: machineOf_status object_defs)
qed

end
